(* ===== verification/Go_Prelude.thy ===== *)
theory Go_Prelude
  imports Main "HOL-Library.Word"
begin

text \<open>
  Shared prelude: the parts of the Go language and of its standard library that the
  repository uses, and the generic lemmas the component theories share.

  \<^item> Fixed-width integers are words; \<open>time.Duration\<close> is an \<open>int64\<close>, that is a
    \<open>64 word\<close> read with \<open>sint\<close>. Go's \<open>int\<close> is \<open>int\<close> where the code
    only compares it, with its 64-bit range written out where it is parsed.
  \<^item> A Go string is its bytes, a \<open>char list\<close>.
  \<^item> \<open>outcome\<close> is what a call that may block or panic does; \<open>error\<close> is the
    \<open>error\<close> interface with what the code observes of it.
  \<^item> \<open>strconv\<close>, \<open>strings\<close> and \<open>fmt\<close> functions are modelled as far as
    the code calls them (decimal and hexadecimal formatting, prefixes, suffixes, trimming,
    joining).
\<close>

unbundle bit_operations_syntax

type_synonym u8 = "8 word"
type_synonym u16 = "16 word"
type_synonym u32 = "32 word"
type_synonym u64 = "64 word"
type_synonym i64 = "64 word"
type_synonym duration = "64 word"

section \<open>Errors and outcomes\<close>

text \<open>
  What the code reads of an error: its text, and whether it implements
  \<open>net.Error\<close> and then what its \<open>Timeout\<close> method returns. A
  \<open>syscall.Errno\<close> also has its number, and it implements \<open>net.Error\<close>.
\<close>

datatype error =
    PlainError (Error: string)
  | NetError (Error: string) (Timeout: bool)
  | Errno (Error: string) (Timeout: bool) (errno: nat)

definition is_net_error :: "error \<Rightarrow> bool" where
  "is_net_error e = (case e of PlainError _ \<Rightarrow> False | _ \<Rightarrow> True)"

datatype 'a outcome = Ret 'a | Deadlock | Panic

fun bind_outcome :: "'a outcome \<Rightarrow> ('a \<Rightarrow> 'b outcome) \<Rightarrow> 'b outcome" where
  "bind_outcome (Ret x) f = f x"
| "bind_outcome Deadlock f = Deadlock"
| "bind_outcome Panic f = Panic"

lemma bind_outcome_Ret_iff [simp]:
  "bind_outcome m f = Ret y \<longleftrightarrow> (\<exists>x. m = Ret x \<and> f x = Ret y)"
  by (cases m) auto

text \<open>Indexing a Go map of strings: the zero value for a missing key.\<close>

definition go_lookup :: "('k \<Rightarrow> string option) \<Rightarrow> 'k \<Rightarrow> string" where
  "go_lookup m k = (case m k of None \<Rightarrow> [] | Some v \<Rightarrow> v)"

text \<open>Testing a word against a single-bit flag.\<close>

lemma and_flag_zero_iff:
  fixes w :: "'a::len word"
  assumes "n < LENGTH('a)"
  shows "w AND push_bit n 1 = 0 \<longleftrightarrow> \<not> bit w n"
proof -
  have "w AND push_bit n 1 = (if bit w n then push_bit n 1 else 0)"
    using assms by (intro bit_eqI) (auto simp: bit_simps)
  moreover have "bit (push_bit n (1 :: 'a word)) n" using assms by (simp add: bit_simps)
  then have "push_bit n (1 :: 'a word) \<noteq> 0" by (metis bit_0_eq bot_apply bot_bool_def)
  ultimately show ?thesis by simp
qed

section \<open>Slices\<close>

text \<open>
  A slice that may be nil: \<open>None\<close> is nil, which differs from an empty slice where it is
  encoded. \<open>append\<close> of one element never returns nil.
\<close>

type_synonym 'a slice = "'a list option"

definition elems :: "'a slice \<Rightarrow> 'a list" where
  "elems s = (case s of None \<Rightarrow> [] | Some xs \<Rightarrow> xs)"

definition append_slice :: "'a slice \<Rightarrow> 'a \<Rightarrow> 'a slice" where
  "append_slice s x = Some (elems s @ [x])"

text \<open>The slice that appending the elements of a list one by one leaves.\<close>

definition append_all :: "'a slice \<Rightarrow> 'a list \<Rightarrow> 'a slice" where
  "append_all s xs = (if xs = [] then s else Some (elems s @ xs))"

lemma elems_simps [simp]: "elems None = []" "elems (Some xs) = xs"
  by (simp_all add: elems_def)

lemma append_all_Nil [simp]: "append_all s [] = s"
  by (simp add: append_all_def)

lemma append_all_Some [simp]: "append_all (Some ys) xs = Some (ys @ xs)"
  by (simp add: append_all_def)

lemma append_all_append_slice [simp]: "append_all (append_slice s x) xs = append_all s (x # xs)"
  by (simp add: append_all_def append_slice_def)

lemma elems_append_all [simp]: "elems (append_all s xs) = elems s @ xs"
  by (simp add: append_all_def)

section \<open>Durations\<close>

abbreviation Nanosecond :: duration where "Nanosecond \<equiv> 1"
abbreviation Microsecond :: duration where "Microsecond \<equiv> 1000"
abbreviation Millisecond :: duration where "Millisecond \<equiv> 1000000"

text \<open>
  A conversion of a 32-bit count to \<open>time.Duration\<close> times a unit of at most a
  millisecond stays inside \<open>int64\<close>: the product is the mathematical one.
\<close>

lemma sint_duration_u32:
  fixes x :: u32 and k :: duration
  assumes k: "uint k \<le> 1000000"
  shows "sint ((ucast x :: duration) * k) = uint x * uint k"
proof -
  let ?p = "(ucast x :: duration) * k"
  have x: "uint x < 2 ^ 32" and x0: "0 \<le> uint x" using uint_lt2p [of x] by simp_all
  have k0: "0 \<le> uint k" by simp
  have ux: "uint (ucast x :: duration) = uint x"
    by (rule uint_up_ucast) (simp add: is_up)
  have le: "uint x * uint k \<le> 2 ^ 32 * 1000000"
    using x k x0 k0 by (intro mult_mono) auto
  have up: "uint ?p = uint x * uint k"
    unfolding uint_word_ariths ux using le x0 k0 by (intro mod_pos_pos_trivial) auto
  have small: "signed_take_bit 63 p = p" if "0 \<le> p" "p \<le> 2 ^ 32 * 1000000" for p :: int
    using that by (intro signed_take_bit_int_eq_self) auto
  have "signed_take_bit 63 (uint x * uint k) = uint x * uint k"
    using le x0 k0 by (intro small) simp_all
  with up show ?thesis by (simp add: sint_uint)
qed

section \<open>Decimal and hexadecimal formatting\<close>

text \<open>\<open>strconv.FormatInt\<close>, \<open>strconv.FormatUint\<close>, the \<open>%d\<close> and \<open>%x\<close> verbs.\<close>

definition digit_char :: "nat \<Rightarrow> char" where
  "digit_char d = (if d < 10 then char_of (48 + d) else char_of (87 + d))"

definition char_digit :: "char \<Rightarrow> nat" where
  "char_digit c = of_char c - 48"

definition is_digit :: "char \<Rightarrow> bool" where
  "is_digit c \<longleftrightarrow> 48 \<le> (of_char c :: nat) \<and> (of_char c :: nat) \<le> 57"

fun format_base :: "nat \<Rightarrow> nat \<Rightarrow> string" where
  "format_base b n =
     (if n < b \<or> b < 2 then [digit_char n] else format_base b (n div b) @ [digit_char (n mod b)])"

declare format_base.simps [simp del]

abbreviation format_nat :: "nat \<Rightarrow> string" where "format_nat \<equiv> format_base 10"

definition format_int :: "int \<Rightarrow> string" where
  "format_int i = (if i < 0 then CHR ''-'' # format_nat (nat (- i)) else format_nat (nat i))"

definition format_uint :: "'a::len word \<Rightarrow> string" where
  "format_uint w = format_nat (unat w)"

text \<open>The value of a run of decimal digits, as \<open>strconv.ParseInt\<close> reads it in base 10.\<close>

definition digits_value :: "string \<Rightarrow> nat" where
  "digits_value = foldl (\<lambda>n c. 10 * n + char_digit c) 0"

lemma of_char_digit_char: "d < 10 \<Longrightarrow> of_char (digit_char d) = (48 + d :: nat)"
  by (simp add: digit_char_def)

lemma char_digit_digit_char [simp]: "d < 10 \<Longrightarrow> char_digit (digit_char d) = d"
  by (simp add: char_digit_def of_char_digit_char)

lemma is_digit_digit_char [simp]: "d < 10 \<Longrightarrow> is_digit (digit_char d)"
  by (simp add: is_digit_def of_char_digit_char)

lemma format_nat_nonempty [simp]: "format_base b n \<noteq> []"
  by (subst format_base.simps) simp

lemma format_nat_digits: "list_all is_digit (format_nat n)"
proof (induction "10::nat" n rule: format_base.induct)
  case (1 n)
  then show ?case by (subst format_base.simps) auto
qed

lemma digits_value_snoc [simp]: "digits_value (s @ [c]) = 10 * digits_value s + char_digit c"
  by (simp add: digits_value_def)

lemma digits_value_format_nat [simp]: "digits_value (format_nat n) = n"
proof (induction "10::nat" n rule: format_base.induct)
  case (1 n)
  show ?case
  proof (cases "n < 10")
    case True
    then show ?thesis by (subst format_base.simps) (simp add: digits_value_def)
  next
    case False
    with 1 show ?thesis by (subst format_base.simps) simp
  qed
qed

lemma format_nat_inject [simp]: "format_nat m = format_nat n \<longleftrightarrow> m = n"
  by (metis digits_value_format_nat)

lemma format_nat_set: "c \<in> set (format_nat n) \<Longrightarrow> is_digit c"
  using format_nat_digits [of n] by (simp add: list_all_iff)

section \<open>The strings package\<close>

definition HasPrefix :: "string \<Rightarrow> string \<Rightarrow> bool" where
  "HasPrefix s p \<longleftrightarrow> take (length p) s = p"

definition HasSuffix :: "string \<Rightarrow> string \<Rightarrow> bool" where
  "HasSuffix s p \<longleftrightarrow> length p \<le> length s \<and> drop (length s - length p) s = p"

fun Contains :: "string \<Rightarrow> string \<Rightarrow> bool" where
  "Contains [] p = (p = [])"
| "Contains (c # s) p = (HasPrefix (c # s) p \<or> Contains s p)"

definition CutPrefix :: "string \<Rightarrow> string \<Rightarrow> string option" where
  "CutPrefix s p = (if HasPrefix s p then Some (drop (length p) s) else None)"

definition TrimLeft :: "string \<Rightarrow> string \<Rightarrow> string" where
  "TrimLeft s cutset = dropWhile (\<lambda>c. c \<in> set cutset) s"

definition TrimRight :: "string \<Rightarrow> string \<Rightarrow> string" where
  "TrimRight s cutset = rev (dropWhile (\<lambda>c. c \<in> set cutset) (rev s))"

definition Trim :: "string \<Rightarrow> string \<Rightarrow> string" where
  "Trim s cutset = TrimRight (TrimLeft s cutset) cutset"

fun Join :: "string list \<Rightarrow> string \<Rightarrow> string" where
  "Join [] sep = []"
| "Join [s] sep = s"
| "Join (s # t # ss) sep = s @ sep @ Join (t # ss) sep"

lemma HasPrefix_iff: "HasPrefix s p \<longleftrightarrow> (\<exists>t. s = p @ t)"
  unfolding HasPrefix_def by (metis append_eq_conv_conj append_take_drop_id)

lemma HasSuffix_iff: "HasSuffix s p \<longleftrightarrow> (\<exists>t. s = t @ p)"
  unfolding HasSuffix_def
  by (metis append_take_drop_id append_eq_conv_conj diff_add_inverse2 le_add2 length_append)

lemma CutPrefix_Some_iff: "CutPrefix s p = Some t \<longleftrightarrow> s = p @ t"
  by (auto simp: CutPrefix_def HasPrefix_def)
    (metis append_take_drop_id)

lemma CutPrefix_None_iff: "CutPrefix s p = None \<longleftrightarrow> \<not> HasPrefix s p"
  by (simp add: CutPrefix_def)

text \<open>What \<open>Trim\<close> returns starts and ends outside the cutset.\<close>

lemma TrimLeft_hd: "TrimLeft s cs \<noteq> [] \<Longrightarrow> hd (TrimLeft s cs) \<notin> set cs"
  unfolding TrimLeft_def by (rule hd_dropWhile)

lemma TrimRight_last: "TrimRight s cs \<noteq> [] \<Longrightarrow> last (TrimRight s cs) \<notin> set cs"
  unfolding TrimRight_def last_rev rev_is_Nil_conv by (rule hd_dropWhile)

lemma TrimRight_prefix: "\<exists>t. s = TrimRight s cs @ t \<and> set t \<subseteq> set cs"
proof -
  have "rev s = takeWhile (\<lambda>c. c \<in> set cs) (rev s) @ dropWhile (\<lambda>c. c \<in> set cs) (rev s)"
    by simp
  then have "s = TrimRight s cs @ rev (takeWhile (\<lambda>c. c \<in> set cs) (rev s))"
    unfolding TrimRight_def by (metis rev_append rev_rev_ident)
  moreover have "set (rev (takeWhile (\<lambda>c. c \<in> set cs) (rev s))) \<subseteq> set cs"
    by (auto dest: set_takeWhileD)
  ultimately show ?thesis by blast
qed

lemma TrimLeft_suffix: "\<exists>t. s = t @ TrimLeft s cs \<and> set t \<subseteq> set cs"
proof -
  have "s = takeWhile (\<lambda>c. c \<in> set cs) s @ TrimLeft s cs" by (simp add: TrimLeft_def)
  moreover have "set (takeWhile (\<lambda>c. c \<in> set cs) s) \<subseteq> set cs" by (auto dest: set_takeWhileD)
  ultimately show ?thesis by blast
qed

lemma Trim_surrounded:
  assumes "set q \<subseteq> set cs" "set q' \<subseteq> set cs" "v = [] \<or> (hd v \<notin> set cs \<and> last v \<notin> set cs)"
  shows "Trim (q @ v @ q') cs = v"
proof (cases "v = []")
  case True
  have "TrimLeft (q @ q') cs = []"
    unfolding TrimLeft_def dropWhile_eq_Nil_conv using assms(1,2) by auto
  with True show ?thesis by (simp add: Trim_def TrimRight_def)
next
  case False
  then have v: "hd v \<notin> set cs" "last v \<notin> set cs" using assms(3) by auto
  have "dropWhile (\<lambda>c. c \<in> set cs) (q @ v @ q') = v @ q'"
    using assms(1) False v(1) by (subst dropWhile_append2) (auto, cases v, auto)
  moreover have "dropWhile (\<lambda>c. c \<in> set cs) (rev q' @ rev v) = rev v"
    using assms(2) False v(2) by (subst dropWhile_append2) (auto, cases v rule: rev_cases, auto)
  ultimately show ?thesis by (simp add: Trim_def TrimLeft_def TrimRight_def)
qed

section \<open>Lines\<close>

text \<open>\<open>strings.Split\<close> at a single byte.\<close>

abbreviation (input) newline :: char where "newline \<equiv> CHR 0x0A"

fun split_on :: "char \<Rightarrow> string \<Rightarrow> string list" where
  "split_on c [] = [[]]"
| "split_on c (x # xs) =
     (if x = c then [] # split_on c xs
      else (x # hd (split_on c xs)) # tl (split_on c xs))"

lemma split_on_not_Nil [simp]: "split_on c s \<noteq> []"
  by (cases s) simp_all

lemma split_on_step: "c \<notin> set l \<Longrightarrow> split_on c (l @ c # s) = l # split_on c s"
  by (induction l) auto

definition join_lines :: "string list \<Rightarrow> string" where
  "join_lines ls = concat (map (\<lambda>l. l @ [newline]) ls)"

lemma split_join: "list_all (\<lambda>l. newline \<notin> set l) ls \<Longrightarrow> split_on newline (join_lines ls) = ls @ [[]]"
  by (induction ls) (simp_all add: join_lines_def split_on_step)

end
