(* ===== verification/Tcp_Info.thy ===== *)
theory Tcp_Info
  imports Go_Prelude
begin

text \<open>
  Package \<open>pkg/tcpinfo\<close>, the part shared by every platform (\<open>tcpinfo.go\<close>): the
  OS-neutral \<open>Info\<close> record, TCP options and their rendering, and the conversion to
  \<open>map[string]any\<close>.

  \<open>Info\<close> is polymorphic in the platform's \<open>SysInfo\<close> type, which build tags select
  in the source. The record \<open>platform\<close> collects the functions every platform file
  defines (\<open>Supported\<close>, \<open>ToInfo\<close>, \<open>Warnings\<close>, \<open>ToMap\<close>), and the locale
  \<open>tcp_platform\<close> states the contract the connection wrapper relies on. A method with a
  pointer receiver takes an \<open>option\<close>: \<open>None\<close> is the nil pointer; a result
  \<open>None\<close> is the panic of dereferencing it.
\<close>

section \<open>Options\<close>

record TcpOption =
  Kind :: string
  Value :: u64

text \<open>The verb \<open>%.2x\<close>: hexadecimal with at least two digits.\<close>

definition format_hex2 :: "'a::len word \<Rightarrow> string" where
  "format_hex2 v = (let h = format_base 16 (unat v) in if length h < 2 then CHR ''0'' # h else h)"

definition Option_String :: "TcpOption \<Rightarrow> string" where
  "Option_String o' =
     (if Value o' = 0 then Kind o' else Kind o' @ '':'' @ format_hex2 (Value o'))"

text \<open>\<open>strconv.Quote\<close> on ASCII.\<close>

definition quote_char :: "char \<Rightarrow> string" where
  "quote_char c =
     (if c = CHR 0x22 then [CHR 0x5C, CHR 0x22]
      else if c = CHR 0x5C then [CHR 0x5C, CHR 0x5C]
      else if 32 \<le> (of_char c :: nat) \<and> (of_char c :: nat) < 127 then [c]
      else if c = CHR 0x07 then [CHR 0x5C, CHR ''a'']
      else if c = CHR 0x08 then [CHR 0x5C, CHR ''b'']
      else if c = CHR 0x0C then [CHR 0x5C, CHR ''f'']
      else if c = CHR 0x0A then [CHR 0x5C, CHR ''n'']
      else if c = CHR 0x0D then [CHR 0x5C, CHR ''r'']
      else if c = CHR 0x09 then [CHR 0x5C, CHR ''t'']
      else if c = CHR 0x0B then [CHR 0x5C, CHR ''v'']
      else CHR 0x5C # CHR ''x'' # format_hex2 (of_char c :: u8))"

definition Quote :: "string \<Rightarrow> string" where
  "Quote s = [CHR 0x22] @ concat (map quote_char s) @ [CHR 0x22]"

definition Option_MarshalJSON :: "TcpOption \<Rightarrow> string" where
  "Option_MarshalJSON o' = Quote (Option_String o')"

section \<open>Dynamic values and maps\<close>

text \<open>
  The values that \<open>ToMap\<close> stores in a \<open>map[string]any\<close>. The only slice of strings is
  that of the warnings, which is built with \<open>append\<close> from nil: it is nil exactly when it
  is empty.
\<close>

datatype any =
    AString string
  | ABool bool
  | AUint8 u8
  | AUint16 u16
  | AUint32 u32
  | AUint64 u64
  | AInt64 i64
  | AInt int
  | ADuration duration
  | AOptions "TcpOption slice"
  | AStrings "string list"
  | AMap "string \<Rightarrow> any option"

type_synonym go_map = "string \<Rightarrow> any option"

text \<open>
  \<open>if valid \<close>\{\<open> r[key] = value \<close>\}, the statement \<open>ToMap\<close> repeats for each optional
  entry.
\<close>

definition put_if :: "bool \<times> string \<times> any \<Rightarrow> go_map \<Rightarrow> go_map" where
  "put_if e m = (case e of (valid, k, v) \<Rightarrow> if valid then m(k \<mapsto> v) else m)"

section \<open>Info\<close>

record 'sys Info =
  info_State :: string
  info_TxOptions :: "TcpOption slice"
  info_RxOptions :: "TcpOption slice"
  info_TxMSS :: u64
  info_RxMSS :: u64
  info_RTT :: duration
  info_RTTVar :: duration
  info_RTO :: duration
  info_ATO :: duration
  info_LastTxAt :: duration
  info_LastRxAt :: duration
  info_LastTxAckAt :: duration
  info_LastRxAckAt :: duration
  info_RxWindow :: u64
  info_TxSSThreshold :: u64
  info_RxSSThreshold :: u64
  info_TxWindowBytes :: u64
  info_TxWindowSegs :: u64
  info_Retransmits :: u64
  info_Sys :: "'sys option"

text \<open>The zero value, from which the composite literals of the platforms start.\<close>

definition zero_Info :: "'sys Info" where
  "zero_Info =
     \<lparr>info_State = [], info_TxOptions = None, info_RxOptions = None, info_TxMSS = 0, info_RxMSS = 0,
      info_RTT = 0, info_RTTVar = 0, info_RTO = 0, info_ATO = 0, info_LastTxAt = 0,
      info_LastRxAt = 0, info_LastTxAckAt = 0, info_LastRxAckAt = 0, info_RxWindow = 0,
      info_TxSSThreshold = 0, info_RxSSThreshold = 0, info_TxWindowBytes = 0,
      info_TxWindowSegs = 0, info_Retransmits = 0, info_Sys = None\<rparr>"

definition Info_ToMap :: "('sys \<Rightarrow> go_map) \<Rightarrow> 'sys Info \<Rightarrow> go_map" where
  "Info_ToMap sysToMap i =
     (let m =
        [''state'' \<mapsto> AString (info_State i),
         ''txOptions'' \<mapsto> AOptions (info_TxOptions i),
         ''rxOptions'' \<mapsto> AOptions (info_RxOptions i),
         ''txMSS'' \<mapsto> AUint64 (info_TxMSS i),
         ''rxMSS'' \<mapsto> AUint64 (info_RxMSS i),
         ''rtt'' \<mapsto> ADuration (info_RTT i),
         ''rttVar'' \<mapsto> ADuration (info_RTTVar i),
         ''rto'' \<mapsto> ADuration (info_RTO i),
         ''ato'' \<mapsto> ADuration (info_ATO i),
         ''lastTxAt'' \<mapsto> ADuration (info_LastTxAt i),
         ''lastRxAt'' \<mapsto> ADuration (info_LastRxAt i),
         ''lastTxAckAt'' \<mapsto> ADuration (info_LastTxAckAt i),
         ''lastRxAckAt'' \<mapsto> ADuration (info_LastRxAckAt i),
         ''rxWindow'' \<mapsto> AUint64 (info_RxWindow i),
         ''txSSThreshold'' \<mapsto> AUint64 (info_TxSSThreshold i),
         ''rxSSThreshold'' \<mapsto> AUint64 (info_RxSSThreshold i),
         ''txCWindowBytes'' \<mapsto> AUint64 (info_TxWindowBytes i),
         ''txCWindowSegs'' \<mapsto> AUint64 (info_TxWindowSegs i),
         ''retransmits'' \<mapsto> AUint64 (info_Retransmits i)]
      in case info_Sys i of
           None \<Rightarrow> m
         | Some s \<Rightarrow> m(''sysInfo'' \<mapsto> AMap (sysToMap s)))"

section \<open>The platform interface\<close>

record 'sys platform =
  Supported :: bool
  ToInfo :: "'sys \<Rightarrow> 'sys Info"
  SysWarnings :: "'sys option \<Rightarrow> string list option"
  SysToMap :: "'sys \<Rightarrow> go_map"

text \<open>
  What the connection wrapper relies on: the warnings of an \<open>Info\<close> that \<open>ToInfo\<close>
  built can be read without a nil dereference, and where the \<open>Info\<close> carries the platform
  record, both name the same connection state.
\<close>

locale tcp_platform =
  fixes P :: "'sys platform"
  assumes warnings_ToInfo: "SysWarnings P (info_Sys (ToInfo P s)) \<noteq> None"
    and state_ToInfo:
      "info_Sys (ToInfo P s) = Some t \<Longrightarrow>
         SysToMap P t ''state'' = Some (AString (info_State (ToInfo P s)))"
begin

lemma ToInfo_warnings: "\<exists>ws. SysWarnings P (info_Sys (ToInfo P s)) = Some ws"
  using warnings_ToInfo [of s] by auto

lemma ToInfo_map_state:
  assumes "info_Sys (ToInfo P s) = Some t"
  shows "\<exists>m. Info_ToMap (SysToMap P) (ToInfo P s) ''sysInfo'' = Some (AMap m) \<and>
    m ''state'' = Info_ToMap (SysToMap P) (ToInfo P s) ''state''"
  using state_ToInfo [OF assms] by (simp add: Info_ToMap_def assms)

end

section \<open>Lemmas on put_if\<close>

lemma put_if_apply [simp]:
  "put_if (b, k, v) m k' = (if b \<and> k' = k then Some v else m k')"
  by (simp add: put_if_def)

text \<open>
  A run of guarded stores with distinct keys: each key is looked up in its own entry, any
  other key in the map the run started from.
\<close>

lemma fold_put_if_notin:
  "k \<notin> (\<lambda>(b, k, v). k) ` set es \<Longrightarrow> fold put_if es m k = m k"
  by (induction es arbitrary: m) force+

lemma fold_put_if_in:
  assumes "distinct (map (\<lambda>(b, k, v). k) es)" "(b, k, v) \<in> set es"
  shows "fold put_if es m k = (if b then Some v else m k)"
  using assms
proof (induction es arbitrary: m)
  case (Cons e es)
  obtain b' k' v' where e: "e = (b', k', v')" by (cases e)
  show ?case
  proof (cases "(b, k, v) = e")
    case True
    with Cons.prems(1) e have "k \<notin> (\<lambda>(b, k, v). k) ` set es" by auto
    with True e show ?thesis by (auto simp: fold_put_if_notin)
  next
    case False
    with Cons.prems have "(b, k, v) \<in> set es" "k \<noteq> k'" using e by force+
    with Cons e show ?thesis by simp
  qed
qed simp

section \<open>Properties\<close>

definition plain_char :: "char \<Rightarrow> bool" where
  "plain_char c \<longleftrightarrow>
     32 \<le> (of_char c :: nat) \<and> (of_char c :: nat) < 127 \<and> c \<noteq> CHR 0x22 \<and> c \<noteq> CHR 0x5C"

lemma quote_plain: "list_all plain_char s \<Longrightarrow> Quote s = [CHR 0x22] @ s @ [CHR 0x22]"
proof -
  have "list_all plain_char s \<Longrightarrow> concat (map quote_char s) = s"
    by (induction s) (auto simp: quote_char_def plain_char_def)
  then show "list_all plain_char s \<Longrightarrow> ?thesis" by (simp add: Quote_def)
qed

definition hex_digit :: "char \<Rightarrow> nat" where
  "hex_digit c = (if (of_char c :: nat) < 58 then of_char c - 48 else of_char c - 87)"

definition hex_value :: "string \<Rightarrow> nat" where
  "hex_value = foldl (\<lambda>n c. 16 * n + hex_digit c) 0"

lemma hex_digit_digit_char [simp]: "d < 16 \<Longrightarrow> hex_digit (digit_char d) = d"
  by (auto simp: hex_digit_def digit_char_def)

lemma plain_digit_char: "d < 16 \<Longrightarrow> plain_char (digit_char d) \<and> digit_char d \<noteq> CHR '':''"
proof -
  assume "d < 16"
  then have n: "of_char (digit_char d) = (if d < 10 then 48 + d else 87 + d :: nat)"
    by (simp add: digit_char_def)
  then have "digit_char d \<noteq> c" if "of_char c \<in> {34, 58, 92 :: nat}" for c
    using that \<open>d < 16\<close> by (auto split: if_splits)
  then show ?thesis using n \<open>d < 16\<close> by (auto simp: plain_char_def)
qed

lemma hex_value_snoc [simp]: "hex_value (s @ [c]) = 16 * hex_value s + hex_digit c"
  by (simp add: hex_value_def)

lemma hex_value_zero [simp]: "hex_value (CHR ''0'' # s) = hex_value s"
  by (simp add: hex_value_def hex_digit_def)

lemma hex_value_format [simp]: "hex_value (format_base 16 n) = n"
proof (induction "16::nat" n rule: format_base.induct)
  case (1 n)
  show ?case
  proof (cases "n < 16")
    case True
    then show ?thesis by (subst format_base.simps) (simp add: hex_value_def)
  next
    case False
    with 1 show ?thesis by (subst format_base.simps) simp
  qed
qed

lemma format_hex_plain: "list_all (\<lambda>c. plain_char c \<and> c \<noteq> CHR '':'') (format_base 16 n)"
proof (induction "16::nat" n rule: format_base.induct)
  case (1 n)
  then show ?case
    by (subst format_base.simps) (simp add: plain_digit_char)
qed

lemma hex_value_hex2: "hex_value (format_hex2 v) = unat v"
  by (simp add: format_hex2_def Let_def)

lemma format_hex2_plain: "list_all (\<lambda>c. plain_char c \<and> c \<noteq> CHR '':'') (format_hex2 v)"
  using format_hex_plain [of "unat v"] by (auto simp: format_hex2_def Let_def plain_char_def)

lemma split_at_colon:
  assumes "CHR '':'' \<notin> set k" "CHR '':'' \<notin> set k'" "k @ '':'' @ x = k' @ '':'' @ y"
  shows "k = k' \<and> x = y"
proof -
  have "takeWhile (\<lambda>c. c \<noteq> CHR '':'') (k @ '':'' @ x) = k"
    "takeWhile (\<lambda>c. c \<noteq> CHR '':'') (k' @ '':'' @ y) = k'"
    using assms(1,2) by (auto simp: takeWhile_append)
  with assms(3) show ?thesis by simp
qed

text \<open>
  The rendering of an option determines it: two options whose kinds contain no colon
  render alike only when their kinds and values are equal.
\<close>

lemma Option_String_inject:
  assumes "CHR '':'' \<notin> set (Kind p)" "CHR '':'' \<notin> set (Kind q)" "Option_String p = Option_String q"
  shows "p = q"
proof -
  have "Kind p = Kind q \<and> Value p = Value q"
  proof (cases "Value p = 0 \<or> Value q = 0")
    case True
    have "CHR '':'' \<in> set (Option_String x) \<longleftrightarrow> Value x \<noteq> 0" if "CHR '':'' \<notin> set (Kind x)" for x
      using that by (simp add: Option_String_def)
    with assms True have "Value p = 0" "Value q = 0" by metis+
    with assms(3) show ?thesis by (simp add: Option_String_def)
  next
    case False
    with assms(3) have "Kind p @ '':'' @ format_hex2 (Value p) = Kind q @ '':'' @ format_hex2 (Value q)"
      by (simp add: Option_String_def)
    from split_at_colon [OF assms(1,2) this] show ?thesis
      by (metis hex_value_hex2 word_unat_eq_iff)
  qed
  then show ?thesis by simp
qed

text \<open>
  An option whose kind is printable ASCII without quotes or backslashes marshals to a
  JSON string that is its rendering between double quotes, with nothing escaped.
\<close>

lemma Option_MarshalJSON_plain:
  assumes "list_all plain_char (Kind o')"
  shows "Option_MarshalJSON o' = [CHR 0x22] @ Option_String o' @ [CHR 0x22]"
proof -
  have "list_all plain_char (format_hex2 (Value o'))"
    using format_hex2_plain [of "Value o'"] by (simp add: list_all_iff)
  with assms have "list_all plain_char (Option_String o')"
    by (auto simp: Option_String_def plain_char_def)
  then show ?thesis unfolding Option_MarshalJSON_def by (rule quote_plain)
qed

end
