(* ===== verification/Go_Json.thy ===== *)
theory Go_Json
  imports Go_Prelude
begin

text \<open>
  The part of Go's \<open>encoding/json\<close> the repository uses: \<open>json.Marshal\<close> and
  \<open>json.MarshalIndent\<close> on values made of null, booleans, integers, strings, arrays and
  objects. \<open>json\<close> is the tree of such a value, \<open>json_text\<close> the text the package
  writes for it.

  A reader of JSON texts, \<open>parse_json\<close>, states what the text denotes: reading back what
  was written gives the tree, with bytes that are not UTF-8 replaced as the package does.
\<close>

section \<open>UTF-8\<close>

abbreviation (input) byte :: "char \<Rightarrow> nat" where "byte \<equiv> of_char"

definition continuation :: "char \<Rightarrow> bool" where
  "continuation c \<longleftrightarrow> 0x80 \<le> byte c \<and> byte c < 0xC0"

text \<open>The second byte of a sequence of three or four bytes, by its first byte.\<close>

definition second3 :: "nat \<Rightarrow> nat \<Rightarrow> bool" where
  "second3 x y \<longleftrightarrow> 0xE0 \<le> x \<and> x \<le> 0xEF \<and>
     (if x = 0xE0 then 0xA0 else 0x80) \<le> y \<and> y \<le> (if x = 0xED then 0x9F else 0xBF)"

definition second4 :: "nat \<Rightarrow> nat \<Rightarrow> bool" where
  "second4 x y \<longleftrightarrow> 0xF0 \<le> x \<and> x \<le> 0xF4 \<and>
     (if x = 0xF0 then 0x90 else 0x80) \<le> y \<and> y \<le> (if x = 0xF4 then 0x8F else 0xBF)"

text \<open>The length of the encoded character a string starts with, 0 if there is none.\<close>

fun utf8_len :: "string \<Rightarrow> nat" where
  "utf8_len (a # b # c # d # s) =
     (if byte a < 0x80 then 1
      else if 0xC2 \<le> byte a \<and> byte a \<le> 0xDF \<and> continuation b then 2
      else if second3 (byte a) (byte b) \<and> continuation c then 3
      else if second4 (byte a) (byte b) \<and> continuation c \<and> continuation d then 4
      else 0)"
| "utf8_len [a, b, c] =
     (if byte a < 0x80 then 1
      else if 0xC2 \<le> byte a \<and> byte a \<le> 0xDF \<and> continuation b then 2
      else if second3 (byte a) (byte b) \<and> continuation c then 3
      else 0)"
| "utf8_len [a, b] =
     (if byte a < 0x80 then 1
      else if 0xC2 \<le> byte a \<and> byte a \<le> 0xDF \<and> continuation b then 2
      else 0)"
| "utf8_len [a] = (if byte a < 0x80 then 1 else 0)"
| "utf8_len [] = 0"

section \<open>Writing strings\<close>

abbreviation (input) dquote :: char where "dquote \<equiv> CHR 0x22"
abbreviation (input) backslash :: char where "backslash \<equiv> CHR 0x5C"

definition hex4 :: "nat \<Rightarrow> string" where
  "hex4 n = [digit_char (n div 4096 mod 16), digit_char (n div 256 mod 16),
     digit_char (n div 16 mod 16), digit_char (n mod 16)]"

definition unicode_escape :: "nat \<Rightarrow> string" where
  "unicode_escape n = [backslash, CHR ''u''] @ hex4 n"

text \<open>Quotes, backslashes, control characters and the characters special in HTML are escaped.\<close>

definition escape_ascii :: "char \<Rightarrow> string" where
  "escape_ascii c =
     (if c = dquote \<or> c = backslash then [backslash, c]
      else if c = CHR 0x08 then [backslash, CHR ''b'']
      else if c = CHR 0x0C then [backslash, CHR ''f'']
      else if c = CHR 0x0A then [backslash, CHR ''n'']
      else if c = CHR 0x0D then [backslash, CHR ''r'']
      else if c = CHR 0x09 then [backslash, CHR ''t'']
      else if byte c < 0x20 \<or> c = CHR ''<'' \<or> c = CHR ''>'' \<or> c = CHR ''&'' then unicode_escape (byte c)
      else [c])"

text \<open>The line separators U+2028 and U+2029.\<close>

definition separators :: "(string \<times> nat) list" where
  "separators = [([CHR 0xE2, CHR 0x80, CHR 0xA8], 0x2028), ([CHR 0xE2, CHR 0x80, CHR 0xA9], 0x2029)]"

function escape :: "string \<Rightarrow> string" where
  "escape [] = []"
| "escape (a # s) =
     (let n = utf8_len (a # s); r = take n (a # s) in
      if n = 0 then unicode_escape 0xFFFD @ escape s
      else if n = 1 then escape_ascii a @ escape s
      else (case map_of separators r of Some u \<Rightarrow> unicode_escape u | None \<Rightarrow> r) @ escape (drop n (a # s)))"
  by pat_completeness auto
termination
  by (relation "measure length") auto

declare escape.simps(2) [simp del]

definition json_string :: "string \<Rightarrow> string" where
  "json_string s = [dquote] @ escape s @ [dquote]"

section \<open>Writing values\<close>

datatype json =
    JNull
  | JBool bool
  | JNum int
  | JString string
  | JArray "json list"
  | JObject "(string \<times> json) list"

text \<open>
  \<open>nl\<close> is what starts a line at a nesting depth and \<open>colon\<close> what separates a key
  from its value; an empty array or object stays on its line.
\<close>

primrec json_text :: "(nat \<Rightarrow> string) \<Rightarrow> string \<Rightarrow> json \<Rightarrow> nat \<Rightarrow> string" where
  "json_text nl colon JNull d = ''null''"
| "json_text nl colon (JBool b) d = (if b then ''true'' else ''false'')"
| "json_text nl colon (JNum i) d = format_int i"
| "json_text nl colon (JString s) d = json_string s"
| "json_text nl colon (JArray js) d =
     (if js = [] then ''[]''
      else ''['' @ Join (map (\<lambda>f. nl (Suc d) @ f (Suc d)) (map (json_text nl colon) js)) '','' @ nl d @ '']'')"
| "json_text nl colon (JObject ms) d =
     (if ms = [] then ''{}''
      else ''{'' @ Join (map (\<lambda>(k, f). nl (Suc d) @ json_string k @ colon @ f (Suc d))
                         (map (map_prod id (json_text nl colon)) ms)) '','' @ nl d @ ''}'')"

definition Marshal_json :: "json \<Rightarrow> string" where
  "Marshal_json j = json_text (\<lambda>_. []) '':'' j 0"

text \<open>\<open>MarshalIndent(v, "", "  ")\<close>.\<close>

definition MarshalIndent_json :: "json \<Rightarrow> string" where
  "MarshalIndent_json j = json_text (\<lambda>d. newline # replicate (2 * d) (CHR '' '')) '': '' j 0"

section \<open>Reading\<close>

definition is_ws :: "char \<Rightarrow> bool" where
  "is_ws c \<longleftrightarrow> c \<in> {CHR '' '', CHR 0x09, CHR 0x0A, CHR 0x0D}"

definition skip_ws :: "string \<Rightarrow> string" where
  "skip_ws s = dropWhile is_ws s"

definition hex_digit_value :: "char \<Rightarrow> nat option" where
  "hex_digit_value c =
     (if 48 \<le> byte c \<and> byte c \<le> 57 then Some (byte c - 48)
      else if 97 \<le> byte c \<and> byte c \<le> 102 then Some (byte c - 87)
      else if 65 \<le> byte c \<and> byte c \<le> 70 then Some (byte c - 55)
      else None)"

definition hex4_value :: "char \<Rightarrow> char \<Rightarrow> char \<Rightarrow> char \<Rightarrow> nat option" where
  "hex4_value a b c d =
     (case (hex_digit_value a, hex_digit_value b, hex_digit_value c, hex_digit_value d) of
        (Some w, Some x, Some y, Some z) \<Rightarrow> Some (4096 * w + 256 * x + 16 * y + z)
      | _ \<Rightarrow> None)"

text \<open>The encoding of a code point of the basic plane.\<close>

definition utf8_encode :: "nat \<Rightarrow> string" where
  "utf8_encode n =
     (if n < 0x80 then [char_of n]
      else if n < 0x800 then [char_of (0xC0 + n div 64), char_of (0x80 + n mod 64)]
      else [char_of (0xE0 + n div 4096), char_of (0x80 + n div 64 mod 64), char_of (0x80 + n mod 64)])"

definition simple_escapes :: "(char \<times> char) list" where
  "simple_escapes =
    [(dquote, dquote), (backslash, backslash), (CHR ''/'', CHR ''/''), (CHR ''b'', CHR 0x08),
     (CHR ''f'', CHR 0x0C), (CHR ''n'', CHR 0x0A), (CHR ''r'', CHR 0x0D), (CHR ''t'', CHR 0x09)]"

definition prepend :: "string \<Rightarrow> (string \<times> string) option \<Rightarrow> (string \<times> string) option" where
  "prepend p r = map_option (\<lambda>(s, rest). (p @ s, rest)) r"

text \<open>The rest of a string after its opening quote, up to the closing one.\<close>

fun read_string :: "string \<Rightarrow> (string \<times> string) option" where
  "read_string [] = None"
| "read_string (c # s) =
     (if c = dquote then Some ([], s)
      else if c = backslash then
        (case s of
           [] \<Rightarrow> None
         | e # t \<Rightarrow>
             (case map_of simple_escapes e of
                Some x \<Rightarrow> prepend [x] (read_string t)
              | None \<Rightarrow>
                  if e = CHR ''u'' then
                    (case t of
                       h1 # h2 # h3 # h4 # u \<Rightarrow>
                         (case hex4_value h1 h2 h3 h4 of
                            Some n \<Rightarrow> prepend (utf8_encode n) (read_string u)
                          | None \<Rightarrow> None)
                     | _ \<Rightarrow> None)
                  else None))
      else if byte c < 0x20 then None
      else prepend [c] (read_string s))"

text \<open>An integer: no leading zeros, no fraction and no exponent.\<close>

definition read_number :: "string \<Rightarrow> (int \<times> string) option" where
  "read_number s =
     (let neg = (take 1 s = ''-''); t = (if neg then drop 1 s else s);
          ds = takeWhile is_digit t; r = dropWhile is_digit t
      in if ds = [] \<or> (take 1 ds = ''0'' \<and> length ds \<noteq> 1) \<or> take 1 r \<in> {''.'', ''e'', ''E''} then None
         else Some (if neg then - int (digits_value ds) else int (digits_value ds), r))"

definition read_atom :: "string \<Rightarrow> (json \<times> string) option" where
  "read_atom s =
     (case CutPrefix s ''null'' of
        Some r \<Rightarrow> Some (JNull, r)
      | None \<Rightarrow>
          (case CutPrefix s ''true'' of
             Some r \<Rightarrow> Some (JBool True, r)
           | None \<Rightarrow>
               (case CutPrefix s ''false'' of
                  Some r \<Rightarrow> Some (JBool False, r)
                | None \<Rightarrow> map_option (map_prod JNum id) (read_number s))))"

text \<open>
  A value, the elements of an array after its bracket, and the members of an object after its
  brace; the number bounds the depth of the calls.
\<close>

fun read_value :: "nat \<Rightarrow> string \<Rightarrow> (json \<times> string) option"
  and read_elems :: "nat \<Rightarrow> string \<Rightarrow> (json list \<times> string) option"
  and read_members :: "nat \<Rightarrow> string \<Rightarrow> ((string \<times> json) list \<times> string) option" where
  "read_value 0 s = None"
| "read_value (Suc n) s =
     (case skip_ws s of
        [] \<Rightarrow> None
      | c # r \<Rightarrow>
          if c = dquote then map_option (map_prod JString id) (read_string r)
          else if c = CHR ''['' then
            (if take 1 (skip_ws r) = '']'' then Some (JArray [], drop 1 (skip_ws r))
             else map_option (map_prod JArray id) (read_elems n r))
          else if c = CHR ''{'' then
            (if take 1 (skip_ws r) = ''}'' then Some (JObject [], drop 1 (skip_ws r))
             else map_option (map_prod JObject id) (read_members n r))
          else read_atom (c # r))"
| "read_elems 0 s = None"
| "read_elems (Suc n) s =
     (case read_value n s of
        None \<Rightarrow> None
      | Some (j, r) \<Rightarrow>
          (case skip_ws r of
             [] \<Rightarrow> None
           | c # q \<Rightarrow>
               if c = CHR '']'' then Some ([j], q)
               else if c = CHR '','' then map_option (map_prod ((#) j) id) (read_elems n q)
               else None))"
| "read_members 0 s = None"
| "read_members (Suc n) s =
     (case skip_ws s of
        [] \<Rightarrow> None
      | c # r \<Rightarrow>
          if c \<noteq> dquote then None
          else case read_string r of
            None \<Rightarrow> None
          | Some (k, q) \<Rightarrow>
              if take 1 (skip_ws q) \<noteq> '':'' then None
              else case read_value n (drop 1 (skip_ws q)) of
                None \<Rightarrow> None
              | Some (j, u) \<Rightarrow>
                  (case skip_ws u of
                     [] \<Rightarrow> None
                   | d # v \<Rightarrow>
                       if d = CHR ''}'' then Some ([(k, j)], v)
                       else if d = CHR '','' then map_option (map_prod ((#) (k, j)) id) (read_members n v)
                       else None))"

definition parse_json :: "string \<Rightarrow> json option" where
  "parse_json s =
     (case read_value (length s) s of
        Some (j, r) \<Rightarrow> if skip_ws r = [] then Some j else None
      | None \<Rightarrow> None)"

section \<open>Strings read back\<close>

text \<open>A string with every byte that is not part of an encoded character replaced by U+FFFD.\<close>

function valid_utf8 :: "string \<Rightarrow> string" where
  "valid_utf8 [] = []"
| "valid_utf8 (a # s) =
     (let n = utf8_len (a # s) in
      if n = 0 then [CHR 0xEF, CHR 0xBF, CHR 0xBD] @ valid_utf8 s
      else take n (a # s) @ valid_utf8 (drop n (a # s)))"
  by pat_completeness auto
termination
  by (relation "measure length") auto

declare valid_utf8.simps(2) [simp del]

lemma hex_digit_value_digit_char: "d < 16 \<Longrightarrow> hex_digit_value (digit_char d) = Some d"
  by (auto simp: hex_digit_value_def digit_char_def)

lemma read_unicode_escape:
  assumes "n < 65536"
  shows "read_string (unicode_escape n @ t) = prepend (utf8_encode n) (read_string t)"
proof -
  have sum: "4096 * c + 256 * r2 + 16 * r1 + r0 = n"
    if "n = 16 * a + r0" "a = 16 * b + r1" "b = 16 * c + r2" for a b c r0 r1 r2 :: nat
    using that by simp
  have div: "n div 16 div 16 = n div 256" "n div 256 div 16 = n div 4096"
    by (simp_all flip: div_mult2_eq)
  have top: "n div 4096 < 16" using assms by (simp add: less_mult_imp_div_less)
  have "4096 * (n div 4096) + 256 * (n div 256 mod 16) + 16 * (n div 16 mod 16) + n mod 16 = n"
    by (rule sum [of "n div 16" _ "n div 256"]) (simp_all flip: div)
  then have "hex4_value (digit_char (n div 4096 mod 16)) (digit_char (n div 256 mod 16))
      (digit_char (n div 16 mod 16)) (digit_char (n mod 16)) = Some n"
    using top by (simp add: hex4_value_def hex_digit_value_digit_char)
  then show ?thesis by (simp add: unicode_escape_def hex4_def simple_escapes_def)
qed

lemma read_escape_ascii:
  assumes "byte c < 0x80"
  shows "read_string (escape_ascii c @ t) = prepend [c] (read_string t)"
proof -
  have "utf8_encode (byte c) = [c]" using assms by (simp add: utf8_encode_def)
  then show ?thesis
    using assms by (simp add: escape_ascii_def read_unicode_escape) (auto simp: simple_escapes_def)
qed

lemma read_high:
  "list_all (\<lambda>c. 0x80 \<le> byte c) r \<Longrightarrow> read_string (r @ t) = prepend r (read_string t)"
proof (induction r)
  case (Cons c r)
  then have "c \<noteq> dquote" "c \<noteq> backslash" "\<not> byte c < 0x20" by auto
  with Cons show ?case by (cases "read_string t") (auto simp: prepend_def)
qed (cases "read_string t", auto simp: prepend_def)

lemma utf8_len_high: "utf8_len s = n \<Longrightarrow> 1 < n \<Longrightarrow> list_all (\<lambda>c. 0x80 \<le> byte c) (take n s)"
  by (induction s rule: utf8_len.induct)
    (auto simp: continuation_def second3_def second4_def split: if_splits)

lemma utf8_len_one: "utf8_len (a # s) = Suc 0 \<longleftrightarrow> byte a < 0x80"
  by (cases "a # s" rule: utf8_len.cases) auto

lemma char_of_eqI: "byte c = n \<Longrightarrow> char_of n = c"
  by auto

lemma utf8_encode_special:
  "utf8_encode 0xFFFD = [CHR 0xEF, CHR 0xBF, CHR 0xBD]"
  "utf8_encode 0x2028 = [CHR 0xE2, CHR 0x80, CHR 0xA8]"
  "utf8_encode 0x2029 = [CHR 0xE2, CHR 0x80, CHR 0xA9]"
  by (simp_all add: utf8_encode_def) (intro conjI char_of_eqI, simp_all)+

lemma read_separator: "map_of separators r = Some u \<Longrightarrow> u < 65536 \<and> utf8_encode u = r"
  by (auto simp: separators_def utf8_encode_special split: if_splits)

lemma read_escape:
  "read_string (escape s @ dquote # rest) = Some (valid_utf8 s, rest)"
proof (induction s rule: escape.induct)
  case (2 a s)
  let ?n = "utf8_len (a # s)"
  consider "?n = 0" | "?n = 1" | "1 < ?n" by linarith
  then show ?case
  proof cases
    case 1
    with 2 show ?thesis
      by (simp add: escape.simps(2) valid_utf8.simps(2) Let_def prepend_def utf8_encode_special read_unicode_escape)
  next
    case one: 2
    then have "byte a < 0x80" by (simp add: utf8_len_one)
    with 2(2) [OF refl refl] one show ?thesis
      by (simp add: escape.simps(2) valid_utf8.simps(2) Let_def prepend_def read_escape_ascii)
  next
    case 3
    let ?r = "take ?n (a # s)"
    have "read_string ((case map_of separators ?r of Some u \<Rightarrow> unicode_escape u | None \<Rightarrow> ?r) @ t) =
        prepend ?r (read_string t)" for t
      using read_high [OF utf8_len_high [OF refl 3]] read_separator [of ?r]
      by (cases "map_of separators ?r") (simp_all add: read_unicode_escape)
    moreover have "read_string (escape (drop ?n (a # s)) @ dquote # rest) = Some (valid_utf8 (drop ?n (a # s)), rest)"
      using 2(3) [OF refl refl] 3 by simp
    ultimately show ?thesis
      using 3 by (simp add: escape.simps(2) valid_utf8.simps(2) Let_def prepend_def)
  qed
qed simp

section \<open>Values read back\<close>

primrec valid_json :: "json \<Rightarrow> json" where
  "valid_json JNull = JNull"
| "valid_json (JBool b) = JBool b"
| "valid_json (JNum i) = JNum i"
| "valid_json (JString s) = JString (valid_utf8 s)"
| "valid_json (JArray js) = JArray (map valid_json js)"
| "valid_json (JObject ms) = JObject (map (map_prod valid_utf8 id) (map (map_prod id valid_json) ms))"

text \<open>The depth of calls a value needs.\<close>

primrec cost :: "json \<Rightarrow> nat" where
  "cost JNull = 1"
| "cost (JBool b) = 1"
| "cost (JNum i) = 1"
| "cost (JString s) = 1"
| "cost (JArray js) = Suc (sum_list (map Suc (map cost js)))"
| "cost (JObject ms) = Suc (sum_list (map (Suc \<circ> snd) (map (map_prod id cost) ms)))"

text \<open>What may follow a value without being taken for a part of it.\<close>

definition ends_value :: "string \<Rightarrow> bool" where
  "ends_value r \<longleftrightarrow> (case r of [] \<Rightarrow> True | c # _ \<Rightarrow> \<not> is_digit c \<and> c \<notin> {CHR ''.'', CHR ''e'', CHR ''E''})"

lemma skip_ws_append [simp]: "list_all is_ws w \<Longrightarrow> skip_ws (w @ s) = skip_ws s"
  by (simp add: skip_ws_def list_all_iff dropWhile_append2)

lemma skip_ws_Cons [simp]: "\<not> is_ws c \<Longrightarrow> skip_ws (c # s) = c # s"
  by (simp add: skip_ws_def)

lemma skip_ws_only [simp]: "list_all is_ws w \<Longrightarrow> skip_ws w = []"
  by (simp add: skip_ws_def list_all_iff)

lemma digit_char_zero: "d < 10 \<Longrightarrow> digit_char d = CHR ''0'' \<longleftrightarrow> d = 0"
proof -
  assume "d < 10"
  moreover have "char_digit (CHR ''0'') = 0" by (simp add: char_digit_def)
  moreover have "digit_char 0 = CHR ''0''" by (simp add: digit_char_def char_of_eqI)
  ultimately show ?thesis by (metis char_digit_digit_char)
qed

lemma format_nat_leading: "take 1 (format_nat n) = ''0'' \<Longrightarrow> n = 0"
proof (induction "10::nat" n rule: format_base.induct)
  case (1 n)
  show ?case
  proof (cases "n < 10")
    case True
    then show ?thesis using 1(2) by (simp add: format_base.simps [of 10 n] digit_char_zero)
  next
    case False
    have "take 1 (format_nat (n div 10)) = ''0''"
      using 1(2) False by (cases "format_nat (n div 10)") (simp_all add: format_base.simps [of 10 n])
    with 1(1) False show ?thesis by simp
  qed
qed

lemma digits_split:
  assumes "ends_value r"
  shows "takeWhile is_digit (format_nat n @ r) = format_nat n" "dropWhile is_digit (format_nat n @ r) = r"
proof -
  have "list_all is_digit (format_nat n)" by (rule format_nat_digits)
  then show "takeWhile is_digit (format_nat n @ r) = format_nat n" "dropWhile is_digit (format_nat n @ r) = r"
    using assms by (cases r; simp add: takeWhile_append dropWhile_append list_all_iff ends_value_def)+
qed

lemma format_nat_not_minus: "take 1 (format_nat n @ r) \<noteq> ''-''"
proof -
  obtain c t where c: "format_nat n = c # t" by (cases "format_nat n") auto
  then have "is_digit c" using format_nat_set [of c n] by simp
  with c show ?thesis by (auto simp: is_digit_def)
qed

lemma read_number_format: "ends_value r \<Longrightarrow> read_number (format_int i @ r) = Some (i, r)"
proof -
  assume r: "ends_value r"
  have "length (format_nat 0) = 1" by (simp add: format_base.simps [of 10 0])
  then have lead: "\<not> (take 1 (format_nat n) = ''0'' \<and> length (format_nat n) \<noteq> 1)" for n
    using format_nat_leading [of n] by blast
  have r1: "take 1 r \<notin> {''.'', ''e'', ''E''}" using r by (cases r) (auto simp: ends_value_def)
  have head: "take 1 (c # x) = [c]" "drop 1 (c # x) = x" for c :: char and x by simp_all
  show ?thesis
  proof (cases "i < 0")
    case True
    with r1 show ?thesis
      unfolding read_number_def format_int_def
      by (simp add: Let_def head digits_split [OF r] lead del: One_nat_def)
  next
    case False
    with r1 show ?thesis
      unfolding read_number_def format_int_def
      by (simp add: Let_def digits_split [OF r] lead format_nat_not_minus del: One_nat_def take_append)
  qed
qed

lemma format_int_start: "\<exists>c t. format_int i = c # t \<and> (is_digit c \<or> c = CHR ''-'')"
  using format_nat_digits [of "nat i"]
  by (cases "format_nat (nat i)") (auto simp: format_int_def)

lemma read_atom_format: "ends_value r \<Longrightarrow> read_atom (format_int i @ r) = Some (JNum i, r)"
proof -
  assume r: "ends_value r"
  obtain c t where c: "format_int i = c # t" "is_digit c \<or> c = CHR ''-''" using format_int_start by blast
  then have "CutPrefix (format_int i @ r) k = None" if "k \<in> {''null'', ''true'', ''false''}" for k
    using that by (auto simp: CutPrefix_def HasPrefix_def is_digit_def)
  then show ?thesis using read_number_format [OF r, of i] by (simp add: read_atom_def)
qed

lemma json_text_start: "\<exists>c t. json_text nl colon j d = c # t \<and> \<not> is_ws c \<and> c \<notin> {CHR '']'', CHR ''}''}"
proof (cases j)
  case (JNum i)
  then show ?thesis using format_int_start [of i] by (auto simp: is_ws_def is_digit_def)
qed (auto simp: is_ws_def json_string_def)

lemma length_Join: "xs \<noteq> [] \<Longrightarrow> Suc (length (Join xs [c])) = length xs + sum_list (map length xs)"
  by (induction xs "[c]" rule: Join.induct) auto

lemma sum_list_le_Join:
  assumes "\<And>x. x \<in> set xs \<Longrightarrow> f x \<le> length (g x)" "xs \<noteq> []"
  shows "sum_list (map (\<lambda>x. Suc (f x)) xs) \<le> Suc (length (Join (map g xs) [c]))"
proof -
  have "sum_list (map f xs) \<le> sum_list (map (\<lambda>x. length (g x)) xs)"
    using assms(1) by (rule sum_list_mono)
  then show ?thesis
    using length_Join [of "map g xs" c] assms(2) by (simp add: sum_list_Suc comp_def)
qed

lemma cost_le_length: "cost j \<le> length (json_text nl colon j d)"
proof (induction j arbitrary: d)
  case (JArray js)
  have "sum_list (map (\<lambda>j. Suc (cost j)) js) \<le>
      Suc (length (Join (map (\<lambda>j. nl (Suc d) @ json_text nl colon j (Suc d)) js) '',''))" if "js \<noteq> []"
    using that JArray by (intro sum_list_le_Join) (simp_all add: trans_le_add2)
  then show ?case by (cases "js = []") (simp_all add: comp_def)
next
  case (JObject ms)
  have "sum_list (map (\<lambda>m. Suc (cost (snd m))) ms) \<le>
      Suc (length (Join (map (\<lambda>m. nl (Suc d) @ json_string (fst m) @ colon @ json_text nl colon (snd m) (Suc d)) ms) '',''))"
    if "ms \<noteq> []"
    using that JObject by (intro sum_list_le_Join) (force simp: trans_le_add2)+
  then show ?case by (cases "ms = []") (simp_all add: comp_def case_prod_beta map_prod_def)
next
  case (JNum i)
  then show ?case using format_int_start [of i] by auto
qed (auto simp: json_string_def)

text \<open>
  What holds for every value holds for the elements of an array and the members of an object.
  \<open>reads_text nl colon j\<close> is that the text of \<open>j\<close> is read back.
\<close>

definition reads_text :: "(nat \<Rightarrow> string) \<Rightarrow> string \<Rightarrow> json \<Rightarrow> bool" where
  "reads_text nl colon j \<longleftrightarrow> (\<forall>n d w rest. cost j \<le> n \<longrightarrow> list_all is_ws w \<longrightarrow> ends_value rest \<longrightarrow>
     read_value n (w @ json_text nl colon j d @ rest) = Some (valid_json j, rest))"

lemma reads_textD:
  "reads_text nl colon j \<Longrightarrow> cost j \<le> n \<Longrightarrow> list_all is_ws w \<Longrightarrow> ends_value rest \<Longrightarrow>
     read_value n (w @ json_text nl colon j d @ rest) = Some (valid_json j, rest)"
  by (simp add: reads_text_def)

lemma ends_value_ws: "list_all is_ws w \<Longrightarrow> ends_value r \<Longrightarrow> ends_value (w @ r)"
  by (cases w) (auto simp: ends_value_def is_ws_def is_digit_def)

lemma ends_value_Cons [simp]:
  "ends_value (CHR '','' # r)" "ends_value (CHR '']'' # r)" "ends_value (CHR ''}'' # r)"
  by (simp_all add: ends_value_def is_digit_def)

lemma not_ws [simp]:
  "\<not> is_ws (CHR '','')" "\<not> is_ws (CHR '']'')" "\<not> is_ws (CHR ''}'')" "\<not> is_ws (CHR ''['')"
  "\<not> is_ws (CHR ''{'')" "\<not> is_ws (CHR '':'')" "\<not> is_ws dquote"
  "\<not> is_ws (CHR ''n'')" "\<not> is_ws (CHR ''t'')" "\<not> is_ws (CHR ''f'')"
  by (simp_all add: is_ws_def)

lemma read_elems_text:
  assumes nl: "\<And>d. list_all is_ws (nl d)" and "js \<noteq> []" "\<And>j. j \<in> set js \<Longrightarrow> reads_text nl colon j"
    and "sum_list (map Suc (map cost js)) \<le> n"
  shows "read_elems n (Join (map (\<lambda>j. nl (Suc d) @ json_text nl colon j (Suc d)) js) '','' @ nl d @ CHR '']'' # rest) =
    Some (map valid_json js, rest)"
  using assms(2-)
proof (induction js arbitrary: n)
  case (Cons j js)
  then obtain m where m: "n = Suc m" "cost j \<le> m" by (cases n) auto
  have j: "reads_text nl colon j" using Cons.prems(2) by simp
  show ?case
  proof (cases "js = []")
    case True
    have "read_value m (nl (Suc d) @ json_text nl colon j (Suc d) @ nl d @ CHR '']'' # rest) =
        Some (valid_json j, nl d @ CHR '']'' # rest)"
      by (rule reads_textD [OF j m(2) nl]) (simp add: ends_value_ws nl)
    with True m(1) show ?thesis by (simp add: nl)
  next
    case False
    let ?tail = "Join (map (\<lambda>j. nl (Suc d) @ json_text nl colon j (Suc d)) js) '','' @ nl d @ CHR '']'' # rest"
    have join: "Join (map (\<lambda>j. nl (Suc d) @ json_text nl colon j (Suc d)) (j # js)) '','' @ nl d @ CHR '']'' # rest =
        nl (Suc d) @ json_text nl colon j (Suc d) @ CHR '','' # ?tail"
      using False by (cases js) simp_all
    have "read_value m (nl (Suc d) @ json_text nl colon j (Suc d) @ CHR '','' # ?tail) =
        Some (valid_json j, CHR '','' # ?tail)"
      by (rule reads_textD [OF j m(2) nl]) simp
    moreover have "read_elems m ?tail = Some (map valid_json js, rest)"
      using Cons.prems False m by (intro Cons.IH) auto
    ultimately show ?thesis unfolding join m(1) by simp
  qed
qed simp

lemma read_members_text:
  assumes nl: "\<And>d. list_all is_ws (nl d)" and w: "colon = '':'' @ w" "list_all is_ws w"
    and "ms \<noteq> []" "\<And>m. m \<in> set ms \<Longrightarrow> reads_text nl colon (snd m)"
    and "sum_list (map (\<lambda>m. Suc (cost (snd m))) ms) \<le> n"
  shows "read_members n (Join (map (\<lambda>m. nl (Suc d) @ json_string (fst m) @ colon @ json_text nl colon (snd m) (Suc d)) ms) '',''
      @ nl d @ CHR ''}'' # rest) = Some (map (\<lambda>m. (valid_utf8 (fst m), valid_json (snd m))) ms, rest)"
  using assms(4-)
proof (induction ms arbitrary: n)
  case (Cons m ms)
  obtain k j where kj: "m = (k, j)" by (cases m)
  obtain l where l: "n = Suc l" "cost j \<le> l" using Cons.prems(3) kj by (cases n) auto
  have j: "reads_text nl colon j" using Cons.prems(2) kj by force
  have key: "read_members n (nl (Suc d) @ json_string k @ colon @ t) =
      (case read_value l (w @ t) of
         None \<Rightarrow> None
       | Some (j, u) \<Rightarrow>
           (case skip_ws u of
              [] \<Rightarrow> None
            | d # v \<Rightarrow>
                if d = CHR ''}'' then Some ([(valid_utf8 k, j)], v)
                else if d = CHR '','' then map_option (map_prod ((#) (valid_utf8 k, j)) id) (read_members l v)
                else None))" for t
    using read_escape [of k "colon @ t"] by (simp add: l(1) nl json_string_def w(1))
  show ?case
  proof (cases "ms = []")
    case True
    have "read_value l (w @ json_text nl colon j (Suc d) @ nl d @ CHR ''}'' # rest) =
        Some (valid_json j, nl d @ CHR ''}'' # rest)"
      by (rule reads_textD [OF j l(2) w(2)]) (simp add: ends_value_ws nl)
    with True kj show ?thesis by (simp add: key nl)
  next
    case False
    let ?tail = "Join (map (\<lambda>m. nl (Suc d) @ json_string (fst m) @ colon @ json_text nl colon (snd m) (Suc d)) ms) '',''
      @ nl d @ CHR ''}'' # rest"
    have join: "Join (map (\<lambda>m. nl (Suc d) @ json_string (fst m) @ colon @ json_text nl colon (snd m) (Suc d)) (m # ms)) '',''
        @ nl d @ CHR ''}'' # rest = nl (Suc d) @ json_string k @ colon @ json_text nl colon j (Suc d) @ CHR '','' # ?tail"
      using False kj by (cases ms) simp_all
    have "read_value l (w @ json_text nl colon j (Suc d) @ CHR '','' # ?tail) = Some (valid_json j, CHR '','' # ?tail)"
      by (rule reads_textD [OF j l(2) w(2)]) simp
    moreover have "read_members l ?tail = Some (map (\<lambda>m. (valid_utf8 (fst m), valid_json (snd m))) ms, rest)"
      using Cons.prems False l kj by (intro Cons.IH) auto
    ultimately show ?thesis unfolding join key by (simp add: kj)
  qed
qed simp

lemma reads_text_all:
  assumes nl: "\<And>d. list_all is_ws (nl d)" and w: "colon = '':'' @ w" "list_all is_ws w"
  shows "reads_text nl colon j"
proof (induction j)
  case (JArray js)
  have "read_value n (v @ json_text nl colon (JArray js) d @ rest) = Some (valid_json (JArray js), rest)"
    if n: "cost (JArray js) \<le> n" and v: "list_all is_ws v" for n d v rest
  proof (cases "js = []")
    case False
    obtain m where m: "n = Suc m" "sum_list (map Suc (map cost js)) \<le> m" using n by (cases n) auto
    let ?body = "Join (map (\<lambda>j. nl (Suc d) @ json_text nl colon j (Suc d)) js) '','' @ nl d @ CHR '']'' # rest"
    have "take 1 (skip_ws ?body) \<noteq> '']''"
    proof (cases js)
      case (Cons j js')
      obtain c t where "json_text nl colon j (Suc d) = c # t" "\<not> is_ws c" "c \<noteq> CHR '']''"
        using json_text_start [of nl colon j "Suc d"] by auto
      with Cons show ?thesis by (cases js') (simp_all add: nl)
    qed (use False in simp)
    moreover have "read_elems m ?body = Some (map valid_json js, rest)"
      using JArray False m by (intro read_elems_text nl) auto
    ultimately show ?thesis using False m(1) v by (simp add: comp_def)
  qed (use n v in \<open>cases n; simp\<close>)
  then show ?case by (simp add: reads_text_def del: json_text.simps)
next
  case (JObject ms)
  have "read_value n (v @ json_text nl colon (JObject ms) d @ rest) = Some (valid_json (JObject ms), rest)"
    if n: "cost (JObject ms) \<le> n" and v: "list_all is_ws v" for n d v rest
  proof (cases "ms = []")
    case False
    obtain m where m: "n = Suc m" "sum_list (map (\<lambda>m. Suc (cost (snd m))) ms) \<le> m"
      using n by (cases n) (auto simp: comp_def)
    let ?body = "Join (map (\<lambda>m. nl (Suc d) @ json_string (fst m) @ colon @ json_text nl colon (snd m) (Suc d)) ms) '',''
      @ nl d @ CHR ''}'' # rest"
    have "take 1 (skip_ws ?body) \<noteq> ''}''"
      using False by (cases ms; cases "tl ms") (simp_all add: nl json_string_def)
    moreover have "read_members m ?body = Some (map (\<lambda>m. (valid_utf8 (fst m), valid_json (snd m))) ms, rest)"
      using JObject False m by (intro read_members_text [OF nl w]) (auto intro: snds.intros)
    ultimately show ?thesis
      using False m(1) v by (simp add: comp_def case_prod_beta map_prod_def)
  qed (use n v in \<open>cases n; simp\<close>)
  then show ?case by (simp add: reads_text_def del: json_text.simps)
next
  case (JNum i)
  have "read_value (Suc n) (v @ format_int i @ rest) = Some (JNum i, rest)"
    if "list_all is_ws v" "ends_value rest" for n v rest
  proof -
    obtain c t where c: "format_int i = c # t" "is_digit c \<or> c = CHR ''-''" using format_int_start by blast
    then have "\<not> is_ws c" "c \<noteq> dquote" "c \<noteq> CHR ''[''" "c \<noteq> CHR ''{''" by (auto simp: is_ws_def is_digit_def)
    with c(1) that read_atom_format [OF that(2), of i] show ?thesis by simp
  qed
  then show ?case by (auto simp: reads_text_def Suc_le_eq gr0_conv_Suc)
next
  case (JString s)
  then show ?case using read_escape by (auto simp: reads_text_def json_string_def Suc_le_eq gr0_conv_Suc)
qed (auto simp: reads_text_def read_atom_def CutPrefix_def HasPrefix_def Suc_le_eq gr0_conv_Suc)

lemma parse_json_text:
  assumes "\<And>d. list_all is_ws (nl d)" "colon = '':'' @ w" "list_all is_ws w"
  shows "parse_json (json_text nl colon j d) = Some (valid_json j)"
proof -
  have "read_value (length (json_text nl colon j d)) ([] @ json_text nl colon j d @ []) = Some (valid_json j, [])"
    by (rule reads_textD [OF reads_text_all [OF assms] cost_le_length]) (simp_all add: ends_value_def)
  then show ?thesis by (simp add: parse_json_def)
qed

text \<open>Both forms of the text denote the value they were written for.\<close>

lemma parse_Marshal_json [simp]: "parse_json (Marshal_json j) = Some (valid_json j)"
  unfolding Marshal_json_def by (rule parse_json_text [where w = "[]"]) simp_all

lemma parse_MarshalIndent_json [simp]: "parse_json (MarshalIndent_json j) = Some (valid_json j)"
  unfolding MarshalIndent_json_def
  by (rule parse_json_text [where w = "'' ''"]) (simp_all add: is_ws_def list_all_iff)

text \<open>ASCII text needs no replacement.\<close>

definition ascii :: "string \<Rightarrow> bool" where
  "ascii s \<longleftrightarrow> list_all (\<lambda>c. byte c < 0x80) s"

lemma valid_utf8_ascii: "ascii s \<Longrightarrow> valid_utf8 s = s"
proof (induction s)
  case (Cons a s)
  then have "utf8_len (a # s) = Suc 0" by (simp add: utf8_len_one ascii_def)
  with Cons show ?case by (simp add: valid_utf8.simps(2) ascii_def)
qed simp

end
