(* ===== verification/Tcp_Json.thy ===== *)
theory Tcp_Json
  imports Tcp_Info Go_Json "HOL-Library.Char_ord" "HOL-Library.List_Lexorder"
begin

text \<open>
  \<open>json.Marshal\<close> and \<open>json.MarshalIndent\<close> on the values of the package: the maps
  \<open>ToMap\<close> builds (\<open>any_tree\<close>), and the struct \<open>Info\<close> by its field tags
  (\<open>Info_tree\<close>). Both first give the JSON tree of the value. The only encoding that can
  fail is that of an option, whose \<open>MarshalJSON\<close> writes a Go literal: an error is
  \<open>None\<close>, since no caller looks at it.

  \<open>map_ok\<close> is the well-formedness that makes a map encodable; the locale
  \<open>json_platform\<close> adds to the platform contract that it carries over from the platform's
  record to the \<open>Info\<close>. The text then reads back as the entries of the map.
\<close>

section \<open>Trees\<close>

text \<open>
  The text a \<open>MarshalJSON\<close> method returns is checked and compacted. An escape in it that
  JSON has also is the one the package itself writes, so the compacted text is that of the
  string it denotes.
\<close>

definition option_tree :: "TcpOption \<Rightarrow> json option" where
  "option_tree o' = parse_json (Option_MarshalJSON o')"

text \<open>The members of a map are sorted by key; one value that cannot be encoded fails all.\<close>

definition members :: "(string \<times> json option) list \<Rightarrow> json option" where
  "members ms = map_option JObject (those (map (\<lambda>(k, t). map_option (Pair k) t) ms))"

definition map_tree :: "(string \<Rightarrow> json option option) \<Rightarrow> json option" where
  "map_tree m = members (map (\<lambda>k. (k, the (m k))) (sorted_list_of_set (dom m)))"

primrec any_tree :: "any \<Rightarrow> json option" where
  "any_tree (AString s) = Some (JString s)"
| "any_tree (ABool b) = Some (JBool b)"
| "any_tree (AUint8 w) = Some (JNum (uint w))"
| "any_tree (AUint16 w) = Some (JNum (uint w))"
| "any_tree (AUint32 w) = Some (JNum (uint w))"
| "any_tree (AUint64 w) = Some (JNum (uint w))"
| "any_tree (AInt64 w) = Some (JNum (sint w))"
| "any_tree (AInt i) = Some (JNum i)"
| "any_tree (ADuration d) = Some (JNum (sint d))"
| "any_tree (AOptions os) =
     (case os of None \<Rightarrow> Some JNull | Some xs \<Rightarrow> map_option JArray (those (map option_tree xs)))"
| "any_tree (AStrings ss) = Some (if ss = [] then JNull else JArray (map JString ss))"
| "any_tree (AMap m) = map_tree (map_option any_tree \<circ> m)"

definition Marshal :: "any \<Rightarrow> string option" where
  "Marshal v = map_option Marshal_json (any_tree v)"

definition MarshalIndent :: "any \<Rightarrow> string option" where
  "MarshalIndent v = map_option MarshalIndent_json (any_tree v)"

section \<open>Structs\<close>

text \<open>
  The fields in the order of the declaration, those tagged \<open>omitempty\<close> left out when
  empty: a zero number, an empty string or slice, a nil pointer.
\<close>

definition struct_tree :: "(bool \<times> string \<times> json option) list \<Rightarrow> json option" where
  "struct_tree fs = members (map snd (filter fst fs))"

definition num_field :: "string \<Rightarrow> i64 \<Rightarrow> bool \<times> string \<times> json option" where
  "num_field name x = (x \<noteq> 0, name, Some (JNum (sint x)))"

definition unum_field :: "string \<Rightarrow> u64 \<Rightarrow> bool \<times> string \<times> json option" where
  "unum_field name x = (x \<noteq> 0, name, Some (JNum (uint x)))"

definition options_field :: "string \<Rightarrow> TcpOption slice \<Rightarrow> bool \<times> string \<times> json option" where
  "options_field name os = (elems os \<noteq> [], name, any_tree (AOptions os))"

text \<open>
  The platform record is encoded by its own \<open>MarshalJSON\<close>, the encoding of its map, which
  is compact already.
\<close>

definition Info_tree :: "('sys \<Rightarrow> go_map) \<Rightarrow> 'sys Info \<Rightarrow> json option" where
  "Info_tree sysToMap i = struct_tree
     [(info_State i \<noteq> [], ''state'', Some (JString (info_State i))),
      options_field ''txOptions'' (info_TxOptions i),
      options_field ''rxOptions'' (info_RxOptions i),
      unum_field ''txMSS'' (info_TxMSS i),
      unum_field ''rxMSS'' (info_RxMSS i),
      num_field ''rtt'' (info_RTT i),
      num_field ''rttVar'' (info_RTTVar i),
      num_field ''rto'' (info_RTO i),
      num_field ''ato'' (info_ATO i),
      num_field ''lastTxAt'' (info_LastTxAt i),
      num_field ''lastRxAt'' (info_LastRxAt i),
      num_field ''lastTxAckAt'' (info_LastTxAckAt i),
      num_field ''lastRxAckAt'' (info_LastRxAckAt i),
      unum_field ''rxWindow'' (info_RxWindow i),
      unum_field ''txSSThreshold'' (info_TxSSThreshold i),
      unum_field ''rxSSThreshold'' (info_RxSSThreshold i),
      unum_field ''txCWindowBytes'' (info_TxWindowBytes i),
      unum_field ''txCWindowSegs'' (info_TxWindowSegs i),
      unum_field ''retransmits'' (info_Retransmits i),
      (info_Sys i \<noteq> None, ''sysInfo'', any_tree (AMap (sysToMap (the (info_Sys i)))))]"

section \<open>Encoding options\<close>

text \<open>Characters that neither \<open>strconv.Quote\<close> nor \<open>encoding/json\<close> escapes.\<close>

definition json_plain :: "char \<Rightarrow> bool" where
  "json_plain c \<longleftrightarrow> plain_char c \<and> c \<notin> {CHR ''<'', CHR ''>'', CHR ''&''}"

definition option_ok :: "TcpOption \<Rightarrow> bool" where
  "option_ok o' \<longleftrightarrow> list_all json_plain (Kind o')"

lemma escape_ascii_plain: "json_plain c \<Longrightarrow> escape_ascii c = [c]"
proof -
  assume "json_plain c"
  then have c: "32 \<le> byte c" "c \<noteq> dquote" "c \<noteq> backslash" "c \<noteq> CHR ''<''" "c \<noteq> CHR ''>''" "c \<noteq> CHR ''&''"
    by (simp_all add: json_plain_def plain_char_def)
  have "c \<noteq> CHR 0x08" "c \<noteq> CHR 0x0C" "c \<noteq> CHR 0x0A" "c \<noteq> CHR 0x0D" "c \<noteq> CHR 0x09"
    using c(1) by (rule contrapos_pn; simp)+
  with c show ?thesis by (simp add: escape_ascii_def)
qed

lemma escape_plain: "list_all json_plain s \<Longrightarrow> escape s = s"
proof (induction s)
  case (Cons c s)
  then have c: "json_plain c" "escape s = s" by simp_all
  then have "utf8_len (c # s) = Suc 0" by (simp add: utf8_len_one json_plain_def plain_char_def)
  with c show ?case by (simp add: escape.simps(2) escape_ascii_plain)
qed simp

lemma ascii_plain: "list_all json_plain s \<Longrightarrow> ascii s"
  by (induction s) (simp_all add: ascii_def json_plain_def plain_char_def)

lemma json_plain_digit_char: "d < 16 \<Longrightarrow> json_plain (digit_char d)"
proof -
  assume d: "d < 16"
  then have "of_char (digit_char d) = (if d < 10 then 48 + d else 87 + d :: nat)"
    by (simp add: digit_char_def)
  then have "byte (digit_char d) \<noteq> 38" "byte (digit_char d) \<noteq> 60" "byte (digit_char d) \<noteq> 62"
    using d by (simp_all split: if_splits)
  then have "digit_char d \<noteq> CHR ''&''" "digit_char d \<noteq> CHR ''<''" "digit_char d \<noteq> CHR ''>''"
    by (auto simp del: of_char_eq_iff)
  with plain_digit_char [OF d] show ?thesis by (simp only: json_plain_def insert_iff empty_iff simp_thms)
qed

lemma hex2_json_plain: "list_all json_plain (format_hex2 v)"
proof -
  have "list_all json_plain (format_base 16 n)" for n
  proof (induction "16::nat" n rule: format_base.induct)
    case (1 n)
    then show ?case by (subst format_base.simps) (simp add: json_plain_digit_char)
  qed
  then show ?thesis by (simp add: format_hex2_def Let_def json_plain_def plain_char_def)
qed

lemma option_tree_ok:
  assumes "option_ok o'"
  shows "option_tree o' = Some (JString (Option_String o'))"
proof -
  have plain: "list_all json_plain (Option_String o')"
    using assms hex2_json_plain [of "Value o'"]
    by (auto simp: option_ok_def Option_String_def json_plain_def plain_char_def)
  have "Option_MarshalJSON o' = Marshal_json (JString (Option_String o'))"
    using plain quote_plain [of "Option_String o'"]
    by (simp add: Option_MarshalJSON_def Marshal_json_def json_string_def escape_plain list_all_iff json_plain_def)
  then show ?thesis
    by (simp add: option_tree_def valid_utf8_ascii ascii_plain plain)
qed

section \<open>Encodable maps\<close>

primrec any_ok :: "any \<Rightarrow> bool" where
  "any_ok (AString s) = True"
| "any_ok (ABool b) = True"
| "any_ok (AUint8 w) = True"
| "any_ok (AUint16 w) = True"
| "any_ok (AUint32 w) = True"
| "any_ok (AUint64 w) = True"
| "any_ok (AInt64 w) = True"
| "any_ok (AInt i) = True"
| "any_ok (ADuration d) = True"
| "any_ok (AOptions os) = list_all option_ok (elems os)"
| "any_ok (AStrings ss) = True"
| "any_ok (AMap m) = (finite (dom m) \<and> (\<forall>k \<in> dom m. ascii k) \<and>
     (\<forall>k. pred_option id ((map_option any_ok \<circ> m) k)))"

abbreviation map_ok :: "go_map \<Rightarrow> bool" where "map_ok m \<equiv> any_ok (AMap m)"

lemma map_ok_iff:
  "map_ok m \<longleftrightarrow> finite (dom m) \<and> (\<forall>k v. m k = Some v \<longrightarrow> ascii k \<and> any_ok v)"
  by (auto simp: pred_option_def)

lemma map_ok_empty [simp]: "map_ok Map.empty"
  by simp

declare any_ok.simps(12) [simp del]

lemma map_ok_upd [simp]: "map_ok m \<Longrightarrow> ascii k \<Longrightarrow> any_ok v \<Longrightarrow> map_ok (m(k \<mapsto> v))"
  by (simp add: map_ok_iff)

lemma map_okD: "map_ok m \<Longrightarrow> m k = Some v \<Longrightarrow> any_ok v"
  by (simp only: map_ok_iff)

lemma map_ok_fold:
  assumes "list_all (\<lambda>(b, k, v). ascii k \<and> (b \<longrightarrow> any_ok v)) es" "map_ok m"
  shows "map_ok (fold put_if es m)"
  using assms
proof (induction es arbitrary: m)
  case (Cons e es)
  obtain b k v where "e = (b, k, v)" by (cases e)
  with Cons show ?case by (simp add: put_if_def)
qed simp

lemma those_Some_iff: "those xs = Some ys \<longleftrightarrow> xs = map Some ys"
proof (induction xs arbitrary: ys)
  case (Cons x xs)
  then show ?case by (cases x; cases ys) auto
qed auto

lemma those_map_Some [simp]: "those (map (\<lambda>x. Some (f x)) xs) = Some (map f xs)"
  by (simp add: those_Some_iff)

lemma members_Some:
  assumes "list_all (\<lambda>(k, t). t \<noteq> None) ms"
  shows "members ms = Some (JObject (map (\<lambda>(k, t). (k, the t)) ms))"
proof -
  have "map (\<lambda>(k, t). map_option (Pair k) t) ms = map Some (map (\<lambda>(k, t). (k, the t)) ms)"
    using assms by (auto simp: list_all_iff)
  from iffD2 [OF those_Some_iff this] show ?thesis by (simp add: members_def)
qed

lemma options_tree:
  assumes "list_all option_ok xs"
  shows "those (map option_tree xs) = Some (map (\<lambda>o'. JString (Option_String o')) xs)"
  by (rule iffD2 [OF those_Some_iff]) (use assms in \<open>simp add: option_tree_ok list_all_iff\<close>)

text \<open>The sorted list of the entries that the encoding of a map writes.\<close>

definition tree_entries :: "go_map \<Rightarrow> (string \<times> json) list" where
  "tree_entries m = map (\<lambda>k. (k, the (any_tree (the (m k))))) (sorted_list_of_set (dom m))"

lemma map_tree_entries:
  assumes "finite (dom m)" "\<And>k v. m k = Some v \<Longrightarrow> any_tree v \<noteq> None"
  shows "any_tree (AMap m) = Some (JObject (tree_entries m))"
proof -
  let ?es = "map (\<lambda>k. (k, the ((map_option any_tree \<circ> m) k))) (sorted_list_of_set (dom m))"
  have ok: "list_all (\<lambda>(k, t). t \<noteq> None) ?es"
  proof (unfold list_all_iff, intro ballI)
    fix e assume "e \<in> set ?es"
    then obtain k v where "m k = Some v" "e = (k, any_tree v)" using assms(1) by force
    with assms(2) show "case e of (k, t) \<Rightarrow> t \<noteq> None" by simp
  qed
  have "map (\<lambda>(k, t). (k, the t)) ?es = tree_entries m"
    using assms(1) by (simp add: tree_entries_def domIff option.map_sel)
  with members_Some [OF ok] have "members ?es = Some (JObject (tree_entries m))" by (simp only:)
  moreover have "dom (map_option any_tree \<circ> m) = dom m" by (simp add: dom_map_option_comp)
  ultimately show ?thesis unfolding any_tree.simps map_tree_def by (simp only:)
qed

lemma any_tree_ok: "any_ok v \<Longrightarrow> any_tree v \<noteq> None"
proof (induction v)
  case (AOptions os)
  then show ?case by (cases os) (simp_all add: options_tree)
next
  case (AMap m)
  have "any_tree v \<noteq> None" if "m k = Some v" for k v
  proof (rule AMap.IH)
    show "m k \<in> range m" by (rule rangeI)
    show "v \<in> set_option (m k)" using that by simp
    show "any_ok v" using that AMap.prems by (simp only: map_ok_iff)
  qed
  moreover have "finite (dom m)" using AMap.prems by (simp only: map_ok_iff)
  ultimately show ?case using map_tree_entries [of m] by blast
qed simp_all

section \<open>Reading back\<close>

text \<open>What a reader of the text finds for a value.\<close>

definition denoted :: "any \<Rightarrow> json" where
  "denoted v = valid_json (the (any_tree v))"

text \<open>The text is an object with the keys of the map in order, each with its value.\<close>

definition reads_as :: "string \<Rightarrow> go_map \<Rightarrow> bool" where
  "reads_as txt m \<longleftrightarrow> (\<exists>ms. parse_json txt = Some (JObject ms) \<and>
     map fst ms = sorted_list_of_set (dom m) \<and> (\<forall>k. map_of ms k = map_option denoted (m k)))"

lemma map_of_keys:
  "distinct ks \<Longrightarrow> map_of (map (\<lambda>k. (k, f k)) ks) k = (if k \<in> set ks then Some (f k) else None)"
  by (induction ks) auto

lemma denoted_map:
  assumes "map_ok m"
  shows "denoted (AMap m) = JObject (map (\<lambda>k. (k, denoted (the (m k)))) (sorted_list_of_set (dom m)))"
proof -
  have fin: "finite (dom m)" using assms by (simp only: map_ok_iff)
  have "valid_utf8 k = k" if "k \<in> dom m" for k
    using that assms by (auto simp only: map_ok_iff dom_def intro: valid_utf8_ascii)
  moreover have "any_tree (AMap m) = Some (JObject (tree_entries m))"
  proof (rule map_tree_entries [OF fin])
    fix k v
    assume "m k = Some v"
    with assms have "any_ok v" by (simp only: map_ok_iff)
    then show "any_tree v \<noteq> None" by (rule any_tree_ok)
  qed
  ultimately show ?thesis
    using fin by (simp add: denoted_def tree_entries_def domIff)
qed

lemma reads_as_denoted:
  assumes "map_ok m" "parse_json txt = Some (denoted (AMap m))"
  shows "reads_as txt m"
proof -
  have fin: "finite (dom m)" using assms(1) by (simp only: map_ok_iff)
  have "map_of (map (\<lambda>k. (k, denoted (the (m k)))) (sorted_list_of_set (dom m))) k = map_option denoted (m k)" for k
    using fin by (cases "m k") (auto simp: map_of_keys)
  moreover have "map fst (map (\<lambda>k. (k, denoted (the (m k)))) (sorted_list_of_set (dom m))) =
      sorted_list_of_set (dom m)" by (simp add: comp_def)
  ultimately show ?thesis
    using assms unfolding reads_as_def denoted_map [OF assms(1)] by blast
qed

lemma Marshal_Some: "any_ok v \<Longrightarrow> \<exists>txt. Marshal v = Some txt \<and> parse_json txt = Some (denoted v)"
  using any_tree_ok [of v] by (auto simp: Marshal_def denoted_def)

lemma MarshalIndent_Some:
  "any_ok v \<Longrightarrow> \<exists>txt. MarshalIndent v = Some txt \<and> parse_json txt = Some (denoted v)"
  using any_tree_ok [of v] by (auto simp: MarshalIndent_def denoted_def)

lemma Marshal_map_reads: "map_ok m \<Longrightarrow> \<exists>txt. Marshal (AMap m) = Some txt \<and> reads_as txt m"
  using Marshal_Some [of "AMap m"] reads_as_denoted [of m] by blast

lemma MarshalIndent_map_reads: "map_ok m \<Longrightarrow> \<exists>txt. MarshalIndent (AMap m) = Some txt \<and> reads_as txt m"
  using MarshalIndent_Some [of "AMap m"] reads_as_denoted [of m] by blast

lemma denoted_simps [simp]:
  "denoted (AString s) = JString (valid_utf8 s)"
  "denoted (ABool b) = JBool b"
  "denoted (AUint8 x8) = JNum (uint x8)"
  "denoted (AUint16 x16) = JNum (uint x16)"
  "denoted (AUint32 x32) = JNum (uint x32)"
  "denoted (AUint64 x64) = JNum (uint x64)"
  "denoted (AInt64 d) = JNum (sint d)"
  "denoted (AInt i) = JNum i"
  "denoted (ADuration d) = JNum (sint d)"
  by (simp_all add: denoted_def)

section \<open>The struct and the map\<close>

fun empty_value :: "any \<Rightarrow> bool" where
  "empty_value (AString s) = (s = [])"
| "empty_value (AUint64 x) = (x = 0)"
| "empty_value (ADuration d) = (d = 0)"
| "empty_value (AOptions os) = (elems os = [])"
| "empty_value v = False"

definition Info_values :: "'sys Info \<Rightarrow> (string \<times> any) list" where
  "Info_values i =
     [(''state'', AString (info_State i)),
      (''txOptions'', AOptions (info_TxOptions i)),
      (''rxOptions'', AOptions (info_RxOptions i)),
      (''txMSS'', AUint64 (info_TxMSS i)),
      (''rxMSS'', AUint64 (info_RxMSS i)),
      (''rtt'', ADuration (info_RTT i)),
      (''rttVar'', ADuration (info_RTTVar i)),
      (''rto'', ADuration (info_RTO i)),
      (''ato'', ADuration (info_ATO i)),
      (''lastTxAt'', ADuration (info_LastTxAt i)),
      (''lastRxAt'', ADuration (info_LastRxAt i)),
      (''lastTxAckAt'', ADuration (info_LastTxAckAt i)),
      (''lastRxAckAt'', ADuration (info_LastRxAckAt i)),
      (''rxWindow'', AUint64 (info_RxWindow i)),
      (''txSSThreshold'', AUint64 (info_TxSSThreshold i)),
      (''rxSSThreshold'', AUint64 (info_RxSSThreshold i)),
      (''txCWindowBytes'', AUint64 (info_TxWindowBytes i)),
      (''txCWindowSegs'', AUint64 (info_TxWindowSegs i)),
      (''retransmits'', AUint64 (info_Retransmits i))]"

definition Info_entries :: "('sys \<Rightarrow> go_map) \<Rightarrow> 'sys Info \<Rightarrow> (string \<times> any) list" where
  "Info_entries sysToMap i = Info_values i @
     (case info_Sys i of None \<Rightarrow> [] | Some t \<Rightarrow> [(''sysInfo'', AMap (sysToMap t))])"

lemma Info_entries_distinct: "distinct (map fst (Info_entries sysToMap i))"
  by (simp add: Info_entries_def Info_values_def split: option.split)

lemma map_of_rev_distinct: "distinct (map fst es) \<Longrightarrow> map_of (rev es) = map_of es"
  using map_of_inject_set [of "rev es" es] by (simp add: rev_map [symmetric])

lemma Info_ToMap_entries: "Info_ToMap sysToMap i = map_of (Info_entries sysToMap i)"
proof -
  have "Info_ToMap sysToMap i = map_of (rev (Info_entries sysToMap i))"
    by (cases "info_Sys i") (simp_all add: Info_ToMap_def Info_entries_def Info_values_def)
  then show ?thesis by (simp add: map_of_rev_distinct Info_entries_distinct)
qed

lemma Info_tree_entries:
  "Info_tree sysToMap i =
     members (map (\<lambda>(k, v). (k, any_tree v)) (filter (\<lambda>(k, v). \<not> empty_value v) (Info_entries sysToMap i)))"
proof -
  let ?fs = "\<lambda>es. map (\<lambda>(k, v). (\<not> empty_value v, k, any_tree v)) es"
  have "Info_tree sysToMap i = struct_tree (?fs (Info_values i) @
      [(info_Sys i \<noteq> None, ''sysInfo'', any_tree (AMap (sysToMap (the (info_Sys i)))))])"
    unfolding Info_tree_def Info_values_def num_field_def unum_field_def options_field_def by simp
  also have "\<dots> = struct_tree (?fs (Info_entries sysToMap i))"
    by (cases "info_Sys i") (simp_all add: struct_tree_def Info_entries_def)
  finally show ?thesis by (simp add: struct_tree_def filter_map comp_def case_prod_unfold)
qed

lemma map_of_encoded:
  assumes "distinct (map fst es)"
  shows "map_of (map (\<lambda>(k, v). (k, f v)) (filter (\<lambda>(k, v). p v) es)) k =
    (case map_of es k of None \<Rightarrow> None | Some v \<Rightarrow> if p v then Some (f v) else None)"
  using assms
proof (induction es)
  case (Cons e es)
  obtain k' v where e: "e = (k', v)" by (cases e)
  show ?case
  proof (cases "k = k'")
    case True
    with Cons.prems e have "map_of es k = None" by (simp add: map_of_eq_None_iff)
    with True Cons e show ?thesis by simp
  next
    case False
    with Cons e show ?thesis by simp
  qed
qed simp

lemma Info_tree_encodes:
  assumes "map_ok (Info_ToMap sysToMap i)"
  shows "\<exists>ms. Info_tree sysToMap i = Some (JObject ms) \<and>
    (\<forall>k. map_of ms k = (case Info_ToMap sysToMap i k of
       None \<Rightarrow> None | Some v \<Rightarrow> if empty_value v then None else any_tree v))"
proof -
  let ?es = "Info_entries sysToMap i"
  let ?ms = "map (\<lambda>(k, v). (k, the (any_tree v))) (filter (\<lambda>(k, v). \<not> empty_value v) ?es)"
  have tree: "any_tree v \<noteq> None" if "(k, v) \<in> set ?es" for k v
  proof -
    have "map_of ?es k = Some v" using that by (rule iffD2 [OF map_of_eq_Some_iff [OF Info_entries_distinct]])
    then have "any_ok v" using assms by (simp only: map_ok_iff Info_ToMap_entries)
    then show ?thesis by (rule any_tree_ok)
  qed
  then have "list_all (\<lambda>(k, t). t \<noteq> None)
      (map (\<lambda>(k, v). (k, any_tree v)) (filter (\<lambda>(k, v). \<not> empty_value v) ?es))"
    by (auto simp: list_all_iff)
  from members_Some [OF this] have "Info_tree sysToMap i = Some (JObject ?ms)"
    by (simp add: Info_tree_entries comp_def case_prod_beta)
  moreover have "map_of ?ms k = (case map_of ?es k of
      None \<Rightarrow> None | Some v \<Rightarrow> if empty_value v then None else any_tree v)" for k
    using tree [of k] unfolding map_of_encoded [OF Info_entries_distinct]
    by (cases "map_of ?es k") (auto dest: map_of_SomeD)
  ultimately show ?thesis unfolding Info_ToMap_entries by blast
qed

text \<open>
  C36. The field tags of the struct and the keys of \<open>ToMap\<close> agree: the struct encodes to the
  entries of the map, with those left out that are empty.
\<close>

theorem Info_tree_map:
  assumes "map_ok (Info_ToMap sysToMap i)"
  shows "\<exists>ms. Info_tree sysToMap i = Some (JObject ms) \<and>
    (\<forall>k. map_of ms k = (case Info_ToMap sysToMap i k of
       None \<Rightarrow> None | Some v \<Rightarrow> if empty_value v then None else any_tree v))"
  using assms by (rule Info_tree_encodes)

theorem Info_tree_map_witness:
  "\<exists>ms. Info_tree (\<lambda>_ :: unit. Map.empty) (zero_Info\<lparr>info_RTT := 5\<rparr>) = Some (JObject ms) \<and>
    map_of ms ''rtt'' = Some (JNum 5) \<and> map_of ms ''rto'' = None"
proof -
  let ?i = "zero_Info\<lparr>info_RTT := 5\<rparr> :: unit Info"
  have "map_ok (Info_ToMap (\<lambda>_. Map.empty) ?i)"
    by (simp add: map_ok_iff Info_ToMap_entries Info_entries_def Info_values_def zero_Info_def ascii_def)
  from Info_tree_map [OF this] obtain ms where ms: "Info_tree (\<lambda>_. Map.empty) ?i = Some (JObject ms)"
    "\<And>k. map_of ms k = (case Info_ToMap (\<lambda>_. Map.empty) ?i k of
       None \<Rightarrow> None | Some v \<Rightarrow> if empty_value v then None else any_tree v)" by blast
  have "map_of ms ''rtt'' = Some (JNum 5)" "map_of ms ''rto'' = None"
    by (simp_all add: ms(2) Info_ToMap_entries Info_entries_def Info_values_def zero_Info_def)
  with ms(1) show ?thesis by blast
qed

section \<open>The platform contract\<close>

lemma Info_ToMap_ok:
  assumes "list_all option_ok (elems (info_TxOptions i))" "list_all option_ok (elems (info_RxOptions i))"
    and "\<And>t. info_Sys i = Some t \<Longrightarrow> map_ok (sysToMap t)"
  shows "map_ok (Info_ToMap sysToMap i)"
  using assms by (auto simp: Info_ToMap_def Let_def ascii_def split: option.split)

text \<open>What can be encoded in the platform's record can be encoded in the \<open>Info\<close> built from it.\<close>

locale json_platform = tcp_platform +
  assumes ToInfo_ok: "map_ok (SysToMap P s) \<Longrightarrow> map_ok (Info_ToMap (SysToMap P) (ToInfo P s))"

end
