(* ===== verification/Conn.thy ===== *)
theory Conn
  imports Tcp_Json
begin

text \<open>
  \<open>wrap.go\<close>: the wrapper \<open>Conn\<close> around a \<open>net.Conn\<close>, one definition per
  method.

  The embedded \<open>sync.Mutex\<close> is the field \<open>locked\<close>: locking a locked mutex blocks
  the only goroutine of this sequential model (\<open>Deadlock\<close>), unlocking an unlocked one is
  a fatal error (\<open>Panic\<close>). The report callback cannot be a field, because its type
  mentions the record; it is an argument of the operations that call it, \<open>None\<close> for a
  nil function, and it may change the connection and an environment of its own. The answers
  of the wrapped connection and of the clock are arguments too.
\<close>

section \<open>State\<close>

abbreviation Opened :: int where "Opened \<equiv> 0"
abbreviation Closed :: int where "Closed \<equiv> 1"

definition StateMap :: "int \<Rightarrow> string option" where
  "StateMap = [Opened \<mapsto> ''open'', Closed \<mapsto> ''close'']"

text \<open>
  What the wrapper sees of the embedded \<open>net.Conn\<close>: whether it is a
  \<open>*net.TCPConn\<close>, the text of its addresses (\<open>None\<close> for a nil address), and
  whether it has been closed.
\<close>

record net_conn =
  is_TCPConn :: bool
  LocalAddr :: "string option"
  RemoteAddr :: "string option"
  nc_closed :: bool

text \<open>A stored \<open>context.Context\<close> is only kept, never called: a number identifies it.\<close>

record 'sys Conn =
  inner :: net_conn
  Context :: nat
  OpenedAt :: i64
  ClosedAt :: i64
  FirstRxAt :: i64
  FirstTxAt :: i64
  LastRxAt :: i64
  LastTxAt :: i64
  TxBytes :: i64
  RxBytes :: i64
  RxErr :: "error option"
  TxErr :: "error option"
  InfoErr :: "error option"
  Reconnects :: int
  OpenedInfo :: "'sys Info option"
  ClosedInfo :: "'sys Info option"
  supportsTCPInfo :: bool
  locked :: bool

type_synonym ('sys, 'e) report = "int \<Rightarrow> 'sys Conn \<Rightarrow> 'e \<Rightarrow> ('sys Conn \<times> 'e) outcome"

definition Lock :: "'sys Conn \<Rightarrow> 'sys Conn outcome" where
  "Lock w = (if locked w then Deadlock else Ret (w\<lparr>locked := True\<rparr>))"

definition Unlock :: "'sys Conn \<Rightarrow> 'sys Conn outcome" where
  "Unlock w = (if locked w then Ret (w\<lparr>locked := False\<rparr>) else Panic)"

section \<open>Gathering and reporting\<close>

text \<open>
  The answers to \<open>SyscallConn\<close> and to \<open>Control\<close>: the error of each, and the
  descriptor \<open>Control\<close> calls the closure with, \<open>None\<close> when it does not call it.
\<close>

record net_env =
  SyscallConn :: "error option"
  Control :: "error option \<times> nat option"

definition gather ::
    "'sys platform \<Rightarrow> (nat \<Rightarrow> 'sys option \<times> error option) \<Rightarrow> net_env \<Rightarrow> int \<Rightarrow> 'sys Conn \<Rightarrow>
     'sys Conn outcome" where
  "gather P GetTCPInfo env state w =
    (if \<not> supportsTCPInfo w \<or> InfoErr w \<noteq> None then Ret w
     else if \<not> is_TCPConn (inner w) then Ret w
     else if SyscallConn env \<noteq> None then Ret w
     else
       (let err = fst (Control env);
            (sysInfo, tcpErr) =
              (case snd (Control env) of None \<Rightarrow> (None, None) | Some fd \<Rightarrow> GetTCPInfo fd)
        in bind_outcome (Lock w) (\<lambda>w.
           Unlock
             (if err \<noteq> None then w\<lparr>InfoErr := err\<rparr>
              else if tcpErr \<noteq> None then w\<lparr>InfoErr := tcpErr\<rparr>
              else case sysInfo of
                None \<Rightarrow> w
              | Some s \<Rightarrow>
                  if state = Opened then w\<lparr>OpenedInfo := Some (ToInfo P s)\<rparr>
                  else w\<lparr>ClosedInfo := Some (ToInfo P s)\<rparr>))))"

text \<open>
  The report is deferred before anything is gathered and the unlock after it, so that the
  mutex is released before the report runs.
\<close>

definition gatherAndReport ::
    "'sys platform \<Rightarrow> (nat \<Rightarrow> 'sys option \<times> error option) \<Rightarrow> net_env \<Rightarrow> ('sys, 'e) report option \<Rightarrow>
     int \<Rightarrow> 'sys Conn \<Rightarrow> 'e \<Rightarrow> ('sys Conn \<times> 'e) outcome" where
  "gatherAndReport P GetTCPInfo env reportStats state w e =
    (case reportStats of
       None \<Rightarrow> Ret (w, e)
     | Some report \<Rightarrow>
         if state \<noteq> Opened \<and> state \<noteq> Closed then Ret (w, e)
         else if state = Opened \<and> OpenedInfo w \<noteq> None then Ret (w, e)
         else if state = Closed \<and> ClosedInfo w \<noteq> None then Ret (w, e)
         else bind_outcome (gather P GetTCPInfo env state w) (\<lambda>w. report state w e))"

definition new_Conn :: "'sys platform \<Rightarrow> i64 \<Rightarrow> nat \<Rightarrow> net_conn \<Rightarrow> 'sys Conn" where
  "new_Conn P now ctx ncon =
    \<lparr>inner = ncon, Context = ctx, OpenedAt = now, ClosedAt = 0, FirstRxAt = 0,
     FirstTxAt = 0, LastRxAt = 0, LastTxAt = 0, TxBytes = 0, RxBytes = 0,
     RxErr = None, TxErr = None, InfoErr = None, Reconnects = 0, OpenedInfo = None,
     ClosedInfo = None, supportsTCPInfo = Supported P, locked = False\<rparr>"

definition WrapConnWithContext ::
    "'sys platform \<Rightarrow> (nat \<Rightarrow> 'sys option \<times> error option) \<Rightarrow> net_env \<Rightarrow> i64 \<Rightarrow> nat \<Rightarrow> net_conn \<Rightarrow>
     ('sys, 'e) report option \<Rightarrow> 'e \<Rightarrow> ('sys Conn \<times> 'e) outcome" where
  "WrapConnWithContext P GetTCPInfo env now ctx ncon reportStatsFn e =
     gatherAndReport P GetTCPInfo env reportStatsFn Opened (new_Conn P now ctx ncon) e"

text \<open>\<open>context.Background()\<close> is the context numbered 0.\<close>

definition WrapConn ::
    "'sys platform \<Rightarrow> (nat \<Rightarrow> 'sys option \<times> error option) \<Rightarrow> net_env \<Rightarrow> i64 \<Rightarrow> net_conn \<Rightarrow>
     ('sys, 'e) report option \<Rightarrow> 'e \<Rightarrow> ('sys Conn \<times> 'e) outcome" where
  "WrapConn P GetTCPInfo env now ncon reportStatsFn e =
     WrapConnWithContext P GetTCPInfo env now 0 ncon reportStatsFn e"

section \<open>Operations of the wrapped connection\<close>

definition SetReconnects :: "int \<Rightarrow> 'sys Conn \<Rightarrow> 'sys Conn outcome" where
  "SetReconnects reconnects w =
     bind_outcome (Lock w) (\<lambda>w. Unlock (w\<lparr>Reconnects := reconnects\<rparr>))"

text \<open>\<open>closeErr\<close> is what closing the wrapped connection returns.\<close>

definition Close ::
    "'sys platform \<Rightarrow> (nat \<Rightarrow> 'sys option \<times> error option) \<Rightarrow> net_env \<Rightarrow> ('sys, 'e) report option \<Rightarrow>
     i64 \<Rightarrow> error option \<Rightarrow> 'sys Conn \<Rightarrow> 'e \<Rightarrow> (error option \<times> 'sys Conn \<times> 'e) outcome" where
  "Close P GetTCPInfo env reportStats now closeErr w e =
     bind_outcome (Lock w) (\<lambda>w.
     bind_outcome (Unlock (w\<lparr>ClosedAt := now\<rparr>)) (\<lambda>w.
     bind_outcome (gatherAndReport P GetTCPInfo env reportStats Closed w e) (\<lambda>(w, e).
     Ret (closeErr, w\<lparr>inner := (inner w)\<lparr>nc_closed := True\<rparr>\<rparr>, e))))"

text \<open>
  \<open>r\<close> is the result \<open>(n, err)\<close> of the wrapped connection's call, \<open>ts\<close> what
  \<open>time.Now().UnixNano()\<close> returns if it is asked.
\<close>

definition Read :: "int \<times> error option \<Rightarrow> i64 \<Rightarrow> 'sys Conn \<Rightarrow> ((int \<times> error option) \<times> 'sys Conn) outcome" where
  "Read r ts w =
    (case r of (n, err) \<Rightarrow>
     bind_outcome (Lock w) (\<lambda>w.
       let w = (if err = None \<and> n > 0 then
                  if FirstRxAt w = 0 then w\<lparr>FirstRxAt := ts, LastRxAt := ts\<rparr>
                  else w\<lparr>LastRxAt := ts\<rparr>
                else w);
           w = w\<lparr>RxBytes := RxBytes w + word_of_int n\<rparr>;
           w = (case err of
                  Some e \<Rightarrow> if is_net_error e \<and> \<not> Timeout e then w\<lparr>RxErr := Some e\<rparr> else w
                | None \<Rightarrow> w)
       in bind_outcome (Unlock w) (\<lambda>w. Ret ((n, err), w))))"

definition Write :: "int \<times> error option \<Rightarrow> i64 \<Rightarrow> 'sys Conn \<Rightarrow> ((int \<times> error option) \<times> 'sys Conn) outcome" where
  "Write r ts w =
    (case r of (n, err) \<Rightarrow>
     bind_outcome (Lock w) (\<lambda>w.
       let w = (if err = None \<and> n > 0 then
                  if FirstTxAt w = 0 then w\<lparr>FirstTxAt := ts, LastTxAt := ts\<rparr>
                  else w\<lparr>LastTxAt := ts\<rparr>
                else w);
           w = w\<lparr>TxBytes := TxBytes w + word_of_int n\<rparr>;
           w = w\<lparr>TxErr := err\<rparr>;
           w = (case err of
                  Some e \<Rightarrow> if is_net_error e \<and> \<not> Timeout e then w\<lparr>TxErr := Some e\<rparr> else w
                | None \<Rightarrow> w)
       in bind_outcome (Unlock w) (\<lambda>w. Ret ((n, err), w))))"

section \<open>Warnings and the map\<close>

text \<open>The loop over \<open>OpenedInfo\<close> and \<open>ClosedInfo\<close>; \<open>None\<close> is a nil dereference.\<close>

fun info_warnings :: "'sys platform \<Rightarrow> 'sys Info option list \<Rightarrow> string list \<Rightarrow> string list option" where
  "info_warnings P [] warns = Some warns"
| "info_warnings P (None # infos) warns = info_warnings P infos warns"
| "info_warnings P (Some info # infos) warns =
     (let warns = (if info_Retransmits info > 0
                   then warns @ [''retransmits='' @ format_int (sint (info_Retransmits info))]
                   else warns)
      in case SysWarnings P (info_Sys info) of
           None \<Rightarrow> None
         | Some ws \<Rightarrow> info_warnings P infos (warns @ ws))"

definition warnings :: "'sys platform \<Rightarrow> 'sys Conn \<Rightarrow> string list option" where
  "warnings P w =
     info_warnings P [OpenedInfo w, ClosedInfo w]
       (if Reconnects w > 0 then [''reconnects='' @ format_int (Reconnects w)] else [])"

definition Warnings :: "'sys platform \<Rightarrow> 'sys Conn \<Rightarrow> (string list \<times> 'sys Conn) outcome" where
  "Warnings P w =
     bind_outcome (Lock w) (\<lambda>w.
       case warnings P w of
         None \<Rightarrow> Panic
       | Some ws \<Rightarrow> bind_outcome (Unlock w) (\<lambda>w. Ret (ws, w)))"

definition Conn_literal :: "string \<Rightarrow> string \<Rightarrow> string list \<Rightarrow> 'sys Conn \<Rightarrow> go_map" where
  "Conn_literal local remote ws w =
    [''openedAt'' \<mapsto> AInt64 (OpenedAt w),
     ''closedAt'' \<mapsto> AInt64 (ClosedAt w),
     ''firstRxAt'' \<mapsto> AInt64 (FirstRxAt w),
     ''firstTxAt'' \<mapsto> AInt64 (FirstTxAt w),
     ''lastRxAt'' \<mapsto> AInt64 (LastRxAt w),
     ''lastTxAt'' \<mapsto> AInt64 (LastTxAt w),
     ''txBytes'' \<mapsto> AInt64 (TxBytes w),
     ''rxBytes'' \<mapsto> AInt64 (RxBytes w),
     ''reconnects'' \<mapsto> AInt (Reconnects w),
     ''localAddr'' \<mapsto> AString local,
     ''remoteAddr'' \<mapsto> AString remote,
     ''warnings'' \<mapsto> AStrings ws]"

definition Conn_optional :: "'sys platform \<Rightarrow> 'sys Conn \<Rightarrow> (bool \<times> string \<times> any) list" where
  "Conn_optional P w =
    [(RxErr w \<noteq> None, ''rxErr'', AString (Error (the (RxErr w)))),
     (RxErr w \<noteq> None, ''rxErr'', AString (Error (the (RxErr w)))),
     (TxErr w \<noteq> None, ''txErr'', AString (Error (the (TxErr w)))),
     (InfoErr w \<noteq> None, ''infoErr'', AString (Error (the (InfoErr w)))),
     (OpenedInfo w \<noteq> None, ''openedInfo'', AMap (Info_ToMap (SysToMap P) (the (OpenedInfo w)))),
     (ClosedInfo w \<noteq> None, ''closedInfo'', AMap (Info_ToMap (SysToMap P) (the (ClosedInfo w))))]"

definition Conn_ToMap :: "'sys platform \<Rightarrow> 'sys Conn \<Rightarrow> (go_map \<times> 'sys Conn) outcome" where
  "Conn_ToMap P w =
     bind_outcome (Lock w) (\<lambda>w.
       case (LocalAddr (inner w), RemoteAddr (inner w), warnings P w) of
         (Some local, Some remote, Some ws) \<Rightarrow>
           (let fset = fold put_if (Conn_optional P w) (Conn_literal local remote ws w)
            in bind_outcome (Unlock w) (\<lambda>w. Ret (fset, w)))
       | _ \<Rightarrow> Panic)"

end
