(* ===== verification/Tcp_Other.thy ===== *)
theory Tcp_Other
  imports Tcp_Json
begin

text \<open>
  \<open>pkg/tcpinfo/tcpinfo_other.go\<close>: the platforms without TCP statistics. The platform
  record is an empty struct; \<open>runtime.GOOS\<close> is an argument.
\<close>

type_synonym other_SysInfo = unit

definition other_ToInfo :: "other_SysInfo \<Rightarrow> other_SysInfo Info" where
  "other_ToInfo s = zero_Info"

text \<open>The method does not look at its receiver, so a nil one is fine.\<close>

definition other_Warnings :: "other_SysInfo option \<Rightarrow> string list option" where
  "other_Warnings s = Some []"

definition other_ToMap :: "other_SysInfo \<Rightarrow> go_map" where
  "other_ToMap s = Map.empty"

definition other_MarshalJSON :: "other_SysInfo \<Rightarrow> string option" where
  "other_MarshalJSON s = Marshal (AMap (other_ToMap s))"

definition other_GetTCPInfo :: "string \<Rightarrow> nat \<Rightarrow> other_SysInfo option \<times> error option" where
  "other_GetTCPInfo GOOS fd = (None, Some (PlainError (GOOS @ '' is unsupported'')))"

definition other_Supported :: bool where
  "other_Supported = False"

definition other_platform :: "other_SysInfo platform" where
  "other_platform =
    \<lparr>Supported = other_Supported, ToInfo = other_ToInfo, SysWarnings = other_Warnings, SysToMap = other_ToMap\<rparr>"

interpretation other: json_platform other_platform
  by unfold_locales
    (simp_all add: other_platform_def other_Warnings_def other_ToInfo_def zero_Info_def Info_ToMap_ok)

lemma other_MarshalJSON_text: "other_MarshalJSON s = Some ''{}''"
  by (simp add: other_MarshalJSON_def other_ToMap_def Marshal_def Marshal_json_def map_tree_def members_def comp_def)

end
