(* ===== verification/Conn_Props.thy ===== *)
theory Conn_Props
  imports Conn Tcp_Other
begin

text \<open>
  What the connection wrapper guarantees in sequential use: when the report runs and on what
  state, the refinement of the counters, timestamps and errors to the history of the calls,
  and how often it reports.
\<close>

section \<open>Locking\<close>

lemma bind_Lock [simp]:
  "\<not> locked w \<Longrightarrow> bind_outcome (Lock w) f = f (w\<lparr>locked := True\<rparr>)"
  by (simp add: Lock_def)

lemma bind_Unlock [simp]: "locked w \<Longrightarrow> bind_outcome (Unlock w) f = f (w\<lparr>locked := False\<rparr>)"
  by (simp add: Unlock_def)

lemma Unlock_locked [simp]: "locked w \<Longrightarrow> Unlock w = Ret (w\<lparr>locked := False\<rparr>)"
  by (simp add: Unlock_def)

lemma unlocked_id: "\<not> locked w \<Longrightarrow> w\<lparr>locked := False\<rparr> = w"
  by (cases w) simp

section \<open>Reports\<close>

text \<open>
  What a gathering pass learns, without the locking: a platform record, an error, or nothing.
  A record that comes with an error is dropped.
\<close>

definition probe ::
    "(nat \<Rightarrow> 'sys option \<times> error option) \<Rightarrow> net_env \<Rightarrow> 'sys Conn \<Rightarrow> 'sys option \<times> error option" where
  "probe GetTCPInfo env w =
    (if supportsTCPInfo w \<and> InfoErr w = None \<and> is_TCPConn (inner w) \<and> SyscallConn env = None
     then case Control env of
       (Some err, _) \<Rightarrow> (None, Some err)
     | (None, None) \<Rightarrow> (None, None)
     | (None, Some fd) \<Rightarrow>
         (case GetTCPInfo fd of (_, Some err) \<Rightarrow> (None, Some err) | (s, None) \<Rightarrow> (s, None))
     else (None, None))"

definition store :: "'sys platform \<Rightarrow> int \<Rightarrow> 'sys option \<times> error option \<Rightarrow> 'sys Conn \<Rightarrow> 'sys Conn" where
  "store P state r w =
    (case r of
       (_, Some err) \<Rightarrow> w\<lparr>InfoErr := Some err\<rparr>
     | (None, None) \<Rightarrow> w
     | (Some s, None) \<Rightarrow>
         if state = Opened then w\<lparr>OpenedInfo := Some (ToInfo P s)\<rparr>
         else w\<lparr>ClosedInfo := Some (ToInfo P s)\<rparr>)"

definition to_report :: "int \<Rightarrow> 'sys Conn \<Rightarrow> bool" where
  "to_report state w \<longleftrightarrow>
     (state = Opened \<and> OpenedInfo w = None) \<or> (state = Closed \<and> ClosedInfo w = None)"

lemma locked_store [simp]: "locked (store P st r w) = locked w"
  by (simp add: store_def split: prod.split option.split)

lemma inner_store [simp]: "inner (store P st r w) = inner w"
  by (simp add: store_def split: prod.split option.split)

lemma gather_unlocked:
  assumes "\<not> locked w"
  shows "gather P get env st w = Ret (store P st (probe get env w) w)"
proof -
  obtain err fd where "Control env = (err, fd)" by (cases "Control env")
  with assms show ?thesis
    by (cases "get (the fd)")
      (auto simp: gather_def probe_def store_def unlocked_id split: option.split)
qed

lemma gatherAndReport_None [simp]: "gatherAndReport P get env None st w e = Ret (w, e)"
  by (simp add: gatherAndReport_def)

lemma gatherAndReport_Some:
  "\<not> locked w \<Longrightarrow> gatherAndReport P get env (Some report) st w e =
     (if to_report st w then report st (store P st (probe get env w) w) e else Ret (w, e))"
  by (auto simp: gatherAndReport_def to_report_def gather_unlocked)

lemma probe_ClosedAt [simp]: "probe get env (w\<lparr>ClosedAt := now\<rparr>) = probe get env w"
  by (simp add: probe_def)

definition mark_closed :: "'sys Conn \<Rightarrow> 'sys Conn" where
  "mark_closed w = w\<lparr>inner := (inner w)\<lparr>nc_closed := True\<rparr>\<rparr>"

lemma Close_unlocked:
  assumes "\<not> locked w"
  shows "Close P get env (Some report) now cerr w e =
    (if ClosedInfo w = None
     then bind_outcome (report Closed (store P Closed (probe get env w) (w\<lparr>ClosedAt := now\<rparr>)) e)
            (\<lambda>(w', e'). Ret (cerr, mark_closed w', e'))
     else Ret (cerr, mark_closed (w\<lparr>ClosedAt := now\<rparr>), e))"
proof -
  have eq: "w\<lparr>ClosedAt := now, locked := False\<rparr> = w\<lparr>ClosedAt := now\<rparr>"
    using assms by (cases w) simp
  show ?thesis
    using assms by (simp add: Close_def eq gatherAndReport_Some to_report_def mark_closed_def)
qed

text \<open>
  C2. The closing report runs after the close time and the gathered data are stored, with
  the mutex released and before the wrapped connection is closed; once closing data has been
  stored, a further close does not report again.
\<close>

theorem Close_reports_unlocked:
  assumes "\<not> locked w"
  shows "\<exists>v. \<not> locked v \<and> ClosedAt v = now \<and> inner v = inner w \<and>
    ClosedInfo v = (case (ClosedInfo w, fst (probe get env w)) of
        (None, Some s) \<Rightarrow> Some (ToInfo P s) | _ \<Rightarrow> ClosedInfo w) \<and>
    Close P get env (Some report) now cerr w e =
      bind_outcome (if ClosedInfo w = None then report Closed v e else Ret (v, e))
        (\<lambda>(w', e'). Ret (cerr, mark_closed w', e'))"
proof (cases "ClosedInfo w")
  case None
  have "ClosedInfo (store P Closed (probe get env w) (w\<lparr>ClosedAt := now\<rparr>)) =
    (case fst (probe get env w) of Some s \<Rightarrow> Some (ToInfo P s) | None \<Rightarrow> None)"
    using None by (auto simp: store_def probe_def split: option.split prod.split)
  moreover have "ClosedAt (store P Closed r (w\<lparr>ClosedAt := now\<rparr>)) = now" for r
    by (simp add: store_def split: option.split prod.split)
  ultimately show ?thesis
    using assms None
    by (intro exI [of _ "store P Closed (probe get env w) (w\<lparr>ClosedAt := now\<rparr>)"])
      (simp add: Close_unlocked split: option.split)
next
  case (Some i)
  with assms show ?thesis
    by (intro exI [of _ "w\<lparr>ClosedAt := now\<rparr>"]) (simp add: Close_unlocked)
qed

theorem Close_reports_unlocked_witness:
  "\<exists>v. \<not> locked v \<and> ClosedAt v = 5 \<and> inner v = \<lparr>is_TCPConn = True, LocalAddr = None, RemoteAddr = None, nc_closed = False\<rparr> \<and>
    Close other_platform (other_GetTCPInfo ''plan9'') \<lparr>SyscallConn = None, Control = (None, Some 3)\<rparr>
      (Some (\<lambda>st w n. Ret (w, n + 1))) 5 None
      (new_Conn other_platform 1 0 \<lparr>is_TCPConn = True, LocalAddr = None, RemoteAddr = None, nc_closed = False\<rparr>) (0 :: nat) =
    Ret (None, mark_closed v, 1)"
  using Close_reports_unlocked [where P = other_platform and get = "other_GetTCPInfo ''plan9''"
      and env = "\<lparr>SyscallConn = None, Control = (None, Some 3)\<rparr>"
      and report = "\<lambda>st w n. Ret (w, n + 1)" and now = 5 and cerr = None and e = "0 :: nat"
      and w = "new_Conn other_platform 1 0
        \<lparr>is_TCPConn = True, LocalAddr = None, RemoteAddr = None, nc_closed = False\<rparr>"]
  by (auto simp: new_Conn_def)

section \<open>The history of a connection\<close>

text \<open>
  The calls between opening and closing, each with the answer of the wrapped connection and
  of the clock, and what they mean: the abstract state is the list of the calls itself.
\<close>

datatype io =
    IoRead int "error option" i64
  | IoWrite int "error option" i64
  | IoSetReconnects int

fun io_step :: "io \<Rightarrow> 'sys Conn \<Rightarrow> 'sys Conn outcome" where
  "io_step (IoRead n err ts) w = bind_outcome (Read (n, err) ts w) (\<lambda>(_, w). Ret w)"
| "io_step (IoWrite n err ts) w = bind_outcome (Write (n, err) ts w) (\<lambda>(_, w). Ret w)"
| "io_step (IoSetReconnects k) w = SetReconnects k w"

fun io_run :: "io list \<Rightarrow> 'sys Conn \<Rightarrow> 'sys Conn outcome" where
  "io_run [] w = Ret w"
| "io_run (c # cs) w = bind_outcome (io_step c w) (io_run cs)"

fun reads :: "io list \<Rightarrow> (int \<times> error option \<times> i64) list" where
  "reads [] = []"
| "reads (IoRead n err ts # cs) = (n, err, ts) # reads cs"
| "reads (_ # cs) = reads cs"

fun writes :: "io list \<Rightarrow> (int \<times> error option \<times> i64) list" where
  "writes [] = []"
| "writes (IoWrite n err ts # cs) = (n, err, ts) # writes cs"
| "writes (_ # cs) = writes cs"

definition good_times :: "(int \<times> error option \<times> i64) list \<Rightarrow> i64 list" where
  "good_times cs = map (\<lambda>(n, err, ts). ts) (filter (\<lambda>(n, err, ts). err = None \<and> n > 0) cs)"

definition total :: "(int \<times> error option \<times> i64) list \<Rightarrow> int" where
  "total cs = sum_list (map fst cs)"

definition hard_errors :: "(int \<times> error option \<times> i64) list \<Rightarrow> error list" where
  "hard_errors cs =
     filter (\<lambda>e. is_net_error e \<and> \<not> Timeout e) (concat (map (\<lambda>(n, err, ts). case_option [] (\<lambda>e. [e]) err) cs))"

definition last_or :: "'a \<Rightarrow> 'a list \<Rightarrow> 'a" where
  "last_or d xs = (if xs = [] then d else last xs)"

text \<open>What the fields of the receive and of the send half say of the calls made so far.\<close>

definition rx_matches :: "io list \<Rightarrow> 'sys Conn \<Rightarrow> bool" where
  "rx_matches h w \<longleftrightarrow>
     RxBytes w = word_of_int (total (reads h)) \<and>
     FirstRxAt w = (case good_times (reads h) of [] \<Rightarrow> 0 | t # _ \<Rightarrow> t) \<and>
     LastRxAt w = last_or 0 (good_times (reads h)) \<and>
     RxErr w = last_or None (map Some (hard_errors (reads h)))"

definition tx_matches :: "io list \<Rightarrow> 'sys Conn \<Rightarrow> bool" where
  "tx_matches h w \<longleftrightarrow>
     TxBytes w = word_of_int (total (writes h)) \<and>
     FirstTxAt w = (case good_times (writes h) of [] \<Rightarrow> 0 | t # _ \<Rightarrow> t) \<and>
     LastTxAt w = last_or 0 (good_times (writes h)) \<and>
     TxErr w = last_or None (map (\<lambda>(n, err, ts). err) (writes h))"

lemma io_run_append: "io_run (cs @ ds) w = bind_outcome (io_run cs w) (io_run ds)"
proof (induction cs arbitrary: w)
  case (Cons c cs)
  then show ?case by (cases "io_step c w") simp_all
qed simp

lemma reads_append [simp]: "reads (cs @ ds) = reads cs @ reads ds"
  by (induction cs rule: reads.induct) simp_all

lemma writes_append [simp]: "writes (cs @ ds) = writes cs @ writes ds"
  by (induction cs rule: writes.induct) simp_all

lemma total_append [simp]: "total (cs @ ds) = total cs + total ds" "total [] = 0"
  by (simp_all add: total_def)

lemma good_times_append [simp]: "good_times (cs @ ds) = good_times cs @ good_times ds"
  "good_times [] = []"
  by (simp_all add: good_times_def)

lemma hard_errors_append [simp]: "hard_errors (cs @ ds) = hard_errors cs @ hard_errors ds"
  "hard_errors [] = []"
  by (simp_all add: hard_errors_def)

lemma last_or_append [simp]: "last_or d (xs @ [x]) = x" "last_or d [] = d"
  by (simp_all add: last_or_def)

lemma Read_unlocked:
  assumes "\<not> locked w"
  shows "Read (n, err) ts w = Ret ((n, err),
    w\<lparr>FirstRxAt := if err = None \<and> n > 0 \<and> FirstRxAt w = 0 then ts else FirstRxAt w,
      LastRxAt := if err = None \<and> n > 0 then ts else LastRxAt w,
      RxBytes := RxBytes w + word_of_int n,
      RxErr := case err of Some e \<Rightarrow> if is_net_error e \<and> \<not> Timeout e then err else RxErr w | None \<Rightarrow> RxErr w\<rparr>)"
  using assms by (cases w) (auto simp: Read_def Let_def split: option.split)

lemma Write_unlocked:
  assumes "\<not> locked w"
  shows "Write (n, err) ts w = Ret ((n, err),
    w\<lparr>FirstTxAt := if err = None \<and> n > 0 \<and> FirstTxAt w = 0 then ts else FirstTxAt w,
      LastTxAt := if err = None \<and> n > 0 then ts else LastTxAt w,
      TxBytes := TxBytes w + word_of_int n,
      TxErr := err\<rparr>)"
  using assms by (cases w) (auto simp: Write_def Let_def split: option.split)

lemma SetReconnects_unlocked:
  assumes "\<not> locked w"
  shows "SetReconnects k w = Ret (w\<lparr>Reconnects := k\<rparr>)"
  using assms by (cases w) (simp add: SetReconnects_def)

lemma first_time_zero:
  "0 \<notin> set ts \<Longrightarrow> (case ts of [] \<Rightarrow> 0 | t # _ \<Rightarrow> t) = (0 :: i64) \<longleftrightarrow> ts = []"
  by (cases ts) auto

lemma rx_matches_read:
  assumes "rx_matches h w" "\<not> locked w" "0 \<notin> set (good_times (reads h))"
  shows "\<exists>w'. io_step (IoRead n err ts) w = Ret w' \<and> \<not> locked w' \<and>
    rx_matches (h @ [IoRead n err ts]) w' \<and> (tx_matches h w \<longrightarrow> tx_matches (h @ [IoRead n err ts]) w')"
proof -
  have "FirstRxAt w = 0 \<longleftrightarrow> good_times (reads h) = []"
    using assms(1,3) by (simp add: rx_matches_def first_time_zero)
  then show ?thesis
    using assms(1,2)
    by (cases "good_times (reads h)"; cases err)
      (simp_all add: Read_unlocked rx_matches_def tx_matches_def total_def good_times_def hard_errors_def
        last_or_def)
qed

lemma tx_matches_write:
  assumes "tx_matches h w" "\<not> locked w" "0 \<notin> set (good_times (writes h))"
  shows "\<exists>w'. io_step (IoWrite n err ts) w = Ret w' \<and> \<not> locked w' \<and>
    tx_matches (h @ [IoWrite n err ts]) w' \<and> (rx_matches h w \<longrightarrow> rx_matches (h @ [IoWrite n err ts]) w')"
proof -
  have "FirstTxAt w = 0 \<longleftrightarrow> good_times (writes h) = []"
    using assms(1,3) by (simp add: tx_matches_def first_time_zero)
  then show ?thesis
    using assms(1,2)
    by (cases "good_times (writes h)"; cases err)
      (simp_all add: Write_unlocked rx_matches_def tx_matches_def total_def good_times_def last_or_def)
qed

lemma io_step_matches:
  assumes "\<not> locked w" "rx_matches h w" "tx_matches h w"
    and "0 \<notin> set (good_times (reads h))" "0 \<notin> set (good_times (writes h))"
  shows "\<exists>w'. io_step c w = Ret w' \<and> \<not> locked w' \<and> rx_matches (h @ [c]) w' \<and> tx_matches (h @ [c]) w'"
proof (cases c)
  case (IoRead n err ts)
  show ?thesis unfolding IoRead using rx_matches_read [OF assms(2,1,4)] assms(3) by blast
next
  case (IoWrite n err ts)
  show ?thesis unfolding IoWrite using tx_matches_write [OF assms(3,1,5)] assms(2) by blast
next
  case (IoSetReconnects k)
  with assms show ?thesis by (simp add: SetReconnects_unlocked rx_matches_def tx_matches_def)
qed

lemma io_run_matches:
  assumes "\<not> locked w" "rx_matches [] w" "tx_matches [] w"
    and "0 \<notin> set (good_times (reads h))" "0 \<notin> set (good_times (writes h))"
  shows "\<exists>w'. io_run h w = Ret w' \<and> \<not> locked w' \<and> rx_matches h w' \<and> tx_matches h w'"
  using assms(4,5)
proof (induction h rule: rev_induct)
  case Nil
  then show ?case using assms(1-3) by simp
next
  case (snoc c h)
  then obtain w' where w': "io_run h w = Ret w'" "\<not> locked w'" "rx_matches h w'" "tx_matches h w'"
    by auto
  then obtain w'' where "io_step c w' = Ret w''" "\<not> locked w''" "rx_matches (h @ [c]) w''" "tx_matches (h @ [c]) w''"
    using io_step_matches [of w' h c] snoc.prems by auto
  with w'(1) show ?case by (simp add: io_run_append)
qed

text \<open>A report that only looks at the connection, as the examples of the repository do.\<close>

definition read_only :: "('sys, 'e) report option \<Rightarrow> bool" where
  "read_only reportStats \<longleftrightarrow>
     (\<forall>report st w e w' e'. reportStats = Some report \<longrightarrow> report st w e = Ret (w', e') \<longrightarrow> w' = w)"

lemma gatherAndReport_read_only:
  assumes "gatherAndReport P get env reportStats st w e = Ret (w', e')" "read_only reportStats" "\<not> locked w"
  shows "w' = w \<or> (to_report st w \<and> w' = store P st (probe get env w) w)"
proof (cases reportStats)
  case (Some report)
  with assms(2) have "v' = v" if "report st v e = Ret (v', e')" for v v'
    using that unfolding read_only_def by blast
  with assms(1,3) Some show ?thesis by (auto simp: gatherAndReport_Some split: if_splits)
qed (use assms(1) in simp)

definition unused :: "'sys Conn \<Rightarrow> bool" where
  "unused w \<longleftrightarrow> \<not> locked w \<and> rx_matches [] w \<and> tx_matches [] w \<and> ClosedInfo w = None \<and> ClosedAt w = 0"

lemma unused_new_Conn: "unused (new_Conn P now ctx ncon)"
  by (simp add: unused_def new_Conn_def rx_matches_def tx_matches_def)

lemma unused_store_opened: "unused w \<Longrightarrow> unused (store P Opened r w)"
  by (auto simp: unused_def store_def rx_matches_def tx_matches_def split: prod.split option.split)

lemma WrapConn_unused:
  assumes "WrapConn P get env now ncon reportStats e = Ret (w, e')" "read_only reportStats"
  shows "unused w"
proof -
  let ?w0 = "new_Conn P now 0 ncon"
  have run: "gatherAndReport P get env reportStats Opened ?w0 e = Ret (w, e')"
    using assms(1) by (simp add: WrapConn_def WrapConnWithContext_def)
  have "\<not> locked ?w0" using unused_new_Conn [of P now 0 ncon] by (simp add: unused_def)
  from gatherAndReport_read_only [OF run assms(2) this]
  show ?thesis
    using unused_new_Conn [of P now 0 ncon] unused_store_opened by metis
qed

text \<open>
  C1. The statistics of a wrapped connection refine the history of its calls, for every
  sequence of reads, writes and reconnect settings after opening: the byte counters are the
  sums of the reported counts modulo \<open>2\<^sup>64\<close>, the first and last times are those of the first
  and last successful nonempty call, the receive error is the last hard network error, and
  the send error is whatever the last write returned, so that a successful write clears it.
\<close>

theorem io_run_refines_history:
  assumes "WrapConn P get env now ncon reportStats e = Ret (w, e')" "read_only reportStats"
    and "0 \<notin> set (good_times (reads h))" "0 \<notin> set (good_times (writes h))"
  shows "\<exists>w'. io_run h w = Ret w' \<and> \<not> locked w' \<and> rx_matches h w' \<and> tx_matches h w'"
  using WrapConn_unused [OF assms(1,2)] assms(3,4)
  by (intro io_run_matches) (simp_all add: unused_def)

theorem io_run_refines_history_witness:
  "\<exists>w. io_run [IoWrite 18 None 10, IoRead 100 None 20, IoWrite 4 (Some (NetError ''reset'' False)) 30, IoRead 5 None 40]
      (new_Conn other_platform 1 0 \<lparr>is_TCPConn = False, LocalAddr = None, RemoteAddr = None, nc_closed = False\<rparr>) = Ret w \<and>
    RxBytes w = 105 \<and> FirstRxAt w = 20 \<and> LastRxAt w = 40 \<and> TxBytes w = 22 \<and> LastTxAt w = 10 \<and>
    TxErr w = Some (NetError ''reset'' False)"
  using io_run_refines_history [of other_platform "other_GetTCPInfo ''plan9''" "\<lparr>SyscallConn = None, Control = (None, None)\<rparr>" 1
      "\<lparr>is_TCPConn = False, LocalAddr = None, RemoteAddr = None, nc_closed = False\<rparr>" None "()"
      "new_Conn other_platform 1 0 \<lparr>is_TCPConn = False, LocalAddr = None, RemoteAddr = None, nc_closed = False\<rparr>" "()"
      "[IoWrite 18 None 10, IoRead 100 None 20, IoWrite 4 (Some (NetError ''reset'' False)) 30, IoRead 5 None 40]"]
  by (auto simp: WrapConn_def WrapConnWithContext_def read_only_def good_times_def rx_matches_def tx_matches_def
      total_def last_or_def)

end
