(* ===== verification/Conn_Session.thy ===== *)
theory Conn_Session
  imports Conn_Props
begin

text \<open>
  Whole sessions of a wrapped connection: the reachable states after any sequence of
  operations, the invariant that keeps \<open>Warnings\<close> and \<open>ToMap\<close> from blocking or
  panicking on every platform that meets the contract, and what is never overwritten.
\<close>

section \<open>Sessions\<close>

text \<open>One completed operation, with any answers of the environment.\<close>

inductive session_step ::
    "'sys platform \<Rightarrow> ('sys, 'e) report option \<Rightarrow> 'sys Conn \<times> 'e \<Rightarrow> 'sys Conn \<times> 'e \<Rightarrow> bool"
  for P reportStats where
  step_read: "Read r ts w = Ret (r', w') \<Longrightarrow> session_step P reportStats (w, e) (w', e)"
| step_write: "Write r ts w = Ret (r', w') \<Longrightarrow> session_step P reportStats (w, e) (w', e)"
| step_reconnects: "SetReconnects k w = Ret w' \<Longrightarrow> session_step P reportStats (w, e) (w', e)"
| step_warnings: "Warnings P w = Ret (ws, w') \<Longrightarrow> session_step P reportStats (w, e) (w', e)"
| step_map: "Conn_ToMap P w = Ret (m, w') \<Longrightarrow> session_step P reportStats (w, e) (w', e)"
| step_close: "Close P get env reportStats now cerr w e = Ret (r, w', e') \<Longrightarrow>
    session_step P reportStats (w, e) (w', e')"

inductive_cases session_stepE: "session_step P reportStats (w, e) s"

definition conn_ok :: "'sys platform \<Rightarrow> 'sys Conn \<Rightarrow> bool" where
  "conn_ok P w \<longleftrightarrow> \<not> locked w \<and>
     (\<forall>i \<in> set_option (OpenedInfo w) \<union> set_option (ClosedInfo w). SysWarnings P (info_Sys i) \<noteq> None)"

text \<open>A report that leaves the connection in order, whatever else it does.\<close>

definition keeps_ok :: "'sys platform \<Rightarrow> ('sys, 'e) report option \<Rightarrow> bool" where
  "keeps_ok P reportStats \<longleftrightarrow>
     (\<forall>report st w e w' e'. reportStats = Some report \<longrightarrow> conn_ok P w \<longrightarrow>
        report st w e = Ret (w', e') \<longrightarrow> conn_ok P w')"

lemma conn_ok_new_Conn: "conn_ok P (new_Conn P now ctx ncon)"
  by (simp add: conn_ok_def new_Conn_def)

lemma warnings_ok: "conn_ok P w \<Longrightarrow> \<exists>ws. warnings P w = Some ws"
  by (cases "OpenedInfo w"; cases "ClosedInfo w") (auto simp: warnings_def conn_ok_def Let_def)

lemma warnings_locked [simp]: "warnings P (w\<lparr>locked := b\<rparr>) = warnings P w"
  by (simp add: warnings_def)

lemma Warnings_unlocked:
  "\<not> locked w \<Longrightarrow> Warnings P w = (case warnings P w of None \<Rightarrow> Panic | Some ws \<Rightarrow> Ret (ws, w))"
  by (simp add: Warnings_def unlocked_id split: option.split)

definition Conn_map :: "'sys platform \<Rightarrow> 'sys Conn \<Rightarrow> string \<Rightarrow> string \<Rightarrow> string list \<Rightarrow> go_map" where
  "Conn_map P w local remote ws = fold put_if (Conn_optional P w) (Conn_literal local remote ws w)"

lemma Conn_ToMap_unlocked:
  assumes "\<not> locked w"
  shows "Conn_ToMap P w =
    (case (LocalAddr (inner w), RemoteAddr (inner w), warnings P w) of
       (Some local, Some remote, Some ws) \<Rightarrow> Ret (Conn_map P w local remote ws, w)
     | _ \<Rightarrow> Panic)"
proof -
  have "Conn_optional P (w\<lparr>locked := True\<rparr>) = Conn_optional P w"
    "Conn_literal l r ws (w\<lparr>locked := True\<rparr>) = Conn_literal l r ws w" for l r ws
    by (simp_all add: Conn_optional_def Conn_literal_def)
  with assms show ?thesis
    by (simp add: Conn_ToMap_def Conn_map_def unlocked_id split: option.split)
qed

context tcp_platform
begin

lemma conn_ok_store: "conn_ok P w \<Longrightarrow> conn_ok P (store P st r w)"
  using warnings_ToInfo by (auto simp: conn_ok_def store_def split: prod.split option.split)

lemma conn_ok_gatherAndReport:
  assumes "conn_ok P w" "keeps_ok P reportStats"
    and "gatherAndReport P get env reportStats st w e = Ret (w', e')"
  shows "conn_ok P w'"
proof (cases reportStats)
  case (Some report)
  then have "conn_ok P v'" if "conn_ok P v" "report st v e = Ret (v', e')" for v v'
    using that assms(2) unfolding keeps_ok_def by blast
  moreover have "\<not> locked w" using assms(1) by (simp add: conn_ok_def)
  ultimately show ?thesis
    using assms(1,3) Some conn_ok_store [OF assms(1), of st "probe get env w"]
    by (auto simp: gatherAndReport_Some split: if_splits)
qed (use assms in simp)

lemma conn_ok_Close:
  assumes "Close P get env reportStats now cerr w e = Ret (r, w', e')" "conn_ok P w" "keeps_ok P reportStats"
  shows "conn_ok P w'"
proof -
  let ?v = "w\<lparr>ClosedAt := now, locked := False\<rparr>"
  obtain v where v: "gatherAndReport P get env reportStats Closed ?v e = Ret (v, e')" "w' = mark_closed v"
    using assms(1,2) by (auto simp: Close_def Lock_def Unlock_def conn_ok_def mark_closed_def)
  have "conn_ok P ?v" using assms(2) by (simp add: conn_ok_def)
  from conn_ok_gatherAndReport [OF this assms(3) v(1)] v(2)
  show ?thesis by (simp add: conn_ok_def mark_closed_def)
qed

lemma conn_ok_step:
  assumes "session_step P reportStats s s'" "conn_ok P (fst s)" "keeps_ok P reportStats"
  shows "conn_ok P (fst s')"
  using assms
proof cases
  case (step_read r ts w r' w' e)
  with assms(2) show ?thesis by (cases r) (auto simp: Read_unlocked conn_ok_def)
next
  case (step_write r ts w r' w' e)
  with assms(2) show ?thesis by (cases r) (auto simp: Write_unlocked conn_ok_def)
next
  case (step_reconnects k w w' e)
  with assms(2) show ?thesis by (auto simp: SetReconnects_unlocked conn_ok_def)
next
  case (step_warnings w ws w' e)
  with assms(2) show ?thesis by (auto simp: Warnings_unlocked conn_ok_def split: option.splits)
next
  case (step_map w m w' e)
  with assms(2) show ?thesis by (auto simp: Conn_ToMap_unlocked conn_ok_def split: option.splits)
next
  case step_close
  with assms(2,3) show ?thesis using conn_ok_Close by fastforce
qed

lemma conn_ok_session:
  assumes "(session_step P reportStats)\<^sup>*\<^sup>* s s'" "conn_ok P (fst s)" "keeps_ok P reportStats"
  shows "conn_ok P (fst s')"
  using assms(1,2) by induction (auto intro: conn_ok_step [OF _ _ assms(3)])

lemma conn_ok_WrapConn:
  assumes "WrapConnWithContext P get env now ctx ncon reportStats e = Ret (w, e')" "keeps_ok P reportStats"
  shows "conn_ok P w"
  using assms conn_ok_gatherAndReport [OF conn_ok_new_Conn assms(2)]
  by (simp add: WrapConnWithContext_def)

text \<open>
  In every state a session reaches, the mutex is free and the warnings can be collected: no
  operation blocks, and \<open>Warnings\<close> and \<open>ToMap\<close> do not dereference a nil pointer.
\<close>

lemma session_live:
  assumes "WrapConnWithContext P get env now ctx ncon reportStats e = Ret (w0, e0)" "keeps_ok P reportStats"
    and "(session_step P reportStats)\<^sup>*\<^sup>* (w0, e0) (w, e')"
  shows "(\<exists>ws. Warnings P w = Ret (ws, w)) \<and> (\<exists>w'. SetReconnects k w = Ret w') \<and>
    (\<exists>w'. Read r ts w = Ret (r, w')) \<and> (\<exists>w'. Write r ts w = Ret (r, w')) \<and>
    (LocalAddr (inner w) \<noteq> None \<and> RemoteAddr (inner w) \<noteq> None \<longrightarrow> (\<exists>m. Conn_ToMap P w = Ret (m, w)))"
proof -
  have ok: "conn_ok P w"
    using conn_ok_session [OF assms(3) _ assms(2)] conn_ok_WrapConn [OF assms(1,2)] by simp
  moreover obtain ws where "warnings P w = Some ws" using warnings_ok [OF ok] ..
  ultimately show ?thesis
    by (cases r) (auto simp: conn_ok_def Warnings_unlocked Conn_ToMap_unlocked Read_unlocked
        Write_unlocked SetReconnects_unlocked)
qed

end

section \<open>What a session never overwrites\<close>

text \<open>
  Gathered data and a gathering error stay for the rest of the session; this relates an
  earlier to a later state.
\<close>

definition info_kept :: "'sys Conn \<Rightarrow> 'sys Conn \<Rightarrow> bool" where
  "info_kept w w' \<longleftrightarrow>
     (OpenedInfo w \<noteq> None \<longrightarrow> OpenedInfo w' = OpenedInfo w) \<and>
     (ClosedInfo w \<noteq> None \<longrightarrow> ClosedInfo w' = ClosedInfo w) \<and>
     (InfoErr w \<noteq> None \<longrightarrow> InfoErr w' = InfoErr w \<and> OpenedInfo w' = OpenedInfo w \<and> ClosedInfo w' = ClosedInfo w)"

lemma info_kept_refl [simp]: "info_kept w w"
  by (simp add: info_kept_def)

lemma info_kept_trans: "info_kept u v \<Longrightarrow> info_kept v w \<Longrightarrow> info_kept u w"
  unfolding info_kept_def by metis

lemma info_kept_store: "to_report st w \<Longrightarrow> info_kept w (store P st (probe get env w) w)"
  by (auto simp: info_kept_def store_def probe_def to_report_def split: prod.split option.split)

lemma step_keeps_info:
  assumes "session_step P reportStats s s'" "\<not> locked (fst s)" "read_only reportStats"
  shows "\<not> locked (fst s') \<and> info_kept (fst s) (fst s')"
  using assms
proof cases
  case (step_read r ts w r' w' e)
  with assms(2) show ?thesis by (cases r) (auto simp: Read_unlocked info_kept_def)
next
  case (step_write r ts w r' w' e)
  with assms(2) show ?thesis by (cases r) (auto simp: Write_unlocked info_kept_def)
next
  case (step_reconnects k w w' e)
  with assms(2) show ?thesis by (auto simp: SetReconnects_unlocked info_kept_def)
next
  case (step_warnings w ws w' e)
  with assms(2) show ?thesis by (auto simp: Warnings_unlocked split: option.splits)
next
  case (step_map w m w' e)
  with assms(2) show ?thesis by (auto simp: Conn_ToMap_unlocked split: option.splits)
next
  case (step_close get env now cerr w e r w' e')
  let ?v = "w\<lparr>ClosedAt := now, locked := False\<rparr>"
  obtain v where v: "gatherAndReport P get env reportStats Closed ?v e = Ret (v, e')" "w' = mark_closed v"
    using assms(2) step_close by (auto simp: Close_def Lock_def Unlock_def mark_closed_def)
  have "v = ?v \<or> (to_report Closed ?v \<and> v = store P Closed (probe get env ?v) ?v)"
    by (rule gatherAndReport_read_only [OF v(1) assms(3)]) simp
  then have "\<not> locked v \<and> info_kept ?v v" using info_kept_store [of Closed ?v P get env] by auto
  with v(2) step_close show ?thesis by (simp add: info_kept_def mark_closed_def)
qed



section \<open>Closing more than once\<close>

text \<open>A report that logs the states it is called with.\<close>

definition logging :: "('sys, int list) report" where
  "logging st w log = Ret (w, log @ [st])"

fun closes ::
    "'sys platform \<Rightarrow> (nat \<Rightarrow> 'sys option \<times> error option) \<Rightarrow> net_env \<Rightarrow> ('sys, 'e) report option \<Rightarrow>
     (i64 \<times> error option) list \<Rightarrow> 'sys Conn \<Rightarrow> 'e \<Rightarrow> ('sys Conn \<times> 'e) outcome" where
  "closes P get env reportStats [] w e = Ret (w, e)"
| "closes P get env reportStats ((now, cerr) # cs) w e =
     bind_outcome (Close P get env reportStats now cerr w e)
       (\<lambda>(_, w, e). closes P get env reportStats cs w e)"

definition after_Close :: "'sys platform \<Rightarrow> (nat \<Rightarrow> 'sys option \<times> error option) \<Rightarrow> net_env \<Rightarrow> i64 \<Rightarrow> 'sys Conn \<Rightarrow> 'sys Conn" where
  "after_Close P get env now w =
     mark_closed (if ClosedInfo w = None then store P Closed (probe get env w) (w\<lparr>ClosedAt := now\<rparr>)
                  else w\<lparr>ClosedAt := now\<rparr>)"

lemma Close_logging:
  "\<not> locked w \<Longrightarrow> Close P get env (Some logging) now cerr w log =
     Ret (cerr, after_Close P get env now w, log @ (if ClosedInfo w = None then [Closed] else []))"
  by (simp add: Close_unlocked logging_def after_Close_def)

lemma after_Close_sel:
  "locked (after_Close P get env now w) = locked w"
  "ClosedInfo w \<noteq> None \<Longrightarrow> ClosedInfo (after_Close P get env now w) \<noteq> None"
  "ClosedInfo w = None \<Longrightarrow>
     ClosedInfo (after_Close P get env now w) = map_option (ToInfo P) (fst (probe get env w))"
  "fst (probe get env w) = None \<Longrightarrow> fst (probe get env (after_Close P get env now w)) = None"
  by (auto simp: after_Close_def mark_closed_def store_def probe_def split: option.splits prod.splits)

lemma closes_done:
  "\<not> locked w \<Longrightarrow> ClosedInfo w \<noteq> None \<Longrightarrow> \<exists>w'. closes P get env (Some logging) cs w log = Ret (w', log)"
proof (induction cs arbitrary: w)
  case (Cons c cs)
  obtain now cerr where c: "c = (now, cerr)" by (cases c)
  have "\<exists>w'. closes P get env (Some logging) cs (after_Close P get env now w) log = Ret (w', log)"
    using Cons.prems after_Close_sel(2) by (intro Cons.IH) (simp_all add: after_Close_sel)
  with Cons.prems c show ?case by (auto simp: Close_logging)
qed simp

lemma closes_silent:
  "\<not> locked w \<Longrightarrow> ClosedInfo w = None \<Longrightarrow> fst (probe get env w) = None \<Longrightarrow>
     \<exists>w'. closes P get env (Some logging) cs w log = Ret (w', log @ replicate (length cs) Closed)"
proof (induction cs arbitrary: w log)
  case (Cons c cs)
  obtain now cerr where c: "c = (now, cerr)" by (cases c)
  have "\<exists>w'. closes P get env (Some logging) cs (after_Close P get env now w) (log @ [Closed]) =
      Ret (w', (log @ [Closed]) @ replicate (length cs) Closed)"
    using Cons.prems by (intro Cons.IH) (simp_all add: after_Close_sel)
  with Cons.prems c show ?case by (simp add: Close_logging)
qed simp

text \<open>
  C37. Closing a connection several times reports once if the first close could gather data,
  but once for every close if it could not: a connection that is not a TCP connection, an
  unsupported platform or an earlier error leave no trace of the report.
\<close>

theorem repeated_Close_reports:
  assumes "\<not> locked w" "ClosedInfo w = None"
  shows "\<exists>w'. closes P get env (Some logging) cs w log = Ret (w',
    log @ replicate (if fst (probe get env w) = None then length cs else min 1 (length cs)) Closed)"
proof (cases "fst (probe get env w) = None \<or> cs = []")
  case True
  then show ?thesis using closes_silent [OF assms, of get env P cs log] by auto
next
  case False
  then obtain now cerr cs' where cs: "cs = (now, cerr) # cs'" by (cases cs) auto
  have "\<exists>w'. closes P get env (Some logging) cs' (after_Close P get env now w) (log @ [Closed]) =
      Ret (w', log @ [Closed])"
    using assms False by (intro closes_done) (simp_all add: after_Close_sel)
  with assms False cs show ?thesis by (auto simp: Close_logging)
qed

theorem repeated_Close_reports_witness:
  "\<exists>w'. closes other_platform (other_GetTCPInfo ''plan9'') \<lparr>SyscallConn = None, Control = (None, Some 3)\<rparr>
      (Some logging) [(5, None), (6, Some (PlainError ''use of closed network connection''))]
      (new_Conn other_platform 1 0 \<lparr>is_TCPConn = True, LocalAddr = None, RemoteAddr = None, nc_closed = False\<rparr>) [] =
    Ret (w', [Closed, Closed])"
  using repeated_Close_reports [where P = other_platform and get = "other_GetTCPInfo ''plan9''"
      and env = "\<lparr>SyscallConn = None, Control = (None, Some 3)\<rparr>" and log = "[]"
      and cs = "[(5, None), (6, Some (PlainError ''use of closed network connection''))]"
      and w = "new_Conn other_platform 1 0 \<lparr>is_TCPConn = True, LocalAddr = None, RemoteAddr = None, nc_closed = False\<rparr>"]
  by (simp add: new_Conn_def probe_def other_platform_def other_Supported_def)

end
