(* ===== verification/Conn_Concurrent.thy ===== *)
theory Conn_Concurrent
  imports Conn_Session
begin

text \<open>
  Goroutines that share one wrapped connection. The methods of \<open>wrap.go\<close> are cut at
  their lock operations: what runs between \<open>Lock\<close> and \<open>Unlock\<close> is one critical
  section, and the checks of \<open>gatherAndReport\<close> and the report itself run outside. The
  step relation interleaves the goroutines; the log of completed critical sections and the
  list of reports are kept beside the state.
\<close>

section \<open>Critical sections\<close>

datatype 'sys crit =
    CIo io
  | CStamp i64
  | CStore "'sys option \<times> error option"

fun crit_body :: "'sys platform \<Rightarrow> 'sys crit \<Rightarrow> 'sys Conn \<Rightarrow> 'sys Conn" where
  "crit_body P (CIo (IoRead n err ts)) w =
     w\<lparr>FirstRxAt := if err = None \<and> n > 0 \<and> FirstRxAt w = 0 then ts else FirstRxAt w,
       LastRxAt := if err = None \<and> n > 0 then ts else LastRxAt w,
       RxBytes := RxBytes w + word_of_int n,
       RxErr := case err of Some e \<Rightarrow> if is_net_error e \<and> \<not> Timeout e then err else RxErr w | None \<Rightarrow> RxErr w\<rparr>"
| "crit_body P (CIo (IoWrite n err ts)) w =
     w\<lparr>FirstTxAt := if err = None \<and> n > 0 \<and> FirstTxAt w = 0 then ts else FirstTxAt w,
       LastTxAt := if err = None \<and> n > 0 then ts else LastTxAt w,
       TxBytes := TxBytes w + word_of_int n,
       TxErr := err\<rparr>"
| "crit_body P (CIo (IoSetReconnects k)) w = w\<lparr>Reconnects := k\<rparr>"
| "crit_body P (CStamp now) w = w\<lparr>ClosedAt := now\<rparr>"
| "crit_body P (CStore r) w = store P Closed r w"

text \<open>The sequential methods are these sections between a \<open>Lock\<close> and an \<open>Unlock\<close>.\<close>

lemma io_step_sections:
  "io_step c w = bind_outcome (Lock w) (\<lambda>w. Unlock (crit_body P (CIo c) w))"
proof (cases "locked w")
  case True
  then show ?thesis by (cases c) (simp_all add: Read_def Write_def SetReconnects_def Lock_def)
next
  case False
  then show ?thesis
    by (cases c; cases w)
      (auto simp: Read_unlocked Write_unlocked SetReconnects_unlocked split: option.split)
qed

lemma gather_sections:
  assumes "\<not> locked w"
  shows "gather P get env Closed w =
    bind_outcome (Lock w) (\<lambda>v. Unlock (crit_body P (CStore (probe get env w)) v))"
  using assms by (cases w) (auto simp: gather_unlocked store_def split: prod.split option.split)

section \<open>The step relation\<close>

text \<open>
  Where a goroutine is: outside any method; about to lock, or holding the lock, for a
  section after which it continues somewhere; in \<open>gatherAndReport(Closed)\<close> before its
  first check, before gathering, before the deferred report; or about to close the wrapped
  connection.
\<close>

datatype next_pc = NIdle | NCheck | NReport

datatype 'sys pc =
    Idle
  | Want "'sys crit" next_pc
  | Hold "'sys crit" next_pc
  | Check
  | Gather
  | Report
  | CloseInner

fun continue :: "next_pc \<Rightarrow> 'sys pc" where
  "continue NIdle = Idle"
| "continue NCheck = Check"
| "continue NReport = Report"

record 'sys world =
  shared :: "'sys Conn"
  pcs :: "nat \<Rightarrow> 'sys pc"
  history :: "io list"
  reports :: "(nat \<times> 'sys Conn) list"

fun io_of :: "'sys crit \<Rightarrow> io list" where
  "io_of (CIo c) = [c]"
| "io_of _ = []"

fun positive_time :: "io \<Rightarrow> bool" where
  "positive_time (IoRead n err ts) = (ts \<noteq> 0)"
| "positive_time (IoWrite n err ts) = (ts \<noteq> 0)"
| "positive_time (IoSetReconnects k) = True"

inductive cstep :: "'sys platform \<Rightarrow> 'sys world \<Rightarrow> 'sys world \<Rightarrow> bool" for P where
  call_io: "pcs s i = Idle \<Longrightarrow> positive_time c \<Longrightarrow>
    cstep P s (s\<lparr>pcs := (pcs s)(i := Want (CIo c) NIdle)\<rparr>)"
| call_close: "pcs s i = Idle \<Longrightarrow> cstep P s (s\<lparr>pcs := (pcs s)(i := Want (CStamp now) NCheck)\<rparr>)"
| acquire: "pcs s i = Want c k \<Longrightarrow> \<not> locked (shared s) \<Longrightarrow>
    cstep P s (s\<lparr>pcs := (pcs s)(i := Hold c k), shared := (shared s)\<lparr>locked := True\<rparr>\<rparr>)"
| release: "pcs s i = Hold c k \<Longrightarrow>
    cstep P s (s\<lparr>pcs := (pcs s)(i := continue k),
      shared := (crit_body P c (shared s))\<lparr>locked := False\<rparr>, history := history s @ io_of c\<rparr>)"
| check: "pcs s i = Check \<Longrightarrow> ClosedInfo (shared s) = None \<Longrightarrow>
    cstep P s (s\<lparr>pcs := (pcs s)(i := Gather)\<rparr>)"
| check_done: "pcs s i = Check \<Longrightarrow> ClosedInfo (shared s) \<noteq> None \<Longrightarrow>
    cstep P s (s\<lparr>pcs := (pcs s)(i := CloseInner)\<rparr>)"
| skip: "pcs s i = Gather \<Longrightarrow> probe get env (shared s) = (None, None) \<Longrightarrow>
    cstep P s (s\<lparr>pcs := (pcs s)(i := Report)\<rparr>)"
| query: "pcs s i = Gather \<Longrightarrow>
    cstep P s (s\<lparr>pcs := (pcs s)(i := Want (CStore (probe get env (shared s))) NReport)\<rparr>)"
| report: "pcs s i = Report \<Longrightarrow>
    cstep P s (s\<lparr>pcs := (pcs s)(i := CloseInner), reports := reports s @ [(i, shared s)]\<rparr>)"
| close_inner: "pcs s i = CloseInner \<Longrightarrow>
    cstep P s (s\<lparr>pcs := (pcs s)(i := Idle), shared := mark_closed (shared s)\<rparr>)"

definition start :: "'sys Conn \<Rightarrow> 'sys world" where
  "start w = \<lparr>shared = w, pcs = (\<lambda>_. Idle), history = [], reports = []\<rparr>"

fun is_Hold :: "'sys pc \<Rightarrow> bool" where
  "is_Hold (Hold c k) = True"
| "is_Hold _ = False"

definition holders :: "'sys world \<Rightarrow> nat set" where
  "holders s = {i. is_Hold (pcs s i)}"

section \<open>Mutual exclusion and serialization\<close>

text \<open>A waiting or running section only carries times the clock can return.\<close>

fun pc_ok :: "'sys pc \<Rightarrow> bool" where
  "pc_ok (Want (CIo c) k) = positive_time c"
| "pc_ok (Hold (CIo c) k) = positive_time c"
| "pc_ok _ = True"

definition world_ok :: "'sys world \<Rightarrow> bool" where
  "world_ok s \<longleftrightarrow>
     (\<forall>i. pc_ok (pcs s i)) \<and>
     (if locked (shared s) then \<exists>i. holders s = {i} else holders s = {}) \<and>
     rx_matches (history s) (shared s) \<and> tx_matches (history s) (shared s) \<and>
     list_all positive_time (history s)"

lemma positive_good_times:
  "list_all positive_time h \<Longrightarrow> 0 \<notin> set (good_times (reads h)) \<and> 0 \<notin> set (good_times (writes h))"
proof (induction h)
  case (Cons c h)
  then show ?case by (cases c) (auto simp: good_times_def)
qed simp

lemma matches_locked [simp]:
  "rx_matches h (w\<lparr>locked := b\<rparr>) = rx_matches h w" "tx_matches h (w\<lparr>locked := b\<rparr>) = tx_matches h w"
  "rx_matches h (mark_closed w) = rx_matches h w" "tx_matches h (mark_closed w) = tx_matches h w"
  by (simp_all add: rx_matches_def tx_matches_def mark_closed_def)

lemma crit_body_locked:
  "crit_body P c (w\<lparr>locked := b\<rparr>) = (crit_body P c w)\<lparr>locked := b\<rparr>" "locked (crit_body P c w) = locked w"
proof -
  have "crit_body P c (w\<lparr>locked := b\<rparr>) = (crit_body P c w)\<lparr>locked := b\<rparr> \<and> locked (crit_body P c w) = locked w"
  proof (cases c)
    case (CIo d)
    then show ?thesis by (cases d) (auto split: option.split)
  qed (auto simp: store_def split: prod.split option.split)
  then show "crit_body P c (w\<lparr>locked := b\<rparr>) = (crit_body P c w)\<lparr>locked := b\<rparr>" "locked (crit_body P c w) = locked w"
    by blast+
qed

lemma matches_crit:
  assumes "rx_matches h w" "tx_matches h w" "list_all positive_time h"
  shows "rx_matches (h @ io_of c) (crit_body P c w) \<and> tx_matches (h @ io_of c) (crit_body P c w)"
proof (cases c)
  case (CIo d)
  have "\<exists>w'. io_step d (w\<lparr>locked := False\<rparr>) = Ret w' \<and> \<not> locked w' \<and> rx_matches (h @ [d]) w' \<and> tx_matches (h @ [d]) w'"
    using assms positive_good_times [OF assms(3)] by (intro io_step_matches) simp_all
  moreover have "io_step d (w\<lparr>locked := False\<rparr>) = Ret ((crit_body P (CIo d) w)\<lparr>locked := False\<rparr>)"
    by (simp add: io_step_sections [of _ _ P] crit_body_locked del: crit_body.simps io_step.simps)
  ultimately show ?thesis using CIo by (simp del: crit_body.simps io_step.simps)
next
  case (CStore r)
  then show ?thesis
    using assms by (auto simp: store_def rx_matches_def tx_matches_def split: prod.split option.split)
qed (use assms in \<open>simp add: rx_matches_def tx_matches_def\<close>)

lemma world_ok_start: "unused w \<Longrightarrow> world_ok (start w)"
  by (simp add: world_ok_def start_def holders_def unused_def)

lemma holders_upd:
  "holders s' = (if is_Hold p then insert i (holders s) else holders s - {i})"
  if "pcs s' = (pcs s)(i := p)"
  using that by (auto simp: holders_def split: if_splits)

lemma continue_not_Hold [simp]: "\<not> is_Hold (continue n)" "pc_ok (continue n)"
  by (cases n; simp)+

text \<open>A step that leaves the connection and its history alone, and the lock with its holder.\<close>

lemma world_ok_move:
  assumes "world_ok s" "\<not> is_Hold (pcs s i)" "\<not> is_Hold p" "pc_ok p"
    and "pcs s' = (pcs s)(i := p)" "shared s' = shared s \<or> shared s' = mark_closed (shared s)"
    and "history s' = history s"
  shows "world_ok s'"
proof -
  have "holders s' = holders s"
    using assms(2,3) holders_upd [OF assms(5)] by (auto simp: holders_def)
  moreover have "locked (shared s') = locked (shared s)" using assms(6) by (auto simp: mark_closed_def)
  ultimately show ?thesis using assms unfolding world_ok_def by auto
qed

lemma world_ok_step:
  assumes "cstep P s s'" "world_ok s"
  shows "world_ok s'"
  using assms(1)
proof cases
  case (acquire i c k)
  then have "holders s' = {i}" using assms(2) holders_upd [of s' s i "Hold c k"] by (simp add: world_ok_def)
  moreover have "pc_ok (Hold c k)" using assms(2) acquire by (cases c) (auto simp: world_ok_def dest: spec [of _ i])
  ultimately show ?thesis using assms(2) acquire by (simp add: world_ok_def)
next
  case (release i c k)
  then have "i \<in> holders s" by (simp add: holders_def)
  then have "holders s = {i}" using assms(2) by (auto simp: world_ok_def split: if_splits)
  then have "holders s' = {}" using release holders_upd [of s' s i "continue k"] by simp
  moreover have "list_all positive_time (io_of c)"
    using assms(2) release by (cases c) (auto simp: world_ok_def dest: spec [of _ i])
  ultimately show ?thesis
    using assms(2) release matches_crit [of "history s" "shared s" c P] by (simp add: world_ok_def)
qed (rule world_ok_move [OF assms(2)]; simp)+

text \<open>
  C5. Whatever the interleaving of reads, writes, reconnect settings and closes by any
  number of goroutines: at most one of them is inside a critical section, exactly when the
  mutex is locked, and the statistics always agree with the calls in the order in which their
  sections completed, so no update is lost.
\<close>

theorem concurrent_serializable:
  assumes "unused w" "(cstep P)\<^sup>*\<^sup>* (start w) s"
  shows "(if locked (shared s) then \<exists>i. holders s = {i} else holders s = {}) \<and>
    rx_matches (history s) (shared s) \<and> tx_matches (history s) (shared s)"
proof -
  have "world_ok s"
    using assms(2) world_ok_start [OF assms(1)] by induction (auto intro: world_ok_step)
  then show ?thesis by (simp add: world_ok_def)
qed

section \<open>Progress\<close>

lemma step_changes:
  assumes "\<not> locked (shared s)" "\<not> is_Hold (pcs s i)" "pcs s i \<noteq> Idle"
  shows "\<exists>s'. cstep P s s' \<and> pcs s' i \<noteq> pcs s i"
proof (cases "pcs s i")
  case (Want c k)
  then show ?thesis using acquire [of s i c k P] assms(1) by force
next
  case Check
  then show ?thesis using check [of s i P] check_done [of s i P] by (cases "ClosedInfo (shared s)") force+
next
  case Gather
  then show ?thesis using query [of s i P undefined undefined] by force
next
  case Report
  then show ?thesis using report [of s i P] by force
next
  case CloseInner
  then show ?thesis using close_inner [of s i P] by force
qed (use assms in simp_all)


section \<open>Two concurrent closes\<close>

text \<open>The step relation as a function of the move that is taken.\<close>

datatype 'sys move =
    MIo nat io
  | MClose nat i64
  | MAcquire nat
  | MRelease nat
  | MCheck nat
  | MQuery nat "nat \<Rightarrow> 'sys option \<times> error option" net_env
  | MReport nat

fun exec :: "'sys platform \<Rightarrow> 'sys move \<Rightarrow> 'sys world \<Rightarrow> 'sys world option" where
  "exec P (MIo i c) s =
     (if pcs s i = Idle \<and> positive_time c then Some (s\<lparr>pcs := (pcs s)(i := Want (CIo c) NIdle)\<rparr>) else None)"
| "exec P (MClose i now) s =
     (if pcs s i = Idle then Some (s\<lparr>pcs := (pcs s)(i := Want (CStamp now) NCheck)\<rparr>) else None)"
| "exec P (MAcquire i) s =
     (case pcs s i of
        Want c k \<Rightarrow>
          if locked (shared s) then None
          else Some (s\<lparr>pcs := (pcs s)(i := Hold c k), shared := (shared s)\<lparr>locked := True\<rparr>\<rparr>)
      | _ \<Rightarrow> None)"
| "exec P (MRelease i) s =
     (case pcs s i of
        Hold c k \<Rightarrow> Some (s\<lparr>pcs := (pcs s)(i := continue k),
          shared := (crit_body P c (shared s))\<lparr>locked := False\<rparr>, history := history s @ io_of c\<rparr>)
      | _ \<Rightarrow> None)"
| "exec P (MCheck i) s =
     (if pcs s i = Check
      then Some (s\<lparr>pcs := (pcs s)(i := if ClosedInfo (shared s) = None then Gather else CloseInner)\<rparr>)
      else None)"
| "exec P (MQuery i get env) s =
     (if pcs s i = Gather
      then Some (s\<lparr>pcs := (pcs s)(i := Want (CStore (probe get env (shared s))) NReport)\<rparr>)
      else None)"
| "exec P (MReport i) s =
     (if pcs s i = Report
      then Some (s\<lparr>pcs := (pcs s)(i := CloseInner), reports := reports s @ [(i, shared s)]\<rparr>)
      else None)"

fun exec_all :: "'sys platform \<Rightarrow> 'sys move list \<Rightarrow> 'sys world \<Rightarrow> 'sys world option" where
  "exec_all P [] s = Some s"
| "exec_all P (m # ms) s = (case exec P m s of None \<Rightarrow> None | Some s' \<Rightarrow> exec_all P ms s')"

lemma exec_sound: "exec P m s = Some s' \<Longrightarrow> cstep P s s'"
  by (cases m) (auto split: if_splits pc.splits intro: cstep.intros)

lemma exec_all_sound: "exec_all P ms s = Some s' \<Longrightarrow> (cstep P)\<^sup>*\<^sup>* s s'"
  by (induction ms arbitrary: s)
    (auto split: option.splits dest: exec_sound intro: converse_rtranclp_into_rtranclp)

theorem concurrent_serializable_witness:
  "\<exists>s. exec_all other_platform
      [MIo 0 (IoRead 5 None 7), MIo 1 (IoWrite 3 None 8), MAcquire 1, MRelease 1, MAcquire 0, MRelease 0]
      (start (new_Conn other_platform 1 0
        \<lparr>is_TCPConn = True, LocalAddr = None, RemoteAddr = None, nc_closed = False\<rparr>)) = Some s \<and>
    history s = [IoWrite 3 None 8, IoRead 5 None 7] \<and>
    RxBytes (shared s) = 5 \<and> FirstRxAt (shared s) = 7 \<and> TxBytes (shared s) = 3 \<and> holders s = {}"
  (is "\<exists>s. exec_all _ ?ms ?s0 = Some s \<and> _")
proof -
  obtain s where s: "exec_all other_platform ?ms ?s0 = Some s" "history s = [IoWrite 3 None 8, IoRead 5 None 7]"
    "\<not> locked (shared s)"
    by (simp add: start_def new_Conn_def)
  from concurrent_serializable [OF unused_new_Conn exec_all_sound [OF s(1)]] s
  show ?thesis by (auto simp: rx_matches_def tx_matches_def total_def good_times_def)
qed


end
