(* ===== verification/Kernel_Version.thy ===== *)
theory Kernel_Version
  imports Go_Prelude "HOL-Library.Product_Lexorder"
begin

text \<open>
  Package \<open>pkg/kernel\<close>: kernel versions, their comparison, the parser of release
  strings and the queries of the running kernel.

  \<open>ParseRelease\<close> calls \<open>fmt.Sscanf\<close>; the scanner is modelled on bytes, exactly
  for ASCII input (every byte a rune): \<open>%d\<close>, \<open>%s\<close> and literal characters, with
  its treatment of blanks, newlines, signs, end of input and 64-bit overflow. The system
  calls \<open>unix.Uname\<close>, \<open>windows.GetVersion\<close>, the registry and
  \<open>unix.ByteSliceToString\<close> are parameters.

  The locale \<open>three_way_compare\<close> is the contract of a comparison function that returns
  a negative, zero or positive number; its table lemmas are what
  \<open>adaptToKernelVersion\<close> of package \<open>tcpinfo\<close> relies on.
\<close>

section \<open>Versions and their comparison (kernel.go)\<close>

record VersionInfo =
  Kernel :: int
  Major :: int
  Minor :: int
  Flavor :: string

definition VersionInfo_String :: "VersionInfo \<Rightarrow> string" where
  "VersionInfo_String k =
     format_int (Kernel k) @ ''.'' @ format_int (Major k) @ ''.'' @ format_int (Minor k) @ Flavor k"

definition CompareKernelVersion :: "VersionInfo \<Rightarrow> VersionInfo \<Rightarrow> int" where
  "CompareKernelVersion a b =
     (if Kernel a < Kernel b then -1
      else if Kernel a > Kernel b then 1
      else if Major a < Major b then -1
      else if Major a > Major b then 1
      else if Minor a < Minor b then -1
      else if Minor a > Minor b then 1
      else 0)"

section \<open>The fmt scanner\<close>

definition is_space :: "char \<Rightarrow> bool" where
  "is_space c \<longleftrightarrow> (9 \<le> (of_char c :: nat) \<and> (of_char c :: nat) \<le> 13) \<or> c = CHR '' ''"

text \<open>Blanks are skipped; a newline is an error, since \<open>Sscanf\<close> does not treat it as a blank.\<close>

fun SkipSpace :: "string \<Rightarrow> string option" where
  "SkipSpace [] = Some []"
| "SkipSpace (c # s) =
     (if c = CHR 0x0D \<and> s \<noteq> [] \<and> hd s = CHR 0x0A then SkipSpace s
      else if c = CHR 0x0A then None
      else if is_space c then SkipSpace s
      else Some (c # s))"

definition fits_int :: "int \<Rightarrow> bool" where
  "fits_int i \<longleftrightarrow> - (2 ^ 63) \<le> i \<and> i < 2 ^ 63"

definition is_sign :: "char \<Rightarrow> bool" where
  "is_sign c \<longleftrightarrow> c = CHR ''+'' \<or> c = CHR ''-''"

definition scan_int :: "string \<Rightarrow> (int \<times> string) option" where
  "scan_int s =
     (case SkipSpace s of
        None \<Rightarrow> None
      | Some [] \<Rightarrow> None
      | Some (c # t) \<Rightarrow>
          (let u = (if is_sign c then t else c # t);
               ds = takeWhile is_digit u;
               v = (if c = CHR ''-'' then - int (digits_value ds) else int (digits_value ds))
           in if ds = [] \<or> \<not> fits_int v then None else Some (v, dropWhile is_digit u)))"

definition scan_word :: "string \<Rightarrow> (string \<times> string) option" where
  "scan_word s =
     (case SkipSpace s of
        None \<Rightarrow> None
      | Some [] \<Rightarrow> None
      | Some (c # t) \<Rightarrow>
          Some (takeWhile (\<lambda>x. \<not> is_space x) (c # t), dropWhile (\<lambda>x. \<not> is_space x) (c # t)))"

datatype directive = Lit char | VerbD | VerbS
datatype scan_val = SInt int | SStr string

text \<open>
  The values stored before the first failure; their number is \<open>Sscanf\<close>'s first result.
\<close>

fun Sscanf :: "string \<Rightarrow> directive list \<Rightarrow> scan_val list" where
  "Sscanf s [] = []"
| "Sscanf s (Lit c # ds) =
     (case s of [] \<Rightarrow> [] | x # t \<Rightarrow> if x = c then Sscanf t ds else [])"
| "Sscanf s (VerbD # ds) =
     (case scan_int s of None \<Rightarrow> [] | Some (i, t) \<Rightarrow> SInt i # Sscanf t ds)"
| "Sscanf s (VerbS # ds) =
     (case scan_word s of None \<Rightarrow> [] | Some (w, t) \<Rightarrow> SStr w # Sscanf t ds)"

text \<open>A variable whose operand was not reached keeps its zero value.\<close>

definition int_at :: "scan_val list \<Rightarrow> nat \<Rightarrow> int" where
  "int_at vs i = (if i < length vs then case vs ! i of SInt n \<Rightarrow> n | SStr _ \<Rightarrow> 0 else 0)"

definition str_at :: "scan_val list \<Rightarrow> nat \<Rightarrow> string" where
  "str_at vs i = (if i < length vs then case vs ! i of SInt _ \<Rightarrow> [] | SStr w \<Rightarrow> w else [])"

definition ParseRelease :: "string \<Rightarrow> error + VersionInfo" where
  "ParseRelease release =
     (let vs = Sscanf release [VerbD, Lit (CHR ''.''), VerbD, VerbS];
          partial = str_at vs 2;
          ws = Sscanf partial [Lit (CHR ''.''), VerbD, VerbS]
      in if length vs < 2 then Inl (PlainError (''Can'' @ [CHR 0x27] @ ''t parse kernel version '' @ release))
         else Inr \<lparr>Kernel = int_at vs 0, Major = int_at vs 1, Minor = int_at ws 0,
                   Flavor = (if length ws < 1 then partial else str_at ws 1)\<rparr>)"

section \<open>Querying the running kernel (kernel_unix.go, uname_unix.go, uname_unsupported.go)\<close>

record Utsname =
  Release :: string
  Machine :: string

definition uname :: "error + Utsname \<Rightarrow> error + Utsname" where
  "uname unix_Uname = (case unix_Uname of Inl err \<Rightarrow> Inl err | Inr uts \<Rightarrow> Inr uts)"

definition uname_unsupported :: "error + Utsname" where
  "uname_unsupported = Inl (PlainError ''kernel version detection is not available on this platform'')"

definition GetKernelVersion :: "(string \<Rightarrow> string) \<Rightarrow> error + Utsname \<Rightarrow> error + VersionInfo" where
  "GetKernelVersion byteSliceToString unix_Uname =
     (case uname unix_Uname of
        Inl err \<Rightarrow> Inl err
      | Inr uts \<Rightarrow> ParseRelease (byteSliceToString (Release uts)))"

definition CheckKernelVersion ::
    "(string \<Rightarrow> string) \<Rightarrow> error + Utsname \<Rightarrow> int \<Rightarrow> int \<Rightarrow> int \<Rightarrow> bool \<times> error option" where
  "CheckKernelVersion byteSliceToString unix_Uname k major minor =
     (case GetKernelVersion byteSliceToString unix_Uname of
        Inl err \<Rightarrow> (False, Some err)
      | Inr v \<Rightarrow>
          if CompareKernelVersion v \<lparr>Kernel = k, Major = major, Minor = minor, Flavor = []\<rparr> < 0
          then (False, None) else (True, None))"

section \<open>Windows (kernel_windows.go)\<close>

record WinVersionInfo =
  kvi :: string
  win_major :: int
  win_minor :: int
  build :: int

definition WinVersionInfo_String :: "WinVersionInfo \<Rightarrow> string" where
  "WinVersionInfo_String k =
     format_int (win_major k) @ ''.'' @ format_int (win_minor k) @ '' '' @ format_int (build k)
       @ '' ('' @ kvi k @ '')''"

text \<open>
  The parameters are the results of \<open>registry.OpenKey\<close>, \<open>GetStringValue\<close> of
  \<open>BuildLabEx\<close> and \<open>windows.GetVersion\<close>.
\<close>

definition win_GetKernelVersion ::
    "error option \<Rightarrow> error + string \<Rightarrow> error + u32 \<Rightarrow> WinVersionInfo \<times> error option" where
  "win_GetKernelVersion openKey buildLabEx getVersion =
     (let KVI = \<lparr>kvi = ''Unknown'', win_major = 0, win_minor = 0, build = 0\<rparr> in
      case openKey of
        Some err \<Rightarrow> (KVI, Some err)
      | None \<Rightarrow>
          (case buildLabEx of
             Inl err \<Rightarrow> (KVI, Some err)
           | Inr blex \<Rightarrow>
               (case getVersion of
                  Inl err \<Rightarrow> (KVI\<lparr>kvi := blex\<rparr>, Some err)
                | Inr dwVersion \<Rightarrow>
                    (KVI\<lparr>kvi := blex,
                         win_major := uint (dwVersion AND 0xFF),
                         win_minor := uint (drop_bit 8 (dwVersion AND 0xFF00)),
                         build := uint (drop_bit 16 (dwVersion AND 0xFFFF0000))\<rparr>, None))))"

section \<open>The comparison contract\<close>

text \<open>
  A three-way comparison orders its arguments by a key in a linear order. From that alone:
  its sign is antisymmetric and transitive, and in a table whose keys increase the entries
  at or below a value are a prefix of the table.
\<close>

locale three_way_compare =
  fixes cmp :: "'a \<Rightarrow> 'a \<Rightarrow> int"
    and key :: "'a \<Rightarrow> 'k::linorder"
  assumes neg: "cmp a b < 0 \<longleftrightarrow> key a < key b"
    and zero: "cmp a b = 0 \<longleftrightarrow> key a = key b"
begin

lemma pos: "cmp a b > 0 \<longleftrightarrow> key a > key b"
  using neg [of a b] zero [of a b] by (metis less_linear order_less_asym)

lemma ge: "cmp a b \<ge> 0 \<longleftrightarrow> key b \<le> key a"
  using neg [of a b] by (metis not_less)

lemma ge_trans: "cmp a b \<ge> 0 \<Longrightarrow> cmp b c \<ge> 0 \<Longrightarrow> cmp a c \<ge> 0"
  by (auto simp: ge)

lemma swap_neg: "cmp a b < 0 \<longleftrightarrow> cmp b a > 0"
  by (simp add: neg pos)

lemma at_least_prefix:
  assumes "sorted_wrt (\<lambda>x y. key x < key y) ts" "j \<le> i" "i < length ts" "cmp v (ts ! i) \<ge> 0"
  shows "cmp v (ts ! j) \<ge> 0"
proof (cases "j = i")
  case False
  with assms(2) have "j < i" by simp
  then have "key (ts ! j) < key (ts ! i)" using assms(3) by (rule sorted_wrt_nth_less [OF assms(1)])
  with assms(4) show ?thesis by (simp add: ge)
qed (use assms in simp)

end

definition version_key :: "VersionInfo \<Rightarrow> int \<times> int \<times> int" where
  "version_key v = (Kernel v, Major v, Minor v)"

interpretation kernel_cmp: three_way_compare CompareKernelVersion version_key
  by unfold_locales (auto simp: CompareKernelVersion_def version_key_def)

section \<open>The scanner on what the formatter prints\<close>

lemma digit_not_space: "is_digit c \<Longrightarrow> \<not> is_space c"
  by (auto simp: is_digit_def is_space_def)

lemma digit_not_sign: "is_digit c \<Longrightarrow> \<not> is_sign c"
  by (auto simp: is_digit_def is_sign_def)

lemma sign_not_space: "is_sign c \<Longrightarrow> \<not> is_space c"
  by (auto simp: is_space_def is_sign_def)

lemma SkipSpace_nonspace: "\<not> is_space c \<Longrightarrow> SkipSpace (c # s) = Some (c # s)"
  by (auto simp: is_space_def)

definition stops_digits :: "string \<Rightarrow> bool" where
  "stops_digits s \<longleftrightarrow> (case s of [] \<Rightarrow> True | c # _ \<Rightarrow> \<not> is_digit c)"

lemma takeWhile_digits:
  "list_all is_digit ds \<Longrightarrow> stops_digits s \<Longrightarrow>
     takeWhile is_digit (ds @ s) = ds \<and> dropWhile is_digit (ds @ s) = s"
  by (induction ds) (auto simp: stops_digits_def split: list.splits)

lemma scan_int_format_nat:
  assumes "stops_digits s" "fits_int (int n)"
  shows "scan_int (format_nat n @ s) = Some (int n, s)"
proof -
  obtain c t where ct: "format_nat n = c # t" by (cases "format_nat n") auto
  have d: "is_digit c" using format_nat_set [of c n] ct by simp
  have tw: "takeWhile is_digit (c # t @ s) = c # t" "dropWhile is_digit (c # t @ s) = s"
    using takeWhile_digits [OF format_nat_digits [of n] assms(1)] ct by simp_all
  have v: "digits_value (c # t) = n" using digits_value_format_nat [of n] ct by simp
  have "c \<noteq> CHR ''-''" using digit_not_sign [OF d] by (auto simp: is_sign_def)
  moreover have "SkipSpace (c # t @ s) = Some (c # t @ s)"
    using d by (intro SkipSpace_nonspace digit_not_space)
  ultimately show ?thesis
    using assms(2) digit_not_sign [OF d] unfolding scan_int_def ct append_Cons
    by (simp only: option.case list.case if_False Let_def tw v) simp
qed

lemma scan_int_minus_format_nat:
  assumes "stops_digits s" "fits_int (- int n)"
  shows "scan_int (CHR ''-'' # format_nat n @ s) = Some (- int n, s)"
proof -
  have sk: "SkipSpace (CHR ''-'' # format_nat n @ s) = Some (CHR ''-'' # format_nat n @ s)"
    by (rule SkipSpace_nonspace) (simp add: is_space_def)
  show ?thesis
    using takeWhile_digits [OF format_nat_digits [of n] assms(1)] assms(2)
    unfolding scan_int_def sk by (simp add: Let_def is_sign_def)
qed

lemma scan_int_format_int:
  "stops_digits s \<Longrightarrow> fits_int i \<Longrightarrow> scan_int (format_int i @ s) = Some (i, s)"
  using scan_int_format_nat [of s "nat i"] scan_int_minus_format_nat [of s "nat (- i)"]
  by (simp add: format_int_def)

lemma format_int_nospace: "c \<in> set (format_int i) \<Longrightarrow> \<not> is_space c"
  by (auto simp: format_int_def is_space_def split: if_splits
      dest!: format_nat_set digit_not_space)

lemma scan_word_all:
  "s \<noteq> [] \<Longrightarrow> \<forall>c \<in> set s. \<not> is_space c \<Longrightarrow> scan_word s = Some (s, [])"
  by (cases s) (auto simp: scan_word_def SkipSpace_nonspace simp del: SkipSpace.simps)

section \<open>What the scanner accepts\<close>

definition blanks :: "string \<Rightarrow> bool" where
  "blanks s \<longleftrightarrow> (\<forall>c \<in> set s. is_space c \<and> c \<noteq> CHR 0x0A)"

definition int_literal :: "string \<Rightarrow> int \<Rightarrow> bool" where
  "int_literal s i \<longleftrightarrow>
     (\<exists>sg ds. s = sg @ ds \<and> sg \<in> {[], ''+'', ''-''} \<and> ds \<noteq> [] \<and> list_all is_digit ds \<and>
        i = (if sg = ''-'' then - int (digits_value ds) else int (digits_value ds)))"

lemma SkipSpace_blanks:
  "blanks b \<Longrightarrow> \<not> is_space c \<Longrightarrow> SkipSpace (b @ c # s) = Some (c # s)"
proof (induction b)
  case Nil
  then show ?case using SkipSpace_nonspace by simp
next
  case (Cons x b)
  have "hd (b @ c # s) \<noteq> CHR 0x0A"
    using Cons.prems by (cases b) (auto simp: blanks_def is_space_def)
  with Cons show ?case by (auto simp: blanks_def)
qed

lemma SkipSpace_SomeD:
  "SkipSpace s = Some t \<Longrightarrow> \<exists>b. s = b @ t \<and> blanks b \<and> (t \<noteq> [] \<longrightarrow> \<not> is_space (hd t))"
proof (induction s arbitrary: t)
  case Nil
  then show ?case by (auto simp: blanks_def)
next
  case (Cons c s)
  show ?case
  proof (cases "is_space c \<and> c \<noteq> CHR 0x0A")
    case True
    with Cons.prems have "SkipSpace s = Some t" by (auto split: if_splits)
    with Cons.IH obtain b where "s = b @ t" "blanks b" "t \<noteq> [] \<longrightarrow> \<not> is_space (hd t)" by blast
    with True show ?thesis by (intro exI [of _ "c # b"]) (auto simp: blanks_def)
  next
    case False
    with Cons.prems have "t = c # s \<and> \<not> is_space c" by (auto simp: is_space_def split: if_splits)
    then show ?thesis by (intro exI [of _ "[]"]) (auto simp: blanks_def)
  qed
qed

lemma int_literal_cases:
  assumes "int_literal n i"
  obtains c ds where "n = c # ds" "is_digit c" "list_all is_digit ds" "i = int (digits_value n)"
  | c d ds where "n = c # d # ds" "is_sign c" "list_all is_digit (d # ds)"
      "i = (if c = CHR ''-'' then - int (digits_value (d # ds)) else int (digits_value (d # ds)))"
proof -
  from assms obtain sg ds where *: "n = sg @ ds" "sg \<in> {[], ''+'', ''-''}" "ds \<noteq> []" "list_all is_digit ds"
      "i = (if sg = ''-'' then - int (digits_value ds) else int (digits_value ds))"
    unfolding int_literal_def by blast
  obtain d ds' where d: "ds = d # ds'" using *(3) by (cases ds) auto
  show ?thesis
  proof (cases "sg = []")
    case True
    with * d show ?thesis by (intro that(1) [of d ds']) auto
  next
    case False
    with * d show ?thesis by (intro that(2) [of "hd sg" d ds']) (auto simp: is_sign_def)
  qed
qed

lemma scan_int_complete:
  assumes "blanks b" "int_literal n i" "fits_int i" "stops_digits t"
  shows "scan_int (b @ n @ t) = Some (i, t)"
  using assms(2)
proof (cases rule: int_literal_cases)
  case (1 c ds)
  have "SkipSpace (b @ n @ t) = Some (c # ds @ t)"
    using SkipSpace_blanks [OF assms(1) digit_not_space [OF 1(2)]] 1(1) by simp
  moreover have "takeWhile is_digit (n @ t) = n" "dropWhile is_digit (n @ t) = t"
    using takeWhile_digits [OF _ assms(4), of n] 1 by simp_all
  moreover have "\<not> is_sign c" using 1(2) by (rule digit_not_sign)
  ultimately show ?thesis
    using 1 assms(3) by (auto simp: scan_int_def Let_def is_sign_def)
next
  case (2 c d ds)
  have "SkipSpace (b @ n @ t) = Some (c # d # ds @ t)"
    using SkipSpace_blanks [OF assms(1) sign_not_space [OF 2(2)]] 2(1) by simp
  moreover have "takeWhile is_digit (d # ds @ t) = d # ds" "dropWhile is_digit (d # ds @ t) = t"
    using takeWhile_digits [OF 2(3) assms(4)] by simp_all
  ultimately show ?thesis
    using 2 assms(3) by (auto simp: scan_int_def Let_def split: if_splits)
qed

lemma scan_int_sound:
  assumes "scan_int s = Some (i, t)"
  shows "\<exists>b n. s = b @ n @ t \<and> blanks b \<and> int_literal n i \<and> fits_int i \<and> stops_digits t"
proof -
  from assms obtain c r where sk: "SkipSpace s = Some (c # r)"
    unfolding scan_int_def by (auto split: option.splits list.splits)
  define u where "u = (if is_sign c then r else c # r)"
  define sg where "sg = (if is_sign c then [c] else [])"
  have cr: "c # r = sg @ u" by (simp add: u_def sg_def)
  let ?ds = "takeWhile is_digit u"
  let ?v = "if c = CHR ''-'' then - int (digits_value ?ds) else int (digits_value ?ds)"
  have eq: "scan_int s = (if ?ds = [] \<or> \<not> fits_int ?v then None else Some (?v, dropWhile is_digit u))"
    unfolding scan_int_def sk u_def Let_def by (simp only: option.case list.case)
  have "\<not> (?ds = [] \<or> \<not> fits_int ?v)" using assms unfolding eq by (metis option.distinct(1))
  with assms have *: "?ds \<noteq> []" "fits_int ?v" "i = ?v" "t = dropWhile is_digit u"
    unfolding eq by simp_all
  have lit: "int_literal (sg @ ?ds) i"
    unfolding int_literal_def
    by (intro exI [of _ sg] exI [of _ ?ds] conjI)
      (use * in \<open>auto simp: sg_def is_sign_def list_all_iff dest: set_takeWhileD\<close>)
  obtain b where b: "s = b @ (c # r)" "blanks b" using SkipSpace_SomeD [OF sk] by blast
  have "stops_digits t"
    unfolding stops_digits_def *(4) by (auto simp: dropWhile_eq_Cons_conv split: list.splits)
  moreover have "s = b @ (sg @ ?ds) @ t" using b(1) cr *(4) by simp
  ultimately show ?thesis using b(2) lit * by blast
qed

lemma scan_int_Some_iff:
  "scan_int s = Some (i, t) \<longleftrightarrow>
     (\<exists>b n. s = b @ n @ t \<and> blanks b \<and> int_literal n i \<and> fits_int i \<and> stops_digits t)"
  using scan_int_sound scan_int_complete by blast

section \<open>Properties of the package\<close>

text \<open>
  The releases \<open>ParseRelease\<close> is meant to read: two integers separated by a dot, each
  possibly after blanks and with a sign, then anything that does not continue the second.
\<close>

definition release_syntax :: "string \<Rightarrow> int \<Rightarrow> int \<Rightarrow> bool" where
  "release_syntax r k m \<longleftrightarrow>
     (\<exists>b1 n1 b2 n2 rest. r = b1 @ n1 @ ''.'' @ b2 @ n2 @ rest \<and> blanks b1 \<and> blanks b2 \<and>
        int_literal n1 k \<and> int_literal n2 m \<and> fits_int k \<and> fits_int m \<and> stops_digits rest)"

lemma release_syntax_scan:
  "release_syntax r k m \<longleftrightarrow>
     (\<exists>t u. scan_int r = Some (k, CHR ''.'' # t) \<and> scan_int t = Some (m, u))"
proof
  assume "release_syntax r k m"
  then obtain b1 n1 b2 n2 rest where *: "r = b1 @ n1 @ ''.'' @ b2 @ n2 @ rest" "blanks b1" "blanks b2"
      "int_literal n1 k" "int_literal n2 m" "fits_int k" "fits_int m" "stops_digits rest"
    unfolding release_syntax_def by blast
  have "stops_digits (CHR ''.'' # b2 @ n2 @ rest)" by (simp add: stops_digits_def is_digit_def)
  with * have "scan_int r = Some (k, CHR ''.'' # b2 @ n2 @ rest)"
    using scan_int_complete [of b1 n1 k "CHR ''.'' # b2 @ n2 @ rest"] by simp
  moreover have "scan_int (b2 @ n2 @ rest) = Some (m, rest)"
    using * by (intro scan_int_complete)
  ultimately show "\<exists>t u. scan_int r = Some (k, CHR ''.'' # t) \<and> scan_int t = Some (m, u)" by blast
next
  assume "\<exists>t u. scan_int r = Some (k, CHR ''.'' # t) \<and> scan_int t = Some (m, u)"
  then obtain t u where 1: "scan_int r = Some (k, CHR ''.'' # t)" and 2: "scan_int t = Some (m, u)"
    by blast
  from scan_int_sound [OF 1] obtain b1 n1 where
    "r = b1 @ n1 @ CHR ''.'' # t" "blanks b1" "int_literal n1 k" "fits_int k" by blast
  moreover from scan_int_sound [OF 2] obtain b2 n2 where
    "t = b2 @ n2 @ u" "blanks b2" "int_literal n2 m" "fits_int m" "stops_digits u" by blast
  ultimately show "release_syntax r k m"
    unfolding release_syntax_def
    by (intro exI [of _ b1] exI [of _ n1] exI [of _ b2] exI [of _ n2] exI [of _ u]) simp
qed

lemma Sscanf_release_cases:
  obtains "length (Sscanf r [VerbD, Lit (CHR ''.''), VerbD, VerbS]) < 2"
      "\<nexists>k m t u. scan_int r = Some (k, CHR ''.'' # t) \<and> scan_int t = Some (m, u)"
  | k m t u vs where "scan_int r = Some (k, CHR ''.'' # t)" "scan_int t = Some (m, u)"
      "Sscanf r [VerbD, Lit (CHR ''.''), VerbD, VerbS] = SInt k # SInt m # vs"
proof (cases "\<exists>k m t u. scan_int r = Some (k, CHR ''.'' # t) \<and> scan_int t = Some (m, u)")
  case True
  then obtain k m t u where "scan_int r = Some (k, CHR ''.'' # t)" "scan_int t = Some (m, u)" by blast
  then show ?thesis by (intro that(2)) auto
next
  case False
  then have "length (Sscanf r [VerbD, Lit (CHR ''.''), VerbD, VerbS]) < 2"
    by (auto split: option.split list.split)
  with False show ?thesis by (rule that(1) [rotated])
qed

lemma ParseRelease_short:
  "length (Sscanf r [VerbD, Lit (CHR ''.''), VerbD, VerbS]) < 2 \<Longrightarrow>
     ParseRelease r = Inl (PlainError (''Can'' @ [CHR 0x27] @ ''t parse kernel version '' @ r))"
  unfolding ParseRelease_def Let_def by (simp only: if_True)

lemma ParseRelease_long:
  "Sscanf r [VerbD, Lit (CHR ''.''), VerbD, VerbS] = SInt k # SInt m # vs \<Longrightarrow>
     \<exists>v. ParseRelease r = Inr v \<and> Kernel v = k \<and> Major v = m"
  by (simp add: ParseRelease_def Let_def int_at_def del: Sscanf.simps)

text \<open>
  C9. \<open>ParseRelease\<close> accepts exactly the release strings that start with two dotted
  64-bit integers and returns those two numbers; any other string gives an error whose text
  is the message the tests expect, with the offending string.
\<close>

theorem ParseRelease_correct:
  "case ParseRelease r of
     Inr v \<Rightarrow> release_syntax r (Kernel v) (Major v)
   | Inl e \<Rightarrow> (\<forall>k m. \<not> release_syntax r k m) \<and>
        Error e = ''Can'' @ [CHR 0x27] @ ''t parse kernel version '' @ r"
proof (cases rule: Sscanf_release_cases [of r])
  case 1
  then show ?thesis by (simp add: ParseRelease_short release_syntax_scan del: Sscanf.simps)
next
  case (2 k m t u vs)
  then have "release_syntax r k m" by (auto simp: release_syntax_scan)
  with ParseRelease_long [OF 2(3)] show ?thesis by auto
qed

definition flavor_ok :: "string \<Rightarrow> bool" where
  "flavor_ok f \<longleftrightarrow> stops_digits f \<and> (\<forall>c \<in> set f. \<not> is_space c)"

text \<open>
  C20. Printing a version and parsing the result gives the version back, for every version
  whose numbers fit a 64-bit \<open>int\<close> and whose flavor has no blanks and does not start
  with a digit.
\<close>

theorem ParseRelease_String:
  assumes "fits_int (Kernel v)" "fits_int (Major v)" "fits_int (Minor v)" "flavor_ok (Flavor v)"
  shows "ParseRelease (VersionInfo_String v) = Inr v"
proof -
  let ?p = "CHR ''.'' # format_int (Minor v) @ Flavor v"
  have dot: "stops_digits (CHR ''.'' # s)" for s by (simp add: stops_digits_def is_digit_def)
  have "\<not> is_space (CHR ''.'')" by (simp add: is_space_def)
  with assms(4) have "\<forall>c \<in> set ?p. \<not> is_space c"
    by (auto simp: flavor_ok_def dest: format_int_nospace)
  then have p: "scan_word ?p = Some (?p, [])" by (intro scan_word_all) simp
  have 1: "Sscanf (VersionInfo_String v) [VerbD, Lit (CHR ''.''), VerbD, VerbS] =
      [SInt (Kernel v), SInt (Major v), SStr ?p]"
    using assms(1,2) dot p by (simp add: VersionInfo_String_def scan_int_format_int)
  have f: "scan_int (format_int (Minor v) @ Flavor v) = Some (Minor v, Flavor v)"
    using assms(3,4) by (simp add: scan_int_format_int flavor_ok_def)
  have 2: "Sscanf ?p [Lit (CHR ''.''), VerbD, VerbS] =
      SInt (Minor v) # (if Flavor v = [] then [] else [SStr (Flavor v)])"
    using assms(4) f
    by (auto simp: flavor_ok_def scan_word_all) (simp add: scan_word_def)
  show ?thesis
    unfolding ParseRelease_def Let_def 1 using 2 by (auto simp: int_at_def str_at_def)
qed

theorem ParseRelease_String_witness:
  "ParseRelease (VersionInfo_String \<lparr>Kernel = 3, Major = 8, Minor = 0, Flavor = ''-19-generic''\<rparr>) =
     Inr \<lparr>Kernel = 3, Major = 8, Minor = 0, Flavor = ''-19-generic''\<rparr>"
  by (rule ParseRelease_String) (simp_all add: fits_int_def flavor_ok_def stops_digits_def is_digit_def is_space_def)

text \<open>
  \<open>CompareKernelVersion\<close> is the three-way comparison of the lexicographic order of
  kernel, major and minor number: -1, 0 and 1 for less, equal and greater. The flavor plays
  no role.
\<close>

lemma CompareKernelVersion_lexicographic:
  "CompareKernelVersion a b =
     (if (Kernel a, Major a, Minor a) < (Kernel b, Major b, Minor b) then -1
      else if (Kernel a, Major a, Minor a) = (Kernel b, Major b, Minor b) then 0 else 1)"
  by (auto simp: CompareKernelVersion_def)

text \<open>
  A release without a dotted minor number (\<open>3.12-1-amd64\<close>) parses with minor number
  0 and the whole rest as the flavor.
\<close>

lemma ParseRelease_two_components:
  assumes "fits_int k" "fits_int m" "flavor_ok f" "\<not> HasPrefix f ''.''"
  shows "ParseRelease (format_int k @ ''.'' @ format_int m @ f) =
    Inr \<lparr>Kernel = k, Major = m, Minor = 0, Flavor = f\<rparr>"
proof -
  have dot: "stops_digits (CHR ''.'' # s)" for s by (simp add: stops_digits_def is_digit_def)
  have 1: "Sscanf (format_int k @ ''.'' @ format_int m @ f) [VerbD, Lit (CHR ''.''), VerbD, VerbS] =
      SInt k # SInt m # (if f = [] then [] else [SStr f])"
    using assms(1-3) dot
    by (auto simp: scan_int_format_int flavor_ok_def scan_word_all) (simp add: scan_word_def)
  have 2: "Sscanf f [Lit (CHR ''.''), VerbD, VerbS] = []"
    using assms(4) by (cases f) (auto simp: HasPrefix_def)
  show ?thesis
    unfolding ParseRelease_def Let_def 1 using 2 by (auto simp: int_at_def str_at_def)
qed

text \<open>
  \<open>CheckKernelVersion\<close> answers true exactly when the running kernel's version is at
  least the given one, and false with the error when the version cannot be found.
\<close>

lemma CheckKernelVersion_correct:
  "CheckKernelVersion bs u k major minor =
     (case GetKernelVersion bs u of
        Inl err \<Rightarrow> (False, Some err)
      | Inr v \<Rightarrow> ((k, major, minor) \<le> (Kernel v, Major v, Minor v), None))"
  by (auto simp: CheckKernelVersion_def kernel_cmp.neg version_key_def split: sum.split)

lemma u32_fields:
  fixes w :: u32
  shows "uint (w AND 0xFF) = uint w mod 256"
    and "uint (drop_bit 8 (w AND 0xFF00)) = uint w div 256 mod 256"
    and "uint (drop_bit 16 (w AND 0xFFFF0000)) = uint w div 65536"
proof -
  have m8: "x AND 0xFF = take_bit 8 x" for x :: u32
    by (simp add: take_bit_eq_mask mask_eq_exp_minus_1)
  have m16: "x AND 0xFFFF = take_bit 16 x" for x :: u32
    by (simp add: take_bit_eq_mask mask_eq_exp_minus_1)
  have d8: "drop_bit 8 (w AND 0xFF00) = take_bit 8 (drop_bit 8 w)"
    by (simp add: drop_bit_and m8)
  have d16: "drop_bit 16 (w AND 0xFFFF0000) = take_bit 16 (drop_bit 16 w)"
    by (simp add: drop_bit_and m16)
  have lt: "uint w < 2 ^ 32" using uint_lt2p [of w] by simp
  then have "uint w div 65536 mod 65536 = uint w div 65536"
    by (intro mod_pos_pos_trivial) (auto simp: pos_imp_zdiv_nonneg_iff)
  note lt = lt this
  show "uint (w AND 0xFF) = uint w mod 256"
    unfolding m8 unsigned_take_bit_eq by (simp add: take_bit_eq_mod)
  show "uint (drop_bit 8 (w AND 0xFF00)) = uint w div 256 mod 256"
    unfolding d8 unsigned_take_bit_eq unsigned_drop_bit_eq
    using lt by (simp add: take_bit_eq_mod drop_bit_eq_div)
  show "uint (drop_bit 16 (w AND 0xFFFF0000)) = uint w div 65536"
    unfolding d16 unsigned_take_bit_eq unsigned_drop_bit_eq
    using lt by (simp add: take_bit_eq_mod drop_bit_eq_div)
qed

text \<open>
  On Windows the major, minor and build numbers are the disjoint byte fields of the
  \<open>GetVersion\<close> word: they recompose it, and each is in the range of its field.
\<close>

lemma win_GetKernelVersion_fields:
  "case win_GetKernelVersion None (Inr blex) (Inr dw) of (v, err) \<Rightarrow>
     err = None \<and> kvi v = blex \<and>
     uint dw = win_major v + 256 * win_minor v + 65536 * build v \<and>
     0 \<le> win_major v \<and> win_major v < 256 \<and> 0 \<le> win_minor v \<and> win_minor v < 256 \<and>
     0 \<le> build v \<and> build v < 65536"
proof -
  let ?x = "uint dw"
  have x: "?x < 2 ^ 32" "0 \<le> ?x" using uint_lt2p [of dw] by simp_all
  have y: "?x div 65536 = ?x div 256 div 256" by (simp add: zdiv_zmult2_eq [symmetric])
  have "?x = ?x mod 256 + 256 * (?x div 256 mod 256) + 65536 * (?x div 65536)"
    unfolding y using mod_mult_div_eq [of ?x 256] mod_mult_div_eq [of "?x div 256" 256] by linarith
  moreover have "0 \<le> ?x div 65536" "?x div 65536 < 65536"
    using x by (auto simp: pos_imp_zdiv_nonneg_iff)
  ultimately show ?thesis
    unfolding win_GetKernelVersion_def Let_def
    by (simp only: option.case sum.case prod.case WinVersionInfo.simps u32_fields) simp
qed

end
