(* ===== verification/Tcp_Linux_Init.thy ===== *)
theory Tcp_Linux_Init
  imports Kernel_Version
begin

text \<open>
  \<open>pkg/tcpinfo/init_linux.go\<close>: the package variables that record which
  \<open>tcp_info\<close> fields the running kernel has, and \<open>adaptToKernelVersion\<close>, which sets
  them once when the package is loaded.

  The thirteen boolean variables are the constructors of \<open>kernel_flag\<close>; a table entry
  points at its variable by naming it, so that the store \<open>*tcpInfoSizes[i].Flag = b\<close> is a
  function update. The result of \<open>kernel.GetKernelVersion\<close> is an argument.
\<close>

datatype kernel_flag =
    kernelVersionIsAtLeast_2_6_2
  | kernelVersionIsAtLeast_3_15
  | kernelVersionIsAtLeast_4_1
  | kernelVersionIsAtLeast_4_2
  | kernelVersionIsAtLeast_4_6
  | kernelVersionIsAtLeast_4_9
  | kernelVersionIsAtLeast_4_10
  | kernelVersionIsAtLeast_4_18
  | kernelVersionIsAtLeast_4_19
  | kernelVersionIsAtLeast_5_4
  | kernelVersionIsAtLeast_5_5
  | kernelVersionIsAtLeast_6_2
  | kernelVersionIsAtLeast_6_7

record package_vars =
  linuxKernelVersion :: "VersionInfo option"
  sizeOfRawTCPInfo :: int
  flags :: "kernel_flag \<Rightarrow> bool"

definition initial_vars :: package_vars where
  "initial_vars = \<lparr>linuxKernelVersion = None, sizeOfRawTCPInfo = 0, flags = (\<lambda>_. False)\<rparr>"

record VersionedStructSize =
  Version :: VersionInfo
  Size :: int
  Flag :: kernel_flag

definition kver :: "int \<Rightarrow> int \<Rightarrow> int \<Rightarrow> VersionInfo" where
  "kver k major minor = \<lparr>Kernel = k, Major = major, Minor = minor, Flavor = []\<rparr>"

definition tcpInfoSizes :: "VersionedStructSize list" where
  "tcpInfoSizes =
    [\<lparr>Version = kver 2 6 2, Size = 104, Flag = kernelVersionIsAtLeast_2_6_2\<rparr>,
     \<lparr>Version = kver 3 15 0, Size = 120, Flag = kernelVersionIsAtLeast_3_15\<rparr>,
     \<lparr>Version = kver 4 1 0, Size = 136, Flag = kernelVersionIsAtLeast_4_1\<rparr>,
     \<lparr>Version = kver 4 2 0, Size = 144, Flag = kernelVersionIsAtLeast_4_2\<rparr>,
     \<lparr>Version = kver 4 6 0, Size = 160, Flag = kernelVersionIsAtLeast_4_6\<rparr>,
     \<lparr>Version = kver 4 9 0, Size = 148, Flag = kernelVersionIsAtLeast_4_9\<rparr>,
     \<lparr>Version = kver 4 10 0, Size = 192, Flag = kernelVersionIsAtLeast_4_10\<rparr>,
     \<lparr>Version = kver 4 18 0, Size = 200, Flag = kernelVersionIsAtLeast_4_18\<rparr>,
     \<lparr>Version = kver 4 19 0, Size = 224, Flag = kernelVersionIsAtLeast_4_19\<rparr>,
     \<lparr>Version = kver 5 4 0, Size = 232, Flag = kernelVersionIsAtLeast_5_4\<rparr>,
     \<lparr>Version = kver 5 5 0, Size = 232, Flag = kernelVersionIsAtLeast_5_5\<rparr>,
     \<lparr>Version = kver 6 2 0, Size = 240, Flag = kernelVersionIsAtLeast_6_2\<rparr>,
     \<lparr>Version = kver 6 7 0, Size = 248, Flag = kernelVersionIsAtLeast_6_7\<rparr>]"

definition set_flag :: "kernel_flag \<Rightarrow> bool \<Rightarrow> package_vars \<Rightarrow> package_vars" where
  "set_flag f b g = g\<lparr>flags := (flags g)(f := b)\<rparr>"

text \<open>The inner loop, \<open>for j := i; j >= 0; j--\<close>, called with \<open>Suc i\<close>.\<close>

fun raise_flags :: "nat \<Rightarrow> package_vars \<Rightarrow> package_vars" where
  "raise_flags 0 g = g"
| "raise_flags (Suc j) g = raise_flags j (set_flag (Flag (tcpInfoSizes ! j)) True g)"

text \<open>The outer loop, \<open>for i := len(tcpInfoSizes) - 1; i >= 0; i--\<close>, called with the length.\<close>

fun adapt_loop :: "VersionInfo \<Rightarrow> nat \<Rightarrow> package_vars \<Rightarrow> package_vars" where
  "adapt_loop v 0 g = g"
| "adapt_loop v (Suc i) g =
     (if CompareKernelVersion v (Version (tcpInfoSizes ! i)) \<ge> 0
      then raise_flags (Suc i) (g\<lparr>sizeOfRawTCPInfo := Size (tcpInfoSizes ! i)\<rparr>)
      else adapt_loop v i (set_flag (Flag (tcpInfoSizes ! i)) False g))"

text \<open>
  \<open>linuxKernelVersion, err := ...\<close> declares a local variable of that name: the package
  variable is not assigned.
\<close>

definition adaptToKernelVersion :: "error + VersionInfo \<Rightarrow> package_vars \<Rightarrow> package_vars" where
  "adaptToKernelVersion getKernelVersion g =
     (let v = (case getKernelVersion of Inl _ \<Rightarrow> kver 2 6 2 | Inr v \<Rightarrow> v)
      in adapt_loop v (length tcpInfoSizes) g)"

definition init :: "error + VersionInfo \<Rightarrow> package_vars" where
  "init getKernelVersion = adaptToKernelVersion getKernelVersion initial_vars"

section \<open>The table\<close>

text \<open>What the name of each variable promises: the first version for which it is true.\<close>

fun flag_version :: "kernel_flag \<Rightarrow> int \<times> int \<times> int" where
  "flag_version kernelVersionIsAtLeast_2_6_2 = (2, 6, 2)"
| "flag_version kernelVersionIsAtLeast_3_15 = (3, 15, 0)"
| "flag_version kernelVersionIsAtLeast_4_1 = (4, 1, 0)"
| "flag_version kernelVersionIsAtLeast_4_2 = (4, 2, 0)"
| "flag_version kernelVersionIsAtLeast_4_6 = (4, 6, 0)"
| "flag_version kernelVersionIsAtLeast_4_9 = (4, 9, 0)"
| "flag_version kernelVersionIsAtLeast_4_10 = (4, 10, 0)"
| "flag_version kernelVersionIsAtLeast_4_18 = (4, 18, 0)"
| "flag_version kernelVersionIsAtLeast_4_19 = (4, 19, 0)"
| "flag_version kernelVersionIsAtLeast_5_4 = (5, 4, 0)"
| "flag_version kernelVersionIsAtLeast_5_5 = (5, 5, 0)"
| "flag_version kernelVersionIsAtLeast_6_2 = (6, 2, 0)"
| "flag_version kernelVersionIsAtLeast_6_7 = (6, 7, 0)"

text \<open>The version the package adapts to: the running one, or 2.6.2 when it is unknown.\<close>

definition adapted_key :: "error + VersionInfo \<Rightarrow> int \<times> int \<times> int" where
  "adapted_key kv = (case kv of Inl _ \<Rightarrow> (2, 6, 2) | Inr v \<Rightarrow> version_key v)"

lemma length_tcpInfoSizes [simp]: "length tcpInfoSizes = 13"
  by (simp add: tcpInfoSizes_def)

lemma sorted_tcpInfoSizes:
  "sorted_wrt (\<lambda>x y. version_key x < version_key y) (map Version tcpInfoSizes)"
  by (simp add: tcpInfoSizes_def kver_def version_key_def)

lemma distinct_tcpInfoSizes: "distinct (map Flag tcpInfoSizes)"
  by (simp add: tcpInfoSizes_def)

lemma flag_in_tcpInfoSizes:
  "\<exists>e \<in> set tcpInfoSizes. Flag e = f \<and> version_key (Version e) = flag_version f"
  by (cases f) (simp_all add: tcpInfoSizes_def kver_def version_key_def)

lemma Flag_inject:
  "i < 13 \<Longrightarrow> j < 13 \<Longrightarrow> Flag (tcpInfoSizes ! i) = Flag (tcpInfoSizes ! j) \<longleftrightarrow> i = j"
  using nth_eq_iff_index_eq [OF distinct_tcpInfoSizes, of i j] by simp

lemma obtain_flag_index:
  obtains i where "i < 13" "f = Flag (tcpInfoSizes ! i)"
    "version_key (Version (tcpInfoSizes ! i)) = flag_version f"
  using flag_in_tcpInfoSizes [of f] by (auto simp: in_set_conv_nth)

section \<open>The loops\<close>

lemma set_flag_other [simp]:
  "sizeOfRawTCPInfo (set_flag f b g) = sizeOfRawTCPInfo g"
  "linuxKernelVersion (set_flag f b g) = linuxKernelVersion g"
  by (simp_all add: set_flag_def)

lemma raise_flags_other [simp]:
  "sizeOfRawTCPInfo (raise_flags n g) = sizeOfRawTCPInfo g"
  "linuxKernelVersion (raise_flags n g) = linuxKernelVersion g"
  by (induction n g rule: raise_flags.induct) (simp_all add: set_flag_def)

lemma flags_raise_flags:
  "n \<le> 13 \<Longrightarrow> i < 13 \<Longrightarrow> flags (raise_flags n g) (Flag (tcpInfoSizes ! i)) \<longleftrightarrow>
     i < n \<or> flags g (Flag (tcpInfoSizes ! i))"
proof (induction n g rule: raise_flags.induct)
  case (2 j g)
  then show ?case by (auto simp: set_flag_def Flag_inject less_Suc_eq)
qed simp

lemma adapt_loop_version [simp]: "linuxKernelVersion (adapt_loop v n g) = linuxKernelVersion g"
  by (induction v n g rule: adapt_loop.induct) (simp_all add: set_flag_def)

text \<open>
  After the loop over the first \<open>n\<close> entries, the flag of such an entry says whether the
  version is at or above the entry's.
\<close>

lemma flags_adapt_loop:
  "n \<le> 13 \<Longrightarrow> i < 13 \<Longrightarrow> flags (adapt_loop v n g) (Flag (tcpInfoSizes ! i)) \<longleftrightarrow>
     (if i < n then CompareKernelVersion v (Version (tcpInfoSizes ! i)) \<ge> 0
      else flags g (Flag (tcpInfoSizes ! i)))"
proof (induction v n g rule: adapt_loop.induct)
  case (2 v n g)
  show ?case
  proof (cases "CompareKernelVersion v (Version (tcpInfoSizes ! n)) \<ge> 0")
    case True
    have "CompareKernelVersion v (Version (tcpInfoSizes ! i)) \<ge> 0" if "i \<le> n"
      using kernel_cmp.at_least_prefix [OF sorted_tcpInfoSizes, of i n v] that True "2.prems" by simp
    with True "2.prems" show ?thesis
      by (simp add: flags_raise_flags del: raise_flags.simps)
  next
    case False
    with "2.IH" "2.prems" show ?thesis
      by (auto simp: set_flag_def Flag_inject less_Suc_eq)
  qed
qed simp

lemma adapted_key_ge:
  "CompareKernelVersion (case kv of Inl _ \<Rightarrow> kver 2 6 2 | Inr v \<Rightarrow> v) e \<ge> 0 \<longleftrightarrow>
     version_key e \<le> adapted_key kv"
  by (simp add: kernel_cmp.ge adapted_key_def version_key_def kver_def split: sum.split)

lemma flags_adapt:
  "flags (adaptToKernelVersion kv g) f \<longleftrightarrow> flag_version f \<le> adapted_key kv"
proof -
  obtain i where i: "i < 13" "f = Flag (tcpInfoSizes ! i)"
    "version_key (Version (tcpInfoSizes ! i)) = flag_version f" by (rule obtain_flag_index)
  show ?thesis
    unfolding adaptToKernelVersion_def Let_def length_tcpInfoSizes i(2) [symmetric] i(3) [symmetric]
    using flags_adapt_loop [of 13 i] i(1,2) by (simp add: adapted_key_ge)
qed

text \<open>The size: that of the last table entry at or below the version, or unchanged if there is none.\<close>

lemma size_adapt_loop:
  "n \<le> 13 \<Longrightarrow> sizeOfRawTCPInfo (adapt_loop v n g) =
     (case find (\<lambda>e. CompareKernelVersion v (Version e) \<ge> 0) (rev (take n tcpInfoSizes)) of
        None \<Rightarrow> sizeOfRawTCPInfo g
      | Some e \<Rightarrow> Size e)"
proof (induction v n g rule: adapt_loop.induct)
  case (2 v n g)
  then show ?case
    by (simp add: take_Suc_conv_app_nth del: raise_flags.simps split: option.split)
qed simp

lemma size_adapt:
  "sizeOfRawTCPInfo (adaptToKernelVersion kv g) =
     (case find (\<lambda>e. version_key (Version e) \<le> adapted_key kv) (rev tcpInfoSizes) of
        None \<Rightarrow> sizeOfRawTCPInfo g
      | Some e \<Rightarrow> Size e)"
  using size_adapt_loop [of 13] by (simp add: adaptToKernelVersion_def Let_def adapted_key_ge)

section \<open>Properties\<close>

text \<open>
  C16. After \<open>adaptToKernelVersion\<close>, from whatever state it ran in, each
  \<open>kernelVersionIsAtLeast\<close> variable is true exactly when the version the package
  adapts to (the running kernel's, or 2.6.2 when it cannot be determined) is at least the
  version in the variable's name.
\<close>

theorem adaptToKernelVersion_flags:
  "flags (adaptToKernelVersion kv g) f \<longleftrightarrow>
     flag_version f \<le> (case kv of Inl _ \<Rightarrow> (2, 6, 2) | Inr v \<Rightarrow> (Kernel v, Major v, Minor v))"
  by (simp add: flags_adapt adapted_key_def version_key_def split: sum.split)

text \<open>
  C17. \<open>sizeOfRawTCPInfo\<close> becomes the size of the newest table entry that is not newer
  than the running kernel; a kernel older than every entry leaves it as it was.
\<close>

theorem adaptToKernelVersion_size:
  "sizeOfRawTCPInfo (adaptToKernelVersion kv g) =
     (case find (\<lambda>e. version_key (Version e) \<le>
               (case kv of Inl _ \<Rightarrow> (2, 6, 2) | Inr v \<Rightarrow> (Kernel v, Major v, Minor v)))
             (rev tcpInfoSizes) of
        None \<Rightarrow> sizeOfRawTCPInfo g
      | Some e \<Rightarrow> Size e)"
  using size_adapt [of kv g] by (cases kv) (simp_all add: adapted_key_def version_key_def)

text \<open>
  The package variable \<open>linuxKernelVersion\<close> is never assigned, so a version a test
  stores there has no influence on the flags and the size: they depend on the detected
  version alone.
\<close>

lemma adaptToKernelVersion_ignores_override:
  "linuxKernelVersion (adaptToKernelVersion kv g) = linuxKernelVersion g \<and>
   flags (adaptToKernelVersion kv (g\<lparr>linuxKernelVersion := ov\<rparr>)) = flags (adaptToKernelVersion kv g) \<and>
   sizeOfRawTCPInfo (adaptToKernelVersion kv (g\<lparr>linuxKernelVersion := ov\<rparr>)) =
     sizeOfRawTCPInfo (adaptToKernelVersion kv g)"
proof -
  have "linuxKernelVersion (adaptToKernelVersion kv g) = linuxKernelVersion g"
    by (simp add: adaptToKernelVersion_def Let_def)
  then show ?thesis by (simp add: fun_eq_iff flags_adapt size_adapt split: option.split)
qed

end
