(* ===== verification/Tcp_Linux_Raw.thy ===== *)
theory Tcp_Linux_Raw
  imports Tcp_Linux_Init
begin

text \<open>
  The memory side of \<open>pkg/tcpinfo\<close> on Linux: the struct \<open>RawTCPInfo\<close> of
  \<open>tcpinfo_linux.go\<close>, its byte layout, and \<open>GetRawTCPInfo\<close> of
  \<open>tcpinfo_linux_others.go\<close> and \<open>tcpinfo_linux_386.go\<close>.

  \<open>GetRawTCPInfo\<close> passes the kernel a zeroed struct and the length
  \<open>sizeOfRawTCPInfo\<close>; the kernel overwrites a prefix of it. The system call is a
  parameter that returns the bytes written; \<open>decode_RawTCPInfo\<close> reads the struct's
  fields out of the memory at the offsets Go's alignment rules give them (proved below to be
  the running sum of the field widths), in the byte order of the machine.
\<close>

section \<open>The struct and its layout\<close>

record RawTCPInfo =
  raw_state :: u8
  raw_ca_state :: u8
  raw_retransmits :: u8
  raw_probes :: u8
  raw_backoff :: u8
  raw_options :: u8
  raw_bitfield0 :: u8
  raw_bitfield1 :: u8
  raw_rto :: u32
  raw_ato :: u32
  raw_snd_mss :: u32
  raw_rcv_mss :: u32
  raw_unacked :: u32
  raw_sacked :: u32
  raw_lost :: u32
  raw_retrans :: u32
  raw_fackets :: u32
  raw_last_data_sent :: u32
  raw_last_ack_sent :: u32
  raw_last_data_recv :: u32
  raw_last_ack_recv :: u32
  raw_pmtu :: u32
  raw_rcv_ssthresh :: u32
  raw_rtt :: u32
  raw_rttvar :: u32
  raw_snd_ssthresh :: u32
  raw_snd_cwnd :: u32
  raw_advmss :: u32
  raw_reordering :: u32
  raw_rcv_rtt :: u32
  raw_rcv_space :: u32
  raw_total_retrans :: u32
  raw_pacing_rate :: u64
  raw_max_pacing_rate :: u64
  raw_bytes_acked :: u64
  raw_bytes_received :: u64
  raw_segs_out :: u32
  raw_segs_in :: u32
  raw_notsent_bytes :: u32
  raw_min_rtt :: u32
  raw_data_segs_in :: u32
  raw_data_segs_out :: u32
  raw_delivery_rate :: u64
  raw_busy_time :: u64
  raw_rwnd_limited :: u64
  raw_sndbuf_limited :: u64
  raw_delivered :: u32
  raw_delivered_ce :: u32
  raw_bytes_sent :: u64
  raw_bytes_retrans :: u64
  raw_dsack_dups :: u32
  raw_reord_seen :: u32
  raw_rcv_ooopack :: u32
  raw_snd_wnd :: u32
  raw_rcv_wnd :: u32
  raw_rehash :: u32
  raw_total_rto :: u16
  raw_total_rto_recoveries :: u16
  raw_total_rto_time :: u32

datatype endian = LittleEndian | BigEndian

fun le_value :: "u8 list \<Rightarrow> nat" where
  "le_value [] = 0"
| "le_value (b # bs) = unat b + 256 * le_value bs"

text \<open>The unsigned integer of \<open>w\<close> bytes at an offset.\<close>

definition rd :: "endian \<Rightarrow> nat \<Rightarrow> nat \<Rightarrow> u8 list \<Rightarrow> nat" where
  "rd e off w buf =
     (let bs = take w (drop off buf) in
      case e of LittleEndian \<Rightarrow> le_value bs | BigEndian \<Rightarrow> le_value (rev bs))"

definition decode_RawTCPInfo :: "endian \<Rightarrow> u8 list \<Rightarrow> RawTCPInfo" where
  "decode_RawTCPInfo e buf =
    \<lparr>raw_state = of_nat (rd e 0 1 buf),
     raw_ca_state = of_nat (rd e 1 1 buf),
     raw_retransmits = of_nat (rd e 2 1 buf),
     raw_probes = of_nat (rd e 3 1 buf),
     raw_backoff = of_nat (rd e 4 1 buf),
     raw_options = of_nat (rd e 5 1 buf),
     raw_bitfield0 = of_nat (rd e 6 1 buf),
     raw_bitfield1 = of_nat (rd e 7 1 buf),
     raw_rto = of_nat (rd e 8 4 buf),
     raw_ato = of_nat (rd e 12 4 buf),
     raw_snd_mss = of_nat (rd e 16 4 buf),
     raw_rcv_mss = of_nat (rd e 20 4 buf),
     raw_unacked = of_nat (rd e 24 4 buf),
     raw_sacked = of_nat (rd e 28 4 buf),
     raw_lost = of_nat (rd e 32 4 buf),
     raw_retrans = of_nat (rd e 36 4 buf),
     raw_fackets = of_nat (rd e 40 4 buf),
     raw_last_data_sent = of_nat (rd e 44 4 buf),
     raw_last_ack_sent = of_nat (rd e 48 4 buf),
     raw_last_data_recv = of_nat (rd e 52 4 buf),
     raw_last_ack_recv = of_nat (rd e 56 4 buf),
     raw_pmtu = of_nat (rd e 60 4 buf),
     raw_rcv_ssthresh = of_nat (rd e 64 4 buf),
     raw_rtt = of_nat (rd e 68 4 buf),
     raw_rttvar = of_nat (rd e 72 4 buf),
     raw_snd_ssthresh = of_nat (rd e 76 4 buf),
     raw_snd_cwnd = of_nat (rd e 80 4 buf),
     raw_advmss = of_nat (rd e 84 4 buf),
     raw_reordering = of_nat (rd e 88 4 buf),
     raw_rcv_rtt = of_nat (rd e 92 4 buf),
     raw_rcv_space = of_nat (rd e 96 4 buf),
     raw_total_retrans = of_nat (rd e 100 4 buf),
     raw_pacing_rate = of_nat (rd e 104 8 buf),
     raw_max_pacing_rate = of_nat (rd e 112 8 buf),
     raw_bytes_acked = of_nat (rd e 120 8 buf),
     raw_bytes_received = of_nat (rd e 128 8 buf),
     raw_segs_out = of_nat (rd e 136 4 buf),
     raw_segs_in = of_nat (rd e 140 4 buf),
     raw_notsent_bytes = of_nat (rd e 144 4 buf),
     raw_min_rtt = of_nat (rd e 148 4 buf),
     raw_data_segs_in = of_nat (rd e 152 4 buf),
     raw_data_segs_out = of_nat (rd e 156 4 buf),
     raw_delivery_rate = of_nat (rd e 160 8 buf),
     raw_busy_time = of_nat (rd e 168 8 buf),
     raw_rwnd_limited = of_nat (rd e 176 8 buf),
     raw_sndbuf_limited = of_nat (rd e 184 8 buf),
     raw_delivered = of_nat (rd e 192 4 buf),
     raw_delivered_ce = of_nat (rd e 196 4 buf),
     raw_bytes_sent = of_nat (rd e 200 8 buf),
     raw_bytes_retrans = of_nat (rd e 208 8 buf),
     raw_dsack_dups = of_nat (rd e 216 4 buf),
     raw_reord_seen = of_nat (rd e 220 4 buf),
     raw_rcv_ooopack = of_nat (rd e 224 4 buf),
     raw_snd_wnd = of_nat (rd e 228 4 buf),
     raw_rcv_wnd = of_nat (rd e 232 4 buf),
     raw_rehash = of_nat (rd e 236 4 buf),
     raw_total_rto = of_nat (rd e 240 2 buf),
     raw_total_rto_recoveries = of_nat (rd e 242 2 buf),
     raw_total_rto_time = of_nat (rd e 244 4 buf)\<rparr>"

text \<open>The fields in declaration order with their widths in bytes.\<close>

definition raw_fields :: "(string \<times> nat) list" where
  "raw_fields =
    [(''state'', 1), (''ca_state'', 1), (''retransmits'', 1), (''probes'', 1),
     (''backoff'', 1), (''options'', 1), (''bitfield0'', 1), (''bitfield1'', 1),
     (''rto'', 4), (''ato'', 4), (''snd_mss'', 4), (''rcv_mss'', 4),
     (''unacked'', 4), (''sacked'', 4), (''lost'', 4), (''retrans'', 4),
     (''fackets'', 4), (''last_data_sent'', 4), (''last_ack_sent'', 4), (''last_data_recv'', 4),
     (''last_ack_recv'', 4), (''pmtu'', 4), (''rcv_ssthresh'', 4), (''rtt'', 4),
     (''rttvar'', 4), (''snd_ssthresh'', 4), (''snd_cwnd'', 4), (''advmss'', 4),
     (''reordering'', 4), (''rcv_rtt'', 4), (''rcv_space'', 4), (''total_retrans'', 4),
     (''pacing_rate'', 8), (''max_pacing_rate'', 8), (''bytes_acked'', 8), (''bytes_received'', 8),
     (''segs_out'', 4), (''segs_in'', 4), (''notsent_bytes'', 4), (''min_rtt'', 4),
     (''data_segs_in'', 4), (''data_segs_out'', 4), (''delivery_rate'', 8), (''busy_time'', 8),
     (''rwnd_limited'', 8), (''sndbuf_limited'', 8), (''delivered'', 4), (''delivered_ce'', 4),
     (''bytes_sent'', 8), (''bytes_retrans'', 8), (''dsack_dups'', 4), (''reord_seen'', 4),
     (''rcv_ooopack'', 4), (''snd_wnd'', 4), (''rcv_wnd'', 4), (''rehash'', 4),
     (''total_rto'', 2), (''total_rto_recoveries'', 2), (''total_rto_time'', 4)]"

text \<open>
  Go places a field at the next multiple of its alignment, which for these types is the
  width (on 386 at most 4, which divides the offsets that 8 divides).
\<close>

fun place :: "nat \<Rightarrow> (string \<times> nat) list \<Rightarrow> (string \<times> nat \<times> nat) list" where
  "place off [] = []"
| "place off ((n, w) # fs) =
     (let o' = (off + w - 1) div w * w in (n, o', w) # place (o' + w) fs)"

definition sizeof_RawTCPInfo :: nat where
  "sizeof_RawTCPInfo = 248"

section \<open>GetRawTCPInfo\<close>

text \<open>A variable \<open>value\<close> that starts zeroed, after the kernel wrote \<open>bs\<close> at its start.\<close>

definition kernel_write :: "u8 list \<Rightarrow> u8 list" where
  "kernel_write bs = bs @ replicate (sizeof_RawTCPInfo - length bs) 0"

text \<open>
  The parameter is \<open>getsockopt(fd, SOL_TCP, TCP_INFO, &value, &length)\<close>: the error
  number, or the bytes written to \<open>value\<close>. The \<open>switch\<close> on the error number
  returns the package's own variables \<open>EAGAIN\<close>, \<open>EINVAL\<close> and \<open>ENOENT\<close>, whose
  values are those same error numbers.
\<close>

definition GetRawTCPInfo ::
    "endian \<Rightarrow> package_vars \<Rightarrow> (nat \<Rightarrow> u32 \<Rightarrow> error + u8 list) \<Rightarrow> nat \<Rightarrow> error + RawTCPInfo" where
  "GetRawTCPInfo e g getsockopt fd =
     (let len = word_of_int (sizeOfRawTCPInfo g) in
      case getsockopt fd len of
        Inl errNo \<Rightarrow> Inl errNo
      | Inr bs \<Rightarrow> Inr (decode_RawTCPInfo e (kernel_write bs)))"

definition netGetSockOpt :: nat where
  "netGetSockOpt = 15"

text \<open>On 386 the call goes through \<open>socketcall(2)\<close> with its arguments in an array.\<close>

definition GetRawTCPInfo_386 ::
    "endian \<Rightarrow> package_vars \<Rightarrow> (nat \<Rightarrow> nat \<times> u32 \<Rightarrow> error + u8 list) \<Rightarrow> nat \<Rightarrow> error + RawTCPInfo" where
  "GetRawTCPInfo_386 e g socketcall fd =
     (let len = word_of_int (sizeOfRawTCPInfo g); args = (fd, len) in
      case socketcall netGetSockOpt args of
        Inl errNo \<Rightarrow> Inl errNo
      | Inr bs \<Rightarrow> Inr (decode_RawTCPInfo e (kernel_write bs)))"

section \<open>Reading memory\<close>

lemma decode_sel:
  "raw_state (decode_RawTCPInfo e buf) = of_nat (rd e 0 1 buf)"
  "raw_ca_state (decode_RawTCPInfo e buf) = of_nat (rd e 1 1 buf)"
  "raw_retransmits (decode_RawTCPInfo e buf) = of_nat (rd e 2 1 buf)"
  "raw_probes (decode_RawTCPInfo e buf) = of_nat (rd e 3 1 buf)"
  "raw_backoff (decode_RawTCPInfo e buf) = of_nat (rd e 4 1 buf)"
  "raw_options (decode_RawTCPInfo e buf) = of_nat (rd e 5 1 buf)"
  "raw_bitfield0 (decode_RawTCPInfo e buf) = of_nat (rd e 6 1 buf)"
  "raw_bitfield1 (decode_RawTCPInfo e buf) = of_nat (rd e 7 1 buf)"
  "raw_rto (decode_RawTCPInfo e buf) = of_nat (rd e 8 4 buf)"
  "raw_ato (decode_RawTCPInfo e buf) = of_nat (rd e 12 4 buf)"
  "raw_snd_mss (decode_RawTCPInfo e buf) = of_nat (rd e 16 4 buf)"
  "raw_rcv_mss (decode_RawTCPInfo e buf) = of_nat (rd e 20 4 buf)"
  "raw_unacked (decode_RawTCPInfo e buf) = of_nat (rd e 24 4 buf)"
  "raw_sacked (decode_RawTCPInfo e buf) = of_nat (rd e 28 4 buf)"
  "raw_lost (decode_RawTCPInfo e buf) = of_nat (rd e 32 4 buf)"
  "raw_retrans (decode_RawTCPInfo e buf) = of_nat (rd e 36 4 buf)"
  "raw_fackets (decode_RawTCPInfo e buf) = of_nat (rd e 40 4 buf)"
  "raw_last_data_sent (decode_RawTCPInfo e buf) = of_nat (rd e 44 4 buf)"
  "raw_last_ack_sent (decode_RawTCPInfo e buf) = of_nat (rd e 48 4 buf)"
  "raw_last_data_recv (decode_RawTCPInfo e buf) = of_nat (rd e 52 4 buf)"
  "raw_last_ack_recv (decode_RawTCPInfo e buf) = of_nat (rd e 56 4 buf)"
  "raw_pmtu (decode_RawTCPInfo e buf) = of_nat (rd e 60 4 buf)"
  "raw_rcv_ssthresh (decode_RawTCPInfo e buf) = of_nat (rd e 64 4 buf)"
  "raw_rtt (decode_RawTCPInfo e buf) = of_nat (rd e 68 4 buf)"
  "raw_rttvar (decode_RawTCPInfo e buf) = of_nat (rd e 72 4 buf)"
  "raw_snd_ssthresh (decode_RawTCPInfo e buf) = of_nat (rd e 76 4 buf)"
  "raw_snd_cwnd (decode_RawTCPInfo e buf) = of_nat (rd e 80 4 buf)"
  "raw_advmss (decode_RawTCPInfo e buf) = of_nat (rd e 84 4 buf)"
  "raw_reordering (decode_RawTCPInfo e buf) = of_nat (rd e 88 4 buf)"
  "raw_rcv_rtt (decode_RawTCPInfo e buf) = of_nat (rd e 92 4 buf)"
  "raw_rcv_space (decode_RawTCPInfo e buf) = of_nat (rd e 96 4 buf)"
  "raw_total_retrans (decode_RawTCPInfo e buf) = of_nat (rd e 100 4 buf)"
  "raw_pacing_rate (decode_RawTCPInfo e buf) = of_nat (rd e 104 8 buf)"
  "raw_max_pacing_rate (decode_RawTCPInfo e buf) = of_nat (rd e 112 8 buf)"
  "raw_bytes_acked (decode_RawTCPInfo e buf) = of_nat (rd e 120 8 buf)"
  "raw_bytes_received (decode_RawTCPInfo e buf) = of_nat (rd e 128 8 buf)"
  "raw_segs_out (decode_RawTCPInfo e buf) = of_nat (rd e 136 4 buf)"
  "raw_segs_in (decode_RawTCPInfo e buf) = of_nat (rd e 140 4 buf)"
  "raw_notsent_bytes (decode_RawTCPInfo e buf) = of_nat (rd e 144 4 buf)"
  "raw_min_rtt (decode_RawTCPInfo e buf) = of_nat (rd e 148 4 buf)"
  "raw_data_segs_in (decode_RawTCPInfo e buf) = of_nat (rd e 152 4 buf)"
  "raw_data_segs_out (decode_RawTCPInfo e buf) = of_nat (rd e 156 4 buf)"
  "raw_delivery_rate (decode_RawTCPInfo e buf) = of_nat (rd e 160 8 buf)"
  "raw_busy_time (decode_RawTCPInfo e buf) = of_nat (rd e 168 8 buf)"
  "raw_rwnd_limited (decode_RawTCPInfo e buf) = of_nat (rd e 176 8 buf)"
  "raw_sndbuf_limited (decode_RawTCPInfo e buf) = of_nat (rd e 184 8 buf)"
  "raw_delivered (decode_RawTCPInfo e buf) = of_nat (rd e 192 4 buf)"
  "raw_delivered_ce (decode_RawTCPInfo e buf) = of_nat (rd e 196 4 buf)"
  "raw_bytes_sent (decode_RawTCPInfo e buf) = of_nat (rd e 200 8 buf)"
  "raw_bytes_retrans (decode_RawTCPInfo e buf) = of_nat (rd e 208 8 buf)"
  "raw_dsack_dups (decode_RawTCPInfo e buf) = of_nat (rd e 216 4 buf)"
  "raw_reord_seen (decode_RawTCPInfo e buf) = of_nat (rd e 220 4 buf)"
  "raw_rcv_ooopack (decode_RawTCPInfo e buf) = of_nat (rd e 224 4 buf)"
  "raw_snd_wnd (decode_RawTCPInfo e buf) = of_nat (rd e 228 4 buf)"
  "raw_rcv_wnd (decode_RawTCPInfo e buf) = of_nat (rd e 232 4 buf)"
  "raw_rehash (decode_RawTCPInfo e buf) = of_nat (rd e 236 4 buf)"
  "raw_total_rto (decode_RawTCPInfo e buf) = of_nat (rd e 240 2 buf)"
  "raw_total_rto_recoveries (decode_RawTCPInfo e buf) = of_nat (rd e 242 2 buf)"
  "raw_total_rto_time (decode_RawTCPInfo e buf) = of_nat (rd e 244 4 buf)"
  by (simp_all add: decode_RawTCPInfo_def)

lemma rd_take:
  assumes "off + w \<le> n" "n \<le> length buf"
  shows "rd e off w (kernel_write (take n buf)) = rd e off w buf"
proof -
  have "take w (drop off (kernel_write (take n buf))) = take w (drop off buf)"
    using assms by (simp add: kernel_write_def take_drop min_absorb1)
  then show ?thesis by (simp add: rd_def)
qed

lemma le_value_zeros: "le_value (replicate n 0) = 0"
  by (induction n) simp_all

lemma rd_beyond:
  assumes "n \<le> off" "length bs = n"
  shows "rd e off w (kernel_write bs) = 0"
proof -
  have "take w (drop off (kernel_write bs)) = replicate (min w (sizeof_RawTCPInfo - n - (off - n))) 0"
    using assms by (simp add: kernel_write_def)
  then show ?thesis by (simp add: rd_def Let_def le_value_zeros split: endian.split)
qed

section \<open>The layout is a bijection with the struct's memory\<close>

fun le_bytes :: "nat \<Rightarrow> nat \<Rightarrow> u8 list" where
  "le_bytes 0 v = []"
| "le_bytes (Suc w) v = of_nat (v mod 256) # le_bytes w (v div 256)"

definition wr :: "endian \<Rightarrow> nat \<Rightarrow> nat \<Rightarrow> u8 list" where
  "wr e w v = (case e of LittleEndian \<Rightarrow> le_bytes w v | BigEndian \<Rightarrow> rev (le_bytes w v))"

text \<open>The memory of a struct value: its fields in order, each in its width.\<close>

definition encode_RawTCPInfo :: "endian \<Rightarrow> RawTCPInfo \<Rightarrow> u8 list" where
  "encode_RawTCPInfo e r =
    concat
    [wr e 1 (unat (raw_state r)),
     wr e 1 (unat (raw_ca_state r)),
     wr e 1 (unat (raw_retransmits r)),
     wr e 1 (unat (raw_probes r)),
     wr e 1 (unat (raw_backoff r)),
     wr e 1 (unat (raw_options r)),
     wr e 1 (unat (raw_bitfield0 r)),
     wr e 1 (unat (raw_bitfield1 r)),
     wr e 4 (unat (raw_rto r)),
     wr e 4 (unat (raw_ato r)),
     wr e 4 (unat (raw_snd_mss r)),
     wr e 4 (unat (raw_rcv_mss r)),
     wr e 4 (unat (raw_unacked r)),
     wr e 4 (unat (raw_sacked r)),
     wr e 4 (unat (raw_lost r)),
     wr e 4 (unat (raw_retrans r)),
     wr e 4 (unat (raw_fackets r)),
     wr e 4 (unat (raw_last_data_sent r)),
     wr e 4 (unat (raw_last_ack_sent r)),
     wr e 4 (unat (raw_last_data_recv r)),
     wr e 4 (unat (raw_last_ack_recv r)),
     wr e 4 (unat (raw_pmtu r)),
     wr e 4 (unat (raw_rcv_ssthresh r)),
     wr e 4 (unat (raw_rtt r)),
     wr e 4 (unat (raw_rttvar r)),
     wr e 4 (unat (raw_snd_ssthresh r)),
     wr e 4 (unat (raw_snd_cwnd r)),
     wr e 4 (unat (raw_advmss r)),
     wr e 4 (unat (raw_reordering r)),
     wr e 4 (unat (raw_rcv_rtt r)),
     wr e 4 (unat (raw_rcv_space r)),
     wr e 4 (unat (raw_total_retrans r)),
     wr e 8 (unat (raw_pacing_rate r)),
     wr e 8 (unat (raw_max_pacing_rate r)),
     wr e 8 (unat (raw_bytes_acked r)),
     wr e 8 (unat (raw_bytes_received r)),
     wr e 4 (unat (raw_segs_out r)),
     wr e 4 (unat (raw_segs_in r)),
     wr e 4 (unat (raw_notsent_bytes r)),
     wr e 4 (unat (raw_min_rtt r)),
     wr e 4 (unat (raw_data_segs_in r)),
     wr e 4 (unat (raw_data_segs_out r)),
     wr e 8 (unat (raw_delivery_rate r)),
     wr e 8 (unat (raw_busy_time r)),
     wr e 8 (unat (raw_rwnd_limited r)),
     wr e 8 (unat (raw_sndbuf_limited r)),
     wr e 4 (unat (raw_delivered r)),
     wr e 4 (unat (raw_delivered_ce r)),
     wr e 8 (unat (raw_bytes_sent r)),
     wr e 8 (unat (raw_bytes_retrans r)),
     wr e 4 (unat (raw_dsack_dups r)),
     wr e 4 (unat (raw_reord_seen r)),
     wr e 4 (unat (raw_rcv_ooopack r)),
     wr e 4 (unat (raw_snd_wnd r)),
     wr e 4 (unat (raw_rcv_wnd r)),
     wr e 4 (unat (raw_rehash r)),
     wr e 2 (unat (raw_total_rto r)),
     wr e 2 (unat (raw_total_rto_recoveries r)),
     wr e 4 (unat (raw_total_rto_time r))]"

lemma le_value_bound: "le_value bs < 256 ^ length bs"
proof (induction bs)
  case (Cons b bs)
  have "unat b < 256" using unsigned_less [of b] by simp
  with Cons show ?case by simp
qed simp

lemma le_bytes_value: "le_bytes (length bs) (le_value bs) = bs"
proof (induction bs)
  case (Cons b bs)
  have b: "unat b < 256" using unsigned_less [of b] by simp
  then have "(unat b + 256 * le_value bs) mod 256 = unat b"
    "(unat b + 256 * le_value bs) div 256 = le_value bs" by simp_all
  with Cons show ?case by simp
qed simp

lemma rd_bound:
  assumes "off + w \<le> length buf"
  shows "rd e off w buf < 256 ^ w"
  using assms le_value_bound [of "take w (drop off buf)"] le_value_bound [of "rev (take w (drop off buf))"]
  by (simp add: rd_def Let_def split: endian.split)

lemma wr_rd:
  assumes "off + w \<le> length buf"
  shows "wr e w (rd e off w buf) = take w (drop off buf)"
  using assms le_bytes_value [of "take w (drop off buf)"] le_bytes_value [of "rev (take w (drop off buf))"]
  by (simp add: wr_def rd_def Let_def split: endian.split)

lemma wr_field:
  assumes "off + w \<le> length buf" "256 ^ w = (2 :: nat) ^ LENGTH('a::len)"
  shows "wr e w (unat (of_nat (rd e off w buf) :: 'a word)) = take w (drop off buf)"
proof -
  have "unat (of_nat (rd e off w buf) :: 'a word) = rd e off w buf"
    using rd_bound [OF assms(1), of e] assms(2) by (simp add: unsigned_of_nat take_bit_nat_eq_self)
  with assms(1) show ?thesis by (simp add: wr_rd)
qed

text \<open>Consecutive pieces of a list put together again.\<close>

fun pieces :: "nat \<Rightarrow> nat list \<Rightarrow> 'a list \<Rightarrow> 'a list list" where
  "pieces off [] buf = []"
| "pieces off (w # ws) buf = take w (drop off buf) # pieces (off + w) ws buf"

lemma concat_pieces: "concat (pieces off ws buf) = take (sum_list ws) (drop off buf)"
  by (induction off ws buf rule: pieces.induct) (simp_all add: take_add add.commute)

lemma raw_fields_placed:
  "place 0 raw_fields =
    [(''state'', 0, 1), (''ca_state'', 1, 1), (''retransmits'', 2, 1),
     (''probes'', 3, 1), (''backoff'', 4, 1), (''options'', 5, 1),
     (''bitfield0'', 6, 1), (''bitfield1'', 7, 1), (''rto'', 8, 4),
     (''ato'', 12, 4), (''snd_mss'', 16, 4), (''rcv_mss'', 20, 4),
     (''unacked'', 24, 4), (''sacked'', 28, 4), (''lost'', 32, 4),
     (''retrans'', 36, 4), (''fackets'', 40, 4), (''last_data_sent'', 44, 4),
     (''last_ack_sent'', 48, 4), (''last_data_recv'', 52, 4), (''last_ack_recv'', 56, 4),
     (''pmtu'', 60, 4), (''rcv_ssthresh'', 64, 4), (''rtt'', 68, 4),
     (''rttvar'', 72, 4), (''snd_ssthresh'', 76, 4), (''snd_cwnd'', 80, 4),
     (''advmss'', 84, 4), (''reordering'', 88, 4), (''rcv_rtt'', 92, 4),
     (''rcv_space'', 96, 4), (''total_retrans'', 100, 4), (''pacing_rate'', 104, 8),
     (''max_pacing_rate'', 112, 8), (''bytes_acked'', 120, 8), (''bytes_received'', 128, 8),
     (''segs_out'', 136, 4), (''segs_in'', 140, 4), (''notsent_bytes'', 144, 4),
     (''min_rtt'', 148, 4), (''data_segs_in'', 152, 4), (''data_segs_out'', 156, 4),
     (''delivery_rate'', 160, 8), (''busy_time'', 168, 8), (''rwnd_limited'', 176, 8),
     (''sndbuf_limited'', 184, 8), (''delivered'', 192, 4), (''delivered_ce'', 196, 4),
     (''bytes_sent'', 200, 8), (''bytes_retrans'', 208, 8), (''dsack_dups'', 216, 4),
     (''reord_seen'', 220, 4), (''rcv_ooopack'', 224, 4), (''snd_wnd'', 228, 4),
     (''rcv_wnd'', 232, 4), (''rehash'', 236, 4), (''total_rto'', 240, 2),
     (''total_rto_recoveries'', 242, 2), (''total_rto_time'', 244, 4)]"
  by code_simp

text \<open>
  C15. \<open>RawTCPInfo\<close> covers the 248 bytes of the kernel's struct without gap or overlap:
  writing out the fields that were read from any such memory gives the memory back, in
  either byte order.
\<close>

theorem decode_RawTCPInfo_layout:
  assumes "length buf = sizeof_RawTCPInfo"
  shows "encode_RawTCPInfo e (decode_RawTCPInfo e buf) = buf"
proof -
  have len: "length buf = 248" using assms by (simp add: sizeof_RawTCPInfo_def)
  have "encode_RawTCPInfo e (decode_RawTCPInfo e buf) = concat (pieces 0 (map snd raw_fields) buf)"
    unfolding encode_RawTCPInfo_def decode_RawTCPInfo_def raw_fields_def
    by (simp add: wr_field len del: One_nat_def)
  also have "\<dots> = buf"
    unfolding concat_pieces by (simp add: raw_fields_def len)
  finally show ?thesis .
qed

theorem decode_RawTCPInfo_layout_witness:
  "encode_RawTCPInfo LittleEndian (decode_RawTCPInfo LittleEndian (replicate 248 7)) = replicate 248 7"
  by (rule decode_RawTCPInfo_layout) (simp only: length_replicate sizeof_RawTCPInfo_def)

text \<open>
  The two variants of \<open>GetRawTCPInfo\<close> agree: where \<open>socketcall\<close> number 15 is
  \<open>getsockopt\<close>, the 386 variant returns what the other returns.
\<close>

lemma GetRawTCPInfo_386_equiv:
  assumes "\<And>fd len. socketcall 15 (fd, len) = getsockopt fd len"
  shows "GetRawTCPInfo_386 e g socketcall fd = GetRawTCPInfo e g getsockopt fd"
  by (simp add: GetRawTCPInfo_386_def GetRawTCPInfo_def netGetSockOpt_def assms)

end
