(* ===== verification/Tcp_Linux.thy ===== *)
theory Tcp_Linux
  imports Tcp_Linux_Raw Tcp_Json
begin

text \<open>
  \<open>pkg/tcpinfo/tcpinfo_linux.go\<close>: the unpacked record \<open>SysInfo\<close>, the conversions
  \<open>Unpack\<close>, \<open>ToInfo\<close> and \<open>ToMap\<close>, the warnings, and \<open>GetTCPInfo\<close>, which adds
  the congestion control data.

  The package variables of \<open>init_linux.go\<close> are an argument; the \<open>getsockopt\<close>
  wrappers of \<open>golang.org/x/sys/unix\<close> are the fields of a record of parameters.
\<close>

section \<open>Nullable values\<close>

record 'a Nullable =
  Valid :: bool
  NValue :: 'a

type_synonym NullableBool = "bool Nullable"
type_synonym NullableUint8 = "u8 Nullable"
type_synonym NullableUint16 = "u16 Nullable"
type_synonym NullableUint32 = "u32 Nullable"
type_synonym NullableUint64 = "u64 Nullable"
type_synonym NullableDuration = "duration Nullable"

definition null_of :: "'a \<Rightarrow> 'a Nullable" where
  "null_of z = \<lparr>Valid = False, NValue = z\<rparr>"

definition valid_of :: "'a \<Rightarrow> 'a Nullable" where
  "valid_of v = \<lparr>Valid = True, NValue = v\<rparr>"

text \<open>
  \<open>x = Nullable\<close>\{\<open>Valid: false\<close>\}\<open>; if b \<close>\{\<open> x.Valid = true; x.Value = v \<close>\}, with the
  zero value spelled out.
\<close>

definition nullable_if :: "bool \<Rightarrow> 'a \<Rightarrow> 'a \<Rightarrow> 'a Nullable" where
  "nullable_if b z v = (if b then valid_of v else null_of z)"

section \<open>States and options\<close>

abbreviation "TCP_ESTABLISHED \<equiv> 1 :: u8"
abbreviation "TCP_SYN_SENT \<equiv> 2 :: u8"
abbreviation "TCP_SYN_RECV \<equiv> 3 :: u8"
abbreviation "TCP_FIN_WAIT1 \<equiv> 4 :: u8"
abbreviation "TCP_FIN_WAIT2 \<equiv> 5 :: u8"
abbreviation "TCP_TIME_WAIT \<equiv> 6 :: u8"
abbreviation "TCP_CLOSE \<equiv> 7 :: u8"
abbreviation "TCP_CLOSE_WAIT \<equiv> 8 :: u8"
abbreviation "TCP_LAST_ACK \<equiv> 9 :: u8"
abbreviation "TCP_LISTEN \<equiv> 10 :: u8"
abbreviation "TCP_CLOSING \<equiv> 11 :: u8"
abbreviation "TCP_NEW_SYN_RECV \<equiv> 12 :: u8"

definition tcpStateMap :: "u8 \<Rightarrow> string option" where
  "tcpStateMap =
    [TCP_ESTABLISHED \<mapsto> ''ESTABLISHED'',
     TCP_SYN_SENT \<mapsto> ''SYN_SENT'',
     TCP_SYN_RECV \<mapsto> ''SYN_RECV'',
     TCP_FIN_WAIT1 \<mapsto> ''FIN_WAIT1'',
     TCP_FIN_WAIT2 \<mapsto> ''FIN_WAIT2'',
     TCP_TIME_WAIT \<mapsto> ''TIME_WAIT'',
     TCP_CLOSE \<mapsto> ''CLOSE'',
     TCP_CLOSE_WAIT \<mapsto> ''CLOSE_WAIT'',
     TCP_LAST_ACK \<mapsto> ''LAST_ACK'',
     TCP_LISTEN \<mapsto> ''LISTEN'',
     TCP_CLOSING \<mapsto> ''CLOSING'']"

abbreviation "TCPI_OPT_TIMESTAMPS \<equiv> 1 :: u8"
abbreviation "TCPI_OPT_SACK \<equiv> 2 :: u8"
abbreviation "TCPI_OPT_WSCALE \<equiv> 4 :: u8"
abbreviation "TCPI_OPT_ECN \<equiv> 8 :: u8"
abbreviation "TCPI_OPT_ECN_SEEN \<equiv> 16 :: u8"
abbreviation "TCPI_OPT_SYN_DATA \<equiv> 32 :: u8"
abbreviation "TCPI_OPT_USEC_TS \<equiv> 64 :: u8"
abbreviation "TCPI_OPT_TFO_CHILD \<equiv> 128 :: u8"

definition tcpOptionsMap :: "u8 \<Rightarrow> string option" where
  "tcpOptionsMap =
    [TCPI_OPT_TIMESTAMPS \<mapsto> ''Timestamps'',
     TCPI_OPT_SACK \<mapsto> ''SACK'',
     TCPI_OPT_WSCALE \<mapsto> ''WindowScale'',
     TCPI_OPT_ECN \<mapsto> ''ECN'',
     TCPI_OPT_ECN_SEEN \<mapsto> ''ECNSeen'',
     TCPI_OPT_SYN_DATA \<mapsto> ''SYNData'',
     TCPI_OPT_USEC_TS \<mapsto> ''UsecTS'',
     TCPI_OPT_TFO_CHILD \<mapsto> ''TFOChild'']"

definition tcpOptions :: "u8 list" where
  "tcpOptions =
    [TCPI_OPT_TIMESTAMPS, TCPI_OPT_SACK, TCPI_OPT_WSCALE, TCPI_OPT_ECN,
     TCPI_OPT_ECN_SEEN, TCPI_OPT_SYN_DATA, TCPI_OPT_USEC_TS, TCPI_OPT_TFO_CHILD]"

text \<open>The loop of \<open>Unpack\<close> over \<open>tcpOptions\<close>, with the two option lists as its state.\<close>

fun unpack_options ::
    "RawTCPInfo \<Rightarrow> u8 list \<Rightarrow> TcpOption slice \<times> TcpOption slice \<Rightarrow> TcpOption slice \<times> TcpOption slice" where
  "unpack_options packed [] (tx, rx) = (tx, rx)"
| "unpack_options packed (flag # fs) (tx, rx) =
     (if raw_options packed AND flag = 0 then unpack_options packed fs (tx, rx)
      else if flag \<in> {TCPI_OPT_TIMESTAMPS, TCPI_OPT_SACK, TCPI_OPT_ECN, TCPI_OPT_ECN_SEEN,
                       TCPI_OPT_SYN_DATA, TCPI_OPT_USEC_TS, TCPI_OPT_TFO_CHILD}
      then unpack_options packed fs
             (append_slice tx \<lparr>Kind = go_lookup tcpOptionsMap flag, Value = 0\<rparr>,
              append_slice rx \<lparr>Kind = go_lookup tcpOptionsMap flag, Value = 0\<rparr>)
      else if flag = TCPI_OPT_WSCALE
      then unpack_options packed fs
             (append_slice tx \<lparr>Kind = go_lookup tcpOptionsMap flag, Value = ucast (raw_snd_wnd packed)\<rparr>,
              append_slice rx \<lparr>Kind = go_lookup tcpOptionsMap flag, Value = ucast (raw_rcv_wnd packed)\<rparr>)
      else unpack_options packed fs (tx, rx))"

section \<open>SysInfo\<close>

record SysInfo =
  lx_State :: u8
  lx_StateName :: string
  lx_CAState :: u8
  lx_Retransmits :: u8
  lx_Probes :: u8
  lx_Backoff :: u8
  lx_TxOptions :: "TcpOption slice"
  lx_RxOptions :: "TcpOption slice"
  lx_TxWindowScale :: u8
  lx_RxWindowScale :: u8
  lx_DeliveryRateAppLimited :: NullableBool
  lx_FastOpenClientFail :: NullableUint8
  lx_RTO :: duration
  lx_ATO :: duration
  lx_TxMSS :: u32
  lx_RxMSS :: u32
  lx_UnAcked :: u32
  lx_Sacked :: u32
  lx_Lost :: u32
  lx_Retrans :: u32
  lx_Fackets :: u32
  lx_LastTxAt :: duration
  lx_LastTxAckAt :: duration
  lx_LastRxAt :: duration
  lx_LastRxAckAt :: duration
  lx_PMTU :: u32
  lx_RxSSThreshold :: u32
  lx_RTT :: duration
  lx_RTTVar :: duration
  lx_TxSSThreshold :: u32
  lx_TxCWindow :: u32
  lx_AdvMSS :: u32
  lx_Reordering :: u32
  lx_RxRTT :: duration
  lx_RxSpace :: u32
  lx_TotalRetrans :: u32
  lx_PacingRate :: NullableUint64
  lx_MaxPacingRate :: NullableUint64
  lx_BytesAcked :: NullableUint64
  lx_BytesReceived :: NullableUint64
  lx_SegsOut :: NullableUint32
  lx_SegsIn :: NullableUint32
  lx_NotSentBytes :: NullableUint32
  lx_MinRTT :: NullableDuration
  lx_DataSegsIn :: NullableUint32
  lx_DataSegsOut :: NullableUint32
  lx_DeliveryRate :: NullableUint64
  lx_BusyTime :: NullableUint64
  lx_RxWindowLimited :: NullableUint64
  lx_TxBufferLimited :: NullableUint64
  lx_Delivered :: NullableUint32
  lx_DeliveredCE :: NullableUint32
  lx_BytesSent :: NullableUint64
  lx_BytesRetrans :: NullableUint64
  lx_DSACKDups :: NullableUint32
  lx_ReordSeen :: NullableUint32
  lx_RxOutOfOrder :: NullableUint32
  lx_TxWindow :: NullableUint32
  lx_RxWindow :: NullableUint32
  lx_Rehash :: NullableUint32
  lx_TotalRTO :: NullableUint16
  lx_TotalRTORecoveries :: NullableUint16
  lx_TotalRTOTime :: NullableUint32
  lx_CCAlgorithm :: string
  lx_CCVegasEnabled :: NullableUint32
  lx_CCVegasRTTCnt :: NullableUint32
  lx_CCVegasRTT :: NullableDuration
  lx_CCVegasRTTMin :: NullableDuration
  lx_CCBBRBwLo :: NullableUint32
  lx_CCBBRBwHi :: NullableUint32
  lx_CCBBRMinRTT :: NullableDuration
  lx_CCBBRPacingGain :: NullableUint32
  lx_CCBBRCWindowGain :: NullableUint32
  lx_CCDCTCPEnabled :: NullableBool
  lx_CCDCTCPCEState :: NullableUint16
  lx_CCDCTCPAlpha :: NullableUint32
  lx_CCDCTCPABECN :: NullableUint32
  lx_CCDCTCPABTOT :: NullableUint32

definition timeFieldMultiplier :: duration where
  "timeFieldMultiplier = Microsecond"

text \<open>
  \<open>Unpack\<close> fills a zeroed \<open>SysInfo\<close>; the congestion control fields keep their zero
  values here.
\<close>

definition Unpack :: "package_vars \<Rightarrow> RawTCPInfo \<Rightarrow> SysInfo" where
  "Unpack g packed =
    (case unpack_options packed tcpOptions (Some [], None) of (tx, rx) \<Rightarrow>
    \<lparr>lx_State = raw_state packed,
     lx_StateName = go_lookup tcpStateMap (raw_state packed),
     lx_CAState = raw_ca_state packed,
     lx_Retransmits = raw_retransmits packed,
     lx_Probes = raw_probes packed,
     lx_Backoff = raw_backoff packed,
     lx_TxOptions = tx,
     lx_RxOptions = rx,
     lx_TxWindowScale = raw_bitfield0 packed AND 0x0F,
     lx_RxWindowScale = drop_bit 4 (raw_bitfield0 packed),
     lx_DeliveryRateAppLimited = nullable_if (flags g kernelVersionIsAtLeast_4_9) False (raw_bitfield1 packed AND 1 = 1),
     lx_FastOpenClientFail = nullable_if (flags g kernelVersionIsAtLeast_5_5) 0 (drop_bit 1 (raw_bitfield1 packed) AND 3),
     lx_RTO = ucast (raw_rto packed) * timeFieldMultiplier,
     lx_ATO = ucast (raw_ato packed) * timeFieldMultiplier,
     lx_TxMSS = raw_snd_mss packed,
     lx_RxMSS = raw_rcv_mss packed,
     lx_UnAcked = raw_unacked packed,
     lx_Sacked = raw_sacked packed,
     lx_Lost = raw_lost packed,
     lx_Retrans = raw_retrans packed,
     lx_Fackets = raw_fackets packed,
     lx_LastTxAt = ucast (raw_last_data_sent packed) * timeFieldMultiplier,
     lx_LastTxAckAt = ucast (raw_last_ack_sent packed) * timeFieldMultiplier,
     lx_LastRxAt = ucast (raw_last_data_recv packed) * timeFieldMultiplier,
     lx_LastRxAckAt = ucast (raw_last_ack_recv packed) * timeFieldMultiplier,
     lx_PMTU = raw_pmtu packed,
     lx_RxSSThreshold = raw_rcv_ssthresh packed,
     lx_RTT = ucast (raw_rtt packed) * timeFieldMultiplier,
     lx_RTTVar = ucast (raw_rttvar packed) * timeFieldMultiplier,
     lx_TxSSThreshold = raw_snd_ssthresh packed,
     lx_TxCWindow = raw_snd_cwnd packed,
     lx_AdvMSS = raw_advmss packed,
     lx_Reordering = raw_reordering packed,
     lx_RxRTT = ucast (raw_rcv_rtt packed) * timeFieldMultiplier,
     lx_RxSpace = raw_rcv_space packed,
     lx_TotalRetrans = raw_total_retrans packed,
     lx_PacingRate = nullable_if (flags g kernelVersionIsAtLeast_3_15) 0 (raw_pacing_rate packed),
     lx_MaxPacingRate = nullable_if (flags g kernelVersionIsAtLeast_3_15) 0 (raw_max_pacing_rate packed),
     lx_BytesAcked = nullable_if (flags g kernelVersionIsAtLeast_4_1) 0 (raw_bytes_acked packed),
     lx_BytesReceived = nullable_if (flags g kernelVersionIsAtLeast_4_1) 0 (raw_bytes_received packed),
     lx_SegsOut = nullable_if (flags g kernelVersionIsAtLeast_4_2) 0 (raw_segs_out packed),
     lx_SegsIn = nullable_if (flags g kernelVersionIsAtLeast_4_2) 0 (raw_segs_in packed),
     lx_NotSentBytes = nullable_if (flags g kernelVersionIsAtLeast_4_6) 0 (raw_notsent_bytes packed),
     lx_MinRTT = nullable_if (flags g kernelVersionIsAtLeast_4_6) 0 (ucast (raw_min_rtt packed) * timeFieldMultiplier),
     lx_DataSegsIn = nullable_if (flags g kernelVersionIsAtLeast_4_6) 0 (raw_data_segs_in packed),
     lx_DataSegsOut = nullable_if (flags g kernelVersionIsAtLeast_4_6) 0 (raw_data_segs_out packed),
     lx_DeliveryRate = nullable_if (flags g kernelVersionIsAtLeast_4_9) 0 (raw_delivery_rate packed),
     lx_BusyTime = nullable_if (flags g kernelVersionIsAtLeast_4_10) 0 (raw_busy_time packed),
     lx_RxWindowLimited = nullable_if (flags g kernelVersionIsAtLeast_4_10) 0 (raw_rwnd_limited packed),
     lx_TxBufferLimited = nullable_if (flags g kernelVersionIsAtLeast_4_10) 0 (raw_sndbuf_limited packed),
     lx_Delivered = nullable_if (flags g kernelVersionIsAtLeast_4_18) 0 (raw_delivered packed),
     lx_DeliveredCE = nullable_if (flags g kernelVersionIsAtLeast_4_18) 0 (raw_delivered_ce packed),
     lx_BytesSent = nullable_if (flags g kernelVersionIsAtLeast_4_19) 0 (raw_bytes_sent packed),
     lx_BytesRetrans = nullable_if (flags g kernelVersionIsAtLeast_4_19) 0 (raw_bytes_retrans packed),
     lx_DSACKDups = nullable_if (flags g kernelVersionIsAtLeast_4_19) 0 (raw_dsack_dups packed),
     lx_ReordSeen = nullable_if (flags g kernelVersionIsAtLeast_4_19) 0 (raw_reord_seen packed),
     lx_RxOutOfOrder = nullable_if (flags g kernelVersionIsAtLeast_5_4) 0 (raw_rcv_ooopack packed),
     lx_TxWindow = nullable_if (flags g kernelVersionIsAtLeast_5_4) 0 (raw_snd_wnd packed),
     lx_RxWindow = nullable_if (flags g kernelVersionIsAtLeast_6_2) 0 (raw_rcv_wnd packed),
     lx_Rehash = nullable_if (flags g kernelVersionIsAtLeast_6_2) 0 (raw_rehash packed),
     lx_TotalRTO = nullable_if (flags g kernelVersionIsAtLeast_6_2) 0 (raw_total_rto packed),
     lx_TotalRTORecoveries = nullable_if (flags g kernelVersionIsAtLeast_6_2) 0 (raw_total_rto_recoveries packed),
     lx_TotalRTOTime = nullable_if (flags g kernelVersionIsAtLeast_6_2) 0 (raw_total_rto_time packed),
     lx_CCAlgorithm = [],
     lx_CCVegasEnabled = null_of 0,
     lx_CCVegasRTTCnt = null_of 0,
     lx_CCVegasRTT = null_of 0,
     lx_CCVegasRTTMin = null_of 0,
     lx_CCBBRBwLo = null_of 0,
     lx_CCBBRBwHi = null_of 0,
     lx_CCBBRMinRTT = null_of 0,
     lx_CCBBRPacingGain = null_of 0,
     lx_CCBBRCWindowGain = null_of 0,
     lx_CCDCTCPEnabled = null_of False,
     lx_CCDCTCPCEState = null_of 0,
     lx_CCDCTCPAlpha = null_of 0,
     lx_CCDCTCPABECN = null_of 0,
     lx_CCDCTCPABTOT = null_of 0\<rparr>)"

definition SysInfo_literal :: "SysInfo \<Rightarrow> go_map" where
  "SysInfo_literal s =
    [''state'' \<mapsto> AString (lx_StateName s),
     ''caState'' \<mapsto> AUint8 (lx_CAState s),
     ''retransmits'' \<mapsto> AUint8 (lx_Retransmits s),
     ''probes'' \<mapsto> AUint8 (lx_Probes s),
     ''backoff'' \<mapsto> AUint8 (lx_Backoff s),
     ''txOptions'' \<mapsto> AOptions (lx_TxOptions s),
     ''rxOptions'' \<mapsto> AOptions (lx_RxOptions s),
     ''txWindowScale'' \<mapsto> AUint8 (lx_TxWindowScale s),
     ''rxWindowScale'' \<mapsto> AUint8 (lx_RxWindowScale s),
     ''rto'' \<mapsto> ADuration (lx_RTO s),
     ''ato'' \<mapsto> ADuration (lx_ATO s),
     ''txMSS'' \<mapsto> AUint32 (lx_TxMSS s),
     ''rxMSS'' \<mapsto> AUint32 (lx_RxMSS s),
     ''unAcked'' \<mapsto> AUint32 (lx_UnAcked s),
     ''sacked'' \<mapsto> AUint32 (lx_Sacked s),
     ''lost'' \<mapsto> AUint32 (lx_Lost s),
     ''retrans'' \<mapsto> AUint32 (lx_Retrans s),
     ''fackets'' \<mapsto> AUint32 (lx_Fackets s),
     ''lastTxAt'' \<mapsto> ADuration (lx_LastTxAt s),
     ''lastTxAckAt'' \<mapsto> ADuration (lx_LastTxAckAt s),
     ''lastRxAt'' \<mapsto> ADuration (lx_LastRxAt s),
     ''lastRxAckAt'' \<mapsto> ADuration (lx_LastRxAckAt s),
     ''pmtu'' \<mapsto> AUint32 (lx_PMTU s),
     ''rxSSThreshold'' \<mapsto> AUint32 (lx_RxSSThreshold s),
     ''rtt'' \<mapsto> ADuration (lx_RTT s),
     ''rttVar'' \<mapsto> ADuration (lx_RTTVar s),
     ''txSSThreshold'' \<mapsto> AUint32 (lx_TxSSThreshold s),
     ''txCWindow'' \<mapsto> AUint32 (lx_TxCWindow s),
     ''advMSS'' \<mapsto> AUint32 (lx_AdvMSS s),
     ''reordering'' \<mapsto> AUint32 (lx_Reordering s),
     ''rxRTT'' \<mapsto> ADuration (lx_RxRTT s),
     ''rxSpace'' \<mapsto> AUint32 (lx_RxSpace s),
     ''totalRetrans'' \<mapsto> AUint32 (lx_TotalRetrans s),
     ''ccAlgorithm'' \<mapsto> AString (lx_CCAlgorithm s)]"

definition SysInfo_optional :: "SysInfo \<Rightarrow> (bool \<times> string \<times> any) list" where
  "SysInfo_optional s =
    [(Valid (lx_DeliveryRateAppLimited s), ''deliveryRateAppLimited'', ABool (NValue (lx_DeliveryRateAppLimited s))),
     (Valid (lx_FastOpenClientFail s), ''fastOpenClientFail'', AUint8 (NValue (lx_FastOpenClientFail s))),
     (Valid (lx_PacingRate s), ''pacingRate'', AUint64 (NValue (lx_PacingRate s))),
     (Valid (lx_MaxPacingRate s), ''maxPacingRate'', AUint64 (NValue (lx_MaxPacingRate s))),
     (Valid (lx_BytesAcked s), ''bytesAcked'', AUint64 (NValue (lx_BytesAcked s))),
     (Valid (lx_BytesReceived s), ''bytesReceived'', AUint64 (NValue (lx_BytesReceived s))),
     (Valid (lx_SegsOut s), ''segsOut'', AUint32 (NValue (lx_SegsOut s))),
     (Valid (lx_SegsIn s), ''segsIn'', AUint32 (NValue (lx_SegsIn s))),
     (Valid (lx_NotSentBytes s), ''notSentBytes'', AUint32 (NValue (lx_NotSentBytes s))),
     (Valid (lx_MinRTT s), ''minRTT'', ADuration (NValue (lx_MinRTT s))),
     (Valid (lx_DataSegsIn s), ''dataSegsIn'', AUint32 (NValue (lx_DataSegsIn s))),
     (Valid (lx_DataSegsOut s), ''dataSegsOut'', AUint32 (NValue (lx_DataSegsOut s))),
     (Valid (lx_DeliveryRate s), ''deliveryRate'', AUint64 (NValue (lx_DeliveryRate s))),
     (Valid (lx_BusyTime s), ''busyTime'', AUint64 (NValue (lx_BusyTime s))),
     (Valid (lx_RxWindowLimited s), ''rxWindowLimited'', AUint64 (NValue (lx_RxWindowLimited s))),
     (Valid (lx_TxBufferLimited s), ''txBufferLimited'', AUint64 (NValue (lx_TxBufferLimited s))),
     (Valid (lx_Delivered s), ''delivered'', AUint32 (NValue (lx_Delivered s))),
     (Valid (lx_DeliveredCE s), ''deliveredCE'', AUint32 (NValue (lx_DeliveredCE s))),
     (Valid (lx_BytesSent s), ''bytesSent'', AUint64 (NValue (lx_BytesSent s))),
     (Valid (lx_BytesRetrans s), ''bytesRetrans'', AUint64 (NValue (lx_BytesRetrans s))),
     (Valid (lx_DSACKDups s), ''dsackDups'', AUint32 (NValue (lx_DSACKDups s))),
     (Valid (lx_ReordSeen s), ''reordSeen'', AUint32 (NValue (lx_ReordSeen s))),
     (Valid (lx_RxOutOfOrder s), ''rxOutOfOrder'', AUint32 (NValue (lx_RxOutOfOrder s))),
     (Valid (lx_TxWindow s), ''txWindow'', AUint32 (NValue (lx_TxWindow s))),
     (Valid (lx_RxWindow s), ''rxWindow'', AUint32 (NValue (lx_RxWindow s))),
     (Valid (lx_Rehash s), ''rehash'', AUint32 (NValue (lx_Rehash s))),
     (Valid (lx_TotalRTO s), ''totalRTO'', AUint16 (NValue (lx_TotalRTO s))),
     (Valid (lx_TotalRTORecoveries s), ''totalRTORecoveries'', AUint16 (NValue (lx_TotalRTORecoveries s))),
     (Valid (lx_TotalRTOTime s), ''totalRTOTime'', AUint32 (NValue (lx_TotalRTOTime s))),
     (Valid (lx_CCVegasEnabled s), ''ccVegasEnabled'', AUint32 (NValue (lx_CCVegasEnabled s))),
     (Valid (lx_CCVegasRTTCnt s), ''ccVegasRTTCnt'', AUint32 (NValue (lx_CCVegasRTTCnt s))),
     (Valid (lx_CCVegasRTT s), ''ccVegasRTT'', ADuration (NValue (lx_CCVegasRTT s))),
     (Valid (lx_CCVegasRTTMin s), ''ccVegasRTTMin'', ADuration (NValue (lx_CCVegasRTTMin s))),
     (Valid (lx_CCBBRBwLo s), ''ccBBRBwLo'', AUint32 (NValue (lx_CCBBRBwLo s))),
     (Valid (lx_CCBBRBwHi s), ''ccBBRBwHi'', AUint32 (NValue (lx_CCBBRBwHi s))),
     (Valid (lx_CCBBRMinRTT s), ''ccBBRMinRTT'', ADuration (NValue (lx_CCBBRMinRTT s))),
     (Valid (lx_CCBBRPacingGain s), ''ccBBRPacingGain'', AUint32 (NValue (lx_CCBBRPacingGain s))),
     (Valid (lx_CCBBRCWindowGain s), ''ccBBRCWindowGain'', AUint32 (NValue (lx_CCBBRCWindowGain s))),
     (Valid (lx_CCDCTCPEnabled s), ''ccDCTCPEnabled'', ABool (NValue (lx_CCDCTCPEnabled s))),
     (Valid (lx_CCDCTCPCEState s), ''ccDCTCPCEState'', AUint16 (NValue (lx_CCDCTCPCEState s))),
     (Valid (lx_CCDCTCPAlpha s), ''ccDCTCPAlpha'', AUint32 (NValue (lx_CCDCTCPAlpha s))),
     (Valid (lx_CCDCTCPABECN s), ''ccDCTCPABECN'', AUint32 (NValue (lx_CCDCTCPABECN s))),
     (Valid (lx_CCDCTCPABTOT s), ''ccDCTCPABTOT'', AUint32 (NValue (lx_CCDCTCPABTOT s)))]"

definition SysInfo_ToMap :: "SysInfo \<Rightarrow> go_map" where
  "SysInfo_ToMap s = fold put_if (SysInfo_optional s) (SysInfo_literal s)"

definition SysInfo_MarshalJSON :: "SysInfo \<Rightarrow> string option" where
  "SysInfo_MarshalJSON s = Marshal (AMap (SysInfo_ToMap s))"

definition SysInfo_ToInfo :: "SysInfo \<Rightarrow> SysInfo Info" where
  "SysInfo_ToInfo s =
    zero_Info\<lparr>
     info_State := lx_StateName s,
     info_TxOptions := lx_TxOptions s,
     info_RxOptions := lx_RxOptions s,
     info_TxMSS := ucast (lx_TxMSS s),
     info_RxMSS := ucast (lx_RxMSS s),
     info_RTT := lx_RTT s,
     info_RTTVar := lx_RTTVar s,
     info_RTO := lx_RTO s,
     info_ATO := lx_ATO s,
     info_LastTxAt := lx_LastTxAt s,
     info_LastRxAt := lx_LastRxAt s,
     info_LastTxAckAt := lx_LastTxAckAt s,
     info_LastRxAckAt := lx_LastRxAckAt s,
     info_RxWindow := ucast (lx_RxSpace s),
     info_TxSSThreshold := ucast (lx_TxSSThreshold s),
     info_RxSSThreshold := ucast (lx_RxSSThreshold s),
     info_TxWindowSegs := ucast (lx_TxCWindow s),
     info_Retransmits := ucast (lx_TotalRetrans s),
     info_Sys := Some s\<rparr>"

definition SysInfo_Warnings :: "SysInfo \<Rightarrow> string list" where
  "SysInfo_Warnings s =
    (if Valid (lx_BytesRetrans s) \<and> NValue (lx_BytesRetrans s) > 0
     then [''retransBytes='' @ format_uint (NValue (lx_BytesRetrans s))] else []) @
    (if lx_TotalRetrans s > 0 then [''retransTotal='' @ format_uint (lx_TotalRetrans s)] else []) @
    (if lx_Backoff s > 0 then [''backoff='' @ format_uint (lx_Backoff s)] else []) @
    (if Valid (lx_RxOutOfOrder s) \<and> NValue (lx_RxOutOfOrder s) > 0
     then [''outOfOrderBytes='' @ format_uint (NValue (lx_RxOutOfOrder s))] else []) @
    (if Valid (lx_TxBufferLimited s) \<and> NValue (lx_TxBufferLimited s) > 0
     then [''txSendBufferLimited='' @ format_uint (NValue (lx_TxBufferLimited s))] else []) @
    (if Valid (lx_RxWindowLimited s) \<and> NValue (lx_RxWindowLimited s) > 0
     then [''rxWindowLimited='' @ format_uint (NValue (lx_RxWindowLimited s))] else [])"

definition linux_Supported :: "package_vars \<Rightarrow> bool" where
  "linux_Supported g = flags g kernelVersionIsAtLeast_2_6_2"

section \<open>Congestion control\<close>

record TCPVegasInfo =
  vegas_Enabled :: u32
  vegas_Rttcnt :: u32
  vegas_Rtt :: u32
  vegas_Minrtt :: u32

record TCPBBRInfo =
  Bw_lo :: u32
  Bw_hi :: u32
  Min_rtt :: u32
  Pacing_gain :: u32
  Cwnd_gain :: u32

record TCPDCTCPInfo =
  dctcp_Enabled :: u16
  Ce_state :: u16
  Alpha :: u32
  Ab_ecn :: u32
  Ab_tot :: u32

record TCPInfoPlusCC =
  TCPInfo :: RawTCPInfo
  CCAlg :: string
  CCVegas :: "TCPVegasInfo option"
  CCBBR :: "TCPBBRInfo option"
  CCDCTP :: "TCPDCTCPInfo option"

definition PlusCC_Unpack :: "package_vars \<Rightarrow> TCPInfoPlusCC \<Rightarrow> SysInfo" where
  "PlusCC_Unpack g t =
    (let sysInfo = (Unpack g (TCPInfo t))\<lparr>lx_CCAlgorithm := CCAlg t\<rparr> in
     if CCAlg t = ''vegas'' \<and> CCVegas t \<noteq> None then
       (let v = the (CCVegas t) in
        sysInfo\<lparr>lx_CCVegasEnabled := valid_of (vegas_Enabled v),
                lx_CCVegasRTTCnt := valid_of (vegas_Rttcnt v),
                lx_CCVegasRTTMin := valid_of (ucast (vegas_Minrtt v) * Microsecond),
                lx_CCVegasRTT := valid_of (ucast (vegas_Rtt v) * Microsecond)\<rparr>)
     else if CCAlg t = ''bbr'' \<and> CCBBR t \<noteq> None then
       (let b = the (CCBBR t) in
        sysInfo\<lparr>lx_CCBBRBwHi := valid_of (Bw_hi b),
                lx_CCBBRBwLo := valid_of (Bw_lo b),
                lx_CCBBRMinRTT := valid_of (ucast (Min_rtt b) * Microsecond),
                lx_CCBBRPacingGain := valid_of (Pacing_gain b),
                lx_CCBBRCWindowGain := valid_of (Cwnd_gain b)\<rparr>)
     else if CCAlg t = ''dctcp'' \<and> CCDCTP t \<noteq> None then
       (let d = the (CCDCTP t) in
        sysInfo\<lparr>lx_CCDCTCPEnabled := valid_of (dctcp_Enabled d \<noteq> 0),
                lx_CCDCTCPCEState := valid_of (Ce_state d),
                lx_CCDCTCPAlpha := valid_of (Alpha d),
                lx_CCDCTCPABECN := valid_of (Ab_ecn d),
                lx_CCDCTCPABTOT := valid_of (Ab_tot d)\<rparr>)
     else sysInfo)"

text \<open>The system calls, each a function of the file descriptor.\<close>

record linux_sys =
  sys_byte_order :: endian
  sys_tcp_info :: "nat \<Rightarrow> u32 \<Rightarrow> error + u8 list"
  sys_congestion :: "nat \<Rightarrow> error + string"
  sys_vegas :: "nat \<Rightarrow> error + TCPVegasInfo"
  sys_bbr :: "nat \<Rightarrow> error + TCPBBRInfo"
  sys_dctcp :: "nat \<Rightarrow> error + TCPDCTCPInfo"

definition ErrKernelTooOld :: error where
  "ErrKernelTooOld = PlainError ''tcp_info is not available on Linux prior to kernel 2.6.2''"

definition GetTCPCongestionAlgorithm :: "linux_sys \<Rightarrow> nat \<Rightarrow> error + string" where
  "GetTCPCongestionAlgorithm sys fds =
     (case sys_congestion sys fds of Inl err \<Rightarrow> Inl err | Inr algo \<Rightarrow> Inr algo)"

definition GetTCPInfo ::
    "package_vars \<Rightarrow> linux_sys \<Rightarrow> nat \<Rightarrow> SysInfo option \<times> error option" where
  "GetTCPInfo g sys fds =
    (if \<not> flags g kernelVersionIsAtLeast_2_6_2 then (None, Some ErrKernelTooOld)
     else case GetRawTCPInfo (sys_byte_order sys) g (sys_tcp_info sys) fds of
       Inl err \<Rightarrow> (None, Some err)
     | Inr tcpInfo \<Rightarrow>
       (let res = \<lparr>TCPInfo = tcpInfo, CCAlg = [], CCVegas = None, CCBBR = None, CCDCTP = None\<rparr> in
        case GetTCPCongestionAlgorithm sys fds of
          Inl err \<Rightarrow> (Some (PlusCC_Unpack g res), Some err)
        | Inr alg \<Rightarrow>
          (let res = res\<lparr>CCAlg := alg\<rparr> in
           if alg = ''vegas'' then
             (case sys_vegas sys fds of
                Inl err \<Rightarrow> (Some (PlusCC_Unpack g res), Some err)
              | Inr v \<Rightarrow> (Some (PlusCC_Unpack g (res\<lparr>CCVegas := Some v\<rparr>)), None))
           else if alg = ''bbr'' then
             (case sys_bbr sys fds of
                Inl err \<Rightarrow> (Some (PlusCC_Unpack g res), Some err)
              | Inr v \<Rightarrow> (Some (PlusCC_Unpack g (res\<lparr>CCBBR := Some v\<rparr>)), None))
           else if alg = ''dctcp'' then
             (case sys_dctcp sys fds of
                Inl err \<Rightarrow> (Some (PlusCC_Unpack g res), Some err)
              | Inr v \<Rightarrow> (Some (PlusCC_Unpack g (res\<lparr>CCDCTP := Some v\<rparr>)), None))
           else (Some (PlusCC_Unpack g res), None))))"

section \<open>The Linux platform\<close>

text \<open>\<open>Warnings\<close> reads fields of its receiver: on a nil pointer it panics.\<close>

definition linux_platform :: "package_vars \<Rightarrow> SysInfo platform" where
  "linux_platform g =
    \<lparr>Supported = linux_Supported g,
     ToInfo = SysInfo_ToInfo,
     SysWarnings = map_option SysInfo_Warnings,
     SysToMap = SysInfo_ToMap\<rparr>"

end
