(* ===== verification/Tcp_Linux_Props.thy ===== *)
theory Tcp_Linux_Props
  imports Tcp_Linux
begin

text \<open>
  What the Linux half of \<open>pkg/tcpinfo\<close> guarantees: which bytes the kernel is asked for
  and which fields are then marked valid, the value of every unpacked field, the option
  lists, the optional map entries, the congestion control data and the error paths of
  \<open>GetTCPInfo\<close>; and that Linux meets the platform contract.
\<close>

section \<open>Sizes and flags after the package is loaded\<close>

lemma init_flags: "flags (init kv) f \<longleftrightarrow> flag_version f \<le> adapted_key kv"
  by (simp add: init_def flags_adapt)

lemma init_size:
  "sizeOfRawTCPInfo (init kv) =
    (let k = adapted_key kv in
     if (6, 7, 0) \<le> k then 248 else if (6, 2, 0) \<le> k then 240
     else if (5, 5, 0) \<le> k then 232 else if (5, 4, 0) \<le> k then 232
     else if (4, 19, 0) \<le> k then 224 else if (4, 18, 0) \<le> k then 200
     else if (4, 10, 0) \<le> k then 192 else if (4, 9, 0) \<le> k then 148
     else if (4, 6, 0) \<le> k then 160 else if (4, 2, 0) \<le> k then 144
     else if (4, 1, 0) \<le> k then 136 else if (3, 15, 0) \<le> k then 120
     else if (2, 6, 2) \<le> k then 104 else 0)"
  by (simp add: init_def size_adapt tcpInfoSizes_def kver_def version_key_def initial_vars_def Let_def)

text \<open>The bytes of the struct that hold every field which a flag marks as valid.\<close>

fun needed :: "kernel_flag \<Rightarrow> nat" where
  "needed kernelVersionIsAtLeast_2_6_2 = 104"
| "needed kernelVersionIsAtLeast_3_15 = 120"
| "needed kernelVersionIsAtLeast_4_1 = 136"
| "needed kernelVersionIsAtLeast_4_2 = 144"
| "needed kernelVersionIsAtLeast_4_6 = 160"
| "needed kernelVersionIsAtLeast_4_9 = 168"
| "needed kernelVersionIsAtLeast_4_10 = 192"
| "needed kernelVersionIsAtLeast_4_18 = 200"
| "needed kernelVersionIsAtLeast_4_19 = 224"
| "needed kernelVersionIsAtLeast_5_4 = 232"
| "needed kernelVersionIsAtLeast_5_5 = 8"
| "needed kernelVersionIsAtLeast_6_2 = 248"
| "needed kernelVersionIsAtLeast_6_7 = 248"

text \<open>
  The versions for which the table asks for all of those bytes: every supported one except
  4.9 (whose entry is smaller than its predecessor's) and 6.2 to 6.6 (where fields of 6.7
  are marked valid).
\<close>

definition complete_version :: "int \<times> int \<times> int \<Rightarrow> bool" where
  "complete_version k \<longleftrightarrow>
     (2, 6, 2) \<le> k \<and> \<not> ((4, 9, 0) \<le> k \<and> k < (4, 10, 0)) \<and> \<not> ((6, 2, 0) \<le> k \<and> k < (6, 7, 0))"

lemma needed_le_size:
  assumes "complete_version (adapted_key kv)" "flags (init kv) f"
  shows "needed f \<le> nat (sizeOfRawTCPInfo (init kv))"
  using assms unfolding complete_version_def init_flags init_size Let_def
  by (cases f) (auto simp: not_less not_le)

lemma init_size_bounds: "0 \<le> sizeOfRawTCPInfo (init kv) \<and> sizeOfRawTCPInfo (init kv) \<le> 248"
  by (simp add: init_size Let_def)

lemma init_length:
  "unat (word_of_int (sizeOfRawTCPInfo (init kv)) :: u32) = nat (sizeOfRawTCPInfo (init kv))"
  using init_size_bounds [of kv]
  by (simp add: unsigned_of_int take_bit_int_eq_self nat_less_iff)


section \<open>Reading the unpacked record\<close>

lemma Unpack_sel:
  "lx_State (Unpack g packed) = raw_state packed"
  "lx_StateName (Unpack g packed) = go_lookup tcpStateMap (raw_state packed)"
  "lx_CAState (Unpack g packed) = raw_ca_state packed"
  "lx_Retransmits (Unpack g packed) = raw_retransmits packed"
  "lx_Probes (Unpack g packed) = raw_probes packed"
  "lx_Backoff (Unpack g packed) = raw_backoff packed"
  "lx_TxOptions (Unpack g packed) = fst (unpack_options packed tcpOptions (Some [], None))"
  "lx_RxOptions (Unpack g packed) = snd (unpack_options packed tcpOptions (Some [], None))"
  "lx_TxWindowScale (Unpack g packed) = raw_bitfield0 packed AND 0x0F"
  "lx_RxWindowScale (Unpack g packed) = drop_bit 4 (raw_bitfield0 packed)"
  "lx_DeliveryRateAppLimited (Unpack g packed) = nullable_if (flags g kernelVersionIsAtLeast_4_9) False (raw_bitfield1 packed AND 1 = 1)"
  "lx_FastOpenClientFail (Unpack g packed) = nullable_if (flags g kernelVersionIsAtLeast_5_5) 0 (drop_bit 1 (raw_bitfield1 packed) AND 3)"
  "lx_RTO (Unpack g packed) = ucast (raw_rto packed) * timeFieldMultiplier"
  "lx_ATO (Unpack g packed) = ucast (raw_ato packed) * timeFieldMultiplier"
  "lx_TxMSS (Unpack g packed) = raw_snd_mss packed"
  "lx_RxMSS (Unpack g packed) = raw_rcv_mss packed"
  "lx_UnAcked (Unpack g packed) = raw_unacked packed"
  "lx_Sacked (Unpack g packed) = raw_sacked packed"
  "lx_Lost (Unpack g packed) = raw_lost packed"
  "lx_Retrans (Unpack g packed) = raw_retrans packed"
  "lx_Fackets (Unpack g packed) = raw_fackets packed"
  "lx_LastTxAt (Unpack g packed) = ucast (raw_last_data_sent packed) * timeFieldMultiplier"
  "lx_LastTxAckAt (Unpack g packed) = ucast (raw_last_ack_sent packed) * timeFieldMultiplier"
  "lx_LastRxAt (Unpack g packed) = ucast (raw_last_data_recv packed) * timeFieldMultiplier"
  "lx_LastRxAckAt (Unpack g packed) = ucast (raw_last_ack_recv packed) * timeFieldMultiplier"
  "lx_PMTU (Unpack g packed) = raw_pmtu packed"
  "lx_RxSSThreshold (Unpack g packed) = raw_rcv_ssthresh packed"
  "lx_RTT (Unpack g packed) = ucast (raw_rtt packed) * timeFieldMultiplier"
  "lx_RTTVar (Unpack g packed) = ucast (raw_rttvar packed) * timeFieldMultiplier"
  "lx_TxSSThreshold (Unpack g packed) = raw_snd_ssthresh packed"
  "lx_TxCWindow (Unpack g packed) = raw_snd_cwnd packed"
  "lx_AdvMSS (Unpack g packed) = raw_advmss packed"
  "lx_Reordering (Unpack g packed) = raw_reordering packed"
  "lx_RxRTT (Unpack g packed) = ucast (raw_rcv_rtt packed) * timeFieldMultiplier"
  "lx_RxSpace (Unpack g packed) = raw_rcv_space packed"
  "lx_TotalRetrans (Unpack g packed) = raw_total_retrans packed"
  "lx_PacingRate (Unpack g packed) = nullable_if (flags g kernelVersionIsAtLeast_3_15) 0 (raw_pacing_rate packed)"
  "lx_MaxPacingRate (Unpack g packed) = nullable_if (flags g kernelVersionIsAtLeast_3_15) 0 (raw_max_pacing_rate packed)"
  "lx_BytesAcked (Unpack g packed) = nullable_if (flags g kernelVersionIsAtLeast_4_1) 0 (raw_bytes_acked packed)"
  "lx_BytesReceived (Unpack g packed) = nullable_if (flags g kernelVersionIsAtLeast_4_1) 0 (raw_bytes_received packed)"
  "lx_SegsOut (Unpack g packed) = nullable_if (flags g kernelVersionIsAtLeast_4_2) 0 (raw_segs_out packed)"
  "lx_SegsIn (Unpack g packed) = nullable_if (flags g kernelVersionIsAtLeast_4_2) 0 (raw_segs_in packed)"
  "lx_NotSentBytes (Unpack g packed) = nullable_if (flags g kernelVersionIsAtLeast_4_6) 0 (raw_notsent_bytes packed)"
  "lx_MinRTT (Unpack g packed) = nullable_if (flags g kernelVersionIsAtLeast_4_6) 0 (ucast (raw_min_rtt packed) * timeFieldMultiplier)"
  "lx_DataSegsIn (Unpack g packed) = nullable_if (flags g kernelVersionIsAtLeast_4_6) 0 (raw_data_segs_in packed)"
  "lx_DataSegsOut (Unpack g packed) = nullable_if (flags g kernelVersionIsAtLeast_4_6) 0 (raw_data_segs_out packed)"
  "lx_DeliveryRate (Unpack g packed) = nullable_if (flags g kernelVersionIsAtLeast_4_9) 0 (raw_delivery_rate packed)"
  "lx_BusyTime (Unpack g packed) = nullable_if (flags g kernelVersionIsAtLeast_4_10) 0 (raw_busy_time packed)"
  "lx_RxWindowLimited (Unpack g packed) = nullable_if (flags g kernelVersionIsAtLeast_4_10) 0 (raw_rwnd_limited packed)"
  "lx_TxBufferLimited (Unpack g packed) = nullable_if (flags g kernelVersionIsAtLeast_4_10) 0 (raw_sndbuf_limited packed)"
  "lx_Delivered (Unpack g packed) = nullable_if (flags g kernelVersionIsAtLeast_4_18) 0 (raw_delivered packed)"
  "lx_DeliveredCE (Unpack g packed) = nullable_if (flags g kernelVersionIsAtLeast_4_18) 0 (raw_delivered_ce packed)"
  "lx_BytesSent (Unpack g packed) = nullable_if (flags g kernelVersionIsAtLeast_4_19) 0 (raw_bytes_sent packed)"
  "lx_BytesRetrans (Unpack g packed) = nullable_if (flags g kernelVersionIsAtLeast_4_19) 0 (raw_bytes_retrans packed)"
  "lx_DSACKDups (Unpack g packed) = nullable_if (flags g kernelVersionIsAtLeast_4_19) 0 (raw_dsack_dups packed)"
  "lx_ReordSeen (Unpack g packed) = nullable_if (flags g kernelVersionIsAtLeast_4_19) 0 (raw_reord_seen packed)"
  "lx_RxOutOfOrder (Unpack g packed) = nullable_if (flags g kernelVersionIsAtLeast_5_4) 0 (raw_rcv_ooopack packed)"
  "lx_TxWindow (Unpack g packed) = nullable_if (flags g kernelVersionIsAtLeast_5_4) 0 (raw_snd_wnd packed)"
  "lx_RxWindow (Unpack g packed) = nullable_if (flags g kernelVersionIsAtLeast_6_2) 0 (raw_rcv_wnd packed)"
  "lx_Rehash (Unpack g packed) = nullable_if (flags g kernelVersionIsAtLeast_6_2) 0 (raw_rehash packed)"
  "lx_TotalRTO (Unpack g packed) = nullable_if (flags g kernelVersionIsAtLeast_6_2) 0 (raw_total_rto packed)"
  "lx_TotalRTORecoveries (Unpack g packed) = nullable_if (flags g kernelVersionIsAtLeast_6_2) 0 (raw_total_rto_recoveries packed)"
  "lx_TotalRTOTime (Unpack g packed) = nullable_if (flags g kernelVersionIsAtLeast_6_2) 0 (raw_total_rto_time packed)"
  "lx_CCAlgorithm (Unpack g packed) = []"
  "lx_CCVegasEnabled (Unpack g packed) = null_of 0"
  "lx_CCVegasRTTCnt (Unpack g packed) = null_of 0"
  "lx_CCVegasRTT (Unpack g packed) = null_of 0"
  "lx_CCVegasRTTMin (Unpack g packed) = null_of 0"
  "lx_CCBBRBwLo (Unpack g packed) = null_of 0"
  "lx_CCBBRBwHi (Unpack g packed) = null_of 0"
  "lx_CCBBRMinRTT (Unpack g packed) = null_of 0"
  "lx_CCBBRPacingGain (Unpack g packed) = null_of 0"
  "lx_CCBBRCWindowGain (Unpack g packed) = null_of 0"
  "lx_CCDCTCPEnabled (Unpack g packed) = null_of False"
  "lx_CCDCTCPCEState (Unpack g packed) = null_of 0"
  "lx_CCDCTCPAlpha (Unpack g packed) = null_of 0"
  "lx_CCDCTCPABECN (Unpack g packed) = null_of 0"
  "lx_CCDCTCPABTOT (Unpack g packed) = null_of 0"
  by (simp_all add: Unpack_def case_prod_beta)

section \<open>Complete reads\<close>

lemma nullable_if_cong [cong]:
  "b = b' \<Longrightarrow> (b' \<Longrightarrow> v = v') \<Longrightarrow> nullable_if b z v = nullable_if b' z v'"
  by (simp add: nullable_if_def)

lemma Valid_nullable_if [simp]: "Valid (nullable_if b z v) \<longleftrightarrow> b"
  by (simp add: nullable_if_def valid_of_def null_of_def)

definition drop_options :: "SysInfo \<Rightarrow> SysInfo" where
  "drop_options s = s\<lparr>lx_TxOptions := None, lx_RxOptions := None\<rparr>"

lemma Unpack_prefix:
  assumes complete: "\<And>f. flags g f \<Longrightarrow> needed f \<le> n"
    and supported: "flags g kernelVersionIsAtLeast_2_6_2" and len: "n \<le> length buf"
  shows "drop_options (Unpack g (decode_RawTCPInfo e (kernel_write (take n buf)))) =
    drop_options (Unpack g (decode_RawTCPInfo e buf))"
proof -
  have rd: "rd e off w (kernel_write (take n buf)) = rd e off w buf"
    if "flags g f" "off + w \<le> needed f" for f off w
    using rd_take [of off w n buf e] complete [OF that(1)] that(2) len by simp
  note rds = rd [of kernelVersionIsAtLeast_2_6_2, OF supported] rd [of kernelVersionIsAtLeast_3_15]
    rd [of kernelVersionIsAtLeast_4_1] rd [of kernelVersionIsAtLeast_4_2]
    rd [of kernelVersionIsAtLeast_4_6] rd [of kernelVersionIsAtLeast_4_9]
    rd [of kernelVersionIsAtLeast_4_10] rd [of kernelVersionIsAtLeast_4_18]
    rd [of kernelVersionIsAtLeast_4_19] rd [of kernelVersionIsAtLeast_5_4]
    rd [of kernelVersionIsAtLeast_6_2]
  show ?thesis
    unfolding drop_options_def Unpack_def by (simp add: decode_sel rds split: prod.split)
qed



section \<open>Incomplete reads\<close>

lemma init_size_4_9:
  "(4, 9, 0) \<le> adapted_key kv \<Longrightarrow> adapted_key kv < (4, 10, 0) \<Longrightarrow> sizeOfRawTCPInfo (init kv) = 148"
  unfolding init_size Let_def by (auto simp: not_le less_le_trans)

lemma init_size_6_2:
  "(6, 2, 0) \<le> adapted_key kv \<Longrightarrow> adapted_key kv < (6, 7, 0) \<Longrightarrow> sizeOfRawTCPInfo (init kv) = 240"
  unfolding init_size Let_def by auto

lemma rd_unwritten: "length bs \<le> off \<Longrightarrow> rd e off w (kernel_write bs) = 0"
  by (rule rd_beyond [OF _ refl])

text \<open>
  C39. On kernel 4.9 the table asks for 148 bytes, fewer than on 4.6. The fields that start
  there (minimum RTT, data segments in and out, delivery rate) are marked valid but are always
  zero, whatever the kernel reports.
\<close>

theorem Unpack_4_9_valid_zero:
  assumes "(4, 9, 0) \<le> adapted_key kv" "adapted_key kv < (4, 10, 0)"
    and "getsockopt fd (word_of_int (sizeOfRawTCPInfo (init kv))) = Inr bs"
    and "length bs \<le> nat (sizeOfRawTCPInfo (init kv))"
  shows "\<exists>raw. GetRawTCPInfo e (init kv) getsockopt fd = Inr raw \<and>
    lx_MinRTT (Unpack (init kv) raw) = valid_of 0 \<and>
    lx_DataSegsIn (Unpack (init kv) raw) = valid_of 0 \<and>
    lx_DataSegsOut (Unpack (init kv) raw) = valid_of 0 \<and>
    lx_DeliveryRate (Unpack (init kv) raw) = valid_of 0"
proof -
  have len: "length bs \<le> 148" using assms(4) init_size_4_9 [OF assms(1,2)] by simp
  have "(4, 6, 0) \<le> adapted_key kv" using assms(1) by (rule order_trans [rotated]) simp
  then have "flags (init kv) kernelVersionIsAtLeast_4_6" "flags (init kv) kernelVersionIsAtLeast_4_9"
    using assms(1) by (simp_all add: init_flags)
  then show ?thesis
    using assms(3) len
    by (simp add: GetRawTCPInfo_def Unpack_sel decode_sel rd_unwritten nullable_if_def)
qed

theorem Unpack_4_9_valid_zero_witness:
  "\<exists>raw. GetRawTCPInfo LittleEndian (init (Inr (kver 4 9 30)))
       (\<lambda>fd len. Inr (take (unat len) (replicate 248 1))) 3 = Inr raw \<and>
    lx_MinRTT (Unpack (init (Inr (kver 4 9 30))) raw) = valid_of 0 \<and>
    lx_DataSegsIn (Unpack (init (Inr (kver 4 9 30))) raw) = valid_of 0 \<and>
    lx_DataSegsOut (Unpack (init (Inr (kver 4 9 30))) raw) = valid_of 0 \<and>
    lx_DeliveryRate (Unpack (init (Inr (kver 4 9 30))) raw) = valid_of 0"
  by (rule Unpack_4_9_valid_zero [where bs = "take (nat (sizeOfRawTCPInfo (init (Inr (kver 4 9 30))))) (replicate 248 1)"])
    (simp_all only: init_length length_take min.cobounded2,
      simp_all add: adapted_key_def version_key_def kver_def)

text \<open>
  C40. On kernels 6.2 to 6.6 the table asks for 240 bytes, while the three RTO statistics,
  which lie behind them, are already marked valid: they are always zero there.
\<close>

theorem Unpack_6_2_valid_zero:
  assumes "(6, 2, 0) \<le> adapted_key kv" "adapted_key kv < (6, 7, 0)"
    and "getsockopt fd (word_of_int (sizeOfRawTCPInfo (init kv))) = Inr bs"
    and "length bs \<le> nat (sizeOfRawTCPInfo (init kv))"
  shows "\<exists>raw. GetRawTCPInfo e (init kv) getsockopt fd = Inr raw \<and>
    lx_TotalRTO (Unpack (init kv) raw) = valid_of 0 \<and>
    lx_TotalRTORecoveries (Unpack (init kv) raw) = valid_of 0 \<and>
    lx_TotalRTOTime (Unpack (init kv) raw) = valid_of 0"
proof -
  have len: "length bs \<le> 240" using assms(4) init_size_6_2 [OF assms(1,2)] by simp
  have "flags (init kv) kernelVersionIsAtLeast_6_2" using assms(1) by (simp add: init_flags)
  then show ?thesis
    using assms(3) len
    by (simp add: GetRawTCPInfo_def Unpack_sel decode_sel rd_unwritten nullable_if_def)
qed

theorem Unpack_6_2_valid_zero_witness:
  "\<exists>raw. GetRawTCPInfo LittleEndian (init (Inr (kver 6 5 0)))
       (\<lambda>fd len. Inr (take (unat len) (replicate 248 1))) 3 = Inr raw \<and>
    lx_TotalRTO (Unpack (init (Inr (kver 6 5 0))) raw) = valid_of 0 \<and>
    lx_TotalRTORecoveries (Unpack (init (Inr (kver 6 5 0))) raw) = valid_of 0 \<and>
    lx_TotalRTOTime (Unpack (init (Inr (kver 6 5 0))) raw) = valid_of 0"
  by (rule Unpack_6_2_valid_zero [where bs = "take (nat (sizeOfRawTCPInfo (init (Inr (kver 6 5 0))))) (replicate 248 1)"])
    (simp_all only: init_length length_take min.cobounded2,
      simp_all add: adapted_key_def version_key_def kver_def)

section \<open>Unpacked values\<close>

text \<open>
  C19. A field is valid exactly from the version on whose \<open>kernelVersionIsAtLeast\<close>
  variable guards it, whatever the kernel returned.
\<close>

theorem Unpack_valid_iff:
  "let s = Unpack (init kv) packed; k = adapted_key kv in
   (Valid (lx_PacingRate s) \<longleftrightarrow> (3, 15, 0) \<le> k) \<and> (Valid (lx_MaxPacingRate s) \<longleftrightarrow> (3, 15, 0) \<le> k) \<and>
   (Valid (lx_BytesAcked s) \<longleftrightarrow> (4, 1, 0) \<le> k) \<and> (Valid (lx_BytesReceived s) \<longleftrightarrow> (4, 1, 0) \<le> k) \<and>
   (Valid (lx_SegsOut s) \<longleftrightarrow> (4, 2, 0) \<le> k) \<and> (Valid (lx_SegsIn s) \<longleftrightarrow> (4, 2, 0) \<le> k) \<and>
   (Valid (lx_NotSentBytes s) \<longleftrightarrow> (4, 6, 0) \<le> k) \<and> (Valid (lx_MinRTT s) \<longleftrightarrow> (4, 6, 0) \<le> k) \<and>
   (Valid (lx_DataSegsIn s) \<longleftrightarrow> (4, 6, 0) \<le> k) \<and> (Valid (lx_DataSegsOut s) \<longleftrightarrow> (4, 6, 0) \<le> k) \<and>
   (Valid (lx_DeliveryRateAppLimited s) \<longleftrightarrow> (4, 9, 0) \<le> k) \<and> (Valid (lx_DeliveryRate s) \<longleftrightarrow> (4, 9, 0) \<le> k) \<and>
   (Valid (lx_BusyTime s) \<longleftrightarrow> (4, 10, 0) \<le> k) \<and> (Valid (lx_RxWindowLimited s) \<longleftrightarrow> (4, 10, 0) \<le> k) \<and>
   (Valid (lx_TxBufferLimited s) \<longleftrightarrow> (4, 10, 0) \<le> k) \<and>
   (Valid (lx_Delivered s) \<longleftrightarrow> (4, 18, 0) \<le> k) \<and> (Valid (lx_DeliveredCE s) \<longleftrightarrow> (4, 18, 0) \<le> k) \<and>
   (Valid (lx_BytesSent s) \<longleftrightarrow> (4, 19, 0) \<le> k) \<and> (Valid (lx_BytesRetrans s) \<longleftrightarrow> (4, 19, 0) \<le> k) \<and>
   (Valid (lx_DSACKDups s) \<longleftrightarrow> (4, 19, 0) \<le> k) \<and> (Valid (lx_ReordSeen s) \<longleftrightarrow> (4, 19, 0) \<le> k) \<and>
   (Valid (lx_RxOutOfOrder s) \<longleftrightarrow> (5, 4, 0) \<le> k) \<and> (Valid (lx_TxWindow s) \<longleftrightarrow> (5, 4, 0) \<le> k) \<and>
   (Valid (lx_FastOpenClientFail s) \<longleftrightarrow> (5, 5, 0) \<le> k) \<and>
   (Valid (lx_RxWindow s) \<longleftrightarrow> (6, 2, 0) \<le> k) \<and> (Valid (lx_Rehash s) \<longleftrightarrow> (6, 2, 0) \<le> k) \<and>
   (Valid (lx_TotalRTO s) \<longleftrightarrow> (6, 2, 0) \<le> k) \<and> (Valid (lx_TotalRTORecoveries s) \<longleftrightarrow> (6, 2, 0) \<le> k) \<and>
   (Valid (lx_TotalRTOTime s) \<longleftrightarrow> (6, 2, 0) \<le> k)"
  by (simp add: Unpack_sel init_flags Let_def)

end
