(* ===== verification/Tcp_Linux_Get.thy ===== *)
theory Tcp_Linux_Get
  imports Tcp_Linux_Props
begin

text \<open>
  \<open>GetTCPInfo\<close> on Linux: the result of every branch, the congestion control data and
  the errors.
\<close>

section \<open>GetTCPInfo\<close>

definition cc_reset :: "SysInfo \<Rightarrow> SysInfo" where
  "cc_reset s = s\<lparr>
     lx_CCAlgorithm := [],
     lx_CCVegasEnabled := null_of 0, lx_CCVegasRTTCnt := null_of 0,
     lx_CCVegasRTT := null_of 0, lx_CCVegasRTTMin := null_of 0,
     lx_CCBBRBwLo := null_of 0, lx_CCBBRBwHi := null_of 0, lx_CCBBRMinRTT := null_of 0,
     lx_CCBBRPacingGain := null_of 0, lx_CCBBRCWindowGain := null_of 0,
     lx_CCDCTCPEnabled := null_of False, lx_CCDCTCPCEState := null_of 0,
     lx_CCDCTCPAlpha := null_of 0, lx_CCDCTCPABECN := null_of 0, lx_CCDCTCPABTOT := null_of 0\<rparr>"

definition vegas_valid :: "SysInfo \<Rightarrow> bool list" where
  "vegas_valid s = [Valid (lx_CCVegasEnabled s), Valid (lx_CCVegasRTTCnt s),
     Valid (lx_CCVegasRTT s), Valid (lx_CCVegasRTTMin s)]"

definition bbr_valid :: "SysInfo \<Rightarrow> bool list" where
  "bbr_valid s = [Valid (lx_CCBBRBwLo s), Valid (lx_CCBBRBwHi s), Valid (lx_CCBBRMinRTT s),
     Valid (lx_CCBBRPacingGain s), Valid (lx_CCBBRCWindowGain s)]"

definition dctcp_valid :: "SysInfo \<Rightarrow> bool list" where
  "dctcp_valid s = [Valid (lx_CCDCTCPEnabled s), Valid (lx_CCDCTCPCEState s),
     Valid (lx_CCDCTCPAlpha s), Valid (lx_CCDCTCPABECN s), Valid (lx_CCDCTCPABTOT s)]"

text \<open>The error of the query for the data of the algorithm, where there is one.\<close>

definition cc_error :: "linux_sys \<Rightarrow> nat \<Rightarrow> string \<Rightarrow> error option" where
  "cc_error sys fds alg =
    (if alg = ''vegas'' then case_sum Some (\<lambda>_. None) (sys_vegas sys fds)
     else if alg = ''bbr'' then case_sum Some (\<lambda>_. None) (sys_bbr sys fds)
     else if alg = ''dctcp'' then case_sum Some (\<lambda>_. None) (sys_dctcp sys fds)
     else None)"

lemma cc_reset_Unpack: "cc_reset (Unpack g p) = Unpack g p"
  by (simp add: cc_reset_def Unpack_sel)

lemma Valid_null_of [simp]: "\<not> Valid (null_of z)" and Valid_valid_of [simp]: "Valid (valid_of v)"
  by (simp_all add: null_of_def valid_of_def)

lemma PlusCC_Unpack_rest: "cc_reset (PlusCC_Unpack g t) = Unpack g (TCPInfo t)"
proof -
  have "cc_reset (PlusCC_Unpack g t) = cc_reset (Unpack g (TCPInfo t))"
    by (simp add: PlusCC_Unpack_def cc_reset_def Let_def)
  then show ?thesis by (simp only: cc_reset_Unpack)
qed

lemma PlusCC_Unpack_alg: "lx_CCAlgorithm (PlusCC_Unpack g t) = CCAlg t"
  by (simp add: PlusCC_Unpack_def Let_def)

lemma PlusCC_Unpack_valid:
  "vegas_valid (PlusCC_Unpack g t) = replicate 4 (CCAlg t = ''vegas'' \<and> CCVegas t \<noteq> None)"
  "bbr_valid (PlusCC_Unpack g t) = replicate 5 (CCAlg t = ''bbr'' \<and> CCBBR t \<noteq> None)"
  "dctcp_valid (PlusCC_Unpack g t) = replicate 5 (CCAlg t = ''dctcp'' \<and> CCDCTP t \<noteq> None)"
  by (simp_all add: PlusCC_Unpack_def Let_def Unpack_sel vegas_valid_def bbr_valid_def dctcp_valid_def
      numeral_eq_Suc)

lemmas PlusCC_Unpack_facts = PlusCC_Unpack_rest PlusCC_Unpack_alg PlusCC_Unpack_valid

text \<open>
  C4. Once the kernel's struct is read, \<open>GetTCPInfo\<close> returns its unpacked contents even
  when a later query fails. The name of the algorithm is added where the kernel gave it, and
  the data of Vegas, BBR or DCTCP is valid as a whole, and only for the algorithm in use and
  only when its query succeeded. An error is reported exactly when a query failed.
\<close>

theorem GetTCPInfo_result:
  assumes "flags g kernelVersionIsAtLeast_2_6_2"
    and "GetRawTCPInfo (sys_byte_order sys) g (sys_tcp_info sys) fds = Inr raw"
  shows "\<exists>s err. GetTCPInfo g sys fds = (Some s, err) \<and> cc_reset s = Unpack g raw \<and>
    (case sys_congestion sys fds of
       Inl e \<Rightarrow> err = Some e \<and> lx_CCAlgorithm s = []
     | Inr alg \<Rightarrow> err = cc_error sys fds alg \<and> lx_CCAlgorithm s = alg) \<and>
    vegas_valid s = replicate 4 (lx_CCAlgorithm s = ''vegas'' \<and> err = None) \<and>
    bbr_valid s = replicate 5 (lx_CCAlgorithm s = ''bbr'' \<and> err = None) \<and>
    dctcp_valid s = replicate 5 (lx_CCAlgorithm s = ''dctcp'' \<and> err = None)"
proof (cases "sys_congestion sys fds")
  case (Inl e)
  with assms show ?thesis
    by (simp add: GetTCPInfo_def GetTCPCongestionAlgorithm_def PlusCC_Unpack_facts Let_def)
next
  case (Inr alg)
  consider "alg = ''vegas''" | "alg = ''bbr''" | "alg = ''dctcp''"
    | "alg \<noteq> ''vegas''" "alg \<noteq> ''bbr''" "alg \<noteq> ''dctcp''" by blast
  then show ?thesis
    using assms Inr
    by cases (simp_all add: GetTCPInfo_def GetTCPCongestionAlgorithm_def PlusCC_Unpack_facts
        cc_error_def Let_def split: sum.split)
qed

theorem GetTCPInfo_result_witness:
  "\<exists>s. GetTCPInfo (init (Inr (kver 6 8 0)))
      \<lparr>sys_byte_order = LittleEndian, sys_tcp_info = (\<lambda>fd n. Inr [1]),
       sys_congestion = (\<lambda>fd. Inr ''bbr''), sys_vegas = (\<lambda>fd. Inl (Errno ''bad'' False 22)),
       sys_bbr = (\<lambda>fd. Inr \<lparr>Bw_lo = 1, Bw_hi = 0, Min_rtt = 7, Pacing_gain = 2, Cwnd_gain = 2\<rparr>),
       sys_dctcp = (\<lambda>fd. Inl (Errno ''bad'' False 22))\<rparr> 3 = (Some s, None) \<and>
    bbr_valid s = replicate 5 True \<and> vegas_valid s = replicate 4 False"
  using GetTCPInfo_result [of "init (Inr (kver 6 8 0))"
      "\<lparr>sys_byte_order = LittleEndian, sys_tcp_info = (\<lambda>fd n. Inr [1]),
       sys_congestion = (\<lambda>fd. Inr ''bbr''), sys_vegas = (\<lambda>fd. Inl (Errno ''bad'' False 22)),
       sys_bbr = (\<lambda>fd. Inr \<lparr>Bw_lo = 1, Bw_hi = 0, Min_rtt = 7, Pacing_gain = 2, Cwnd_gain = 2\<rparr>),
       sys_dctcp = (\<lambda>fd. Inl (Errno ''bad'' False 22))\<rparr>" 3
      "decode_RawTCPInfo LittleEndian (kernel_write [1])"]
  by (auto simp: init_flags adapted_key_def version_key_def kver_def GetRawTCPInfo_def cc_error_def)

text \<open>
  C25. \<open>GetTCPInfo\<close> returns no record exactly when the kernel predates
  \<open>tcp_info\<close>, with \<open>ErrKernelTooOld\<close> and without a system call, or the struct cannot be read, with
  that error.
\<close>

theorem GetTCPInfo_none:
  "GetTCPInfo g sys fds = (None, err) \<longleftrightarrow>
     (\<exists>e. err = Some e \<and>
        (if linux_Supported g
         then GetRawTCPInfo (sys_byte_order sys) g (sys_tcp_info sys) fds = Inl e
         else e = ErrKernelTooOld))"
  by (auto simp: GetTCPInfo_def linux_Supported_def Let_def split: sum.split)

end
