(* ===== verification/Tcp_Linux_Values.thy ===== *)
theory Tcp_Linux_Values
  imports Tcp_Linux_Props
begin

text \<open>
  The values the Linux half of \<open>pkg/tcpinfo\<close> hands out: the option lists, durations and
  window scales of \<open>Unpack\<close>, the map of \<open>ToMap\<close>; and that Linux meets the platform contract.
\<close>

section \<open>Options\<close>

definition option_names :: "(nat \<times> string) list" where
  "option_names =
    [(0, ''Timestamps''), (1, ''SACK''), (2, ''WindowScale''), (3, ''ECN''),
     (4, ''ECNSeen''), (5, ''SYNData''), (6, ''UsecTS''), (7, ''TFOChild'')]"

definition set_options :: "u8 \<Rightarrow> u64 \<Rightarrow> TcpOption list" where
  "set_options opts scale =
    map (\<lambda>(i, name). \<lparr>Kind = name, Value = if i = 2 then scale else 0\<rparr>)
      (filter (\<lambda>(i, name). bit opts i) option_names)"

text \<open>The bit of an option is looked up under its name and takes its branch of the switch.\<close>

abbreviation (input) plain_flags :: "u8 set" where
  "plain_flags \<equiv> {TCPI_OPT_TIMESTAMPS, TCPI_OPT_SACK, TCPI_OPT_ECN, TCPI_OPT_ECN_SEEN,
     TCPI_OPT_SYN_DATA, TCPI_OPT_USEC_TS, TCPI_OPT_TFO_CHILD}"

lemma option_flags:
  "\<forall>(i, name) \<in> set option_names. i < 8 \<and> go_lookup tcpOptionsMap (2 ^ i) = name \<and>
     (2 ^ i \<in> plain_flags) = (i \<noteq> 2) \<and> (2 ^ i = TCPI_OPT_WSCALE) = (i = 2)"
  by (simp add: option_names_def go_lookup_def tcpOptionsMap_def)

lemma tcpOptions_names: "tcpOptions = map (\<lambda>(i, name). 2 ^ i) option_names"
  by (simp add: tcpOptions_def option_names_def)

lemma unpack_options_names:
  "set ns \<subseteq> set option_names \<Longrightarrow>
     unpack_options packed (map (\<lambda>(i, name). 2 ^ i) ns) (tx, rx) =
       (append_all tx (map (\<lambda>(i, name). \<lparr>Kind = name, Value = if i = 2 then ucast (raw_snd_wnd packed) else 0\<rparr>)
          (filter (\<lambda>(i, name). bit (raw_options packed) i) ns)),
        append_all rx (map (\<lambda>(i, name). \<lparr>Kind = name, Value = if i = 2 then ucast (raw_rcv_wnd packed) else 0\<rparr>)
          (filter (\<lambda>(i, name). bit (raw_options packed) i) ns)))"
proof (induction ns arbitrary: tx rx)
  case (Cons n ns)
  obtain i name where n: "n = (i, name)" by (cases n)
  with Cons.prems have "(i, name) \<in> set option_names" by simp
  note all = bspec [OF option_flags this, unfolded prod.case]
  note f = all [THEN conjunct1] all [THEN conjunct2, THEN conjunct1]
    all [THEN conjunct2, THEN conjunct2, THEN conjunct1] all [THEN conjunct2, THEN conjunct2, THEN conjunct2]
  have "raw_options packed AND 2 ^ i = 0 \<longleftrightarrow> \<not> bit (raw_options packed) i"
    using and_flag_zero_iff [of i "raw_options packed"] f(1) by (simp add: push_bit_eq_mult)
  then have "unpack_options packed (map (\<lambda>(i, name). 2 ^ i) (n # ns)) (tx, rx) =
    unpack_options packed (map (\<lambda>(i, name). 2 ^ i) ns)
      (if \<not> bit (raw_options packed) i then (tx, rx)
       else (append_slice tx \<lparr>Kind = name, Value = if i = 2 then ucast (raw_snd_wnd packed) else 0\<rparr>,
             append_slice rx \<lparr>Kind = name, Value = if i = 2 then ucast (raw_rcv_wnd packed) else 0\<rparr>))"
    unfolding n list.map prod.case unpack_options.simps f by (cases "i = 2") simp_all
  with Cons n show ?case by simp
qed simp

lemma unpack_options_eq:
  "unpack_options packed tcpOptions (Some [], None) =
     (Some (set_options (raw_options packed) (ucast (raw_snd_wnd packed))),
      append_all None (set_options (raw_options packed) (ucast (raw_rcv_wnd packed))))"
  by (simp add: tcpOptions_names unpack_options_names set_options_def)

text \<open>
  C23. The option lists name exactly the options whose bit the kernel set, in bit order and
  each once. All values are zero but that of \<open>WindowScale\<close>, which holds the send or the
  receive window of the connection and not the window scale the kernel reports beside it.
  Without options the list of the sender is empty and that of the receiver is nil.
\<close>

theorem Unpack_options:
  "lx_TxOptions (Unpack g packed) = Some (set_options (raw_options packed) (ucast (raw_snd_wnd packed))) \<and>
   lx_RxOptions (Unpack g packed) = append_all None (set_options (raw_options packed) (ucast (raw_rcv_wnd packed))) \<and>
   map Kind (elems (lx_TxOptions (Unpack g packed))) =
     map snd (filter (\<lambda>(i, name). bit (raw_options packed) i) option_names) \<and>
   map Kind (elems (lx_RxOptions (Unpack g packed))) = map Kind (elems (lx_TxOptions (Unpack g packed)))"
  by (simp add: Unpack_sel unpack_options_eq set_options_def comp_def case_prod_beta)

section \<open>Scalar fields\<close>

text \<open>
  C22. The conversions of the kernel's microsecond fields to \<open>time.Duration\<close> never
  overflow: read as signed nanoseconds, each result is exactly a thousand times the field.
\<close>

theorem Unpack_durations:
  "sint (lx_RTO (Unpack g p)) = 1000 * uint (raw_rto p) \<and>
   sint (lx_ATO (Unpack g p)) = 1000 * uint (raw_ato p) \<and>
   sint (lx_LastTxAt (Unpack g p)) = 1000 * uint (raw_last_data_sent p) \<and>
   sint (lx_LastTxAckAt (Unpack g p)) = 1000 * uint (raw_last_ack_sent p) \<and>
   sint (lx_LastRxAt (Unpack g p)) = 1000 * uint (raw_last_data_recv p) \<and>
   sint (lx_LastRxAckAt (Unpack g p)) = 1000 * uint (raw_last_ack_recv p) \<and>
   sint (lx_RTT (Unpack g p)) = 1000 * uint (raw_rtt p) \<and>
   sint (lx_RTTVar (Unpack g p)) = 1000 * uint (raw_rttvar p) \<and>
   sint (lx_RxRTT (Unpack g p)) = 1000 * uint (raw_rcv_rtt p)"
proof -
  have "sint (ucast x * timeFieldMultiplier) = 1000 * uint x" for x :: u32
    using sint_duration_u32 [of timeFieldMultiplier x] by (simp add: timeFieldMultiplier_def)
  then show ?thesis by (simp add: Unpack_sel)
qed

text \<open>
  The two window scales are the low and the high nibble of the byte the kernel packs
  them into: both are below 16 and together they give the byte back. The two flags of the next
  byte are bit 0 and bits 1 and 2.
\<close>

lemma Unpack_bitfields:
  "unat (lx_TxWindowScale (Unpack g p)) < 16 \<and> unat (lx_RxWindowScale (Unpack g p)) < 16 \<and>
   unat (raw_bitfield0 p) =
     unat (lx_TxWindowScale (Unpack g p)) + 16 * unat (lx_RxWindowScale (Unpack g p)) \<and>
   (NValue (lx_DeliveryRateAppLimited (Unpack g p)) \<longleftrightarrow>
     flags g kernelVersionIsAtLeast_4_9 \<and> bit (raw_bitfield1 p) 0) \<and>
   unat (NValue (lx_FastOpenClientFail (Unpack g p))) =
     (if flags g kernelVersionIsAtLeast_5_5 then unat (raw_bitfield1 p) div 2 mod 4 else 0)"
proof -
  have mask: "w AND 15 = take_bit 4 w" "w AND 3 = take_bit 2 w" for w :: u8
    by (simp_all add: take_bit_eq_mask mask_eq_exp_minus_1)
  have "unat (w AND 15) = unat w mod 16" "unat (drop_bit 4 w) = unat w div 16"
    "unat (drop_bit 1 w AND 3) = unat w div 2 mod 4" for w :: u8
    by (simp_all add: mask take_bit_eq_mod drop_bit_eq_div unat_div_distrib unat_mod_distrib)
  moreover have "unat w div 16 < 16" for w :: u8
  proof -
    have "unat w < 2 ^ LENGTH(8)" by (rule unsigned_less)
    then show ?thesis by (simp add: less_mult_imp_div_less)
  qed
  ultimately show ?thesis
    by (simp add: Unpack_sel nullable_if_def valid_of_def null_of_def one_and_eq and_one_eq bit_0 odd_iff_mod_2_eq_one)
qed

section \<open>The map\<close>

abbreviation optional_keys :: "SysInfo \<Rightarrow> string list" where
  "optional_keys s \<equiv> map (\<lambda>(b, k, v). k) (SysInfo_optional s)"

lemma optional_keys_distinct: "distinct (optional_keys s)"
  by (simp add: SysInfo_optional_def)

lemma optional_keys_literal: "list_all (\<lambda>k. SysInfo_literal s k = None) (optional_keys s)"
  by (simp add: SysInfo_optional_def SysInfo_literal_def)

lemma state_literal:
  "''state'' \<notin> set (optional_keys s)" "SysInfo_literal s ''state'' = Some (AString (lx_StateName s))"
  by (simp_all add: SysInfo_optional_def SysInfo_literal_def)

lemma ToMap_literal: "k \<notin> set (optional_keys s) \<Longrightarrow> SysInfo_ToMap s k = SysInfo_literal s k"
  by (simp add: SysInfo_ToMap_def fold_put_if_notin)

lemma ToMap_state: "SysInfo_ToMap s ''state'' = Some (AString (lx_StateName s))"
  using ToMap_literal [OF state_literal(1)] state_literal(2) by (rule trans)

lemma ToMap_optional:
  assumes "(b, k, v) \<in> set (SysInfo_optional s)"
  shows "SysInfo_ToMap s k = (if b then Some v else None)"
proof -
  have "k \<in> set (optional_keys s)" using assms by force
  then have "SysInfo_literal s k = None" using optional_keys_literal [of s] by (simp only: list_all_iff)
  then show ?thesis
    by (simp add: SysInfo_ToMap_def fold_put_if_in [OF optional_keys_distinct assms])
qed



section \<open>The platform contract\<close>

lemma set_options_ok: "list_all option_ok (set_options opts scale)"
proof -
  have "list_all (\<lambda>(i, name). list_all json_plain name) option_names"
    by (simp add: option_names_def json_plain_def plain_char_def)
  then show ?thesis by (auto simp: set_options_def option_ok_def list_all_iff)
qed

lemma ToMap_options:
  "SysInfo_ToMap s ''txOptions'' = Some (AOptions (lx_TxOptions s))"
  "SysInfo_ToMap s ''rxOptions'' = Some (AOptions (lx_RxOptions s))"
proof -
  have "k \<notin> set (optional_keys s)" if "k = ''txOptions'' \<or> k = ''rxOptions''" for k
    using that by (auto simp: SysInfo_optional_def)
  then show "SysInfo_ToMap s ''txOptions'' = Some (AOptions (lx_TxOptions s))"
    "SysInfo_ToMap s ''rxOptions'' = Some (AOptions (lx_RxOptions s))"
    by (simp_all add: ToMap_literal SysInfo_literal_def)
qed

lemma ToMap_ok:
  "map_ok (SysInfo_ToMap s) \<longleftrightarrow>
     list_all option_ok (elems (lx_TxOptions s)) \<and> list_all option_ok (elems (lx_RxOptions s))"
proof
  assume ok: "map_ok (SysInfo_ToMap s)"
  from ToMap_options [of s, THEN map_okD [OF ok]]
  show "list_all option_ok (elems (lx_TxOptions s)) \<and> list_all option_ok (elems (lx_RxOptions s))" by simp
next
  assume opts: "list_all option_ok (elems (lx_TxOptions s)) \<and> list_all option_ok (elems (lx_RxOptions s))"
  show "map_ok (SysInfo_ToMap s)" unfolding SysInfo_ToMap_def
  proof (rule map_ok_fold)
    show "list_all (\<lambda>(b, k, v). ascii k \<and> (b \<longrightarrow> any_ok v)) (SysInfo_optional s)"
      by (simp add: SysInfo_optional_def ascii_def)
    show "map_ok (SysInfo_literal s)" using opts by (simp add: SysInfo_literal_def ascii_def)
  qed
qed

interpretation linux: json_platform "linux_platform g"
proof
  fix s :: SysInfo
  assume "map_ok (SysToMap (linux_platform g) s)"
  then show "map_ok (Info_ToMap (SysToMap (linux_platform g)) (ToInfo (linux_platform g) s))"
    by (intro Info_ToMap_ok) (auto simp: linux_platform_def SysInfo_ToInfo_def ToMap_ok)
next
  fix s :: SysInfo
  show "SysWarnings (linux_platform g) (info_Sys (ToInfo (linux_platform g) s)) \<noteq> None"
    by (simp add: linux_platform_def SysInfo_ToInfo_def)
next
  fix s t
  assume "info_Sys (ToInfo (linux_platform g) s) = Some t"
  then show "SysToMap (linux_platform g) t ''state'' =
      Some (AString (info_State (ToInfo (linux_platform g) s)))"
    by (simp add: linux_platform_def SysInfo_ToInfo_def ToMap_state)
qed

end
