(* ===== verification/Tcp_Linux_Json.thy ===== *)
theory Tcp_Linux_Json
  imports Tcp_Linux_Get Tcp_Linux_Values
begin

text \<open>
  \<open>MarshalJSON\<close> of the Linux record: from the bytes of the kernel's struct to the JSON
  text and back to its numbers.
\<close>

section \<open>The record of GetTCPInfo can be encoded\<close>

lemma GetTCPInfo_Some:
  assumes "GetTCPInfo g sys fds = (Some s, err)"
  shows "\<exists>raw. flags g kernelVersionIsAtLeast_2_6_2 \<and>
    GetRawTCPInfo (sys_byte_order sys) g (sys_tcp_info sys) fds = Inr raw \<and> cc_reset s = Unpack g raw"
proof -
  have f: "flags g kernelVersionIsAtLeast_2_6_2" using assms by (auto simp: GetTCPInfo_def split: if_splits)
  obtain raw where raw: "GetRawTCPInfo (sys_byte_order sys) g (sys_tcp_info sys) fds = Inr raw"
    using assms f by (cases "GetRawTCPInfo (sys_byte_order sys) g (sys_tcp_info sys) fds") (auto simp: GetTCPInfo_def)
  obtain t where "s = PlusCC_Unpack g t" "TCPInfo t = raw"
    using assms f raw by (auto simp: GetTCPInfo_def Let_def split: sum.splits if_splits)
  with f raw show ?thesis using PlusCC_Unpack_rest [of g t] by auto
qed

lemma cc_reset_sel [simp]:
  "lx_TxOptions (cc_reset s) = lx_TxOptions s" "lx_RxOptions (cc_reset s) = lx_RxOptions s"
  "lx_StateName (cc_reset s) = lx_StateName s" "lx_RTT (cc_reset s) = lx_RTT s"
  "lx_RTTVar (cc_reset s) = lx_RTTVar s" "lx_TotalRetrans (cc_reset s) = lx_TotalRetrans s"
  "lx_PacingRate (cc_reset s) = lx_PacingRate s"
  by (simp_all add: cc_reset_def)

lemma GetTCPInfo_map_ok:
  assumes "GetTCPInfo g sys fds = (Some s, err)"
  shows "map_ok (SysInfo_ToMap s)"
proof -
  obtain raw where raw: "cc_reset s = Unpack g raw" using GetTCPInfo_Some [OF assms] by blast
  then have "lx_TxOptions s = lx_TxOptions (Unpack g raw)" "lx_RxOptions s = lx_RxOptions (Unpack g raw)"
    by (metis cc_reset_sel(1), metis cc_reset_sel(2))
  then show ?thesis
    by (simp add: ToMap_ok Unpack_sel unpack_options_eq set_options_ok)
qed

section \<open>The text\<close>

lemma ToMap_numbers:
  "SysInfo_ToMap s ''rtt'' = Some (ADuration (lx_RTT s))"
  "SysInfo_ToMap s ''totalRetrans'' = Some (AUint32 (lx_TotalRetrans s))"
  "SysInfo_ToMap s ''pacingRate'' =
     (if Valid (lx_PacingRate s) then Some (AUint64 (NValue (lx_PacingRate s))) else None)"
proof -
  have "k \<notin> set (optional_keys s)" if "k = ''rtt'' \<or> k = ''totalRetrans''" for k
    using that by (auto simp: SysInfo_optional_def)
  then show "SysInfo_ToMap s ''rtt'' = Some (ADuration (lx_RTT s))"
    "SysInfo_ToMap s ''totalRetrans'' = Some (AUint32 (lx_TotalRetrans s))"
    by (simp_all add: ToMap_literal SysInfo_literal_def)
  show "SysInfo_ToMap s ''pacingRate'' =
     (if Valid (lx_PacingRate s) then Some (AUint64 (NValue (lx_PacingRate s))) else None)"
    by (rule ToMap_optional) (simp add: SysInfo_optional_def)
qed

lemma denoted_options:
  "list_all option_ok xs \<Longrightarrow> denoted (AOptions (Some xs)) = JArray (map (\<lambda>o'. JString (valid_utf8 (Option_String o'))) xs)"
  by (simp add: denoted_def options_tree)

text \<open>
  C10. The JSON text of what \<open>GetTCPInfo\<close> returns reads back as the entries of
  \<open>ToMap\<close>, in the order of the keys. The round trip time is the kernel's in nanoseconds,
  a field the running kernel does not have is absent, and the options of the sender are a list
  even when there are none.
\<close>

theorem GetTCPInfo_MarshalJSON:
  assumes "GetTCPInfo g sys fds = (Some s, err)"
  shows "\<exists>txt ms raw. SysInfo_MarshalJSON s = Some txt \<and> parse_json txt = Some (JObject ms) \<and>
    map fst ms = sorted_list_of_set (dom (SysInfo_ToMap s)) \<and>
    (\<forall>k. map_of ms k = map_option denoted (SysInfo_ToMap s k)) \<and>
    GetRawTCPInfo (sys_byte_order sys) g (sys_tcp_info sys) fds = Inr raw \<and>
    map_of ms ''rtt'' = Some (JNum (1000 * uint (raw_rtt raw))) \<and>
    map_of ms ''pacingRate'' =
      (if flags g kernelVersionIsAtLeast_3_15 then Some (JNum (uint (raw_pacing_rate raw))) else None) \<and>
    map_of ms ''txOptions'' = Some (JArray (map (\<lambda>o'. JString (valid_utf8 (Option_String o')))
      (set_options (raw_options raw) (ucast (raw_snd_wnd raw)))))"
proof -
  obtain raw where raw: "GetRawTCPInfo (sys_byte_order sys) g (sys_tcp_info sys) fds = Inr raw"
    "cc_reset s = Unpack g raw" using GetTCPInfo_Some [OF assms] by blast
  obtain out ms where out: "SysInfo_MarshalJSON s = Some out" "parse_json out = Some (JObject ms)"
    "map fst ms = sorted_list_of_set (dom (SysInfo_ToMap s))" "\<And>k. map_of ms k = map_option denoted (SysInfo_ToMap s k)"
    using Marshal_map_reads [OF GetTCPInfo_map_ok [OF assms]] unfolding SysInfo_MarshalJSON_def reads_as_def by blast
  have s: "lx_RTT s = lx_RTT (Unpack g raw)" "lx_PacingRate s = lx_PacingRate (Unpack g raw)"
    "lx_TxOptions s = lx_TxOptions (Unpack g raw)"
    by (metis raw(2) cc_reset_sel(4), metis raw(2) cc_reset_sel(7), metis raw(2) cc_reset_sel(1))
  have "sint (ucast (raw_rtt raw) * timeFieldMultiplier) = 1000 * uint (raw_rtt raw)"
    using sint_duration_u32 [of timeFieldMultiplier "raw_rtt raw"] by (simp add: timeFieldMultiplier_def)
  then have "map_of ms ''rtt'' = Some (JNum (1000 * uint (raw_rtt raw)))"
    by (simp add: out(4) ToMap_numbers s Unpack_sel)
  moreover have "map_of ms ''pacingRate'' =
      (if flags g kernelVersionIsAtLeast_3_15 then Some (JNum (uint (raw_pacing_rate raw))) else None)"
    by (simp add: out(4) ToMap_numbers s Unpack_sel nullable_if_def valid_of_def null_of_def)
  moreover have "map_of ms ''txOptions'' = Some (JArray (map (\<lambda>o'. JString (valid_utf8 (Option_String o')))
      (set_options (raw_options raw) (ucast (raw_snd_wnd raw)))))"
    by (simp add: out(4) ToMap_options s Unpack_sel unpack_options_eq denoted_options set_options_ok)
  ultimately show ?thesis using out raw(1) by blast
qed

theorem GetTCPInfo_MarshalJSON_witness:
  "\<exists>s out ms. GetTCPInfo (init (Inr (kver 2 6 32)))
      \<lparr>sys_byte_order = LittleEndian, sys_tcp_info = (\<lambda>fd n. Inr [1]),
       sys_congestion = (\<lambda>fd. Inr ''cubic''), sys_vegas = (\<lambda>fd. Inl (Errno ''bad'' False 22)),
       sys_bbr = (\<lambda>fd. Inl (Errno ''bad'' False 22)), sys_dctcp = (\<lambda>fd. Inl (Errno ''bad'' False 22))\<rparr> 3 = (Some s, None) \<and>
    SysInfo_MarshalJSON s = Some out \<and> parse_json out = Some (JObject ms) \<and>
    map_of ms ''rtt'' = Some (JNum 0) \<and> map_of ms ''pacingRate'' = None \<and> map_of ms ''txOptions'' = Some (JArray [])"
proof -
  let ?g = "init (Inr (kver 2 6 32))"
  let ?sys = "\<lparr>sys_byte_order = LittleEndian, sys_tcp_info = (\<lambda>fd n. Inr [1]),
       sys_congestion = (\<lambda>fd. Inr ''cubic''), sys_vegas = (\<lambda>fd. Inl (Errno ''bad'' False 22)),
       sys_bbr = (\<lambda>fd. Inl (Errno ''bad'' False 22)), sys_dctcp = (\<lambda>fd. Inl (Errno ''bad'' False 22))\<rparr>"
  have f: "flags ?g kernelVersionIsAtLeast_2_6_2" "\<not> flags ?g kernelVersionIsAtLeast_3_15"
    by (simp_all add: init_flags adapted_key_def version_key_def kver_def)
  let ?raw = "decode_RawTCPInfo LittleEndian (kernel_write [1])"
  have raw: "GetRawTCPInfo (sys_byte_order ?sys) ?g (sys_tcp_info ?sys) 3 = Inr ?raw"
    by (simp add: GetRawTCPInfo_def)
  obtain s where s: "GetTCPInfo ?g ?sys 3 = (Some s, None)"
    using f(1) raw by (simp add: GetTCPInfo_def GetTCPCongestionAlgorithm_def)
  have z: "raw_rtt ?raw = 0" "raw_options ?raw = 0" by (simp_all add: decode_sel rd_beyond [of 1])
  from GetTCPInfo_MarshalJSON [OF s] raw f(2) z s show ?thesis by (auto simp: set_options_def option_names_def)
qed

end
