(* ===== verification/Tcp_Darwin.thy ===== *)
theory Tcp_Darwin
  imports Tcp_Json
begin

text \<open>
  \<open>pkg/tcpinfo/tcpinfo_darwin.go\<close>: the raw and unpacked records of macOS, the
  conversions \<open>Unpack\<close>, \<open>ToInfo\<close> and \<open>ToMap\<close>, the warnings and
  \<open>GetTCPInfo\<close>. The padding byte of \<open>RawInfo\<close> has no field. The parameter of
  \<open>GetTCPInfo\<close> is \<open>getsockopt(fd, IPPROTO_TCP, TCP_CONNECTION_INFO)\<close>: the error
  number, or the contents of the struct after the call.
\<close>

section \<open>Records\<close>

record darwin_RawInfo =
  draw_State :: u8
  draw_SendWscale :: u8
  draw_RecvWscale :: u8
  draw_Options :: u32
  draw_Flags :: u32
  draw_RTO :: u32
  draw_MaxSeg :: u32
  draw_SendSSThresh :: u32
  draw_SendCwnd :: u32
  draw_SendWnd :: u32
  draw_SendSBBytes :: u32
  draw_RecvWnd :: u32
  draw_RTTCur :: u32
  draw_SRTT :: u32
  draw_RTTVar :: u32
  draw_TFOFlags :: u32
  draw_TxPackets :: u64
  draw_TxBytes :: u64
  draw_TxRetransmitBytes :: u64
  draw_RxPackets :: u64
  draw_RxBytes :: u64
  draw_RxOutOfOrderBytes :: u64
  draw_TxRetransmitPackets :: u64

record darwin_SysInfo =
  dw_State :: u8
  dw_StateName :: string
  dw_TxWindowScale :: u8
  dw_RxWindowScale :: u8
  dw_TxOptions :: "TcpOption slice"
  dw_RxOptions :: "TcpOption slice"
  dw_Flags :: string
  dw_RTO :: duration
  dw_MaxSeg :: u32
  dw_TxSSThreshold :: u32
  dw_TxCWindow :: u32
  dw_TxWindow :: u32
  dw_TxSendBufferBytes :: u32
  dw_RxWindow :: u32
  dw_RTTCur :: duration
  dw_SRTT :: duration
  dw_RTTVar :: duration
  dw_TFOFlags :: u32
  dw_TxPackets :: u64
  dw_TxBytes :: u64
  dw_TxRetransmitBytes :: u64
  dw_RxPackets :: u64
  dw_RxBytes :: u64
  dw_RxOutOfOrderBytes :: u64
  dw_TxRetransmitPackets :: u64

section \<open>Tables\<close>

definition darwin_tcpStateMap :: "u8 \<Rightarrow> string option" where
  "darwin_tcpStateMap =
    [4 \<mapsto> ''ESTABLISHED'',
     2 \<mapsto> ''SYN_SENT'',
     3 \<mapsto> ''SYN_RECV'',
     6 \<mapsto> ''FIN_WAIT1'',
     9 \<mapsto> ''FIN_WAIT2'',
     10 \<mapsto> ''TIME_WAIT'',
     0 \<mapsto> ''CLOSE'',
     5 \<mapsto> ''CLOSE_WAIT'',
     8 \<mapsto> ''LAST_ACK'',
     1 \<mapsto> ''LISTEN'',
     7 \<mapsto> ''CLOSING'']"

abbreviation "SysFlagLossRecovery \<equiv> 1 :: u32"
abbreviation "SysFlagReorderingDetected \<equiv> 2 :: u32"

definition tcpFlagsMap :: "u32 \<Rightarrow> string option" where
  "tcpFlagsMap =
    [SysFlagLossRecovery \<mapsto> ''LOSS_RECOVERY'',
     SysFlagReorderingDetected \<mapsto> ''REORDERING_DETECTED'']"

definition tcpFlags :: "u32 list" where
  "tcpFlags = [SysFlagLossRecovery, SysFlagReorderingDetected]"

fun flag_names :: "u32 \<Rightarrow> u32 list \<Rightarrow> string list \<Rightarrow> string list" where
  "flag_names options [] opts = opts"
| "flag_names options (flag # fs) opts =
     flag_names options fs (if options AND flag \<noteq> 0 then opts @ [go_lookup tcpFlagsMap flag] else opts)"

definition darwin_tcpInfoTCPFlagsString :: "u32 \<Rightarrow> string" where
  "darwin_tcpInfoTCPFlagsString options = Join (flag_names options tcpFlags []) '',''"

abbreviation "TCPCI_OPT_TIMESTAMPS \<equiv> 1 :: u32"
abbreviation "TCPCI_OPT_SACK \<equiv> 2 :: u32"
abbreviation "TCPCI_OPT_WSCALE \<equiv> 4 :: u32"
abbreviation "TCPCI_OPT_ECN \<equiv> 8 :: u32"

definition darwin_tcpOptionsMap :: "u32 \<Rightarrow> string option" where
  "darwin_tcpOptionsMap =
    [TCPCI_OPT_TIMESTAMPS \<mapsto> ''Timestamps'',
     TCPCI_OPT_SACK \<mapsto> ''SACK'',
     TCPCI_OPT_WSCALE \<mapsto> ''WindowScale'',
     TCPCI_OPT_ECN \<mapsto> ''ECN'']"

definition darwin_tcpOptions :: "u32 list" where
  "darwin_tcpOptions = [TCPCI_OPT_TIMESTAMPS, TCPCI_OPT_SACK, TCPCI_OPT_WSCALE, TCPCI_OPT_ECN]"

section \<open>Conversions\<close>

definition darwin_ToMap :: "darwin_SysInfo \<Rightarrow> go_map" where
  "darwin_ToMap s =
    [''state'' \<mapsto> AString (dw_StateName s),
     ''txWindowScale'' \<mapsto> AUint8 (dw_TxWindowScale s),
     ''rxWindowScale'' \<mapsto> AUint8 (dw_RxWindowScale s),
     ''txOptions'' \<mapsto> AOptions (dw_TxOptions s),
     ''rxOptions'' \<mapsto> AOptions (dw_RxOptions s),
     ''flags'' \<mapsto> AString (dw_Flags s),
     ''rto'' \<mapsto> ADuration (dw_RTO s),
     ''mss'' \<mapsto> AUint32 (dw_MaxSeg s),
     ''txSSThreshold'' \<mapsto> AUint32 (dw_TxSSThreshold s),
     ''txCWindowBytes'' \<mapsto> AUint32 (dw_TxCWindow s),
     ''txWindow'' \<mapsto> AUint32 (dw_TxWindow s),
     ''txSendBufferBytes'' \<mapsto> AUint32 (dw_TxSendBufferBytes s),
     ''rxWindow'' \<mapsto> AUint32 (dw_RxWindow s),
     ''rttCur'' \<mapsto> ADuration (dw_RTTCur s),
     ''rttSmoothed'' \<mapsto> ADuration (dw_SRTT s),
     ''rttVar'' \<mapsto> ADuration (dw_RTTVar s),
     ''tfoFlags'' \<mapsto> AUint32 (dw_TFOFlags s),
     ''txPackets'' \<mapsto> AUint64 (dw_TxPackets s),
     ''txBytes'' \<mapsto> AUint64 (dw_TxBytes s),
     ''txRetransmitBytes'' \<mapsto> AUint64 (dw_TxRetransmitBytes s),
     ''rxPackets'' \<mapsto> AUint64 (dw_RxPackets s),
     ''rxBytes'' \<mapsto> AUint64 (dw_RxBytes s),
     ''rxOutOfOrderBytes'' \<mapsto> AUint64 (dw_RxOutOfOrderBytes s),
     ''txRetransmitPackets'' \<mapsto> AUint64 (dw_TxRetransmitPackets s)]"

definition darwin_MarshalJSON :: "darwin_SysInfo \<Rightarrow> string option" where
  "darwin_MarshalJSON s = Marshal (AMap (darwin_ToMap s))"

definition darwin_timeFieldMultiplier :: duration where
  "darwin_timeFieldMultiplier = Millisecond"

fun darwin_unpack_options ::
    "darwin_RawInfo \<Rightarrow> u32 list \<Rightarrow> TcpOption slice \<times> TcpOption slice \<Rightarrow> TcpOption slice \<times> TcpOption slice" where
  "darwin_unpack_options packed [] (tx, rx) = (tx, rx)"
| "darwin_unpack_options packed (flag # fs) (tx, rx) =
     (if draw_Options packed AND flag = 0 then darwin_unpack_options packed fs (tx, rx)
      else if flag \<in> {TCPCI_OPT_SACK, TCPCI_OPT_ECN, TCPCI_OPT_TIMESTAMPS}
      then darwin_unpack_options packed fs
             (append_slice tx \<lparr>Kind = go_lookup darwin_tcpOptionsMap flag, Value = 0\<rparr>,
              append_slice rx \<lparr>Kind = go_lookup darwin_tcpOptionsMap flag, Value = 0\<rparr>)
      else if flag = TCPCI_OPT_WSCALE
      then darwin_unpack_options packed fs
             (append_slice tx \<lparr>Kind = go_lookup darwin_tcpOptionsMap flag, Value = ucast (draw_SendWscale packed)\<rparr>,
              append_slice rx \<lparr>Kind = go_lookup darwin_tcpOptionsMap flag, Value = ucast (draw_RecvWscale packed)\<rparr>)
      else darwin_unpack_options packed fs (tx, rx))"

definition darwin_Unpack :: "darwin_RawInfo \<Rightarrow> darwin_SysInfo" where
  "darwin_Unpack packed =
    (case darwin_unpack_options packed darwin_tcpOptions (Some [], None) of (tx, rx) \<Rightarrow>
    \<lparr>dw_State = draw_State packed,
     dw_StateName = go_lookup darwin_tcpStateMap (draw_State packed),
     dw_TxWindowScale = draw_SendWscale packed,
     dw_RxWindowScale = draw_RecvWscale packed,
     dw_TxOptions = tx,
     dw_RxOptions = rx,
     dw_Flags = darwin_tcpInfoTCPFlagsString (draw_Flags packed),
     dw_RTO = ucast (draw_RTO packed) * darwin_timeFieldMultiplier,
     dw_MaxSeg = draw_MaxSeg packed,
     dw_TxSSThreshold = draw_SendSSThresh packed,
     dw_TxCWindow = draw_SendCwnd packed,
     dw_TxWindow = draw_SendWnd packed,
     dw_TxSendBufferBytes = draw_SendSBBytes packed,
     dw_RxWindow = draw_RecvWnd packed,
     dw_RTTCur = ucast (draw_RTTCur packed) * darwin_timeFieldMultiplier,
     dw_SRTT = ucast (draw_SRTT packed) * darwin_timeFieldMultiplier,
     dw_RTTVar = ucast (draw_RTTVar packed) * darwin_timeFieldMultiplier,
     dw_TFOFlags = draw_TFOFlags packed,
     dw_TxPackets = draw_TxPackets packed,
     dw_TxBytes = draw_TxBytes packed,
     dw_TxRetransmitBytes = draw_TxRetransmitBytes packed,
     dw_RxPackets = draw_RxPackets packed,
     dw_RxBytes = draw_RxBytes packed,
     dw_RxOutOfOrderBytes = draw_RxOutOfOrderBytes packed,
     dw_TxRetransmitPackets = draw_TxRetransmitPackets packed\<rparr>)"

definition darwin_ToInfo :: "darwin_SysInfo \<Rightarrow> darwin_SysInfo Info" where
  "darwin_ToInfo s =
    zero_Info\<lparr>
     info_State := dw_StateName s,
     info_TxOptions := dw_TxOptions s,
     info_RxOptions := dw_RxOptions s,
     info_TxMSS := ucast (dw_MaxSeg s),
     info_RxMSS := ucast (dw_MaxSeg s),
     info_RTT := dw_SRTT s,
     info_RTTVar := dw_RTTVar s,
     info_RTO := dw_RTO s,
     info_RxWindow := ucast (dw_RxWindow s),
     info_TxSSThreshold := ucast (dw_TxSSThreshold s),
     info_TxWindowBytes := ucast (dw_TxCWindow s),
     info_TxWindowSegs := ucast (dw_TxWindow s),
     info_Retransmits := dw_TxRetransmitPackets s,
     info_Sys := Some s\<rparr>"

text \<open>
  The \<open>switch\<close> on the error number returns variables of the package that hold the same
  error numbers.
\<close>

definition darwin_GetTCPInfo ::
    "(nat \<Rightarrow> error + darwin_RawInfo) \<Rightarrow> nat \<Rightarrow> darwin_SysInfo option \<times> error option" where
  "darwin_GetTCPInfo getsockopt fds =
     (case getsockopt fds of
        Inl err \<Rightarrow> (None, Some err)
      | Inr v \<Rightarrow> (Some (darwin_Unpack v), None))"

definition darwin_Supported :: bool where
  "darwin_Supported = True"

definition darwin_Warnings :: "darwin_SysInfo \<Rightarrow> string list" where
  "darwin_Warnings s =
    (if dw_TxRetransmitBytes s > 0 then [''retransmitBytes='' @ format_uint (dw_TxRetransmitBytes s)] else []) @
    (if dw_TxRetransmitPackets s > 0
     then [''retransmitPackets='' @ format_uint (dw_TxRetransmitPackets s)] else []) @
    (if dw_RxOutOfOrderBytes s > 0 then [''outOfOrderBytes='' @ format_uint (dw_RxOutOfOrderBytes s)] else [])"

section \<open>The platform contract\<close>

text \<open>\<open>Warnings\<close> reads fields of its receiver: on a nil pointer it panics.\<close>

definition darwin_platform :: "darwin_SysInfo platform" where
  "darwin_platform =
    \<lparr>Supported = darwin_Supported, ToInfo = darwin_ToInfo,
     SysWarnings = map_option darwin_Warnings, SysToMap = darwin_ToMap\<rparr>"

lemma darwin_ToMap_ok:
  "map_ok (darwin_ToMap s) \<longleftrightarrow>
     list_all option_ok (elems (dw_TxOptions s)) \<and> list_all option_ok (elems (dw_RxOptions s))"
proof
  assume ok: "map_ok (darwin_ToMap s)"
  have "darwin_ToMap s ''txOptions'' = Some (AOptions (dw_TxOptions s))"
    "darwin_ToMap s ''rxOptions'' = Some (AOptions (dw_RxOptions s))"
    by (simp_all add: darwin_ToMap_def)
  from this [THEN map_okD [OF ok]]
  show "list_all option_ok (elems (dw_TxOptions s)) \<and> list_all option_ok (elems (dw_RxOptions s))" by simp
next
  assume "list_all option_ok (elems (dw_TxOptions s)) \<and> list_all option_ok (elems (dw_RxOptions s))"
  then show "map_ok (darwin_ToMap s)" by (simp add: darwin_ToMap_def ascii_def)
qed

interpretation darwin: json_platform darwin_platform
proof
  fix s
  assume "map_ok (SysToMap darwin_platform s)"
  then show "map_ok (Info_ToMap (SysToMap darwin_platform) (ToInfo darwin_platform s))"
    by (intro Info_ToMap_ok) (auto simp: darwin_platform_def darwin_ToInfo_def darwin_ToMap_ok)
qed (auto simp: darwin_platform_def darwin_ToInfo_def darwin_ToMap_def)

section \<open>Properties\<close>

definition darwin_option_names :: "(nat \<times> string) list" where
  "darwin_option_names = [(0, ''Timestamps''), (1, ''SACK''), (2, ''WindowScale''), (3, ''ECN'')]"

definition darwin_set_options :: "u32 \<Rightarrow> u8 \<Rightarrow> TcpOption list" where
  "darwin_set_options opts scale =
    map (\<lambda>(i, name). \<lparr>Kind = name, Value = if i = 2 then ucast scale else 0\<rparr>)
      (filter (\<lambda>(i, name). bit opts i) darwin_option_names)"

lemma darwin_unpack_options_eq:
  "darwin_unpack_options packed darwin_tcpOptions (Some [], None) =
     (Some (darwin_set_options (draw_Options packed) (draw_SendWscale packed)),
      append_all None (darwin_set_options (draw_Options packed) (draw_RecvWscale packed)))"
  using and_flag_zero_iff [of 0 "draw_Options packed"] and_flag_zero_iff [of 1 "draw_Options packed"]
    and_flag_zero_iff [of 2 "draw_Options packed"] and_flag_zero_iff [of 3 "draw_Options packed"]
  by (simp add: darwin_tcpOptions_def darwin_set_options_def darwin_option_names_def go_lookup_def
      darwin_tcpOptionsMap_def append_slice_def append_all_def push_bit_eq_mult)

text \<open>
  C34. On macOS the option lists name exactly the options whose bit is set, in bit order, and
  \<open>WindowScale\<close> carries the window scale of its direction; the millisecond fields become
  durations without overflow.
\<close>

theorem darwin_Unpack_values:
  "dw_TxOptions (darwin_Unpack p) = Some (darwin_set_options (draw_Options p) (draw_SendWscale p)) \<and>
   dw_RxOptions (darwin_Unpack p) = append_all None (darwin_set_options (draw_Options p) (draw_RecvWscale p)) \<and>
   sint (dw_RTO (darwin_Unpack p)) = 1000000 * uint (draw_RTO p) \<and>
   sint (dw_RTTCur (darwin_Unpack p)) = 1000000 * uint (draw_RTTCur p) \<and>
   sint (dw_SRTT (darwin_Unpack p)) = 1000000 * uint (draw_SRTT p) \<and>
   sint (dw_RTTVar (darwin_Unpack p)) = 1000000 * uint (draw_RTTVar p)"
proof -
  have "sint (ucast x * darwin_timeFieldMultiplier) = 1000000 * uint x" for x :: u32
    using sint_duration_u32 [of darwin_timeFieldMultiplier x] by (simp add: darwin_timeFieldMultiplier_def)
  then show ?thesis by (simp add: darwin_Unpack_def darwin_unpack_options_eq)
qed

text \<open>The JSON text of what \<open>Unpack\<close> returns reads back as the entries of its map.\<close>

lemma darwin_set_options_ok: "list_all option_ok (darwin_set_options opts scale)"
proof -
  have "list_all (\<lambda>(i, name). list_all json_plain name) darwin_option_names"
    by (simp add: darwin_option_names_def json_plain_def plain_char_def)
  then show ?thesis by (auto simp: darwin_set_options_def option_ok_def list_all_iff)
qed

lemma darwin_MarshalJSON_reads:
  "\<exists>txt. darwin_MarshalJSON (darwin_Unpack p) = Some txt \<and> reads_as txt (darwin_ToMap (darwin_Unpack p))"
proof -
  have "map_ok (darwin_ToMap (darwin_Unpack p))"
    by (simp add: darwin_ToMap_ok darwin_Unpack_def darwin_unpack_options_eq darwin_set_options_ok)
  then show ?thesis unfolding darwin_MarshalJSON_def by (rule Marshal_map_reads)
qed

end
