(* ===== verification/Tcp_Windows.thy ===== *)
theory Tcp_Windows
  imports Tcp_Json
begin

text \<open>
  \<open>pkg/tcpinfo/tcpinfo_windows.go\<close>: the two versions of the raw record, the unpacked
  record and the conversions, the warnings and \<open>GetTCPInfo\<close> with its fallback.
  Version 1 of the raw record repeats the fields of version 0 and adds its own, so it is a
  record extension. The parameter of \<open>GetTCPInfo\<close> is \<open>WSAIoctl\<close> with
  \<open>SIO_TCP_INFO\<close>, once for each requested version.
\<close>

section \<open>Records\<close>

record RawInfoV0 =
  wraw_State :: u32
  wraw_Mss :: u32
  wraw_ConnectionTimeMs :: u64
  wraw_TimestampsEnabled :: bool
  wraw_RttUs :: u32
  wraw_MinRttUs :: u32
  wraw_BytesInFlight :: u32
  wraw_Cwnd :: u32
  wraw_SndWnd :: u32
  wraw_RcvWnd :: u32
  wraw_RcvBuf :: u32
  wraw_BytesOut :: u64
  wraw_BytesIn :: u64
  wraw_BytesReordered :: u32
  wraw_BytesRetrans :: u32
  wraw_FastRetrans :: u32
  wraw_DupAcksIn :: u32
  wraw_TimeoutEpisodes :: u32
  wraw_SynRetrans :: u8

record RawInfoV1 = RawInfoV0 +
  wraw_SndLimTransRwin :: u32
  wraw_SndLimTimeRwin :: u32
  wraw_SndLimBytesRwin :: u64
  wraw_SndLimTransCwnd :: u32
  wraw_SndLimTimeCwnd :: u32
  wraw_SndLimBytesCwnd :: u64
  wraw_SndLimTransSnd :: u32
  wraw_SndLimTimeSnd :: u32
  wraw_SndLimBytesSnd :: u64

record windows_SysInfo =
  wn_State :: u32
  wn_StateName :: string
  wn_MSS :: u32
  wn_ConnectedTimeNS :: duration
  wn_RTT :: duration
  wn_RTTMin :: duration
  wn_BytesInFlight :: u32
  wn_CongestionWindow :: u32
  wn_TxWindow :: u32
  wn_RxWindow :: u32
  wn_RxBuffer :: u32
  wn_TxBytes :: u64
  wn_RxBytes :: u64
  wn_RxOutOfOrderBytes :: u32
  wn_TxRetransmitBytes :: u64
  wn_FastRetrans :: u32
  wn_DupAcksIn :: u32
  wn_TimeoutEpisodes :: u32
  wn_SynRetrans :: u8
  wn_SndLimTransRwin :: u64
  wn_SndLimTransTimeRwin :: duration
  wn_SndLimBytesRwin :: u64
  wn_SndLimTransCwnd :: u64
  wn_SndLimTimeCwnd :: duration
  wn_SndLimBytesCwnd :: u64
  wn_SndLimTransSnd :: u64
  wn_SndLimTimeSnd :: duration
  wn_SndLimBytesSnd :: u64

section \<open>Conversions\<close>

definition windows_tcpStateMap :: "u32 \<Rightarrow> string option" where
  "windows_tcpStateMap =
    [4 \<mapsto> ''ESTABLISHED'',
     2 \<mapsto> ''SYN_SENT'',
     3 \<mapsto> ''SYN_RECV'',
     5 \<mapsto> ''FIN_WAIT1'',
     6 \<mapsto> ''FIN_WAIT2'',
     10 \<mapsto> ''TIME_WAIT'',
     0 \<mapsto> ''CLOSE'',
     7 \<mapsto> ''CLOSE_WAIT'',
     9 \<mapsto> ''LAST_ACK'',
     1 \<mapsto> ''LISTEN'',
     8 \<mapsto> ''CLOSING'']"

definition tcpInfoTCPStateString :: "u32 \<Rightarrow> string" where
  "tcpInfoTCPStateString state =
     (case windows_tcpStateMap state of
        Some s \<Rightarrow> s
      | None \<Rightarrow> ''UNKNOWN('' @ format_uint state @ '')'')"

definition windows_ToMap :: "windows_SysInfo \<Rightarrow> go_map" where
  "windows_ToMap s =
    [''state'' \<mapsto> AString (wn_StateName s),
     ''mss'' \<mapsto> AUint32 (wn_MSS s),
     ''connectedTimeNS'' \<mapsto> ADuration (wn_ConnectedTimeNS s),
     ''rtt'' \<mapsto> ADuration (wn_RTT s),
     ''rttMin'' \<mapsto> ADuration (wn_RTTMin s),
     ''bytesInFlight'' \<mapsto> AUint32 (wn_BytesInFlight s),
     ''congestionWindow'' \<mapsto> AUint32 (wn_CongestionWindow s),
     ''txWindow'' \<mapsto> AUint32 (wn_TxWindow s),
     ''rxWindow'' \<mapsto> AUint32 (wn_RxWindow s),
     ''rxBuffer'' \<mapsto> AUint32 (wn_RxBuffer s),
     ''txBytes'' \<mapsto> AUint64 (wn_TxBytes s),
     ''rxBytes'' \<mapsto> AUint64 (wn_RxBytes s),
     ''rxOutOfOrderBytes'' \<mapsto> AUint32 (wn_RxOutOfOrderBytes s),
     ''txRetransmitBytes'' \<mapsto> AUint64 (wn_TxRetransmitBytes s),
     ''fastRetransmissions'' \<mapsto> AUint32 (wn_FastRetrans s),
     ''duplicateAcksIn'' \<mapsto> AUint32 (wn_DupAcksIn s),
     ''timeoutEpisodes'' \<mapsto> AUint32 (wn_TimeoutEpisodes s),
     ''synRetransmissions'' \<mapsto> AUint8 (wn_SynRetrans s),
     ''sndLimTransRwin'' \<mapsto> AUint64 (wn_SndLimTransRwin s),
     ''sndLimTimeRwin'' \<mapsto> ADuration (wn_SndLimTransTimeRwin s),
     ''sndLimBytesRwin'' \<mapsto> AUint64 (wn_SndLimBytesRwin s),
     ''sndLimTransCwnd'' \<mapsto> AUint64 (wn_SndLimTransCwnd s),
     ''sndLimTimeCwnd'' \<mapsto> ADuration (wn_SndLimTimeCwnd s),
     ''sndLimBytesCwnd'' \<mapsto> AUint64 (wn_SndLimBytesCwnd s),
     ''sndLimTransSnd'' \<mapsto> AUint64 (wn_SndLimTransSnd s),
     ''sndLimTimeSnd'' \<mapsto> ADuration (wn_SndLimTimeSnd s),
     ''sndLimBytesSnd'' \<mapsto> AUint64 (wn_SndLimBytesSnd s)]"

definition windows_MarshalJSON :: "windows_SysInfo \<Rightarrow> string option" where
  "windows_MarshalJSON s = Marshal (AMap (windows_ToMap s))"

definition windows_timeFieldMultiplier :: duration where
  "windows_timeFieldMultiplier = Microsecond"

definition V0_Unpack :: "RawInfoV0 \<Rightarrow> windows_SysInfo" where
  "V0_Unpack packed =
    \<lparr>wn_State = wraw_State packed,
     wn_StateName = go_lookup windows_tcpStateMap (wraw_State packed),
     wn_MSS = wraw_Mss packed,
     wn_ConnectedTimeNS = ucast (wraw_ConnectionTimeMs packed) * Millisecond,
     wn_RTT = ucast (wraw_RttUs packed) * Microsecond,
     wn_RTTMin = ucast (wraw_MinRttUs packed) * Microsecond,
     wn_BytesInFlight = wraw_BytesInFlight packed,
     wn_CongestionWindow = wraw_Cwnd packed,
     wn_TxWindow = wraw_SndWnd packed,
     wn_RxWindow = wraw_RcvWnd packed,
     wn_RxBuffer = wraw_RcvBuf packed,
     wn_TxBytes = wraw_BytesOut packed,
     wn_RxBytes = wraw_BytesIn packed,
     wn_RxOutOfOrderBytes = wraw_BytesReordered packed,
     wn_TxRetransmitBytes = ucast (wraw_BytesRetrans packed),
     wn_FastRetrans = wraw_FastRetrans packed,
     wn_DupAcksIn = wraw_DupAcksIn packed,
     wn_TimeoutEpisodes = wraw_TimeoutEpisodes packed,
     wn_SynRetrans = wraw_SynRetrans packed,
     wn_SndLimTransRwin = 0,
     wn_SndLimTransTimeRwin = 0,
     wn_SndLimBytesRwin = 0,
     wn_SndLimTransCwnd = 0,
     wn_SndLimTimeCwnd = 0,
     wn_SndLimBytesCwnd = 0,
     wn_SndLimTransSnd = 0,
     wn_SndLimTimeSnd = 0,
     wn_SndLimBytesSnd = 0\<rparr>"

definition V1_Unpack :: "RawInfoV1 \<Rightarrow> windows_SysInfo" where
  "V1_Unpack packed =
    \<lparr>wn_State = wraw_State packed,
     wn_StateName = go_lookup windows_tcpStateMap (wraw_State packed),
     wn_MSS = wraw_Mss packed,
     wn_ConnectedTimeNS = ucast (wraw_ConnectionTimeMs packed) * windows_timeFieldMultiplier,
     wn_RTT = ucast (wraw_RttUs packed) * Microsecond,
     wn_RTTMin = ucast (wraw_MinRttUs packed) * Microsecond,
     wn_BytesInFlight = wraw_BytesInFlight packed,
     wn_CongestionWindow = wraw_Cwnd packed,
     wn_TxWindow = wraw_SndWnd packed,
     wn_RxWindow = wraw_RcvWnd packed,
     wn_RxBuffer = wraw_RcvBuf packed,
     wn_TxBytes = wraw_BytesOut packed,
     wn_RxBytes = wraw_BytesIn packed,
     wn_RxOutOfOrderBytes = wraw_BytesReordered packed,
     wn_TxRetransmitBytes = ucast (wraw_BytesRetrans packed),
     wn_FastRetrans = wraw_FastRetrans packed,
     wn_DupAcksIn = wraw_DupAcksIn packed,
     wn_TimeoutEpisodes = wraw_TimeoutEpisodes packed,
     wn_SynRetrans = wraw_SynRetrans packed,
     wn_SndLimTransRwin = ucast (wraw_SndLimTransRwin packed),
     wn_SndLimTransTimeRwin = ucast (wraw_SndLimTimeRwin packed) * Millisecond,
     wn_SndLimBytesRwin = wraw_SndLimBytesRwin packed,
     wn_SndLimTransCwnd = ucast (wraw_SndLimTransCwnd packed),
     wn_SndLimTimeCwnd = ucast (wraw_SndLimTimeCwnd packed) * Millisecond,
     wn_SndLimBytesCwnd = wraw_SndLimBytesCwnd packed,
     wn_SndLimTransSnd = ucast (wraw_SndLimTransSnd packed),
     wn_SndLimTimeSnd = ucast (wraw_SndLimTimeSnd packed) * Millisecond,
     wn_SndLimBytesSnd = wraw_SndLimBytesSnd packed\<rparr>"

definition windows_ToInfo :: "windows_SysInfo \<Rightarrow> windows_SysInfo Info" where
  "windows_ToInfo s =
    zero_Info\<lparr>
     info_State := wn_StateName s,
     info_TxMSS := ucast (wn_MSS s),
     info_RTT := wn_RTTMin s,
     info_RxWindow := ucast (wn_RxWindow s),
     info_TxWindowSegs := ucast (wn_TxWindow s),
     info_Retransmits := ucast (wn_SynRetrans s),
     info_Sys := Some s\<rparr>"

definition windows_GetTCPInfo ::
    "(nat \<Rightarrow> error + RawInfoV1) \<Rightarrow> (nat \<Rightarrow> error + RawInfoV0) \<Rightarrow> nat \<Rightarrow> windows_SysInfo option \<times> error option" where
  "windows_GetTCPInfo ioctl_v1 ioctl_v0 fds =
     (case ioctl_v1 fds of
        Inr outbufv1 \<Rightarrow> (Some (V1_Unpack outbufv1), None)
      | Inl _ \<Rightarrow>
          (case ioctl_v0 fds of
             Inl err \<Rightarrow> (None, Some (PlainError (''could not perform the WSAIoctl: '' @ Error err)))
           | Inr outbufv0 \<Rightarrow> (Some (V0_Unpack outbufv0), None)))"

definition windows_Supported :: bool where
  "windows_Supported = True"

definition windows_Warnings :: "windows_SysInfo \<Rightarrow> string list" where
  "windows_Warnings s =
    (if wn_TxRetransmitBytes s > 0 then [''retransmitBytes='' @ format_uint (wn_TxRetransmitBytes s)] else []) @
    (if wn_SynRetrans s > 0 then [''retransmitSyn='' @ format_uint (wn_SynRetrans s)] else []) @
    (if wn_RxOutOfOrderBytes s > 0 then [''outOfOrderBytes='' @ format_uint (wn_RxOutOfOrderBytes s)] else []) @
    (if wn_TimeoutEpisodes s > 0 then [''timeoutEpisodes='' @ format_uint (wn_TimeoutEpisodes s)] else []) @
    (if wn_DupAcksIn s > 0 then [''duplicateAcksIn='' @ format_uint (wn_DupAcksIn s)] else []) @
    (if wn_FastRetrans s > 0 then [''fastRetransmissions='' @ format_uint (wn_FastRetrans s)] else [])"

section \<open>The platform contract\<close>

text \<open>\<open>Warnings\<close> reads fields of its receiver: on a nil pointer it panics.\<close>

definition windows_platform :: "windows_SysInfo platform" where
  "windows_platform =
    \<lparr>Supported = windows_Supported, ToInfo = windows_ToInfo,
     SysWarnings = map_option windows_Warnings, SysToMap = windows_ToMap\<rparr>"

lemma windows_ToMap_ok: "map_ok (windows_ToMap s)"
  by (simp add: windows_ToMap_def ascii_def)

interpretation windows: json_platform windows_platform
proof
  fix s
  show "map_ok (Info_ToMap (SysToMap windows_platform) (ToInfo windows_platform s))"
    by (intro Info_ToMap_ok) (auto simp: windows_platform_def windows_ToInfo_def zero_Info_def windows_ToMap_ok)
qed (auto simp: windows_platform_def windows_ToInfo_def windows_ToMap_def)

text \<open>The JSON text of any record reads back as the entries of its map.\<close>

lemma windows_MarshalJSON_reads:
  "\<exists>txt. windows_MarshalJSON s = Some txt \<and> reads_as txt (windows_ToMap s)"
  unfolding windows_MarshalJSON_def by (rule Marshal_map_reads) (rule windows_ToMap_ok)

section \<open>Properties\<close>

definition v0_part :: "RawInfoV1 \<Rightarrow> RawInfoV0" where
  "v0_part r = RawInfoV0.truncate r"

definition drop_v1_fields :: "windows_SysInfo \<Rightarrow> windows_SysInfo" where
  "drop_v1_fields s = s\<lparr>
     wn_SndLimTransRwin := 0, wn_SndLimTransTimeRwin := 0, wn_SndLimBytesRwin := 0,
     wn_SndLimTransCwnd := 0, wn_SndLimTimeCwnd := 0, wn_SndLimBytesCwnd := 0,
     wn_SndLimTransSnd := 0, wn_SndLimTimeSnd := 0, wn_SndLimBytesSnd := 0\<rparr>"

text \<open>
  C35. The two versions of the Windows record unpack to the same values on the fields they
  share, with one exception: the connection time, counted in milliseconds in both, comes out
  a thousand times smaller from version 1.
\<close>

theorem V1_Unpack_V0:
  "(drop_v1_fields (V1_Unpack r))\<lparr>wn_ConnectedTimeNS := t\<rparr> = (V0_Unpack (v0_part r))\<lparr>wn_ConnectedTimeNS := t\<rparr> \<and>
   wn_ConnectedTimeNS (V0_Unpack (v0_part r)) = 1000 * wn_ConnectedTimeNS (V1_Unpack r)"
  by (simp add: V1_Unpack_def V0_Unpack_def drop_v1_fields_def v0_part_def RawInfoV0.defs
      windows_timeFieldMultiplier_def)

text \<open>
  \<open>GetTCPInfo\<close> on Windows returns no record exactly when both versions of the
  query fail, and then with the text of the second error.
\<close>

lemma windows_GetTCPInfo_fallback:
  "windows_GetTCPInfo q1 q0 fd = (None, err) \<longleftrightarrow>
     isl (q1 fd) \<and> isl (q0 fd) \<and>
     err = Some (PlainError (''could not perform the WSAIoctl: '' @ Error (projl (q0 fd))))"
  by (auto simp: windows_GetTCPInfo_def split: sum.split)

end
