(* ===== verification/Os_Release.thy ===== *)
theory Os_Release
  imports Kernel_Version
begin

text \<open>
  \<open>pkg/os\<close> on Linux and on the other Unix systems: reading \<open>os-release\<close>, deciding
  whether the process runs in a container, and the generic Unix variants.

  Opening and reading files are parameters, functions from the path to an error or the
  contents; so is \<open>os.IsNotExist\<close>. \<open>bufio.Scanner\<close> with its default line splitter is
  modelled with its limit: a line of 65536 bytes or more ends the scan, with an error the
  code does not ask for.
\<close>

section \<open>Lines\<close>

abbreviation (input) carriage_return :: char where "carriage_return \<equiv> CHR 0x0D"

definition MaxScanTokenSize :: nat where
  "MaxScanTokenSize = 64 * 1024"

definition dropCR :: "string \<Rightarrow> string" where
  "dropCR l = (if l \<noteq> [] \<and> last l = carriage_return then butlast l else l)"

definition raw_lines :: "string \<Rightarrow> string list" where
  "raw_lines data =
     (let ps = split_on newline data in if last ps = [] then butlast ps else ps)"

definition scan_lines :: "string \<Rightarrow> string list" where
  "scan_lines data = map dropCR (takeWhile (\<lambda>l. length l < MaxScanTokenSize) (raw_lines data))"

section \<open>Linux\<close>

definition proc1Cgroup :: string where "proc1Cgroup = ''/proc/1/cgroup''"
definition etcOsRelease :: string where "etcOsRelease = ''/etc/os-release''"
definition altOsRelease :: string where "altOsRelease = ''/usr/lib/os-release''"

definition quotes :: string where
  "quotes = [CHR 0x22, CHR 0x27, CHR '' '']"

fun os_release_loop :: "string \<Rightarrow> string list \<Rightarrow> string \<Rightarrow> string" where
  "os_release_loop key [] value = value"
| "os_release_loop key (line # lines) value =
     (case CutPrefix line (key @ ''='') of
        Some after \<Rightarrow> os_release_loop key lines (Trim after quotes)
      | None \<Rightarrow> os_release_loop key lines value)"

definition getValueFromOsRelease ::
    "(string \<Rightarrow> error + string) \<Rightarrow> (error \<Rightarrow> bool) \<Rightarrow> string \<Rightarrow> error + string" where
  "getValueFromOsRelease Open IsNotExist key =
     (case
        (case Open etcOsRelease of
           Inr f \<Rightarrow> Inr f
         | Inl err \<Rightarrow> if \<not> IsNotExist err then Inl err else Open altOsRelease)
      of
        Inl err \<Rightarrow> Inl err
      | Inr f \<Rightarrow> Inr (os_release_loop key (scan_lines f) []))"

definition GetOperatingSystem :: "(string \<Rightarrow> error + string) \<Rightarrow> (error \<Rightarrow> bool) \<Rightarrow> error + string" where
  "GetOperatingSystem Open IsNotExist =
     (case getValueFromOsRelease Open IsNotExist ''PRETTY_NAME'' of
        Inl err \<Rightarrow> Inl err
      | Inr prettyName \<Rightarrow> if prettyName \<noteq> [] then Inr prettyName else Inr ''Linux'')"

definition GetOperatingSystemVersion ::
    "(string \<Rightarrow> error + string) \<Rightarrow> (error \<Rightarrow> bool) \<Rightarrow> error + string" where
  "GetOperatingSystemVersion Open IsNotExist = getValueFromOsRelease Open IsNotExist ''VERSION_ID''"

fun containerized_loop :: "string list \<Rightarrow> bool" where
  "containerized_loop [] = False"
| "containerized_loop (line # lines) =
     (if length line > 0 \<and> \<not> HasSuffix line '':/'' \<and> \<not> HasSuffix line '':/init.scope'' then True
      else containerized_loop lines)"

definition IsContainerized :: "(string \<Rightarrow> error + string) \<Rightarrow> bool \<times> error option" where
  "IsContainerized ReadFile =
     (case ReadFile proc1Cgroup of
        Inl err \<Rightarrow> (False, Some err)
      | Inr b \<Rightarrow> (containerized_loop (split_on newline b), None))"

section \<open>Other Unix systems\<close>

definition unix_GetOperatingSystem :: "(string \<Rightarrow> string) \<Rightarrow> error + Utsname \<Rightarrow> error + string" where
  "unix_GetOperatingSystem ByteSliceToString unix_Uname =
     (case unix_Uname of Inl err \<Rightarrow> Inl err | Inr utsname \<Rightarrow> Inr (ByteSliceToString (Machine utsname)))"

definition unix_GetOperatingSystemVersion :: "error + string" where
  "unix_GetOperatingSystemVersion = Inl (PlainError ''Unsupported on generic unix'')"

definition unix_IsContainerized :: "bool \<times> error option" where
  "unix_IsContainerized = (False, Some (PlainError ''Cannot detect if we are in container''))"

section \<open>Splitting and joining lines\<close>

text \<open>A line as the files have them: no line break inside, not too long.\<close>

definition line_ok :: "string \<Rightarrow> bool" where
  "line_ok l \<longleftrightarrow>
     newline \<notin> set l \<and> (l \<noteq> [] \<longrightarrow> last l \<noteq> carriage_return) \<and> length l < MaxScanTokenSize"

lemma scan_join_lines:
  assumes "list_all line_ok ls"
  shows "scan_lines (join_lines ls) = ls"
proof -
  have "list_all (\<lambda>l. newline \<notin> set l) ls" using assms by (auto simp: list_all_iff line_ok_def)
  then have "raw_lines (join_lines ls) = ls" by (simp add: raw_lines_def split_join)
  moreover have "takeWhile (\<lambda>l. length l < MaxScanTokenSize) ls = ls"
    using assms by (simp add: takeWhile_eq_all_conv list_all_iff line_ok_def)
  moreover have "map dropCR ls = ls"
    using assms by (auto simp: list_all_iff line_ok_def dropCR_def intro!: map_idI)
  ultimately show ?thesis by (simp only: scan_lines_def)
qed

section \<open>Properties\<close>

definition assigned :: "string \<Rightarrow> string list \<Rightarrow> string list" where
  "assigned key ls =
     map (\<lambda>l. Trim (drop (Suc (length key)) l) quotes) (filter (\<lambda>l. HasPrefix l (key @ ''='')) ls)"

lemma os_release_loop_eq:
  "os_release_loop key ls v = (if assigned key ls = [] then v else last (assigned key ls))"
proof (induction ls arbitrary: v)
  case (Cons l ls)
  then show ?case by (cases "HasPrefix l (key @ ''='')") (simp_all add: CutPrefix_def assigned_def)
qed (simp add: assigned_def)

text \<open>
  C33. The value of a key in \<open>os-release\<close> is that of its last assignment: in a file of
  the given lines, whatever the quoting, a key that is assigned a value without surrounding
  quotes or blanks and not assigned again has that value, and no other key can shadow it.
\<close>

theorem getValueFromOsRelease_last:
  assumes "Open etcOsRelease = Inr (join_lines (before @ [key @ ''='' @ q @ v @ q'] @ after))"
    and "list_all line_ok (before @ [key @ ''='' @ q @ v @ q'] @ after)"
    and "set q \<subseteq> set quotes" "set q' \<subseteq> set quotes"
    and "v = [] \<or> (hd v \<notin> set quotes \<and> last v \<notin> set quotes)"
    and "list_all (\<lambda>l. \<not> HasPrefix l (key @ ''='')) after"
  shows "getValueFromOsRelease Open IsNotExist key = Inr v"
proof -
  let ?l = "key @ ''='' @ q @ v @ q'"
  have trim: "Trim (q @ v @ q') quotes = v" using assms(3-5) by (rule Trim_surrounded)
  have "assigned key (before @ [?l] @ after) = assigned key before @ [v] @ assigned key after"
    using trim by (simp add: assigned_def HasPrefix_def)
  moreover have "assigned key after = []"
    using assms(6) by (simp add: assigned_def list_all_iff filter_empty_conv)
  ultimately show ?thesis
    using assms(1,2) by (simp add: getValueFromOsRelease_def scan_join_lines os_release_loop_eq)
qed

theorem getValueFromOsRelease_last_witness:
  "getValueFromOsRelease
     (\<lambda>p. if p = etcOsRelease
          then Inr (join_lines ([''ID=ubuntu'', ''PRETTY_NAME_AGAIN=x''] @
            [''PRETTY_NAME'' @ ''='' @ [CHR 0x22] @ ''Ubuntu 14.04 LTS'' @ [CHR 0x22]] @ [''VERSION_ID=14.04'']))
          else Inl (PlainError ''no such file''))
     (\<lambda>_. True) ''PRETTY_NAME'' = Inr ''Ubuntu 14.04 LTS''"
  by (rule getValueFromOsRelease_last [where before = "[''ID=ubuntu'', ''PRETTY_NAME_AGAIN=x'']"
        and q = "[CHR 0x22]" and q' = "[CHR 0x22]" and after = "[''VERSION_ID=14.04'']"])
    (simp_all add: line_ok_def MaxScanTokenSize_def quotes_def HasPrefix_def)

text \<open>
  A line of 65536 bytes or more hides every assignment behind it, and the error the scanner
  then has is not reported.
\<close>

lemma getValueFromOsRelease_long_line:
  assumes "Open etcOsRelease = Inr (long @ newline # rest)" "newline \<notin> set long" "MaxScanTokenSize \<le> length long"
  shows "getValueFromOsRelease Open IsNotExist key = Inr []"
proof -
  have "\<exists>ls. raw_lines (long @ newline # rest) = long # ls"
    using assms(2) by (auto simp: raw_lines_def Let_def split_on_step butlast.simps)
  then have "scan_lines (long @ newline # rest) = []" using assms(3) by (auto simp: scan_lines_def)
  with assms(1) show ?thesis by (simp add: getValueFromOsRelease_def)
qed

text \<open>
  A process is taken to be in a container exactly when some line of its control group
  file is neither empty nor ends in \<open>:/\<close> or \<open>:/init.scope\<close>; an unreadable file is an
  error.
\<close>

lemma IsContainerized_correct:
  "IsContainerized ReadFile =
     (case ReadFile proc1Cgroup of
        Inl err \<Rightarrow> (False, Some err)
      | Inr b \<Rightarrow>
          (\<exists>line \<in> set (split_on newline b).
             line \<noteq> [] \<and> (\<nexists>p. line = p @ '':/'') \<and> (\<nexists>p. line = p @ '':/init.scope''), None))"
proof -
  have "containerized_loop ls \<longleftrightarrow>
    (\<exists>line \<in> set ls. line \<noteq> [] \<and> (\<nexists>p. line = p @ '':/'') \<and> (\<nexists>p. line = p @ '':/init.scope''))" for ls
    by (induction ls) (auto simp: HasSuffix_iff)
  then show ?thesis by (simp add: IsContainerized_def split: sum.split)
qed

end
