(* ===== verification/Os_Version.thy ===== *)
theory Os_Version
  imports Kernel_Version
begin

text \<open>
  \<open>pkg/osversion\<close>: the Windows version record, its cached lookup, the build numbers,
  and the check whether a container image runs on a host. \<open>RtlGetVersion\<close> and the
  registry are parameters.
\<close>

section \<open>Build numbers\<close>

definition RS1 :: u16 where "RS1 = 14393"
definition V1607 :: u16 where "V1607 = RS1"
definition LTSC2016 :: u16 where "LTSC2016 = RS1"
definition RS2 :: u16 where "RS2 = 15063"
definition V1703 :: u16 where "V1703 = RS2"
definition RS3 :: u16 where "RS3 = 16299"
definition V1709 :: u16 where "V1709 = RS3"
definition RS4 :: u16 where "RS4 = 17134"
definition V1803 :: u16 where "V1803 = RS4"
definition RS5 :: u16 where "RS5 = 17763"
definition V1809 :: u16 where "V1809 = RS5"
definition LTSC2019 :: u16 where "LTSC2019 = RS5"
definition V19H1 :: u16 where "V19H1 = 18362"
definition V1903 :: u16 where "V1903 = V19H1"
definition V19H2 :: u16 where "V19H2 = 18363"
definition V1909 :: u16 where "V1909 = V19H2"
definition V20H1 :: u16 where "V20H1 = 19041"
definition V2004 :: u16 where "V2004 = V20H1"
definition V20H2 :: u16 where "V20H2 = 19042"
definition V21H1 :: u16 where "V21H1 = 19043"
definition V21H2Win10 :: u16 where "V21H2Win10 = 19044"
definition V21H2Server :: u16 where "V21H2Server = 20348"
definition LTSC2022 :: u16 where "LTSC2022 = V21H2Server"
definition V21H2Win11 :: u16 where "V21H2Win11 = 22000"
definition V22H2Win10 :: u16 where "V22H2Win10 = 19045"
definition V22H2Win11 :: u16 where "V22H2Win11 = 22621"
definition V23H2 :: u16 where "V23H2 = 25398"
definition V25H1Server :: u16 where "V25H1Server = 26100"
definition LTSC2025 :: u16 where "LTSC2025 = V25H1Server"

section \<open>The version record\<close>

record OSVersion =
  osv_Version :: u32
  MajorVersion :: u8
  MinorVersion :: u8
  osv_Build :: u16

text \<open>What the code reads of the structure \<open>RtlGetVersion\<close> fills.\<close>

record OsVersionInfoEx =
  rtl_MajorVersion :: u32
  rtl_MinorVersion :: u32
  rtl_BuildNumber :: u32
  rtl_ProductType :: u8

text \<open>The package variables \<open>osv\<close> and \<open>once\<close>.\<close>

record osversion_vars =
  osv :: OSVersion
  once :: bool

definition initial_osversion :: osversion_vars where
  "initial_osversion =
    \<lparr>osv = \<lparr>osv_Version = 0, MajorVersion = 0, MinorVersion = 0, osv_Build = 0\<rparr>, once = False\<rparr>"

definition fill_osv :: "OsVersionInfoEx \<Rightarrow> OSVersion" where
  "fill_osv v =
    (let o1 = \<lparr>osv_Version = 0, MajorVersion = ucast (rtl_MajorVersion v),
               MinorVersion = ucast (rtl_MinorVersion v), osv_Build = ucast (rtl_BuildNumber v)\<rparr>;
         o2 = o1\<lparr>osv_Version := push_bit 16 (rtl_BuildNumber v)\<rparr>;
         o3 = o2\<lparr>osv_Version := osv_Version o2 OR push_bit 8 (rtl_MinorVersion v)\<rparr>
     in o3\<lparr>osv_Version := osv_Version o3 OR rtl_MajorVersion v\<rparr>)"

definition Get :: "OsVersionInfoEx \<Rightarrow> osversion_vars \<Rightarrow> OSVersion \<times> osversion_vars" where
  "Get RtlGetVersion g =
    (let g = (if once g then g else g\<lparr>osv := fill_osv RtlGetVersion, once := True\<rparr>) in (osv g, g))"

definition Build :: "OsVersionInfoEx \<Rightarrow> osversion_vars \<Rightarrow> u16 \<times> osversion_vars" where
  "Build RtlGetVersion g = (case Get RtlGetVersion g of (v, g) \<Rightarrow> (osv_Build v, g))"

definition OSVersion_String :: "OSVersion \<Rightarrow> string" where
  "OSVersion_String v =
    format_uint (MajorVersion v) @ ''.'' @ format_uint (MinorVersion v) @ ''.'' @ format_uint (osv_Build v)"

definition OSVersion_ToString :: "OSVersion \<Rightarrow> string" where
  "OSVersion_ToString v = OSVersion_String v"

text \<open>The backquote, character 96, cannot be written in a string literal of its own.\<close>

definition BuildRevision :: "error + (error + u64) \<Rightarrow> u32 \<times> error option" where
  "BuildRevision registry =
    (case registry of
       Inl err \<Rightarrow>
         (0, Some (PlainError (''open '' @ [CHR 0x60] @ ''CurrentVersion'' @ [CHR 0x60] @ '' registry key: '' @ Error err)))
     | Inr k \<Rightarrow>
         (case k of
            Inl err \<Rightarrow> (0, Some (PlainError (''read '' @ [CHR 0x60] @ ''UBR'' @ [CHR 0x60] @ '' from registry: '' @ Error err)))
          | Inr s \<Rightarrow> (ucast s, None)))"

section \<open>Host and container\<close>

definition compatLTSCReleases :: "u16 list" where
  "compatLTSCReleases = [LTSC2022, LTSC2025]"

text \<open>The loop runs over the list from its end and stops at the first smaller release.\<close>

fun supported_loop :: "u16 \<Rightarrow> u16 list \<Rightarrow> u16 \<Rightarrow> u16" where
  "supported_loop host [] supported = supported"
| "supported_loop host (r # rs) supported =
     (if host > r then r else supported_loop host rs supported)"

definition CheckHostAndContainerCompat :: "OSVersion \<Rightarrow> OSVersion \<Rightarrow> bool" where
  "CheckHostAndContainerCompat host ctr =
    (if MajorVersion host \<noteq> MajorVersion ctr \<or> MinorVersion host \<noteq> MinorVersion ctr then False
     else if osv_Build host < LTSC2022 then osv_Build host = osv_Build ctr
     else
       (let supportedLTSCRelease = supported_loop (osv_Build host) (rev compatLTSCReleases) LTSC2022
        in supportedLTSCRelease \<le> osv_Build ctr \<and> osv_Build ctr \<le> osv_Build host))"

section \<open>Properties\<close>

lemmas builds = LTSC2022_def V21H2Server_def LTSC2025_def V25H1Server_def

lemma compatLTSCReleases_sorted: "sorted_wrt (<) compatLTSCReleases" "hd compatLTSCReleases = LTSC2022"
  by (simp_all add: compatLTSCReleases_def builds)

text \<open>On a list in descending order the loop finds the largest release before the host's.\<close>

lemma supported_loop_le:
  assumes "sorted_wrt (>) rs"
  shows "supported_loop host rs d \<le> ctr \<longleftrightarrow>
    (if \<exists>r \<in> set rs. r < host then \<forall>r \<in> set rs. r < host \<longrightarrow> r \<le> ctr else d \<le> ctr)"
  using assms
proof (induction rs)
  case (Cons r rs)
  show ?case
  proof (cases "r < host")
    case True
    with Cons.prems show ?thesis by (auto dest: less_imp_le intro: order_trans)
  next
    case False
    with Cons show ?thesis by auto
  qed
qed simp

text \<open>
  C32. A container runs on a host exactly when major and minor version agree, it is not newer
  than the host, and no stable release lies between them: the same build is required on
  hosts before Windows Server 2022, and later hosts run everything from the latest stable
  release before them.
\<close>

theorem CheckHostAndContainerCompat_correct:
  "CheckHostAndContainerCompat host ctr \<longleftrightarrow>
     MajorVersion host = MajorVersion ctr \<and> MinorVersion host = MinorVersion ctr \<and>
     osv_Build ctr \<le> osv_Build host \<and>
     (if osv_Build host < LTSC2022 then osv_Build ctr = osv_Build host
      else LTSC2022 \<le> osv_Build ctr \<and>
        (\<forall>r. r \<in> set compatLTSCReleases \<and> r < osv_Build host \<longrightarrow> r \<le> osv_Build ctr))"
proof -
  have "sorted_wrt (>) (rev compatLTSCReleases)"
    using compatLTSCReleases_sorted(1) by (simp add: sorted_wrt_rev)
  from supported_loop_le [OF this, of "osv_Build host" LTSC2022 "osv_Build ctr"]
  have "supported_loop (osv_Build host) (rev compatLTSCReleases) LTSC2022 \<le> osv_Build ctr \<longleftrightarrow>
    LTSC2022 \<le> osv_Build ctr \<and> (\<forall>r \<in> set compatLTSCReleases. r < osv_Build host \<longrightarrow> r \<le> osv_Build ctr)"
    if "\<not> osv_Build host < LTSC2022"
    using that by (auto simp: compatLTSCReleases_def builds)
  then show ?thesis by (auto simp: CheckHostAndContainerCompat_def Let_def)
qed

theorem CheckHostAndContainerCompat_correct_witness:
  "CheckHostAndContainerCompat
     \<lparr>osv_Version = 0, MajorVersion = 10, MinorVersion = 0, osv_Build = LTSC2025\<rparr>
     \<lparr>osv_Version = 0, MajorVersion = 10, MinorVersion = 0, osv_Build = V22H2Win11\<rparr>"
  unfolding CheckHostAndContainerCompat_correct
  by (auto simp: builds compatLTSCReleases_def V22H2Win11_def)

text \<open>Words that fit a narrower field, by their bits.\<close>

lemma take_bit_small:
  fixes x :: "'a::len word"
  assumes "x < 2 ^ k" "k < LENGTH('a)"
  shows "take_bit k x = x"
  using assms by (simp add: less_mask_eq take_bit_eq_mask)

lemma small_bits:
  fixes x :: "'a::len word"
  assumes "x < 2 ^ k" "k < LENGTH('a)"
  shows "bit x n \<Longrightarrow> n < k"
  using take_bit_small [OF assms] by (metis bit_take_bit_iff)

lemma uint_ucast_small:
  fixes x :: u32
  assumes "x < 2 ^ LENGTH('b::len)" "LENGTH('b) < 32"
  shows "uint (ucast x :: 'b word) = uint x"
proof -
  have "uint (ucast x :: 'b word) = uint (take_bit LENGTH('b) x)"
    using assms(2) by (simp add: unsigned_ucast_eq unsigned_take_bit_eq)
  then show ?thesis using take_bit_small [OF assms(1)] assms(2) by simp
qed

lemma version_word_fields:
  fixes b m M :: u32
  assumes "b < 2 ^ 16" "m < 2 ^ 8" "M < 2 ^ 8"
  defines "w \<equiv> push_bit 16 b OR push_bit 8 m OR M"
  shows "w AND 0xFF = M" "drop_bit 8 (w AND 0xFF00) = m" "drop_bit 16 (w AND 0xFFFF0000) = b"
proof -
  have bits: "bit b n \<Longrightarrow> n < 16" "bit m n \<Longrightarrow> n < 8" "bit M n \<Longrightarrow> n < 8" for n
    using small_bits [OF assms(1)] small_bits [OF assms(2)] small_bits [OF assms(3)] by simp_all
  have "0xFF = (mask 8 :: u32)" "0xFF00 = push_bit 8 (mask 8 :: u32)" "0xFFFF0000 = push_bit 16 (mask 16 :: u32)"
    by (simp_all add: mask_eq_exp_minus_1 push_bit_eq_mult)
  note masks = this
  show "w AND 0xFF = M" unfolding masks w_def by (rule bit_eqI) (auto simp: bit_simps dest: bits)
  show "drop_bit 8 (w AND 0xFF00) = m"
    unfolding masks w_def by (rule bit_eqI) (auto simp: bit_simps dest: bits)
  show "drop_bit 16 (w AND 0xFFFF0000) = b"
    unfolding masks w_def by (rule bit_eqI) (auto simp: bit_simps dest: bits)
qed

text \<open>
  The version word \<open>Get\<close> composes is the one \<open>GetKernelVersion\<close> of the kernel
  package takes apart: for numbers that fit their fields it finds the same major, minor and
  build number again. The lookup runs once; every later call returns the first answer.
\<close>

lemma Get_version_word:
  assumes "rtl_BuildNumber v < 2 ^ 16" "rtl_MinorVersion v < 2 ^ 8" "rtl_MajorVersion v < 2 ^ 8" "\<not> once g"
  shows "\<exists>o1 g1. Get v g = (o1, g1) \<and> Get v' g1 = (o1, g1) \<and>
    win_GetKernelVersion None (Inr blex) (Inr (osv_Version o1)) =
      (\<lparr>kvi = blex, win_major = uint (MajorVersion o1), win_minor = uint (MinorVersion o1),
        build = uint (osv_Build o1)\<rparr>, None)"
proof -
  let ?o = "fill_osv v"
  have w: "osv_Version ?o = push_bit 16 (rtl_BuildNumber v) OR push_bit 8 (rtl_MinorVersion v) OR rtl_MajorVersion v"
    by (simp add: fill_osv_def or.assoc)
  have "uint (MajorVersion ?o) = uint (rtl_MajorVersion v)" "uint (MinorVersion ?o) = uint (rtl_MinorVersion v)"
    "uint (osv_Build ?o) = uint (rtl_BuildNumber v)"
    using assms(1-3) uint_ucast_small [where 'b = 8] uint_ucast_small [where 'b = 16]
    by (simp_all add: fill_osv_def)
  then show ?thesis
    using assms(4) version_word_fields [OF assms(1-3)]
    by (intro exI [of _ ?o] exI [of _ "g\<lparr>osv := ?o, once := True\<rparr>"])
      (simp add: Get_def win_GetKernelVersion_def w)
qed

end
