(* ===== verification/Os_Windows.thy ===== *)
theory Os_Windows
  imports Os_Version
begin

text \<open>
  \<open>pkg/os\<close> on Windows: the release string, the registry lookups it is made of, and the
  version. The registry key is a parameter: the error of opening it, or its string and
  integer values, each an error or a value. The error \<open>registry.ErrNotExist\<close> and the
  test for it are parameters as well.
\<close>

section \<open>The release string\<close>

record windowsOSRelease =
  IsServer :: bool
  DisplayVersion :: string
  rel_Build :: u32
  UBR :: u64

definition windowsOSRelease_String :: "windowsOSRelease \<Rightarrow> string" where
  "windowsOSRelease_String r =
    (let b = ''Microsoft Windows'';
         b = (if IsServer r then b @ '' Server'' else b);
         b = (if DisplayVersion r \<noteq> [] then b @ '' Version '' @ DisplayVersion r else b);
         b = b @ '' (OS Build '' @ format_uint (rel_Build r);
         b = (if UBR r > 0 then b @ ''.'' @ format_uint (UBR r) else b)
     in b @ '')'')"

section \<open>The registry\<close>

record registry_key =
  GetStringValue :: "string \<Rightarrow> error + string"
  GetIntegerValue :: "string \<Rightarrow> error + u64"

fun getFirstStringValue :: "error \<Rightarrow> (error \<Rightarrow> bool) \<Rightarrow> registry_key \<Rightarrow> string list \<Rightarrow> error + string" where
  "getFirstStringValue ErrNotExist isErrNotExist key [] = Inl ErrNotExist"
| "getFirstStringValue ErrNotExist isErrNotExist key (n # names) =
     (case GetStringValue key n of
        Inl err \<Rightarrow> if \<not> isErrNotExist err then Inl err else getFirstStringValue ErrNotExist isErrNotExist key names
      | Inr val \<Rightarrow> Inr val)"

definition verNTWorkstation :: u8 where
  "verNTWorkstation = 1"

definition win_GetOperatingSystem ::
    "error \<Rightarrow> (error \<Rightarrow> bool) \<Rightarrow> OsVersionInfoEx \<Rightarrow> error + registry_key \<Rightarrow> error + string" where
  "win_GetOperatingSystem ErrNotExist isErrNotExist RtlGetVersion openKey =
    (let rel = \<lparr>IsServer = (rtl_ProductType RtlGetVersion \<noteq> verNTWorkstation), DisplayVersion = [],
                rel_Build = rtl_BuildNumber RtlGetVersion, UBR = 0\<rparr>;
         rel =
           (case openKey of
              Inl _ \<Rightarrow> rel
            | Inr key \<Rightarrow>
                (let rel =
                   (case getFirstStringValue ErrNotExist isErrNotExist key [''DisplayVersion'', ''ReleaseId''] of
                      Inr ver \<Rightarrow> rel\<lparr>DisplayVersion := ver\<rparr>
                    | Inl _ \<Rightarrow> rel)
                 in case GetIntegerValue key ''UBR'' of
                      Inr ubr \<Rightarrow> rel\<lparr>UBR := ubr\<rparr>
                    | Inl _ \<Rightarrow> rel))
     in Inr (windowsOSRelease_String rel))"

definition win_GetOperatingSystemVersion ::
    "OsVersionInfoEx \<Rightarrow> osversion_vars \<Rightarrow> (error + string) \<times> osversion_vars" where
  "win_GetOperatingSystemVersion RtlGetVersion g =
     (case Get RtlGetVersion g of (v, g) \<Rightarrow> (Inr (OSVersion_ToString v), g))"

definition win_IsContainerized :: "bool \<times> error option" where
  "win_IsContainerized = (False, None)"

definition IsWindowsClient :: "OsVersionInfoEx \<Rightarrow> bool" where
  "IsWindowsClient RtlGetVersion = (rtl_ProductType RtlGetVersion = verNTWorkstation)"

section \<open>Properties\<close>

lemma format_uint_digits: "c \<in> set (format_uint w) \<Longrightarrow> is_digit c"
  using format_nat_set by (auto simp: format_uint_def)

lemma format_uint_inject: "format_uint (v :: 'a::len word) = format_uint w \<longleftrightarrow> v = w"
  by (simp add: format_uint_def word_unat_eq_iff)

text \<open>The part of the string behind the opening parenthesis determines build and revision.\<close>

definition build_part :: "windowsOSRelease \<Rightarrow> string" where
  "build_part r = format_uint (rel_Build r) @ (if UBR r > 0 then ''.'' @ format_uint (UBR r) else []) @ '')''"

definition name_part :: "windowsOSRelease \<Rightarrow> string" where
  "name_part r = ''Microsoft Windows'' @ (if IsServer r then '' Server'' else []) @
     (if DisplayVersion r \<noteq> [] then '' Version '' @ DisplayVersion r else [])"

lemma String_parts: "windowsOSRelease_String r = name_part r @ '' (OS Build '' @ build_part r"
  by (simp add: windowsOSRelease_String_def name_part_def build_part_def)

lemma takeWhile_build:
  "(\<And>c. c \<in> set ds \<Longrightarrow> is_digit c) \<Longrightarrow> \<not> is_digit x \<Longrightarrow> takeWhile is_digit (ds @ x # s) = ds"
  by (simp add: takeWhile_append)

lemma not_digit [simp]: "\<not> is_digit CHR ''.''" "\<not> is_digit CHR '')''"
  by (simp_all add: is_digit_def)

lemma build_part_inject:
  assumes "build_part r = build_part s"
  shows "rel_Build r = rel_Build s \<and> UBR r = UBR s"
proof -
  have tw: "takeWhile is_digit (build_part x) = format_uint (rel_Build x)" for x
    by (auto simp: build_part_def takeWhile_build format_uint_digits)
  then have b: "rel_Build r = rel_Build s" using assms by (metis format_uint_inject)
  with assms have "(if UBR r > 0 then ''.'' @ format_uint (UBR r) else []) =
      (if UBR s > 0 then ''.'' @ format_uint (UBR s) else [])"
    by (simp add: build_part_def)
  with b show ?thesis by (auto simp: format_uint_inject word_gt_0 split: if_splits)
qed

lemma takeWhile_paren:
  "CHR ''('' \<notin> set s \<Longrightarrow> takeWhile (\<lambda>c. c \<noteq> CHR ''('') (s @ CHR ''('' # t) = s"
  by (auto simp: takeWhile_append)

text \<open>
  The Windows release string is unambiguous: for display versions without a parenthesis
  it determines whether the system is a server, the display version, the build number and
  the update revision.
\<close>

lemma windowsOSRelease_String_inject:
  assumes "CHR ''('' \<notin> set (DisplayVersion r)" "CHR ''('' \<notin> set (DisplayVersion s)"
    and "windowsOSRelease_String r = windowsOSRelease_String s"
  shows "r = s"
proof -
  have tw: "takeWhile (\<lambda>c. c \<noteq> CHR ''('') (windowsOSRelease_String x) = name_part x @ '' ''"
    if "CHR ''('' \<notin> set (DisplayVersion x)" for x
    using that takeWhile_paren [of "name_part x @ '' ''" "''OS Build '' @ build_part x"]
    by (simp add: String_parts name_part_def)
  have "name_part r = name_part s" using tw [OF assms(1)] tw [OF assms(2)] assms(3) by simp
  then have "IsServer r = IsServer s \<and> DisplayVersion r = DisplayVersion s" "build_part r = build_part s"
    using assms(3) by (auto simp: name_part_def String_parts split: if_splits)
  with build_part_inject [of r s] show ?thesis by simp
qed

text \<open>
  \<open>getFirstStringValue\<close> returns the first value that exists among the names, looks
  past those that do not exist, and stops at any other error.
\<close>

lemma getFirstStringValue_first:
  "getFirstStringValue ErrNotExist notExist key names =
     (case find (\<lambda>n. \<not> (\<exists>err. GetStringValue key n = Inl err \<and> notExist err)) names of
        Some n \<Rightarrow> GetStringValue key n
      | None \<Rightarrow> Inl ErrNotExist)"
  by (induction names) (auto split: sum.split)

end
