(* ===== verification/Httpstat_Headers.thy ===== *)
theory Httpstat_Headers
  imports Go_Prelude "HOL-Library.Char_ord" "HOL-Library.List_Lexorder" "HOL-Library.Product_Lexorder"
    "HOL-Library.Multiset"
begin

text \<open>
  The type \<open>headers\<close> of \<open>cmd/httpstat/main.go\<close>: the repeatable flag and the order
  in which response headers are printed. Go compares strings byte by byte, which is the
  lexicographic order of the library on lists of characters.
\<close>

section \<open>The type headers\<close>

type_synonym headers = "string list"

fun prefix_all :: "headers \<Rightarrow> string list \<Rightarrow> string list" where
  "prefix_all [] out = out"
| "prefix_all (v # h) out = prefix_all h (out @ [''-H '' @ v])"

definition headers_String :: "headers \<Rightarrow> string" where
  "headers_String h = Join (prefix_all h []) '' ''"

definition headers_Set :: "headers \<Rightarrow> string \<Rightarrow> headers" where
  "headers_Set h v = h @ [v]"

definition headers_Len :: "headers \<Rightarrow> nat" where
  "headers_Len h = length h"

definition headers_Swap :: "headers \<Rightarrow> nat \<Rightarrow> nat \<Rightarrow> headers" where
  "headers_Swap h i j = h[i := h ! j, j := h ! i]"

definition endtoend :: "string \<Rightarrow> bool" where
  "endtoend n \<longleftrightarrow>
     n \<notin> {''Connection'', ''Keep-Alive'', ''Proxy-Authenticate'', ''Proxy-Authorization'', ''TE'',
           ''Trailers'', ''Transfer-Encoding'', ''Upgrade''}"

definition less_name :: "string \<Rightarrow> string \<Rightarrow> bool" where
  "less_name a b =
     (if a = ''Server'' then True
      else if b = ''Server'' then False
      else (let x = endtoend a; y = endtoend b in if x = y then a < b else x))"

definition headers_Less :: "headers \<Rightarrow> nat \<Rightarrow> nat \<Rightarrow> bool" where
  "headers_Less h i j = less_name (h ! i) (h ! j)"

section \<open>Sorting\<close>

text \<open>
  \<open>sort.Sort\<close> on a short slice: each element in turn moves left with \<open>Swap\<close> while
  \<open>Less\<close> holds against its left neighbour.
\<close>

fun sift_left :: "headers \<Rightarrow> nat \<Rightarrow> headers" where
  "sift_left h 0 = h"
| "sift_left h (Suc j) =
     (if headers_Less h (Suc j) j then sift_left (headers_Swap h (Suc j) j) j else h)"

fun insertion_loop :: "headers \<Rightarrow> nat \<Rightarrow> nat \<Rightarrow> headers" where
  "insertion_loop h i 0 = h"
| "insertion_loop h i (Suc k) = insertion_loop (sift_left h i) (Suc i) k"

definition insertionSort :: "headers \<Rightarrow> headers" where
  "insertionSort h = insertion_loop h 1 (headers_Len h - 1)"

section \<open>The order of the names\<close>

text \<open>Server first, then end-to-end before hop-by-hop headers, then alphabetically.\<close>

definition name_key :: "string \<Rightarrow> bool \<times> bool \<times> string" where
  "name_key n = (n \<noteq> ''Server'', \<not> endtoend n, n)"

lemma endtoend_Server [simp]: "endtoend ''Server''"
  by (simp add: endtoend_def)

lemma less_name_key: "a \<noteq> b \<Longrightarrow> less_name a b \<longleftrightarrow> name_key a < name_key b"
  by (auto simp: less_name_def name_key_def Let_def)

lemma name_key_inject [simp]: "name_key a = name_key b \<longleftrightarrow> a = b"
  by (auto simp: name_key_def)

lemma mset_Swap: "i < length h \<Longrightarrow> j < length h \<Longrightarrow> mset (headers_Swap h i j) = mset h"
  by (simp add: headers_Swap_def mset_swap)

lemma length_Swap [simp]: "length (headers_Swap h i j) = length h"
  by (simp add: headers_Swap_def)

lemma sift_left_mset: "j < length h \<Longrightarrow> mset (sift_left h j) = mset h \<and> length (sift_left h j) = length h"
  by (induction h j rule: sift_left.induct) (auto simp: mset_Swap)

lemma insertion_loop_mset: "i + k \<le> length h \<Longrightarrow> mset (insertion_loop h i k) = mset h"
  by (induction h i k rule: insertion_loop.induct) (simp_all add: sift_left_mset)

lemma insort_snoc:
  "f x \<le> f y \<Longrightarrow> insort_key f x (xs @ [y]) = insort_key f x xs @ [y]"
  by (induction xs) auto

lemma insort_last: "\<forall>y \<in> set xs. f y < f x \<Longrightarrow> insort_key f x xs = xs @ [x]"
  by (induction xs) (auto simp: not_le)

definition sorted_names :: "string list \<Rightarrow> bool" where
  "sorted_names h \<longleftrightarrow> sorted_wrt (\<lambda>a b. name_key a < name_key b) h"

text \<open>Moving the element at \<open>j\<close> left inserts it into the sorted elements before it.\<close>

lemma sift_left_insort:
  assumes "j < length h" "distinct h" "sorted_names (take j h)"
  shows "take (Suc j) (sift_left h j) = insort_key name_key (h ! j) (take j h) \<and>
    drop (Suc j) (sift_left h j) = drop (Suc j) h"
  using assms
proof (induction h j rule: sift_left.induct)
  case (1 h)
  then show ?case by (simp add: take_Suc_conv_app_nth)
next
  case (2 h j)
  have tk: "take (Suc j) h = take j h @ [h ! j]" using 2(2) by (simp add: take_Suc_conv_app_nth)
  have ne: "h ! Suc j \<noteq> h ! j" using 2(2,3) by (simp add: nth_eq_iff_index_eq)
  show ?case
  proof (cases "headers_Less h (Suc j) j")
    case True
    let ?h = "headers_Swap h (Suc j) j"
    have h: "?h ! j = h ! Suc j" "take j ?h = take j h" "drop (Suc j) ?h = h ! j # drop (Suc (Suc j)) h"
      using 2(2) by (simp_all add: headers_Swap_def drop_update_cancel Cons_nth_drop_Suc [symmetric])
    have "distinct ?h" using 2(2,3) by (simp add: headers_Swap_def distinct_swap)
    moreover have "sorted_names (take j h)" using 2(4) by (simp add: tk sorted_names_def sorted_wrt_append)
    ultimately have IH: "take (Suc j) (sift_left ?h j) = insort_key name_key (h ! Suc j) (take j h)"
        "drop (Suc j) (sift_left ?h j) = h ! j # drop (Suc (Suc j)) h"
      using 2(1) [OF True] 2(2) h by simp_all
    have "sift_left ?h j = insort_key name_key (h ! Suc j) (take j h) @ h ! j # drop (Suc (Suc j)) h"
      using IH append_take_drop_id [of "Suc j" "sift_left ?h j"] by simp
    moreover have "name_key (h ! Suc j) \<le> name_key (h ! j)"
      using True ne by (simp add: headers_Less_def less_name_key)
    ultimately show ?thesis using True 2(2) by (simp add: tk insort_snoc length_insort)
  next
    case False
    then have "name_key (h ! j) < name_key (h ! Suc j)"
      using ne by (simp add: headers_Less_def less_name_key not_less order.strict_iff_order)
    then have "\<forall>y \<in> set (take (Suc j) h). name_key y < name_key (h ! Suc j)"
      using 2(4) by (auto simp: tk sorted_names_def sorted_wrt_append)
    with False show ?thesis using 2(2) by (simp add: insort_last take_Suc_conv_app_nth)
  qed
qed

lemma sorted_names_insort:
  assumes "sorted_names xs" "x \<notin> set xs"
  shows "sorted_names (insort_key name_key x xs)"
  using assms
proof (induction xs)
  case (Cons y ys)
  then have "name_key x \<noteq> name_key y" by simp
  then consider "name_key x < name_key y" | "name_key y < name_key x" by (rule linorder_neqE)
  then show ?case
    using Cons by cases (auto simp: sorted_names_def set_insort_key dest: order.strict_trans)
qed (simp add: sorted_names_def)

lemma insertion_loop_sorted:
  "i + k = length h \<Longrightarrow> distinct h \<Longrightarrow> sorted_names (take i h) \<Longrightarrow> sorted_names (insertion_loop h i k)"
proof (induction h i k rule: insertion_loop.induct)
  case (2 h i k)
  have i: "i < length h" using 2(2) by simp
  have m: "mset (sift_left h i) = mset h" "length (sift_left h i) = length h" using sift_left_mset [OF i] by auto
  have "h ! i \<notin> set (take i h)"
    using 2(3) i by (metis id_take_nth_drop distinct_append not_distinct_conv_prefix append_Cons take_Suc_conv_app_nth)
  then have "sorted_names (take (Suc i) (sift_left h i))"
    using sift_left_insort [OF i 2(3,4)] 2(4) by (simp add: sorted_names_insort)
  moreover have "distinct (sift_left h i)" using 2(3) m(1) by (metis mset_eq_imp_distinct_iff)
  ultimately show ?case using 2(1) 2(2) m(2) by simp
qed simp

lemma sorted_names_unique:
  assumes "sorted_names xs" "sorted_names ys" "set xs = set ys"
  shows "xs = ys"
proof -
  have "sorted (map name_key xs) \<and> distinct (map name_key xs)" if "sorted_names xs" for xs
  proof -
    have "sorted_wrt (<) (map name_key xs)" using that by (simp add: sorted_names_def sorted_wrt_map)
    then show ?thesis by (simp only: strict_sorted_iff)
  qed
  then have "map name_key xs = map name_key ys"
    using assms by (intro sorted_distinct_set_unique) auto
  then show ?thesis by (simp add: inj_map_eq_map inj_def)
qed

text \<open>
  C30. The printed response headers are sorted: for distinct names the sort rearranges them
  so that \<open>Server\<close> comes first, end-to-end headers before hop-by-hop ones, and each class
  is in byte order. The order is total, so any other correct sorting algorithm gives the
  same list.
\<close>

theorem insertionSort_headers:
  assumes "distinct names"
  shows "mset (insertionSort names) = mset names \<and>
    sorted_wrt (\<lambda>a b. (a \<noteq> ''Server'', \<not> endtoend a, a) < (b \<noteq> ''Server'', \<not> endtoend b, b)) (insertionSort names) \<and>
    (\<forall>ys. mset ys = mset names \<longrightarrow> sorted_wrt (\<lambda>a b. \<not> less_name b a) ys \<longrightarrow> ys = insertionSort names)"
proof -
  have m: "mset (insertionSort names) = mset names"
    by (cases names) (simp_all add: insertionSort_def headers_Len_def insertion_loop_mset)
  have s: "sorted_names (insertionSort names)"
  proof (cases names)
    case (Cons a as)
    then show ?thesis
      unfolding insertionSort_def headers_Len_def using assms
      by (intro insertion_loop_sorted) (simp_all add: sorted_names_def)
  qed (simp add: insertionSort_def headers_Len_def sorted_names_def)
  have "ys = insertionSort names" if ys: "mset ys = mset names" "sorted_wrt (\<lambda>a b. \<not> less_name b a) ys" for ys
  proof (rule sorted_names_unique [OF _ s])
    have "distinct ys" using ys(1) assms by (metis mset_eq_imp_distinct_iff)
    then show "sorted_names ys"
      unfolding sorted_names_def using ys(2)
    proof (induction ys)
      case (Cons y ys)
      have "name_key y < name_key z" if "z \<in> set ys" for z
        using that Cons.prems less_name_key [of z y] by (metis distinct.simps(2) linorder_cases name_key_inject sorted_wrt.simps(2))
      with Cons show ?case by simp
    qed simp
    show "set ys = set (insertionSort names)" using ys(1) m by (metis set_mset_mset)
  qed
  with m s show ?thesis by (simp add: sorted_names_def name_key_def)
qed

theorem insertionSort_headers_witness:
  "mset (insertionSort [''Vary'', ''Connection'', ''Server'', ''Date'']) = mset [''Vary'', ''Connection'', ''Server'', ''Date''] \<and>
   insertionSort [''Vary'', ''Connection'', ''Server'', ''Date''] = [''Server'', ''Date'', ''Vary'', ''Connection'']"
  using insertionSort_headers [of "[''Vary'', ''Connection'', ''Server'', ''Date'']"]
  by (simp add: insertionSort_def headers_Len_def headers_Less_def headers_Swap_def less_name_def endtoend_def
      numeral_eq_Suc less_char_def)

end
