(* ===== verification/Httpstat_Flags.thy ===== *)
theory Httpstat_Flags
  imports Httpstat_Headers Tcp_Info
begin

text \<open>
  \<open>cmd/httpstat/main.go\<close>: the flags, the usage text, and the command line as the package
  \<open>flag\<close> parses it. The theorem at the end says which command lines are accepted.
\<close>

text \<open>A call of \<open>log.Fatal\<close> ends the process: such functions return \<open>Inl\<close> of the message.\<close>

type_synonym 'a exits = "string + 'a"

section \<open>Variables\<close>

record cmd_flags =
  httpMethod :: string
  postBody :: string
  followRedirects :: bool
  onlyHeader :: bool
  insecure :: bool
  httpHeaders :: headers
  saveOutput :: bool
  outputFile :: string
  showVersion :: bool
  clientCertFile :: string
  fourOnly :: bool
  sixOnly :: bool

text \<open>The values \<open>init\<close> registers as defaults.\<close>

definition default_flags :: cmd_flags where
  "default_flags =
    \<lparr>httpMethod = ''GET'', postBody = [], followRedirects = False, onlyHeader = False,
     insecure = False, httpHeaders = [], saveOutput = False, outputFile = [],
     showVersion = False, clientCertFile = [], fourOnly = False, sixOnly = False\<rparr>"

section \<open>Registered flags\<close>

text \<open>
  A flag refers to its variable by the function that assigns it. A flag of a type of its own
  (\<open>flag.Var\<close>) has the printed form of its variable as default.
\<close>

datatype flag_value =
    BoolVar "bool \<Rightarrow> cmd_flags \<Rightarrow> cmd_flags" bool
  | StringVar "string \<Rightarrow> cmd_flags \<Rightarrow> cmd_flags" string
  | Var "string \<Rightarrow> cmd_flags \<Rightarrow> cmd_flags" string

record flag =
  flag_Value :: flag_value
  flag_Name :: string
  flag_Usage :: string

abbreviation (input) quot :: char where "quot \<equiv> CHR 0x27"

definition init_httpstat :: "flag list" where
  "init_httpstat =
    [\<lparr>flag_Value = StringVar (\<lambda>v. httpMethod_update (\<lambda>_. v)) ''GET'', flag_Name = ''X'',
      flag_Usage = ''HTTP method to use''\<rparr>,
     \<lparr>flag_Value = StringVar (\<lambda>v. postBody_update (\<lambda>_. v)) [], flag_Name = ''d'',
      flag_Usage = ''the body of a POST or PUT request; from file use @filename''\<rparr>,
     \<lparr>flag_Value = BoolVar (\<lambda>b. followRedirects_update (\<lambda>_. b)) False, flag_Name = ''L'',
      flag_Usage = ''follow 30x redirects''\<rparr>,
     \<lparr>flag_Value = BoolVar (\<lambda>b. onlyHeader_update (\<lambda>_. b)) False, flag_Name = ''I'',
      flag_Usage = ''don'' @ [quot] @ ''t read body of request''\<rparr>,
     \<lparr>flag_Value = BoolVar (\<lambda>b. insecure_update (\<lambda>_. b)) False, flag_Name = ''k'',
      flag_Usage = ''allow insecure SSL connections''\<rparr>,
     \<lparr>flag_Value = Var (\<lambda>v f. f\<lparr>httpHeaders := headers_Set (httpHeaders f) v\<rparr>) (headers_String []), flag_Name = ''H'',
      flag_Usage = ''set HTTP header; repeatable: -H '' @ [quot] @ ''Accept: ...'' @ [quot] @ '' -H '' @ [quot] @ ''Range: ...'' @ [quot]\<rparr>,
     \<lparr>flag_Value = BoolVar (\<lambda>b. saveOutput_update (\<lambda>_. b)) False, flag_Name = ''O'',
      flag_Usage = ''save body as remote filename''\<rparr>,
     \<lparr>flag_Value = StringVar (\<lambda>v. outputFile_update (\<lambda>_. v)) [], flag_Name = ''o'',
      flag_Usage = ''output file for body''\<rparr>,
     \<lparr>flag_Value = BoolVar (\<lambda>b. showVersion_update (\<lambda>_. b)) False, flag_Name = ''v'',
      flag_Usage = ''print version number''\<rparr>,
     \<lparr>flag_Value = StringVar (\<lambda>v. clientCertFile_update (\<lambda>_. v)) [], flag_Name = ''E'',
      flag_Usage = ''client cert file for tls config''\<rparr>,
     \<lparr>flag_Value = BoolVar (\<lambda>b. fourOnly_update (\<lambda>_. b)) False, flag_Name = ''4'',
      flag_Usage = ''resolve IPv4 addresses only''\<rparr>,
     \<lparr>flag_Value = BoolVar (\<lambda>b. sixOnly_update (\<lambda>_. b)) False, flag_Name = ''6'',
      flag_Usage = ''resolve IPv6 addresses only''\<rparr>]"

text \<open>Registering a flag assigns its default to the variable, except for \<open>flag.Var\<close>.\<close>

fun assign_default :: "flag_value \<Rightarrow> cmd_flags \<Rightarrow> cmd_flags" where
  "assign_default (BoolVar assign b) f = assign b f"
| "assign_default (StringVar assign v) f = assign v f"
| "assign_default (Var assign v) f = f"

lemma default_flags_registered:
  "fold (assign_default \<circ> flag_Value) init_httpstat (default_flags\<lparr>httpMethod := []\<rparr>) = default_flags"
  by (simp add: init_httpstat_def default_flags_def)

section \<open>The usage text\<close>

text \<open>
  \<open>flag.PrintDefaults\<close>. No usage text here has a quoted name or a line break, so the name of
  the argument is that of the flag's type.
\<close>

fun type_name :: "flag_value \<Rightarrow> string" where
  "type_name (BoolVar _ _) = []"
| "type_name (StringVar _ _) = ''string''"
| "type_name (Var _ _) = ''value''"

fun default_text :: "flag_value \<Rightarrow> string" where
  "default_text (BoolVar _ b) = (if b then '' (default true)'' else [])"
| "default_text (StringVar _ v) = (if v = [] then [] else '' (default '' @ Quote v @ '')'')"
| "default_text (Var _ v) = (if v = headers_String [] then [] else '' (default '' @ v @ '')'')"

definition flag_line :: "flag \<Rightarrow> string" where
  "flag_line fl =
    (let b = ''  -'' @ flag_Name fl @ (if type_name (flag_Value fl) = [] then [] else '' '' @ type_name (flag_Value fl))
     in b @ (if length b \<le> 4 then [CHR 0x09] else [newline] @ ''    '' @ [CHR 0x09]) @
        flag_Usage fl @ default_text (flag_Value fl) @ [newline])"

definition PrintDefaults :: string where
  "PrintDefaults = concat (map flag_line (sort_key flag_Name init_httpstat))"

definition usage :: "string \<Rightarrow> string" where
  "usage argv0 =
    ''Usage: '' @ argv0 @ '' [OPTIONS] URL'' @ [newline, newline] @
    ''OPTIONS:'' @ [newline] @ PrintDefaults @ [newline] @
    ''ENVIRONMENT:'' @ [newline] @
    ''  HTTP_PROXY    proxy for HTTP requests; complete URL or HOST[:PORT]'' @ [newline] @
    ''                used for HTTPS requests if HTTPS_PROXY undefined'' @ [newline] @
    ''  HTTPS_PROXY   proxy for HTTPS requests; complete URL or HOST[:PORT]'' @ [newline] @
    ''  NO_PROXY      comma-separated list of hosts to exclude from proxy'' @ [newline]"

section \<open>Parsing\<close>

definition ParseBool :: "string \<Rightarrow> bool option" where
  "ParseBool s =
    (if s \<in> {''1'', ''t'', ''T'', ''true'', ''TRUE'', ''True''} then Some True
     else if s \<in> {''0'', ''f'', ''F'', ''false'', ''FALSE'', ''False''} then Some False else None)"

fun flag_Set :: "flag_value \<Rightarrow> string \<Rightarrow> cmd_flags \<Rightarrow> error + cmd_flags" where
  "flag_Set (BoolVar assign _) v f =
     (case ParseBool v of None \<Rightarrow> Inl (PlainError ''parse error'') | Some b \<Rightarrow> Inr (assign b f))"
| "flag_Set (StringVar assign _) v f = Inr (assign v f)"
| "flag_Set (Var assign _) v f = Inr (assign v f)"

fun IsBoolFlag :: "flag_value \<Rightarrow> bool" where
  "IsBoolFlag (BoolVar _ _) = True"
| "IsBoolFlag _ = False"

definition flag_lookup :: "string \<Rightarrow> flag option" where
  "flag_lookup name = find (\<lambda>fl. flag_Name fl = name) init_httpstat"

text \<open>The outcome: the flags and the remaining arguments, or an exit code and the error output.\<close>

datatype parsed = Parsed cmd_flags "string list" | ParseExit int string

definition failf :: "string \<Rightarrow> string \<Rightarrow> parsed" where
  "failf argv0 msg = ParseExit 2 (msg @ [newline] @ usage argv0)"

fun Index_char :: "string \<Rightarrow> char \<Rightarrow> nat option" where
  "Index_char [] c = None"
| "Index_char (x # s) c = (if x = c then Some 0 else map_option Suc (Index_char s c))"

text \<open>The name and the value after an equals sign, which cannot be the first character.\<close>

definition cut_value :: "string \<Rightarrow> string \<times> string option" where
  "cut_value name =
    (case Index_char (drop 1 name) CHR ''='' of
       None \<Rightarrow> (name, None)
     | Some i \<Rightarrow> (take (i + 1) name, Some (drop (i + 2) name)))"

text \<open>
  The flag with this name is set to the value given with it or, unless it is a switch, to the
  next argument: the parser stops with an error, or goes on with the remaining arguments.
\<close>

definition set_flag ::
    "string \<Rightarrow> cmd_flags \<Rightarrow> string \<Rightarrow> string option \<Rightarrow> string list \<Rightarrow> parsed + cmd_flags \<times> string list" where
  "set_flag argv0 f name val args =
    (case flag_lookup name of
       None \<Rightarrow>
         if name = ''help'' \<or> name = ''h'' then Inl (ParseExit 0 (usage argv0))
         else Inl (failf argv0 (''flag provided but not defined: -'' @ name))
     | Some fl \<Rightarrow>
         if IsBoolFlag (flag_Value fl) then
           (case flag_Set (flag_Value fl) (case val of None \<Rightarrow> ''true'' | Some v \<Rightarrow> v) f of
              Inl err \<Rightarrow>
                Inl (failf argv0 (case val of
                    None \<Rightarrow> ''invalid boolean flag '' @ name @ '': '' @ Error err
                  | Some v \<Rightarrow> ''invalid boolean value '' @ Quote v @ '' for -'' @ name @ '': '' @ Error err))
            | Inr f \<Rightarrow> Inr (f, args))
         else
           (case (case val of Some v \<Rightarrow> Some (v, args) | None \<Rightarrow> (case args of [] \<Rightarrow> None | v # args \<Rightarrow> Some (v, args))) of
              None \<Rightarrow> Inl (failf argv0 (''flag needs an argument: -'' @ name))
            | Some (v, args) \<Rightarrow>
                (case flag_Set (flag_Value fl) v f of
                   Inl err \<Rightarrow> Inl (failf argv0 (''invalid value '' @ Quote v @ '' for flag -'' @ name @ '': '' @ Error err))
                 | Inr f \<Rightarrow> Inr (f, args))))"

text \<open>One step of the parser on a first argument \<open>s\<close>.\<close>

definition parseOne :: "string \<Rightarrow> cmd_flags \<Rightarrow> string \<Rightarrow> string list \<Rightarrow> parsed + cmd_flags \<times> string list" where
  "parseOne argv0 f s args =
    (if length s < 2 \<or> hd s \<noteq> CHR ''-'' then Inl (Parsed f (s # args))
     else if s = ''--'' then Inl (Parsed f args)
     else let name = (if s ! 1 = CHR ''-'' then drop 2 s else drop 1 s) in
       if name = [] \<or> hd name = CHR ''-'' \<or> hd name = CHR ''=''
       then Inl (failf argv0 (''bad flag syntax: '' @ s))
       else case cut_value name of (name, val) \<Rightarrow> set_flag argv0 f name val args)"

lemma set_flag_shorter: "set_flag argv0 f name val args = Inr (f', args') \<Longrightarrow> length args' \<le> length args"
  by (auto simp: set_flag_def split: if_splits option.splits sum.splits list.splits)

lemma parseOne_shorter: "parseOne argv0 f s args = Inr (f', args') \<Longrightarrow> length args' \<le> length args"
  by (auto simp: parseOne_def Let_def split: if_splits prod.splits dest: set_flag_shorter)

function flag_Parse :: "string \<Rightarrow> cmd_flags \<Rightarrow> string list \<Rightarrow> parsed" where
  "flag_Parse argv0 f [] = Parsed f []"
| "flag_Parse argv0 f (s # args) =
     (case parseOne argv0 f s args of
        Inl r \<Rightarrow> r
      | Inr (f, args) \<Rightarrow> flag_Parse argv0 f args)"
  by pat_completeness auto
termination
  by (relation "measure (\<lambda>(_, _, args). length args)") (auto dest: parseOne_shorter)


section \<open>Accepted command lines\<close>

text \<open>
  A setting as it is written: with one minus sign or two, the name of a flag, and no value, a
  value after an equals sign, or a value as the next argument.
\<close>

datatype form = Bare | Attached string | Separate string

datatype setting = Setting bool string form

fun written :: "setting \<Rightarrow> string list" where
  "written (Setting two name Bare) = [(if two then ''--'' else ''-'') @ name]"
| "written (Setting two name (Attached v)) = [(if two then ''--'' else ''-'') @ name @ ''='' @ v]"
| "written (Setting two name (Separate v)) = [(if two then ''--'' else ''-'') @ name, v]"

text \<open>What a setting does; switches take no separate value, and other flags need one.\<close>

fun applied :: "setting \<Rightarrow> cmd_flags \<Rightarrow> cmd_flags option" where
  "applied (Setting two name form) f =
     (case flag_lookup name of
        None \<Rightarrow> None
      | Some fl \<Rightarrow>
          (case form of
             Bare \<Rightarrow> if IsBoolFlag (flag_Value fl) then Some (projr (flag_Set (flag_Value fl) ''true'' f)) else None
           | Attached v \<Rightarrow> (case flag_Set (flag_Value fl) v f of Inl _ \<Rightarrow> None | Inr f \<Rightarrow> Some f)
           | Separate v \<Rightarrow> if IsBoolFlag (flag_Value fl) then None else Some (projr (flag_Set (flag_Value fl) v f))))"

fun applied_all :: "setting list \<Rightarrow> cmd_flags \<Rightarrow> cmd_flags option" where
  "applied_all [] f = Some f"
| "applied_all (s # ss) f = (case applied s f of None \<Rightarrow> None | Some f \<Rightarrow> applied_all ss f)"

definition not_a_flag :: "string \<Rightarrow> bool" where
  "not_a_flag s \<longleftrightarrow> length s < 2 \<or> hd s \<noteq> CHR ''-''"

lemma flag_lookup_name:
  assumes "flag_lookup name = Some fl"
  obtains c where "name = [c]" "c \<noteq> CHR ''-''" "c \<noteq> CHR ''=''"
proof -
  have "name \<in> set (map flag_Name init_httpstat)"
    using assms by (auto simp: flag_lookup_def find_Some_iff intro: nth_mem)
  then have "name \<in> {''X'', ''d'', ''L'', ''I'', ''k'', ''H'', ''O'', ''o'', ''v'', ''E'', ''4'', ''6''}"
    by (simp add: init_httpstat_def)
  then show ?thesis by (auto intro: that)
qed

lemma flag_Set_true: "IsBoolFlag v \<Longrightarrow> \<exists>f'. flag_Set v ''true'' f = Inr f'"
  by (cases v) (simp_all add: ParseBool_def)

lemma flag_Set_other: "\<not> IsBoolFlag v \<Longrightarrow> \<exists>f'. flag_Set v x f = Inr f'"
  by (cases v) simp_all

lemma cut_value_simps [simp]:
  "cut_value [c] = ([c], None)" "cut_value (c # CHR ''='' # v) = ([c], Some v)"
  by (simp_all add: cut_value_def)

lemma cut_value_cases:
  assumes "cut_value name = (n, val)" "name \<noteq> []"
  shows "name = n @ (case val of None \<Rightarrow> [] | Some v \<Rightarrow> CHR ''='' # v)"
proof -
  have "Index_char s c = Some i \<Longrightarrow> s = take i s @ c # drop (Suc i) s" for s c i
    by (induction s arbitrary: i) (auto split: if_splits)
  with assms show ?thesis by (cases name) (auto simp: cut_value_def split: option.splits)
qed

text \<open>The parser takes a written setting and goes on after it.\<close>

lemma set_flag_applied:
  assumes "flag_lookup name = Some fl"
  shows "set_flag argv0 f name (Some v) args = Inr (f', args') \<longleftrightarrow>
      applied (Setting two name (Attached v)) f = Some f' \<and> args' = args"
    and "set_flag argv0 f name None args = Inr (f', args') \<longleftrightarrow>
      applied (Setting two name Bare) f = Some f' \<and> args' = args \<or>
      (\<exists>v. applied (Setting two name (Separate v)) f = Some f' \<and> args = v # args')"
proof -
  show "set_flag argv0 f name (Some v) args = Inr (f', args') \<longleftrightarrow>
      applied (Setting two name (Attached v)) f = Some f' \<and> args' = args"
    using assms by (auto simp: set_flag_def split: sum.split)
  show "set_flag argv0 f name None args = Inr (f', args') \<longleftrightarrow>
      applied (Setting two name Bare) f = Some f' \<and> args' = args \<or>
      (\<exists>v. applied (Setting two name (Separate v)) f = Some f' \<and> args = v # args')"
  proof (cases "IsBoolFlag (flag_Value fl)")
    case True
    with assms flag_Set_true [OF True, of f] show ?thesis by (auto simp: set_flag_def)
  next
    case False
    show ?thesis
    proof (cases args)
      case (Cons v as)
      with assms False flag_Set_other [OF False, of v f] show ?thesis by (auto simp: set_flag_def)
    qed (use assms False in \<open>simp add: set_flag_def\<close>)
  qed
qed

lemma parseOne_name:
  assumes "c \<noteq> CHR ''-''" "c \<noteq> CHR ''=''" "val = None \<and> r = [] \<or> (\<exists>v. val = Some v \<and> r = CHR ''='' # v)"
  shows "parseOne argv0 f ((if two then ''--'' else ''-'') @ c # r) args = set_flag argv0 f [c] val args"
  using assms by (auto simp: parseOne_def Let_def)

lemma parseOne_written:
  assumes "applied st f = Some f'"
  shows "\<exists>s as. written st @ args = s # as \<and> parseOne argv0 f s as = Inr (f', args)"
proof (cases st)
  case (Setting two name form)
  then obtain fl where fl: "flag_lookup name = Some fl" using assms by (cases "flag_lookup name") simp_all
  obtain c where c: "name = [c]" "c \<noteq> CHR ''-''" "c \<noteq> CHR ''=''" using fl by (rule flag_lookup_name)
  note one = parseOne_name [OF c(2,3), of _ _ argv0 f two] and set = set_flag_applied [OF fl, where two = two]
  show ?thesis
  proof (cases form)
    case Bare
    with Setting assms one [of None "[]" args] set(2) [of argv0 f args f' args] c(1) show ?thesis by auto
  next
    case (Attached v)
    with Setting assms one [of "Some v" "CHR ''='' # v" args] set(1) [of argv0 f v args f' args] c(1)
    show ?thesis by auto
  next
    case (Separate v)
    with Setting assms one [of None "[]" "v # args"] set(2) [of argv0 f "v # args" f' args] c(1) show ?thesis by auto
  qed
qed

text \<open>Where the parser goes on, it took a written setting.\<close>

lemma parseOne_Inr:
  assumes "parseOne argv0 f s args = Inr (f', args')"
  shows "\<exists>st. s # args = written st @ args' \<and> applied st f = Some f'"
proof -
  let ?two = "s ! 1 = CHR ''-''"
  let ?name = "if ?two then drop 2 s else drop 1 s"
  obtain n val where cut: "cut_value ?name = (n, val)" by (cases "cut_value ?name")
  have s: "\<not> (length s < 2 \<or> hd s \<noteq> CHR ''-'')" "s \<noteq> ''--''" "?name \<noteq> []"
    using assms by (auto simp: parseOne_def Let_def split: if_splits)
  have run: "set_flag argv0 f n val args = Inr (f', args')"
    using assms cut by (simp add: parseOne_def Let_def split: if_splits)
  obtain x r where "s = CHR ''-'' # x # r" using s(1) by (cases s rule: remdups_adj.cases) auto
  then have split: "s = (if ?two then ''--'' else ''-'') @ ?name" by auto
  have name: "?name = n @ (case val of None \<Rightarrow> [] | Some v \<Rightarrow> CHR ''='' # v)"
    using cut_value_cases [OF cut s(3)] .
  obtain fl where fl: "flag_lookup n = Some fl"
    using run by (auto simp: set_flag_def split: if_splits option.splits)
  note set = set_flag_applied [OF fl, where two = ?two]
  show ?thesis
  proof (cases val)
    case (Some v)
    with run set(1) have "applied (Setting ?two n (Attached v)) f = Some f'" "args' = args" by simp_all
    moreover have "s # args = written (Setting ?two n (Attached v)) @ args" using Some name split by simp
    ultimately show ?thesis by blast
  next
    case None
    with run set(2) consider "applied (Setting ?two n Bare) f = Some f'" "args' = args"
      | v where "applied (Setting ?two n (Separate v)) f = Some f'" "args = v # args'" by blast
    moreover have "written (Setting ?two n Bare) = [s]" "written (Setting ?two n (Separate v)) = [s, v]" for v
      using None name split by simp_all
    ultimately show ?thesis by (metis append_Cons append_Nil)
  qed
qed

lemma parseOne_end:
  "not_a_flag s \<Longrightarrow> parseOne argv0 f s args = Inl (Parsed f (s # args))"
  "parseOne argv0 f ''--'' args = Inl (Parsed f args)"
  by (simp_all add: parseOne_def not_a_flag_def)

lemma failf_not_Parsed [simp]: "failf argv0 msg \<noteq> Parsed f rest"
  by (simp add: failf_def)

lemma set_flag_not_Parsed: "set_flag argv0 f name val args \<noteq> Inl (Parsed f' rest)"
  by (cases "flag_lookup name"; cases val; cases args; simp add: set_flag_def split: sum.split)

lemma parseOne_goes_on:
  assumes "\<not> not_a_flag s" "s \<noteq> ''--''"
  shows "parseOne argv0 f s args \<noteq> Inl (Parsed f' rest)"
proof -
  have "parseOne argv0 f s args \<noteq> Inl (Parsed f' rest)" if "cut_value name = (n, val)"
    "name = (if s ! 1 = CHR ''-'' then drop 2 s else drop 1 s)" for name n val
    using assms that set_flag_not_Parsed [of argv0 f n val args]
    by (simp add: parseOne_def not_a_flag_def Let_def flip: that(2))
  then show ?thesis by (metis surj_pair)
qed

lemma parseOne_stops:
  "parseOne argv0 f s args = Inl (Parsed f' rest) \<longleftrightarrow>
     f' = f \<and> (not_a_flag s \<and> rest = s # args \<or> s = ''--'' \<and> rest = args)"
proof (cases "not_a_flag s \<or> s = ''--''")
  case True
  have "\<not> not_a_flag ''--''" by (simp add: not_a_flag_def)
  with True show ?thesis by (auto simp: parseOne_end)
qed (use parseOne_goes_on in blast)

definition ends_flags :: "string list \<Rightarrow> string list \<Rightarrow> bool" where
  "ends_flags args rest \<longleftrightarrow>
     args = ''--'' # rest \<or> args = rest \<and> (case rest of [] \<Rightarrow> True | s # _ \<Rightarrow> not_a_flag s)"

lemma flag_Parse_end: "ends_flags args rest \<Longrightarrow> flag_Parse argv0 f args = Parsed f rest"
  by (auto simp: ends_flags_def parseOne_end split: list.splits)

lemma flag_Parse_written:
  "applied_all ss f = Some f' \<Longrightarrow> ends_flags tail rest \<Longrightarrow>
     flag_Parse argv0 f (concat (map written ss) @ tail) = Parsed f' rest"
proof (induction ss arbitrary: f)
  case (Cons st ss)
  then obtain f1 where f1: "applied st f = Some f1" "applied_all ss f1 = Some f'"
    by (auto split: option.splits)
  from parseOne_written [OF f1(1), of "concat (map written ss) @ tail" argv0] Cons.IH [OF f1(2) Cons.prems(2)]
  show ?case by auto
qed (simp add: flag_Parse_end)

lemma flag_Parse_only_written:
  "flag_Parse argv0 f args = Parsed f' rest \<Longrightarrow>
     \<exists>ss tail. args = concat (map written ss) @ tail \<and> ends_flags tail rest \<and> applied_all ss f = Some f'"
proof (induction argv0 f args rule: flag_Parse.induct)
  case (1 argv0 f)
  then have "[] = concat (map written []) @ [] \<and> ends_flags [] rest \<and> applied_all [] f = Some f'"
    by (simp add: ends_flags_def)
  then show ?case by blast
next
  case (2 argv0 f s args)
  show ?case
  proof (cases "parseOne argv0 f s args")
    case (Inl r)
    with 2(2) have "f' = f \<and> ends_flags (s # args) rest"
      by (auto simp: parseOne_stops ends_flags_def)
    then have "s # args = concat (map written []) @ (s # args) \<and> ends_flags (s # args) rest \<and> applied_all [] f = Some f'"
      by simp
    then show ?thesis by blast
  next
    case (Inr p)
    obtain f1 args1 where p: "parseOne argv0 f s args = Inr (f1, args1)" using Inr by (cases p) simp
    have "flag_Parse argv0 f1 args1 = Parsed f' rest" using 2(2) p by simp
    from 2(1) [OF p refl this] obtain ss tail where
      ss: "args1 = concat (map written ss) @ tail" "ends_flags tail rest" "applied_all ss f1 = Some f'" by blast
    obtain st where st: "s # args = written st @ args1" "applied st f = Some f1" using parseOne_Inr [OF p] by blast
    have "s # args = concat (map written (st # ss)) @ tail \<and> ends_flags tail rest \<and> applied_all (st # ss) f = Some f'"
      using ss st by simp
    then show ?thesis by blast
  qed
qed

text \<open>Otherwise the program exits with 0 for help and with 2 for an error.\<close>

lemma set_flag_exit: "set_flag argv0 f name val args = Inl (ParseExit code msg) \<Longrightarrow> code = 0 \<or> code = 2"
  by (cases "flag_lookup name"; cases val; cases args; simp add: set_flag_def failf_def split: sum.splits if_splits)

lemma parseOne_exit: "parseOne argv0 f s args = Inl (ParseExit code msg) \<Longrightarrow> code = 0 \<or> code = 2"
  unfolding parseOne_def Let_def by (auto simp: failf_def split: if_splits prod.splits dest: set_flag_exit)

lemma flag_Parse_exit: "flag_Parse argv0 f args = ParseExit code msg \<Longrightarrow> code = 0 \<or> code = 2"
  by (induction argv0 f args rule: flag_Parse.induct) (auto split: sum.splits dest: parseOne_exit)


end
