(* ===== verification/Httpstat_Request.thy ===== *)
theory Httpstat_Request
  imports Httpstat_Flags
begin

text \<open>
  \<open>cmd/httpstat/main.go\<close>, up to the request: what \<open>main\<close> decides from the command
  line, the URL, the request headers and body, and the client certificate.
  \<open>net/url\<close>, \<open>net/http\<close>, \<open>encoding/pem\<close>, \<open>crypto/tls\<close> and the files are
  parameters.
\<close>

section \<open>URLs\<close>

text \<open>What the code reads of a \<open>url.URL\<close>; the rest is kept as text.\<close>

record url =
  Scheme :: string
  Host :: string
  url_rest :: string

definition parseURL :: "(string \<Rightarrow> error + url) \<Rightarrow> string \<Rightarrow> url exits" where
  "parseURL Parse uri =
    (let uri = (if \<not> Contains uri ''://'' \<and> \<not> HasPrefix uri ''//'' then ''//'' @ uri else uri)
     in case Parse uri of
          Inl err \<Rightarrow> Inl (''could not parse url '' @ Quote uri @ '': '' @ Error err)
        | Inr u \<Rightarrow>
            Inr (if Scheme u = [] then
                   (let u = u\<lparr>Scheme := ''http''\<rparr>
                    in if \<not> HasSuffix (Host u) '':80'' then u\<lparr>Scheme := Scheme u @ ''s''\<rparr> else u)
                 else u))"

section \<open>main\<close>

text \<open>
  The program exits with a code and a text, or visits a URL with these flags. The version and the
  version of the runtime are arguments, and so are the two parts of the command line.
\<close>

datatype main_action =
    Exit int string
  | Visit cmd_flags url

definition main ::
    "string \<Rightarrow> string \<Rightarrow> (string \<Rightarrow> error + url) \<Rightarrow> string \<Rightarrow> string list \<Rightarrow> main_action exits" where
  "main version runtimeVersion Parse argv0 argv =
    (case flag_Parse argv0 default_flags argv of
       ParseExit code msg \<Rightarrow> Inr (Exit code msg)
     | Parsed f args \<Rightarrow>
         if showVersion f then
           Inr (Exit 0 (argv0 @ '' '' @ version @ '' (runtime: '' @ runtimeVersion @ '')'' @ [newline]))
         else if fourOnly f \<and> sixOnly f then
           Inr (Exit (-1) (argv0 @ '': Only one of -4 and -6 may be specified'' @ [newline]))
         else if length args \<noteq> 1 then Inr (Exit 2 (usage argv0))
         else if (httpMethod f = ''POST'' \<or> httpMethod f = ''PUT'') \<and> postBody f = [] then
           Inl ''must supply post body using -d when POST or PUT is used''
         else
           (let f = (if onlyHeader f then f\<lparr>httpMethod := ''HEAD''\<rparr> else f)
            in case parseURL Parse (args ! 0) of
                 Inl msg \<Rightarrow> Inl msg
               | Inr u \<Rightarrow> Inr (Visit f u)))"

section \<open>Request headers\<close>

definition headerKeyValue :: "string \<Rightarrow> (string \<times> string) exits" where
  "headerKeyValue h =
    (case Index_char h CHR '':'' of
       None \<Rightarrow> Inl (''Header '' @ [CHR 0x27] @ h @ [CHR 0x27] @ '' has invalid format, missing '' @ [CHR 0x27] @ '':'' @ [CHR 0x27])
     | Some i \<Rightarrow> Inr (TrimRight (take i h) '' '', TrimLeft (drop i h) '' :''))"

text \<open>
  \<open>strings.EqualFold(k, "host")\<close>. Besides the two cases of the ASCII letters, simple
  folding identifies the long s, U+017F, whose encoding is the bytes C5 BF, with the letter s.
\<close>

fun fold_bytes :: "string \<Rightarrow> string" where
  "fold_bytes (x # y # s) =
     (if x = CHR 0xC5 \<and> y = CHR 0xBF then CHR ''s'' # fold_bytes s
      else (if CHR ''A'' \<le> x \<and> x \<le> CHR ''Z'' then char_of (of_char x + 32 :: nat) else x) # fold_bytes (y # s))"
| "fold_bytes [x] = [if CHR ''A'' \<le> x \<and> x \<le> CHR ''Z'' then char_of (of_char x + 32 :: nat) else x]"
| "fold_bytes [] = []"

definition EqualFold_host :: "string \<Rightarrow> bool" where
  "EqualFold_host k \<longleftrightarrow> fold_bytes k = ''host''"

text \<open>
  What the code sets in an \<open>http.Request\<close>. A header maps canonical names to their values
  in the order they were added; the canonical form of a name is a parameter.
\<close>

record request =
  req_Method :: string
  req_Host :: string
  req_Header :: "string \<Rightarrow> string list"

fun header_loop :: "(string \<Rightarrow> string) \<Rightarrow> headers \<Rightarrow> request \<Rightarrow> request exits" where
  "header_loop canonical [] req = Inr req"
| "header_loop canonical (h # hs) req =
     (case headerKeyValue h of
        Inl msg \<Rightarrow> Inl msg
      | Inr (k, v) \<Rightarrow>
          if EqualFold_host k then header_loop canonical hs (req\<lparr>req_Host := v\<rparr>)
          else header_loop canonical hs
                 (req\<lparr>req_Header := (req_Header req)(canonical k := req_Header req (canonical k) @ [v])\<rparr>))"

datatype body = FileBody string | TextBody string

text \<open>\<open>Open\<close> gives the error of opening a file, if any.\<close>

definition createBody :: "(string \<Rightarrow> error option) \<Rightarrow> string \<Rightarrow> body exits" where
  "createBody Open body =
    (if HasPrefix body ''@'' then
       (let filename = drop 1 body
        in case Open filename of
             Some err \<Rightarrow> Inl (''failed to open data file '' @ filename @ '': '' @ Error err)
           | None \<Rightarrow> Inr (FileBody filename))
     else Inr (TextBody body))"

definition newRequest ::
    "(string \<Rightarrow> error option) \<Rightarrow> (string \<Rightarrow> url \<Rightarrow> body \<Rightarrow> error + request) \<Rightarrow> (string \<Rightarrow> string) \<Rightarrow>
     headers \<Rightarrow> string \<Rightarrow> url \<Rightarrow> string \<Rightarrow> request exits" where
  "newRequest Open NewRequest canonical hdrs method u body =
    (case createBody Open body of
       Inl msg \<Rightarrow> Inl msg
     | Inr b \<Rightarrow>
         (case NewRequest method u b of
            Inl err \<Rightarrow> Inl (''unable to create request: '' @ Error err)
          | Inr req \<Rightarrow> header_loop canonical hdrs req))"

section \<open>The client certificate\<close>

record pem_block =
  pem_Type :: string
  pem_Bytes :: string

text \<open>
  The loop over the PEM blocks of the file. It ends when \<open>pem.Decode\<close> finds no further
  block; nothing else bounds it, so it is a partial function.
\<close>

partial_function (option) pem_loop ::
    "(string \<Rightarrow> (pem_block \<times> string) option) \<Rightarrow> (pem_block \<Rightarrow> string) \<Rightarrow> string \<Rightarrow> string \<times> string \<Rightarrow>
     (string \<times> string) option" where
  "pem_loop Decode EncodeToMemory bytes acc =
    (case Decode bytes of
       None \<Rightarrow> Some acc
     | Some (block, rest) \<Rightarrow>
         pem_loop Decode EncodeToMemory rest
           (if HasSuffix (pem_Type block) ''CERTIFICATE'' then EncodeToMemory block else fst acc,
            if HasSuffix (pem_Type block) ''PRIVATE KEY'' then EncodeToMemory block else snd acc))"

text \<open>The result is \<open>None\<close> when the loop does not end; no file name means no certificate.\<close>

definition readClientCert ::
    "(string \<Rightarrow> error + string) \<Rightarrow> (string \<Rightarrow> (pem_block \<times> string) option) \<Rightarrow> (pem_block \<Rightarrow> string) \<Rightarrow>
     (string \<Rightarrow> string \<Rightarrow> error + 'cert) \<Rightarrow> string \<Rightarrow> 'cert list exits option" where
  "readClientCert ReadFile Decode EncodeToMemory X509KeyPair filename =
    (if filename = [] then Some (Inr [])
     else case ReadFile filename of
       Inl err \<Rightarrow> Some (Inl (''failed to read client certificate file: '' @ Error err))
     | Inr bytes \<Rightarrow>
         (case pem_loop Decode EncodeToMemory bytes ([], []) of
            None \<Rightarrow> None
          | Some (certPem, pkeyPem) \<Rightarrow>
              (case X509KeyPair certPem pkeyPem of
                 Inl err \<Rightarrow> Some (Inl (''unable to load client cert and key pair: '' @ Error err))
               | Inr cert \<Rightarrow> Some (Inr [cert]))))"

section \<open>Properties\<close>

lemma Index_char_append: "c \<notin> set k \<Longrightarrow> Index_char (k @ c # s) c = Some (length k)"
  by (induction k) auto

lemma dropWhile_blanks: "P x \<Longrightarrow> dropWhile P (replicate m x @ ys) = dropWhile P ys"
  by (induction m) simp_all

text \<open>
  A header flag of the form \<open>name: value\<close> is split back into name and value, with any
  number of blanks around the colon: for names without a colon that do not end in a blank and
  values that start with neither.
\<close>

lemma headerKeyValue_roundtrip:
  assumes "CHR '':'' \<notin> set k" "k = [] \<or> last k \<noteq> CHR '' ''"
    and "v = [] \<or> hd v \<notin> {CHR '' '', CHR '':''}"
  shows "headerKeyValue (k @ replicate m (CHR '' '') @ '':'' @ replicate n (CHR '' '') @ v) = Inr (k, v)"
proof -
  let ?pre = "k @ replicate m (CHR '' '')"
  have "CHR '':'' \<notin> set ?pre" using assms(1) by auto
  from Index_char_append [OF this, of "replicate n (CHR '' '') @ v"]
  have i: "Index_char (k @ replicate m (CHR '' '') @ '':'' @ replicate n (CHR '' '') @ v) CHR '':'' = Some (length ?pre)"
    by simp
  have "TrimRight ?pre '' '' = k"
    using assms(2) by (cases k rule: rev_cases) (simp_all add: TrimRight_def dropWhile_blanks dropWhile_blanks [where ys = "[]", simplified])
  moreover have "TrimLeft ('':'' @ replicate n (CHR '' '') @ v) '' :'' = v"
    using assms(3) by (cases v) (auto simp: TrimLeft_def dropWhile_blanks dropWhile_blanks [where ys = "[]", simplified])
  ultimately show ?thesis using i by (simp add: headerKeyValue_def)
qed

text \<open>
  C28. \<open>main\<close> only starts a request for a command line the flag package accepts, with exactly
  one URL, never with both address families excluded, never with an empty body for \<open>POST\<close> or
  \<open>PUT\<close>, with the method \<open>HEAD\<close> when only headers are wanted, and with a URL that has a
  scheme: the given one, or by default \<open>http\<close> on port 80 and \<open>https\<close> on any other.
\<close>

theorem main_visits:
  assumes "main version rt Parse argv0 argv = Inr (Visit f u)"
  shows "\<exists>f0 arg uri u0. flag_Parse argv0 default_flags argv = Parsed f0 [arg] \<and>
    \<not> showVersion f0 \<and> \<not> (fourOnly f0 \<and> sixOnly f0) \<and>
    (httpMethod f0 \<in> {''POST'', ''PUT''} \<longrightarrow> postBody f0 \<noteq> []) \<and>
    f = (if onlyHeader f0 then f0\<lparr>httpMethod := ''HEAD''\<rparr> else f0) \<and>
    uri \<in> {arg, ''//'' @ arg} \<and> Parse uri = Inr u0 \<and> u = u0\<lparr>Scheme := Scheme u\<rparr> \<and>
      Scheme u = (if Scheme u0 \<noteq> [] then Scheme u0
        else if HasSuffix (Host u0) '':80'' then ''http'' else ''https'')"
proof -
  obtain f0 args where p: "flag_Parse argv0 default_flags argv = Parsed f0 args"
    using assms by (auto simp: main_def split: parsed.splits)
  have conds: "length args = 1" "\<not> showVersion f0" "\<not> (fourOnly f0 \<and> sixOnly f0)"
    "\<not> ((httpMethod f0 = ''POST'' \<or> httpMethod f0 = ''PUT'') \<and> postBody f0 = [])"
    "parseURL Parse (args ! 0) = Inr u" "f = (if onlyHeader f0 then f0\<lparr>httpMethod := ''HEAD''\<rparr> else f0)"
    using assms p by (auto simp: main_def Let_def split: if_splits sum.splits)
  then obtain arg where arg: "args = [arg]" by (auto simp: length_Suc_conv)
  define uri where "uri = (if \<not> Contains arg ''://'' \<and> \<not> HasPrefix arg ''//'' then ''//'' @ arg else arg)"
  obtain u0 where u0: "Parse uri = Inr u0"
    using conds(5) arg by (cases "Parse uri") (simp_all add: parseURL_def Let_def flip: uri_def)
  have u: "uri \<in> {arg, ''//'' @ arg}"
    "u = (if Scheme u0 = [] then u0\<lparr>Scheme := if HasSuffix (Host u0) '':80'' then ''http'' else ''https''\<rparr> else u0)"
    using conds(5) arg u0 by (simp_all add: parseURL_def Let_def uri_def split: if_splits)
  have "u = u0\<lparr>Scheme := Scheme u\<rparr> \<and> Scheme u = (if Scheme u0 \<noteq> [] then Scheme u0
      else if HasSuffix (Host u0) '':80'' then ''http'' else ''https'')" using u(2) by simp
  with p arg conds(2-4,6) u(1) u0 show ?thesis by blast
qed

theorem main_visits_witness:
  "\<exists>f u. main ''devel'' ''go1.25''
      (\<lambda>s. Inr \<lparr>Scheme = [], Host = ''localhost:80'', url_rest = ''/test''\<rparr>) ''httpstat''
      [''-I'', ''localhost:80/test''] = Inr (Visit f u) \<and> httpMethod f = ''HEAD'' \<and> Scheme u = ''http''"
proof -
  let ?P = "\<lambda>s. Inr \<lparr>Scheme = [], Host = ''localhost:80'', url_rest = ''/test''\<rparr>"
  let ?main = "main ''devel'' ''go1.25'' ?P ''httpstat'' [''-I'', ''localhost:80/test'']"
  have args: "flag_Parse ''httpstat'' default_flags [''-I'', ''localhost:80/test''] =
      Parsed (default_flags\<lparr>onlyHeader := True\<rparr>) [''localhost:80/test'']"
    by (simp add: parseOne_def set_flag_def cut_value_def flag_lookup_def init_httpstat_def ParseBool_def)
  then have "\<exists>f u. ?main = Inr (Visit f u)"
    by (simp add: main_def default_flags_def parseURL_def Let_def)
  then obtain f u where u: "?main = Inr (Visit f u)" by blast
  from main_visits [OF u] args have "httpMethod f = ''HEAD''" "Scheme u = ''http''" by (auto simp: HasSuffix_def)
  with u show ?thesis by blast
qed

lemma main_exit:
  "main version rt Parse argv0 argv = Inr (Exit code msg) \<Longrightarrow> code = 0 \<or> code = 2 \<or> code = -1"
  by (auto simp: main_def Let_def split: parsed.splits if_splits sum.splits dest: flag_Parse_exit)

text \<open>The headers given on the command line, split, and what they add to a request.\<close>

definition values_for :: "(string \<Rightarrow> string) \<Rightarrow> string \<Rightarrow> (string \<times> string) list \<Rightarrow> string list" where
  "values_for canonical c kvs =
     map snd (filter (\<lambda>(k, v). \<not> EqualFold_host k \<and> canonical k = c) kvs)"

definition host_values :: "(string \<times> string) list \<Rightarrow> string list" where
  "host_values kvs = map snd (filter (\<lambda>(k, v). EqualFold_host k) kvs)"

text \<open>
  C29. The headers of a request are exactly the given ones: every name carries its values in
  the order of the flags, except that \<open>Host\<close>, in any capitalization, sets the host of
  the request, the last one winning.
\<close>

theorem header_loop_result:
  assumes "map headerKeyValue hs = map Inr kvs"
  shows "\<exists>r. header_loop canonical hs req = Inr r \<and>
    (\<forall>c. req_Header r c = req_Header req c @ values_for canonical c kvs) \<and>
    req_Host r = last (req_Host req # host_values kvs) \<and> req_Method r = req_Method req"
  using assms
proof (induction hs arbitrary: kvs req)
  case (Cons h hs)
  then obtain k v kvs' where kvs: "kvs = (k, v) # kvs'" "headerKeyValue h = Inr (k, v)"
    "map headerKeyValue hs = map Inr kvs'"
    by (cases kvs) auto
  define req' where "req' = (if EqualFold_host k then req\<lparr>req_Host := v\<rparr>
    else req\<lparr>req_Header := (req_Header req)(canonical k := req_Header req (canonical k) @ [v])\<rparr>)"
  from Cons.IH [OF kvs(3), of req'] obtain r where r: "header_loop canonical hs req' = Inr r"
    "\<forall>c. req_Header r c = req_Header req' c @ values_for canonical c kvs'"
    "req_Host r = last (req_Host req' # host_values kvs')" "req_Method r = req_Method req'" by blast
  have "header_loop canonical (h # hs) req = Inr r"
    using r(1) kvs(2) by (simp add: req'_def split: if_splits)
  with r(2-) kvs(1) show ?case
    by (auto simp: req'_def values_for_def host_values_def)
qed (simp add: values_for_def host_values_def)

theorem header_loop_result_witness:
  "\<exists>r. header_loop (\<lambda>k. k) [''Accept: a'', ''HOST: example.org'', ''Accept: b'']
      \<lparr>req_Method = ''GET'', req_Host = ''golang.org'', req_Header = (\<lambda>_. [])\<rparr> = Inr r \<and>
    req_Header r ''Accept'' = [''a'', ''b''] \<and> req_Host r = ''example.org''"
  using header_loop_result [of "[''Accept: a'', ''HOST: example.org'', ''Accept: b'']"
      "[(''Accept'', ''a''), (''HOST'', ''example.org''), (''Accept'', ''b'')]" "\<lambda>k. k"
      "\<lparr>req_Method = ''GET'', req_Host = ''golang.org'', req_Header = (\<lambda>_. [])\<rparr>"]
  by (auto simp: headerKeyValue_def TrimRight_def TrimLeft_def values_for_def host_values_def EqualFold_host_def
      less_eq_char_def char_of_def bit_0)

section \<open>The PEM loop\<close>

inductive pem_blocks :: "(string \<Rightarrow> (pem_block \<times> string) option) \<Rightarrow> string \<Rightarrow> pem_block list \<Rightarrow> bool" for Decode where
  pem_end: "Decode s = None \<Longrightarrow> pem_blocks Decode s []"
| pem_block: "Decode s = Some (b, r) \<Longrightarrow> pem_blocks Decode r bs \<Longrightarrow> pem_blocks Decode s (b # bs)"

lemma pem_blocks_exist:
  assumes "\<And>s b r. Decode s = Some (b, r) \<Longrightarrow> length r < length s"
  shows "\<exists>bs. pem_blocks Decode s bs"
proof (induction s rule: measure_induct_rule [of length])
  case (less s)
  show ?case
  proof (cases "Decode s")
    case None
    then show ?thesis using pem_end by blast
  next
    case (Some br)
    then obtain b r where "Decode s = Some (b, r)" by (cases br) auto
    with less [of r] assms show ?thesis using pem_block by blast
  qed
qed

lemma pem_loop_blocks:
  "pem_blocks Decode s bs \<Longrightarrow>
     pem_loop Decode Enc s (c, k) = Some
       (last (c # map Enc (filter (\<lambda>b. HasSuffix (pem_Type b) ''CERTIFICATE'') bs)),
        last (k # map Enc (filter (\<lambda>b. HasSuffix (pem_Type b) ''PRIVATE KEY'') bs)))"
proof (induction arbitrary: c k rule: pem_blocks.induct)
  case (pem_end s)
  then show ?case by (subst pem_loop.simps) simp
next
  case (pem_block s b r bs)
  then show ?case by (subst pem_loop.simps) simp
qed

text \<open>
  C31. Reading the client certificate always ends, if decoding a block consumes some of the
  input, and the pair that is loaded is made of the last certificate and the last private
  key of the file: of a certificate chain only its last member is used.
\<close>

theorem readClientCert_returns:
  assumes "\<And>s b r. Decode s = Some (b, r) \<Longrightarrow> length r < length s" "filename \<noteq> []" "ReadFile filename = Inr bytes"
  shows "\<exists>bs. pem_blocks Decode bytes bs \<and>
    readClientCert ReadFile Decode Enc X509KeyPair filename =
      Some (case X509KeyPair
          (last ([] # map Enc (filter (\<lambda>b. HasSuffix (pem_Type b) ''CERTIFICATE'') bs)))
          (last ([] # map Enc (filter (\<lambda>b. HasSuffix (pem_Type b) ''PRIVATE KEY'') bs))) of
        Inl err \<Rightarrow> Inl (''unable to load client cert and key pair: '' @ Error err)
      | Inr cert \<Rightarrow> Inr [cert])"
proof -
  obtain bs where bs: "pem_blocks Decode bytes bs" using pem_blocks_exist [of Decode bytes] assms(1) by blast
  from pem_loop_blocks [OF bs, of Enc "[]" "[]"] assms(2,3)
  have "readClientCert ReadFile Decode Enc X509KeyPair filename =
      Some (case X509KeyPair
          (last ([] # map Enc (filter (\<lambda>b. HasSuffix (pem_Type b) ''CERTIFICATE'') bs)))
          (last ([] # map Enc (filter (\<lambda>b. HasSuffix (pem_Type b) ''PRIVATE KEY'') bs))) of
        Inl err \<Rightarrow> Inl (''unable to load client cert and key pair: '' @ Error err)
      | Inr cert \<Rightarrow> Inr [cert])"
    by (simp add: readClientCert_def split: sum.split)
  with bs show ?thesis by blast
qed

theorem readClientCert_returns_witness:
  "readClientCert (\<lambda>f. Inr ''CDK'')
     (\<lambda>s. case s of [] \<Rightarrow> None
        | c # r \<Rightarrow> Some (\<lparr>pem_Type = if c = CHR ''K'' then ''EC PRIVATE KEY'' else ''CERTIFICATE'', pem_Bytes = [c]\<rparr>, r))
     pem_Bytes (\<lambda>c k. Inr (c, k)) ''client.pem'' = Some (Inr [(''D'', ''K'')])"
proof -
  let ?D = "\<lambda>s. case s of [] \<Rightarrow> None
    | c # r \<Rightarrow> Some (\<lparr>pem_Type = if c = CHR ''K'' then ''EC PRIVATE KEY'' else ''CERTIFICATE'', pem_Bytes = [c]\<rparr>, r)"
  have "\<And>s b r. ?D s = Some (b, r) \<Longrightarrow> length r < length s" by (auto split: list.splits)
  from readClientCert_returns [of ?D "''client.pem''" "\<lambda>f. Inr ''CDK''" "''CDK''" pem_Bytes "\<lambda>c k. Inr (c, k)", OF this]
  show ?thesis
    by (auto simp: pem_blocks.simps [of _ "''CDK''"] pem_blocks.simps [of _ "''DK''"] pem_blocks.simps [of _ "''K''"]
        pem_blocks.simps [of _ "[]"] HasSuffix_def)
qed

end
