(* ===== verification/Httpstat_Visit.thy ===== *)
theory Httpstat_Visit
  imports Httpstat_Request
begin

text \<open>
  \<open>cmd/httpstat/main.go\<close>, the parts of a visit: the network and the TLS configuration, the
  times the trace records, the response and what becomes of its body.

  The MIME parser, files, terminal colours and the clock are parameters. A \<open>time.Time\<close> is
  an integer count of nanoseconds that is zero for the zero time.
\<close>

section \<open>The network\<close>

definition dial_network :: "cmd_flags \<Rightarrow> string" where
  "dial_network f = (if fourOnly f then ''tcp4'' else if sixOnly f then ''tcp6'' else ''tcp'')"

section \<open>TLS\<close>

record 'cert tls_config =
  ServerName :: string
  InsecureSkipVerify :: bool
  Certificates :: "'cert list"
  MinVersion :: nat

definition VersionTLS12 :: nat where "VersionTLS12 = 0x0303"
definition VersionTLS13 :: nat where "VersionTLS13 = 0x0304"

text \<open>\<open>certs\<close> is what \<open>readClientCert\<close> returns for the file of the command line.\<close>

definition TLSClientConfig ::
    "(string \<Rightarrow> error + string \<times> string) \<Rightarrow> cmd_flags \<Rightarrow> 'cert list exits \<Rightarrow> url \<Rightarrow> request \<Rightarrow>
     'cert tls_config option exits" where
  "TLSClientConfig SplitHostPort f certs u req =
    (if Scheme u = ''https'' then
       (let host = (case SplitHostPort (req_Host req) of Inl _ \<Rightarrow> req_Host req | Inr (h, _) \<Rightarrow> h)
        in case certs of
             Inl msg \<Rightarrow> Inl msg
           | Inr cs \<Rightarrow> Inr (Some \<lparr>ServerName = host, InsecureSkipVerify = insecure f, Certificates = cs,
                                 MinVersion = VersionTLS12\<rparr>))
     else Inr None)"

section \<open>The client\<close>

text \<open>
  The values \<open>visit\<close> gives to the fields of the dialer, the transport and the client. The
  proxy is the one of the environment. \<open>CheckRedirect\<close> returns the same error for every
  redirect, so that the client follows none.
\<close>

record dialer =
  Dialer_network :: string
  Dialer_Timeout :: duration
  Dialer_KeepAlive :: duration
  DualStack :: bool

abbreviation (input) Second :: duration where "Second \<equiv> 1000000000"

definition new_dialer :: "string \<Rightarrow> dialer" where
  "new_dialer network =
    \<lparr>Dialer_network = network, Dialer_Timeout = 30 * Second, Dialer_KeepAlive = 30 * Second, DualStack = False\<rparr>"

record 'cert transport =
  MaxIdleConns :: int
  IdleConnTimeout :: duration
  TLSHandshakeTimeout :: duration
  ExpectContinueTimeout :: duration
  ForceAttemptHTTP2 :: bool
  DisableKeepAlives :: bool
  Transport_Dialer :: dialer
  Transport_TLSClientConfig :: "'cert tls_config option"

definition new_transport :: "cmd_flags \<Rightarrow> 'cert tls_config option \<Rightarrow> 'cert transport" where
  "new_transport f config =
    \<lparr>MaxIdleConns = 100, IdleConnTimeout = 90 * Second, TLSHandshakeTimeout = 10 * Second,
     ExpectContinueTimeout = 1 * Second, ForceAttemptHTTP2 = True, DisableKeepAlives = True,
     Transport_Dialer = new_dialer (dial_network f), Transport_TLSClientConfig = config\<rparr>"

record 'cert client =
  Transport :: "'cert transport"
  CheckRedirect :: "error option"

definition ErrUseLastResponse :: error where
  "ErrUseLastResponse = PlainError ''net/http: use last response''"

definition new_client :: "cmd_flags \<Rightarrow> 'cert tls_config option \<Rightarrow> 'cert client" where
  "new_client f config = \<lparr>Transport = new_transport f config, CheckRedirect = Some ErrUseLastResponse\<rparr>"

section \<open>The TLS version\<close>

definition connectedVia :: "nat option \<Rightarrow> string" where
  "connectedVia tls =
    (case tls of
       None \<Rightarrow> ''plaintext''
     | Some v \<Rightarrow> if v = VersionTLS12 then ''TLSv1.2'' else if v = VersionTLS13 then ''TLSv1.3'' else ''plaintext'')"

section \<open>Timings\<close>

record times =
  t0 :: int
  t1 :: int
  t2 :: int
  t3 :: int
  t4 :: int
  t5 :: int
  t6 :: int

datatype hook =
    DNSStart
  | DNSDone
  | ConnectStart
  | ConnectDone string "error option"
  | GotConn
  | GotFirstResponseByte
  | TLSHandshakeStart
  | TLSHandshakeDone

fun trace_hook :: "hook \<Rightarrow> int \<Rightarrow> times \<Rightarrow> times exits" where
  "trace_hook DNSStart now t = Inr (t\<lparr>t0 := now\<rparr>)"
| "trace_hook DNSDone now t = Inr (t\<lparr>t1 := now\<rparr>)"
| "trace_hook ConnectStart now t = Inr (if t1 t = 0 then t\<lparr>t1 := now\<rparr> else t)"
| "trace_hook (ConnectDone addr err) now t =
     (case err of
        Some e \<Rightarrow> Inl (''unable to connect to host '' @ addr @ '': '' @ Error e)
      | None \<Rightarrow> Inr (t\<lparr>t2 := now\<rparr>))"
| "trace_hook GotConn now t = Inr (t\<lparr>t3 := now\<rparr>)"
| "trace_hook GotFirstResponseByte now t = Inr (t\<lparr>t4 := now\<rparr>)"
| "trace_hook TLSHandshakeStart now t = Inr (t\<lparr>t5 := now\<rparr>)"
| "trace_hook TLSHandshakeDone now t = Inr (t\<lparr>t6 := now\<rparr>)"

definition no_times :: times where
  "no_times = \<lparr>t0 = 0, t1 = 0, t2 = 0, t3 = 0, t4 = 0, t5 = 0, t6 = 0\<rparr>"

text \<open>\<open>Time.Sub\<close> saturates at the bounds of \<open>int64\<close>.\<close>

definition Sub :: "int \<Rightarrow> int \<Rightarrow> int" where
  "Sub t u = max (- (2 ^ 63)) (min (2 ^ 63 - 1) (t - u))"

definition skip_dns :: "times \<Rightarrow> times" where
  "skip_dns t = (if t0 t = 0 then t\<lparr>t0 := t1 t\<rparr> else t)"

text \<open>The durations printed for a scheme, in the order of the template.\<close>

definition timing_row :: "string \<Rightarrow> int \<Rightarrow> times \<Rightarrow> int list option" where
  "timing_row scheme t7 t =
    (if scheme = ''https'' then
       Some [Sub (t1 t) (t0 t), Sub (t2 t) (t1 t), Sub (t6 t) (t5 t), Sub (t4 t) (t3 t), Sub t7 (t4 t),
             Sub (t1 t) (t0 t), Sub (t2 t) (t0 t), Sub (t3 t) (t0 t), Sub (t4 t) (t0 t), Sub t7 (t0 t)]
     else if scheme = ''http'' then
       Some [Sub (t1 t) (t0 t), Sub (t3 t) (t1 t), Sub (t4 t) (t3 t), Sub t7 (t4 t),
             Sub (t1 t) (t0 t), Sub (t3 t) (t0 t), Sub (t4 t) (t0 t), Sub t7 (t0 t)]
     else None)"

section \<open>The response\<close>

text \<open>
  What the code reads of an \<open>http.Response\<close>, with the answer of its \<open>Location\<close>
  method. \<open>Header_names\<close> are the keys of the header map in the order an iteration finds
  them.
\<close>

record response =
  StatusCode :: int
  Status :: string
  ProtoMajor :: int
  ProtoMinor :: int
  TLS_Version :: "nat option"
  resp_Header :: "string \<Rightarrow> string list"
  Header_names :: "string list"
  Location :: "error + url"

definition isRedirect :: "response \<Rightarrow> bool" where
  "isRedirect resp \<longleftrightarrow> StatusCode resp > 299 \<and> StatusCode resp < 400"

definition Header_Get :: "(string \<Rightarrow> string list) \<Rightarrow> string \<Rightarrow> string" where
  "Header_Get h k = (case h k of [] \<Rightarrow> [] | v # _ \<Rightarrow> v)"

definition getFilenameFromHeaders ::
    "(string \<Rightarrow> error + string \<times> (string \<Rightarrow> string option)) \<Rightarrow> (string \<Rightarrow> string list) \<Rightarrow> string" where
  "getFilenameFromHeaders ParseMediaType hdrs =
    (let hdr = Header_Get hdrs ''Content-Disposition'' in
     if hdr \<noteq> [] then
       (case ParseMediaType hdr of
          Inr (mt, params) \<Rightarrow> if mt = ''attachment'' then go_lookup params ''filename'' else []
        | Inl _ \<Rightarrow> [])
     else [])"

text \<open>\<open>path.Base\<close>.\<close>

definition Base :: "string \<Rightarrow> string" where
  "Base p =
    (if p = [] then ''.''
     else (let q = rev (takeWhile (\<lambda>c. c \<noteq> CHR ''/'') (rev (TrimRight p ''/'')))
           in if q = [] then ''/'' else q))"

text \<open>
  The body goes nowhere or to a file: the result is the message and the name of the created
  file. \<open>Create\<close> and \<open>copyErr\<close> are the errors of creating the file and of copying.
\<close>

definition readResponseBody ::
    "(string \<Rightarrow> error + string \<times> (string \<Rightarrow> string option)) \<Rightarrow> (string \<Rightarrow> string) \<Rightarrow> (string \<Rightarrow> error option) \<Rightarrow>
     error option \<Rightarrow> cmd_flags \<Rightarrow> string \<Rightarrow> request \<Rightarrow> response \<Rightarrow> (string \<times> string option) exits" where
  "readResponseBody ParseMediaType CyanString Create copyErr f requestURI req resp =
    (if isRedirect resp \<or> req_Method req = ''HEAD'' then Inr ([], None)
     else if saveOutput f \<or> outputFile f \<noteq> [] then
       (let filename =
          (if saveOutput f then
             (let n = getFilenameFromHeaders ParseMediaType (resp_Header resp)
              in if n = [] then Base requestURI else n)
           else outputFile f)
        in if saveOutput f \<and> filename = ''/'' then
             Inl ''No remote filename; specify output filename with -o to save response body''
           else case Create filename of
             Some err \<Rightarrow> Inl (''unable to create file '' @ filename @ '': '' @ Error err)
           | None \<Rightarrow>
               (case copyErr of
                  Some err \<Rightarrow> Inl (''failed to read response body: '' @ Error err)
                | None \<Rightarrow> Inr (CyanString ''Body read'', Some filename)))
     else Inr (CyanString ''Body discarded'', None))"

section \<open>Timings\<close>

lemma Sub_exact: "\<bar>t - u\<bar> < 2 ^ 63 \<Longrightarrow> Sub t u = t - u"
  by (auto simp: Sub_def abs_if max_def min_def split: if_splits)

text \<open>
  When the times of a request are in order and less than 292 years apart, the columns of
  the printed table add up: every cumulated time is the previous one plus its segment.
\<close>

lemma timing_row_adds_up:
  assumes "t0 t \<le> t1 t" "t1 t \<le> t2 t" "t2 t \<le> t3 t" "t3 t \<le> t4 t" "t4 t \<le> t7" "t7 - t0 t < 2 ^ 63"
  shows "(\<exists>dns tcp server transfer.
      timing_row ''http'' t7 t = Some [dns, tcp, server, transfer,
        dns, dns + tcp, dns + tcp + server, dns + tcp + server + transfer] \<and>
      0 \<le> dns \<and> 0 \<le> tcp \<and> 0 \<le> server \<and> 0 \<le> transfer) \<and>
    (\<exists>dns tcp tls server transfer pretransfer.
      timing_row ''https'' t7 t = Some [dns, tcp, tls, server, transfer,
        dns, dns + tcp, pretransfer, pretransfer + server, pretransfer + server + transfer] \<and>
      dns + tcp \<le> pretransfer)"
  using assms by (simp add: timing_row_def Sub_exact)

section \<open>The file of the response body\<close>

lemma Base_no_slash: "Base p = ''/'' \<or> CHR ''/'' \<notin> set (Base p)"
  by (auto simp: Base_def Let_def dest: set_takeWhileD)

text \<open>
  The response body is saved only on request and never for a redirect or a HEAD request.
  \<open>-o\<close> alone names the file. With \<open>-O\<close> it is the name an attachment's header gives,
  taken over as it is, and without such a header the last element of the request path, which
  contains no slash.
\<close>

lemma readResponseBody_file:
  assumes "readResponseBody ParseMediaType cyan Create copyErr f uri req resp = Inr (msg, Some file)"
  shows "\<not> isRedirect resp \<and> req_Method req \<noteq> ''HEAD'' \<and> Create file = None \<and> copyErr = None \<and>
    msg = cyan ''Body read'' \<and>
    (if saveOutput f then
       (if getFilenameFromHeaders ParseMediaType (resp_Header resp) = []
        then file = Base uri \<and> CHR ''/'' \<notin> set file
        else file = getFilenameFromHeaders ParseMediaType (resp_Header resp))
     else file = outputFile f \<and> file \<noteq> [])"
  using assms Base_no_slash [of uri]
  by (auto simp: readResponseBody_def Let_def split: if_splits option.splits)

definition no_headers :: "int \<Rightarrow> response" where
  "no_headers code =
    \<lparr>StatusCode = code, Status = format_int code, ProtoMajor = 1, ProtoMinor = 1, TLS_Version = None,
     resp_Header = \<lambda>_. [], Header_names = [], Location = Inl (PlainError ''no location'')\<rparr>"

end
