(* ===== verification/Httpstat_Output.thy ===== *)
theory Httpstat_Output
  imports Httpstat_Visit
begin

text \<open>
  What \<open>cmd/httpstat/main.go\<close> prints of a response: the sorted headers and the table of
  timings. Colours are parameters: functions on the text to print.
\<close>

section \<open>Response headers\<close>

text \<open>\<open>names\<close> are the keys of the header map in the order the iteration finds them.\<close>

definition header_lines ::
    "(string \<Rightarrow> string) \<Rightarrow> (string \<Rightarrow> string) \<Rightarrow> (string \<Rightarrow> string list) \<Rightarrow> string list \<Rightarrow> string list" where
  "header_lines grayscale CyanString hdr names =
     map (\<lambda>k. grayscale (k @ '':'') @ '' '' @ CyanString (Join (hdr k) '','') @ [newline]) (insertionSort names)"

section \<open>The table of timings\<close>

definition httpsTemplate :: string where
  "httpsTemplate = join_lines
    [''  DNS Lookup   TCP Connection   TLS Handshake   Server Processing   Content Transfer'',
     ''[%s  |     %s  |    %s  |        %s  |       %s  ]'',
     ''            |                |               |                   |                  |'',
     ''   namelookup:%s      |               |                   |                  |'',
     ''                       connect:%s     |                   |                  |'',
     ''                                   pretransfer:%s         |                  |'',
     ''                                                     starttransfer:%s        |'',
     ''                                                                                total:%s'']"

definition httpTemplate :: string where
  "httpTemplate = join_lines
    [''   DNS Lookup   TCP Connection   Server Processing   Content Transfer'',
     ''[ %s  |     %s  |        %s  |       %s  ]'',
     ''             |                |                   |                  |'',
     ''    namelookup:%s      |                   |                  |'',
     ''                        connect:%s         |                  |'',
     ''                                      starttransfer:%s        |'',
     ''                                                                 total:%s'']"

text \<open>Whole milliseconds: the integer division of a duration truncates towards zero.\<close>

definition millis :: "int \<Rightarrow> int" where
  "millis d = sgn d * (\<bar>d\<bar> div 1000000)"

definition fmta :: "(string \<Rightarrow> string) \<Rightarrow> int \<Rightarrow> string" where
  "fmta CyanString d =
    (let s = format_int (millis d) in CyanString (replicate (7 - length s) CHR '' '' @ s @ ''ms''))"

definition fmtb :: "(string \<Rightarrow> string) \<Rightarrow> int \<Rightarrow> string" where
  "fmtb CyanString d =
    (let s = format_int (millis d) @ ''ms'' in CyanString (s @ replicate (9 - length s) CHR '' ''))"

text \<open>\<open>grayscale\<close> is the colour of the first line.\<close>

definition colorize :: "(string \<Rightarrow> string) \<Rightarrow> string \<Rightarrow> string" where
  "colorize grayscale s =
    (let v = split_on newline s in Join (v[0 := grayscale (v ! 0)]) [newline])"

text \<open>
  \<open>fmt.Fprintf\<close> with string arguments for a format whose only verb is \<open>%s\<close>;
  \<open>None\<close> where it reports a missing or extra argument or another verb.
\<close>

fun Sprintf_s :: "string \<Rightarrow> string list \<Rightarrow> string option" where
  "Sprintf_s [] args = (if args = [] then Some [] else None)"
| "Sprintf_s (c # cs) args =
     (if c = CHR ''%'' then
        (case (cs, args) of
           (d # ds, a # as) \<Rightarrow> if d = CHR ''s'' then map_option ((@) a) (Sprintf_s ds as) else None
         | _ \<Rightarrow> None)
      else map_option ((#) c) (Sprintf_s cs args))"

text \<open>The segments are right-aligned, the cumulated times left-aligned.\<close>

definition timing_args :: "(string \<Rightarrow> string) \<Rightarrow> string \<Rightarrow> int list \<Rightarrow> string list" where
  "timing_args CyanString scheme row =
    (let k = (if scheme = ''https'' then 5 else 4)
     in map (fmta CyanString) (take k row) @ map (fmtb CyanString) (drop k row))"

definition timing_text ::
    "(string \<Rightarrow> string) \<Rightarrow> (string \<Rightarrow> string) \<Rightarrow> string \<Rightarrow> int \<Rightarrow> times \<Rightarrow> string option" where
  "timing_text grayscale CyanString scheme t7 t =
    (case timing_row scheme t7 t of
       None \<Rightarrow> Some []
     | Some row \<Rightarrow>
         Sprintf_s (colorize grayscale (if scheme = ''https'' then httpsTemplate else httpTemplate))
           (timing_args CyanString scheme row))"

section \<open>The table is well formed\<close>

text \<open>The number of arguments a format needs, if its only verb is \<open>%s\<close>.\<close>

fun verbs :: "string \<Rightarrow> nat option" where
  "verbs [] = Some 0"
| "verbs (c # cs) =
     (if c = CHR ''%'' then
        (case cs of d # ds \<Rightarrow> if d = CHR ''s'' then map_option Suc (verbs ds) else None | [] \<Rightarrow> None)
      else verbs cs)"

lemma Sprintf_s_verbs: "Sprintf_s f args \<noteq> None \<longleftrightarrow> verbs f = Some (length args)"
proof (induction f args rule: Sprintf_s.induct)
  case (2 c cs args)
  then show ?case by (cases cs; cases args) auto
qed simp

lemma verbs_append: "CHR ''%'' \<notin> set a \<Longrightarrow> verbs (a @ b) = verbs b"
  by (induction a) auto

lemma Join_lines: "Join (ls @ [[]]) [newline] = join_lines ls"
proof (induction ls)
  case (Cons l ls)
  then show ?case by (cases ls) (simp_all add: join_lines_def)
qed (simp add: join_lines_def)

lemma colorize_lines:
  "list_all (\<lambda>l. newline \<notin> set l) (l # ls) \<Longrightarrow>
     colorize grayscale (join_lines (l # ls)) = grayscale l @ newline # join_lines ls"
proof -
  assume "list_all (\<lambda>l. newline \<notin> set l) (l # ls)"
  then have "colorize grayscale (join_lines (l # ls)) = Join ((grayscale l # ls) @ [[]]) [newline]"
    unfolding colorize_def by (simp only: split_join) simp
  then show ?thesis unfolding Join_lines by (simp add: join_lines_def)
qed

lemma verbs_colorize:
  assumes "\<And>s. CHR ''%'' \<notin> set s \<Longrightarrow> CHR ''%'' \<notin> set (grayscale s)"
  shows "verbs (colorize grayscale httpsTemplate) = Some 10" "verbs (colorize grayscale httpTemplate) = Some 8"
  unfolding httpsTemplate_def httpTemplate_def
  by (subst colorize_lines, code_simp, subst verbs_append, rule assms, code_simp, code_simp)+

text \<open>
  For colours that add no verb the table is printed without a formatting error: its templates
  take exactly the given durations.
\<close>

lemma timing_text_complete:
  assumes "\<And>s. CHR ''%'' \<notin> set s \<Longrightarrow> CHR ''%'' \<notin> set (grayscale s)"
  shows "timing_text grayscale CyanString scheme t7 t \<noteq> None"
  using verbs_colorize [OF assms]
  by (auto simp: timing_text_def timing_row_def timing_args_def Let_def Sprintf_s_verbs simp del: not_None_eq)

lemma length_format_nat: "n < 10 ^ Suc k \<Longrightarrow> length (format_nat n) \<le> Suc k"
proof (induction k arbitrary: n)
  case (Suc k)
  then have "n div 10 < 10 ^ Suc k" by (simp add: less_mult_imp_div_less)
  from Suc.IH [OF this] show ?case by (subst format_base.simps) simp
qed (simp add: format_base.simps)

text \<open>Every cell of the table is nine characters wide, for times below 10000 seconds.\<close>

lemma cell_width:
  assumes "0 \<le> d" "d < 10 ^ 13"
  shows "length (fmta (\<lambda>s. s) d) = 9" "length (fmtb (\<lambda>s. s) d) = 9"
proof -
  have "0 \<le> millis d" "millis d < 10 ^ 7" using assms by (auto simp: millis_def sgn_if)
  then have "length (format_int (millis d)) \<le> 7"
    using length_format_nat [of "nat (millis d)" 6] by (simp add: format_int_def)
  then show "length (fmta (\<lambda>s. s) d) = 9" "length (fmtb (\<lambda>s. s) d) = 9"
    by (simp_all add: fmta_def fmtb_def Let_def)
qed

end
