(* ===== verification/Conn_Json.thy ===== *)
theory Conn_Json
  imports Conn_Session
begin

text \<open>
  The JSON forms of a wrapped connection: \<open>json.Marshal\<close> of the struct \<open>Conn\<close> by its
  field tags, which \<open>cmd/get\<close> prints, and the encoding of the map of \<open>ToMap\<close>, which
  \<open>cmd/httpstat\<close> prints. Both work on every connection whose TCP data can be encoded
  (\<open>encodable\<close>), and every operation keeps that if the platform only returns such data.
\<close>

section \<open>The struct\<close>

text \<open>
  An error is encoded by its dynamic type, which the program does not choose: \<open>errTree\<close> is
  that encoding. The fields without a tag that are exported belong to the mutex, which has none.
\<close>

definition Conn_fields ::
    "(error \<Rightarrow> json option) \<Rightarrow> 'sys platform \<Rightarrow> 'sys Conn \<Rightarrow> (bool \<times> string \<times> json option) list" where
  "Conn_fields errTree P w =
     [num_field ''openedAt'' (OpenedAt w),
      num_field ''closedAt'' (ClosedAt w),
      num_field ''firstRxAt'' (FirstRxAt w),
      num_field ''firstTxAt'' (FirstTxAt w),
      num_field ''lastRxAt'' (LastRxAt w),
      num_field ''lastTxAt'' (LastTxAt w),
      (True, ''txBytes'', Some (JNum (sint (TxBytes w)))),
      (True, ''rxBytes'', Some (JNum (sint (RxBytes w)))),
      (RxErr w \<noteq> None, ''rxErr'', errTree (the (RxErr w))),
      (TxErr w \<noteq> None, ''txErr'', errTree (the (TxErr w))),
      (InfoErr w \<noteq> None, ''infoErr'', errTree (the (InfoErr w))),
      (Reconnects w \<noteq> 0, ''reconnects'', Some (JNum (Reconnects w))),
      (OpenedInfo w \<noteq> None, ''openedInfo'', Info_tree (SysToMap P) (the (OpenedInfo w))),
      (ClosedInfo w \<noteq> None, ''closedInfo'', Info_tree (SysToMap P) (the (ClosedInfo w)))]"

definition Conn_tree :: "(error \<Rightarrow> json option) \<Rightarrow> 'sys platform \<Rightarrow> 'sys Conn \<Rightarrow> json option" where
  "Conn_tree errTree P w = struct_tree (Conn_fields errTree P w)"

definition Conn_Marshal :: "(error \<Rightarrow> json option) \<Rightarrow> 'sys platform \<Rightarrow> 'sys Conn \<Rightarrow> string option" where
  "Conn_Marshal errTree P w = map_option Marshal_json (Conn_tree errTree P w)"

section \<open>Encodable connections\<close>

definition encodable :: "'sys platform \<Rightarrow> 'sys Conn \<Rightarrow> bool" where
  "encodable P w \<longleftrightarrow>
     (\<forall>i \<in> set_option (OpenedInfo w) \<union> set_option (ClosedInfo w). map_ok (Info_ToMap (SysToMap P) i))"

text \<open>The platform only returns records that can be encoded.\<close>

definition encodable_data :: "'sys platform \<Rightarrow> (nat \<Rightarrow> 'sys option \<times> error option) \<Rightarrow> bool" where
  "encodable_data P GetTCPInfo \<longleftrightarrow> (\<forall>fd s err. GetTCPInfo fd = (Some s, err) \<longrightarrow> map_ok (SysToMap P s))"

lemma encodable_new_Conn: "encodable P (new_Conn P now ctx ncon)"
  by (simp add: encodable_def new_Conn_def)

lemma probe_from_get: "probe get env w = (Some s, None) \<Longrightarrow> \<exists>fd. get fd = (Some s, None)"
  by (cases "Control env"; cases "get (the (snd (Control env)))")
    (auto simp: probe_def split: if_splits option.splits)

lemma Conn_map_ok: "encodable P w \<Longrightarrow> map_ok (Conn_map P w local remote ws)"
  unfolding Conn_map_def
proof (rule map_ok_fold)
  assume "encodable P w"
  then show "list_all (\<lambda>(b, k, v). ascii k \<and> (b \<longrightarrow> any_ok v)) (Conn_optional P w)"
    by (auto simp: Conn_optional_def encodable_def ascii_def)
  show "map_ok (Conn_literal local remote ws w)"
    by (simp add: Conn_literal_def ascii_def)
qed

context json_platform
begin

lemma encodable_store:
  assumes "encodable P w" "encodable_data P get"
  shows "encodable P (store P st (probe get env w) w)"
proof -
  have "map_ok (Info_ToMap (SysToMap P) (ToInfo P s))" if "probe get env w = (Some s, None)" for s
    using probe_from_get [OF that] assms(2) by (auto simp: encodable_data_def intro: ToInfo_ok)
  with assms(1) show ?thesis
    by (auto simp: store_def encodable_def split: prod.split option.split)
qed

end

lemma encodable_ClosedAt [simp]: "encodable P (w\<lparr>ClosedAt := t\<rparr>) = encodable P w"
  and encodable_mark_closed [simp]: "encodable P (mark_closed w) = encodable P w"
  by (simp_all add: encodable_def mark_closed_def)

section \<open>Reading the struct\<close>

text \<open>A struct with different names is encoded as its present fields.\<close>

lemma struct_tree_fields:
  assumes "distinct (map (\<lambda>(b, k, t). k) fs)" "list_all (\<lambda>(b, k, t). b \<longrightarrow> t \<noteq> None) fs"
  shows "\<exists>ms. struct_tree fs = Some (JObject ms) \<and>
    (\<forall>(b, k, t) \<in> set fs. map_of ms k = (if b then t else None)) \<and>
    fst ` set ms \<subseteq> (\<lambda>(b, k, t). k) ` set fs"
  using assms
proof (induction fs)
  case Nil
  then show ?case by (simp add: struct_tree_def members_def)
next
  case (Cons f fs)
  obtain b k t where f: "f = (b, k, t)" by (cases f)
  from Cons obtain ms where ms: "struct_tree fs = Some (JObject ms)"
    "\<forall>(b, k, t) \<in> set fs. map_of ms k = (if b then t else None)" "fst ` set ms \<subseteq> (\<lambda>(b, k, t). k) ` set fs"
    by auto
  have "k \<notin> (\<lambda>(b, k, t). k) ` set fs" using Cons.prems(1) f by auto
  moreover have "map_of ms k = None" using calculation ms(3) by (auto simp: map_of_eq_None_iff)
  moreover have "struct_tree (f # fs) = Some (JObject (if b then (k, the t) # ms else ms))"
    using ms(1) Cons.prems(2) f by (auto simp: struct_tree_def members_def)
  ultimately show ?case
    using ms f Cons.prems(2) by (cases b) (auto simp: image_iff, force+)
qed

lemma map_of_valid_members:
  "list_all ascii (map fst ms) \<Longrightarrow>
     map_of (map (map_prod valid_utf8 id) (map (map_prod id valid_json) ms)) k = map_option valid_json (map_of ms k)"
  by (induction ms) (auto simp: valid_utf8_ascii)

lemma struct_tree_reads:
  assumes "distinct (map (\<lambda>(b, k, t). k) fs)" "list_all (\<lambda>(b, k, t). ascii k \<and> (b \<longrightarrow> t \<noteq> None)) fs"
  shows "\<exists>txt ms. map_option Marshal_json (struct_tree fs) = Some txt \<and> parse_json txt = Some (JObject ms) \<and>
    (\<forall>(b, k, t) \<in> set fs. map_of ms k = (if b then map_option valid_json t else None))"
proof -
  have "list_all (\<lambda>(b, k, t). b \<longrightarrow> t \<noteq> None) fs" using assms(2) by (auto simp: list_all_iff)
  from struct_tree_fields [OF assms(1) this] obtain ms where ms: "struct_tree fs = Some (JObject ms)"
    "\<forall>(b, k, t) \<in> set fs. map_of ms k = (if b then t else None)" "fst ` set ms \<subseteq> (\<lambda>(b, k, t). k) ` set fs"
    by auto
  let ?vs = "map (map_prod valid_utf8 id) (map (map_prod id valid_json) ms)"
  have "list_all ascii (map fst ms)" using ms(3) assms(2) by (fastforce simp: list_all_iff)
  then have "map_of ?vs k = map_option valid_json (map_of ms k)" for k by (rule map_of_valid_members)
  then have "\<forall>(b, k, t) \<in> set fs. map_of ?vs k = (if b then map_option valid_json t else None)"
    using ms(2) by (auto split: if_splits)
  then show ?thesis using ms(1) by (intro exI [of _ "Marshal_json (JObject ms)"] exI [of _ ?vs]) simp
qed

lemma Info_tree_Some: "map_ok (Info_ToMap sysToMap i) \<Longrightarrow> \<exists>t. Info_tree sysToMap i = Some t"
  using Info_tree_encodes [of sysToMap i] by blast

text \<open>
  The text printed for a connection reads back with its byte counts and times, a time of zero
  being left out.
\<close>

lemma Conn_Marshal_reads:
  assumes "encodable P w" "\<And>e. Some e \<in> {RxErr w, TxErr w, InfoErr w} \<Longrightarrow> errTree e \<noteq> None"
  shows "\<exists>txt ms. Conn_Marshal errTree P w = Some txt \<and> parse_json txt = Some (JObject ms) \<and>
    (\<forall>(b, k, t) \<in> set (Conn_fields errTree P w). map_of ms k = (if b then map_option valid_json t else None))"
  unfolding Conn_Marshal_def Conn_tree_def
proof (rule struct_tree_reads)
  show "distinct (map (\<lambda>(b, k, t). k) (Conn_fields errTree P w))"
    by (simp add: Conn_fields_def num_field_def)
  have "\<forall>i. OpenedInfo w = Some i \<or> ClosedInfo w = Some i \<longrightarrow> (\<exists>t. Info_tree (SysToMap P) i = Some t)"
    using assms(1) by (auto simp: encodable_def intro: Info_tree_Some)
  then show "list_all (\<lambda>(b, k, t). ascii k \<and> (b \<longrightarrow> t \<noteq> None)) (Conn_fields errTree P w)"
    using assms(2) by (auto simp: Conn_fields_def num_field_def ascii_def)
qed

end
