(* ===== verification/Conn_Client.thy ===== *)
theory Conn_Client
  imports Conn_Json
begin

text \<open>
  The programs under \<open>cmd\<close> hand their connections to an HTTP client. What the client
  does with them is a sequence of events (\<open>event\<close>): it calls the program's
  \<open>DialContext\<close> and the hooks of its trace, and it reads, writes and closes the connections
  it was given, in any order and with any answers of the network. The program's own functions
  are arguments of \<open>handle\<close>.

  A wrapped connection is shared by pointer between the client and the program. \<open>conns\<close> is
  the store of the connections created so far, and a pointer is an index into it.

  The locale \<open>client_program\<close> states what the callbacks of a program keep; it gives the
  byte counters of every connection.
\<close>

section \<open>Programs\<close>

text \<open>A run of a program returns, exits with a message (\<open>log.Fatal\<close>), panics or blocks.\<close>

datatype ('s, 'a) result = Done 's 'a | Fatal 's string | Crash | Hang

fun and_then :: "('s, 'a) result \<Rightarrow> ('a \<Rightarrow> 's \<Rightarrow> ('s, 'b) result) \<Rightarrow> ('s, 'b) result" where
  "and_then (Done s x) f = f x s"
| "and_then (Fatal s msg) f = Fatal s msg"
| "and_then Crash f = Crash"
| "and_then Hang f = Hang"

fun of_outcome :: "'s outcome \<Rightarrow> ('s, unit) result" where
  "of_outcome (Ret s) = Done s ()"
| "of_outcome Deadlock = Hang"
| "of_outcome Panic = Crash"

lemma and_then_Done_iff [simp]: "and_then r f = Done s y \<longleftrightarrow> (\<exists>s' x. r = Done s' x \<and> f x s' = Done s y)"
  by (cases r) auto

lemma of_outcome_Done_iff [simp]: "of_outcome m = Done s u \<longleftrightarrow> m = Ret s"
  by (cases m) auto

section \<open>The client\<close>

record 'sys world =
  conns :: "'sys Conn list"
  stdout :: string

definition print :: "string \<Rightarrow> ('sys, 'm) world_scheme \<Rightarrow> ('sys, 'm) world_scheme" where
  "print txt s = s\<lparr>stdout := stdout s @ txt\<rparr>"

lemma conns_print [simp]: "conns (print txt s) = conns s"
  by (simp add: print_def)

text \<open>
  The answers are those of the dialer, of the wrapped connection, of the system and of the
  clock.
\<close>

datatype 'h event =
    EHook 'h
  | EDial "net_conn option \<times> error option" net_env i64
  | ERead nat int "error option" i64
  | EWrite nat int "error option" i64
  | EClose nat net_env i64 "error option"

text \<open>A nil \<open>net.Conn\<close>: not a TCP connection, and without addresses.\<close>

definition nil_conn :: net_conn where
  "nil_conn = \<lparr>is_TCPConn = False, LocalAddr = None, RemoteAddr = None, nc_closed = False\<rparr>"

text \<open>\<open>WrapConn\<close> allocates the wrapper, whose address its report knows.\<close>

definition wrap_new ::
    "'sys platform \<Rightarrow> (nat \<Rightarrow> 'sys option \<times> error option) \<Rightarrow> (nat \<Rightarrow> ('sys, ('sys, 'm) world_scheme) report) \<Rightarrow>
     net_env \<Rightarrow> i64 \<Rightarrow> net_conn option \<Rightarrow> ('sys, 'm) world_scheme \<Rightarrow> ('sys, 'm) world_scheme outcome" where
  "wrap_new P GetTCPInfo report env now conn s =
    bind_outcome
      (WrapConn P GetTCPInfo env now (case conn of None \<Rightarrow> nil_conn | Some c \<Rightarrow> c)
        (Some (report (length (conns s)))) s)
      (\<lambda>(w, s). Ret (s\<lparr>conns := conns s @ [w]\<rparr>))"

text \<open>A method called through a pointer: what it changes is seen through every other copy.\<close>

definition at_conn ::
    "nat \<Rightarrow> ('sys Conn \<Rightarrow> ('sys Conn \<times> ('sys, 'm) world_scheme) outcome) \<Rightarrow> ('sys, 'm) world_scheme \<Rightarrow>
     ('sys, 'm) world_scheme outcome" where
  "at_conn a f s =
    (if a < length (conns s)
     then bind_outcome (f (conns s ! a)) (\<lambda>(w, s). Ret (s\<lparr>conns := (conns s)[a := w]\<rparr>))
     else Panic)"

text \<open>The methods that call the wrapped connection panic if it is nil.\<close>

definition use_conn ::
    "nat \<Rightarrow> ('sys Conn \<Rightarrow> ('sys Conn \<times> ('sys, 'm) world_scheme) outcome) \<Rightarrow> ('sys, 'm) world_scheme \<Rightarrow>
     ('sys, 'm) world_scheme outcome" where
  "use_conn a f = at_conn a (\<lambda>w. if inner w = nil_conn then Panic else f w)"

type_synonym ('sys, 's) dial_fn = "net_conn option \<times> error option \<Rightarrow> net_env \<Rightarrow> i64 \<Rightarrow> 's \<Rightarrow> 's outcome"

fun handle ::
    "'sys platform \<Rightarrow> (nat \<Rightarrow> 'sys option \<times> error option) \<Rightarrow> (nat \<Rightarrow> ('sys, ('sys, 'm) world_scheme) report) \<Rightarrow>
     ('sys, ('sys, 'm) world_scheme) dial_fn \<Rightarrow> ('h \<Rightarrow> ('sys, 'm) world_scheme \<Rightarrow> (('sys, 'm) world_scheme, unit) result) \<Rightarrow>
     'h event \<Rightarrow> ('sys, 'm) world_scheme \<Rightarrow> (('sys, 'm) world_scheme, unit) result" where
  "handle P GetTCPInfo report dial hook (EHook h) s = hook h s"
| "handle P GetTCPInfo report dial hook (EDial answer env now) s = of_outcome (dial answer env now s)"
| "handle P GetTCPInfo report dial hook (ERead a n err ts) s =
     of_outcome (use_conn a (\<lambda>w. bind_outcome (Read (n, err) ts w) (\<lambda>(_, w). Ret (w, s))) s)"
| "handle P GetTCPInfo report dial hook (EWrite a n err ts) s =
     of_outcome (use_conn a (\<lambda>w. bind_outcome (Write (n, err) ts w) (\<lambda>(_, w). Ret (w, s))) s)"
| "handle P GetTCPInfo report dial hook (EClose a env now cerr) s =
     of_outcome (use_conn a (\<lambda>w. bind_outcome (Close P GetTCPInfo env (Some (report a)) now cerr w s)
       (\<lambda>(_, w, s). Ret (w, s))) s)"

fun run_client ::
    "'sys platform \<Rightarrow> (nat \<Rightarrow> 'sys option \<times> error option) \<Rightarrow> (nat \<Rightarrow> ('sys, ('sys, 'm) world_scheme) report) \<Rightarrow>
     ('sys, ('sys, 'm) world_scheme) dial_fn \<Rightarrow> ('h \<Rightarrow> ('sys, 'm) world_scheme \<Rightarrow> (('sys, 'm) world_scheme, unit) result) \<Rightarrow>
     'h event list \<Rightarrow> ('sys, 'm) world_scheme \<Rightarrow> (('sys, 'm) world_scheme, unit) result" where
  "run_client P GetTCPInfo report dial hook [] s = Done s ()"
| "run_client P GetTCPInfo report dial hook (ev # evs) s =
     and_then (handle P GetTCPInfo report dial hook ev s) (\<lambda>_. run_client P GetTCPInfo report dial hook evs)"

section \<open>What the client sent and received\<close>

fun sent :: "nat \<Rightarrow> 'h event \<Rightarrow> int" where
  "sent a (EWrite b n err ts) = (if a = b then n else 0)"
| "sent a _ = 0"

fun received :: "nat \<Rightarrow> 'h event \<Rightarrow> int" where
  "received a (ERead b n err ts) = (if a = b then n else 0)"
| "received a _ = 0"

definition sent_by :: "nat \<Rightarrow> 'h event list \<Rightarrow> int" where
  "sent_by a evs = sum_list (map (sent a) evs)"

definition received_by :: "nat \<Rightarrow> 'h event list \<Rightarrow> int" where
  "received_by a evs = sum_list (map (received a) evs)"

lemma sent_by_simps [simp]:
  "sent_by a [] = 0" "sent_by a (ev # evs) = sent a ev + sent_by a evs"
  "sent_by a (evs @ evs') = sent_by a evs + sent_by a evs'"
  by (simp_all add: sent_by_def)

lemma received_by_simps [simp]:
  "received_by a [] = 0" "received_by a (ev # evs) = received a ev + received_by a evs"
  "received_by a (evs @ evs') = received_by a evs + received_by a evs'"
  by (simp_all add: received_by_def)

text \<open>The counters of the connection at an address, zero before it exists.\<close>

definition counters :: "nat \<Rightarrow> ('sys, 'm) world_scheme \<Rightarrow> i64 \<times> i64" where
  "counters a s = (if a < length (conns s) then (TxBytes (conns s ! a), RxBytes (conns s ! a)) else (0, 0))"

lemma counters_print [simp]: "counters a (print txt s) = counters a s"
  by (simp add: counters_def)

lemma io_unlocked:
  "Read r ts w = Ret x \<Longrightarrow> \<not> locked w" "Write r ts w = Ret x \<Longrightarrow> \<not> locked w"
  "Close P get env report now cerr w e = Ret y \<Longrightarrow> \<not> locked w"
  by (auto simp: Read_def Write_def Close_def Lock_def split: prod.splits if_splits)

lemma Read_counters:
  assumes "Read (n, err) ts w = Ret (r, w')"
  shows "TxBytes w' = TxBytes w" "RxBytes w' = RxBytes w + word_of_int n"
  using assms io_unlocked(1) [OF assms] by (auto simp: Read_unlocked)

lemma Write_counters:
  assumes "Write (n, err) ts w = Ret (r, w')"
  shows "TxBytes w' = TxBytes w + word_of_int n" "RxBytes w' = RxBytes w"
  using assms io_unlocked(2) [OF assms] by (auto simp: Write_unlocked)

lemma at_conn_Ret_iff:
  "at_conn a f s = Ret s' \<longleftrightarrow>
     a < length (conns s) \<and> (\<exists>w t. f (conns s ! a) = Ret (w, t) \<and> s' = t\<lparr>conns := (conns t)[a := w]\<rparr>)"
  by (auto simp: at_conn_def)

lemma use_conn_Ret_iff:
  "use_conn a f s = Ret s' \<longleftrightarrow> a < length (conns s) \<and> inner (conns s ! a) \<noteq> nil_conn \<and>
     (\<exists>w t. f (conns s ! a) = Ret (w, t) \<and> s' = t\<lparr>conns := (conns t)[a := w]\<rparr>)"
  by (auto simp: use_conn_def at_conn_Ret_iff)

lemma store_counters [simp]: "TxBytes (store P st r w) = TxBytes w" "RxBytes (store P st r w) = RxBytes w"
  by (simp_all add: store_def split: prod.split option.split)

lemma mark_closed_sel [simp]:
  "TxBytes (mark_closed w) = TxBytes w" "RxBytes (mark_closed w) = RxBytes w"
  "locked (mark_closed w) = locked w"
  by (simp_all add: mark_closed_def)

text \<open>The new wrapper with the data gathered when it is opened.\<close>

definition opened_conn ::
    "'sys platform \<Rightarrow> (nat \<Rightarrow> 'sys option \<times> error option) \<Rightarrow> net_env \<Rightarrow> i64 \<Rightarrow> net_conn option \<Rightarrow> 'sys Conn" where
  "opened_conn P get env now conn =
    (let w = new_Conn P now 0 (case conn of None \<Rightarrow> nil_conn | Some c \<Rightarrow> c)
     in store P Opened (probe get env w) w)"

lemma wrap_new_eq:
  "wrap_new P get report env now conn s =
     bind_outcome (report (length (conns s)) Opened (opened_conn P get env now conn) s)
       (\<lambda>(w, s). Ret (s\<lparr>conns := conns s @ [w]\<rparr>))"
proof -
  let ?w = "new_Conn P now 0 (case conn of None \<Rightarrow> nil_conn | Some c \<Rightarrow> c)"
  have "\<not> locked ?w" "to_report Opened ?w" by (simp_all add: new_Conn_def to_report_def)
  then show ?thesis
    by (simp add: wrap_new_def WrapConn_def WrapConnWithContext_def gatherAndReport_Some opened_conn_def Let_def)
qed

lemma opened_conn_unused: "unused (opened_conn P get env now conn)"
  by (simp add: opened_conn_def Let_def unused_store_opened unused_new_Conn)

lemma wrap_new_adds:
  assumes "wrap_new P get report env now conn s = Ret s'"
    and "\<And>a st w s w' s'. report a st w s = Ret (w', s') \<Longrightarrow> w' = w \<and> conns s' = conns s"
  shows "conns s' = conns s @ [opened_conn P get env now conn]"
proof -
  obtain w t where "report (length (conns s)) Opened (opened_conn P get env now conn) s = Ret (w, t)"
    "s' = t\<lparr>conns := conns t @ [w]\<rparr>" using assms(1) by (auto simp: wrap_new_eq)
  with assms(2) [OF this(1)] show ?thesis by simp
qed

section \<open>Programs that only look at their connections\<close>

locale client_program =
  fixes P :: "'sys platform"
    and get :: "nat \<Rightarrow> 'sys option \<times> error option"
    and report :: "nat \<Rightarrow> ('sys, ('sys, 'm) world_scheme) report"
    and dial :: "('sys, ('sys, 'm) world_scheme) dial_fn"
    and hook :: "'h \<Rightarrow> ('sys, 'm) world_scheme \<Rightarrow> (('sys, 'm) world_scheme, unit) result"
  assumes report_keeps: "report a st w s = Ret (w', s') \<Longrightarrow> w' = w \<and> conns s' = conns s"
    and dial_adds: "dial answer env now s = Ret s' \<Longrightarrow> \<exists>ws. conns s' = conns s @ ws \<and> list_all unused ws"
    and hook_keeps: "hook h s = Done s' u \<Longrightarrow> conns s' = conns s"
begin

lemma Close_result:
  assumes "Close P get env (Some (report a)) now cerr w s = Ret (r, w', s')"
  shows "w' = mark_closed
      (if ClosedInfo w = None then store P Closed (probe get env w) (w\<lparr>ClosedAt := now\<rparr>) else w\<lparr>ClosedAt := now\<rparr>) \<and>
    conns s' = conns s"
proof (cases "ClosedInfo w = None")
  case True
  with assms obtain v where v: "report a Closed (store P Closed (probe get env w) (w\<lparr>ClosedAt := now\<rparr>)) s = Ret (v, s')"
    "w' = mark_closed v"
    by (auto simp: Close_unlocked [OF io_unlocked(3) [OF assms]])
  with report_keeps [OF v(1)] True show ?thesis by simp
next
  case False
  with assms show ?thesis by (auto simp: Close_unlocked [OF io_unlocked(3) [OF assms]])
qed

lemma Close_conns:
  assumes "Close P get env (Some (report a)) now cerr w s = Ret (r, w', s')"
  shows "conns s' = conns s" "TxBytes w' = TxBytes w" "RxBytes w' = RxBytes w"
  using Close_result [OF assms] by simp_all

lemma handle_counters:
  assumes "handle P get report dial hook ev s = Done s' u"
  shows "length (conns s) \<le> length (conns s') \<and>
    counters a s' = (fst (counters a s) + word_of_int (sent a ev), snd (counters a s) + word_of_int (received a ev))"
proof (cases ev)
  case (EHook h)
  then show ?thesis using assms hook_keeps [of h s s' u] by (simp add: counters_def)
next
  case (EDial answer env now)
  then obtain ws where ws: "conns s' = conns s @ ws" "list_all unused ws" using assms dial_adds [of answer env now s s'] by auto
  have "TxBytes w = 0" "RxBytes w = 0" if "w \<in> set ws" for w
    using that ws(2) by (auto simp: list_all_iff unused_def rx_matches_def tx_matches_def)
  with EDial ws(1) show ?thesis by (simp add: counters_def nth_append)
next
  case (ERead b n err ts)
  with assms obtain r w where c: "b < length (conns s)" "Read (n, err) ts (conns s ! b) = Ret (r, w)"
    "s' = s\<lparr>conns := (conns s)[b := w]\<rparr>" by (auto simp: use_conn_Ret_iff)
  with ERead Read_counters [OF c(2)] show ?thesis
    by (cases "a = b") (simp_all add: counters_def)
next
  case (EWrite b n err ts)
  with assms obtain r w where c: "b < length (conns s)" "Write (n, err) ts (conns s ! b) = Ret (r, w)"
    "s' = s\<lparr>conns := (conns s)[b := w]\<rparr>" by (auto simp: use_conn_Ret_iff)
  with EWrite Write_counters [OF c(2)] show ?thesis
    by (cases "a = b") (simp_all add: counters_def)
next
  case (EClose b env now cerr)
  with assms obtain r w t where "b < length (conns s)"
    "Close P get env (Some (report b)) now cerr (conns s ! b) s = Ret (r, w, t)"
    "s' = t\<lparr>conns := (conns t)[b := w]\<rparr>" by (auto simp: use_conn_Ret_iff)
  with EClose Close_conns [OF this(2)] show ?thesis by (cases "a = b") (simp_all add: counters_def)
qed

text \<open>Every connection counts exactly what the client sent and received over it.\<close>

lemma run_client_counters:
  assumes "run_client P get report dial hook evs s = Done s' u"
  shows "counters a s' =
    (fst (counters a s) + word_of_int (sent_by a evs), snd (counters a s) + word_of_int (received_by a evs))"
  using assms
proof (induction evs arbitrary: s)
  case (Cons ev evs)
  then obtain t where "handle P get report dial hook ev s = Done t ()"
    "run_client P get report dial hook evs t = Done s' u" by auto
  with Cons.IH handle_counters [of ev s t "()" a] show ?case by (simp add: add.assoc)
qed simp

end

text \<open>What the callbacks leave alone stays as it is in a whole run.\<close>

lemma run_client_frame:
  assumes "run_client P get report dial hook evs s = Done s' u"
    and report: "\<And>a st w s w' s'. report a st w s = Ret (w', s') \<Longrightarrow> F s' = F s"
    and dial: "\<And>answer env now s s'. dial answer env now s = Ret s' \<Longrightarrow> F s' = F s"
    and hook: "\<And>h s s' u. hook h s = Done s' u \<Longrightarrow> F s' = F s"
    and conns: "\<And>s ws. F (s\<lparr>conns := ws\<rparr>) = F s"
  shows "F s' = F s"
  using assms(1)
proof (induction evs arbitrary: s)
  case (Cons ev evs)
  then obtain t where t: "handle P get report dial hook ev s = Done t ()"
    "run_client P get report dial hook evs t = Done s' u" by auto
  have "F t = F s"
  proof (cases ev)
    case (EClose a env now cerr)
    with t(1) obtain r w v where c: "Close P get env (Some (report a)) now cerr (conns s ! a) s = Ret (r, w, v)"
      "t = v\<lparr>conns := (conns v)[a := w]\<rparr>" by (auto simp: use_conn_Ret_iff)
    have "F v = F s"
      using c(1) by (auto simp: Close_unlocked [OF io_unlocked(3) [OF c(1)]] split: if_splits dest: report)
    with c(2) show ?thesis by (simp add: conns)
  qed (use t(1) in \<open>auto simp: use_conn_Ret_iff conns dest: dial hook\<close>)
  with Cons.IH [OF t(2)] show ?case by simp
qed simp

end
