(* ===== verification/Conn_Client_Props.thy ===== *)
theory Conn_Client_Props
  imports Conn_Client
begin

text \<open>
  What every program keeps of its connections, whatever the client does: the type invariant of
  the store (locale \<open>json_client\<close>), for a platform whose data can be encoded; and that the
  program never blocks the client and never panics under it, if its callbacks return
  (locale \<open>live_client\<close>).
\<close>

section \<open>Connections that can be encoded\<close>

text \<open>
  The type invariant of the store: no mutex is held between two calls, the warnings of the
  gathered data can be read, the data can be encoded, and it comes from a TCP connection, which
  has addresses.
\<close>

definition tcp_addresses :: "net_conn \<Rightarrow> bool" where
  "tcp_addresses c \<longleftrightarrow> (is_TCPConn c \<longrightarrow> LocalAddr c \<noteq> None \<and> RemoteAddr c \<noteq> None)"

definition tcp_data :: "'sys Conn \<Rightarrow> bool" where
  "tcp_data w \<longleftrightarrow> tcp_addresses (inner w) \<and>
     (OpenedInfo w \<noteq> None \<or> ClosedInfo w \<noteq> None \<longrightarrow> is_TCPConn (inner w))"

definition conn_wf :: "'sys platform \<Rightarrow> 'sys Conn \<Rightarrow> bool" where
  "conn_wf P w \<longleftrightarrow> conn_ok P w \<and> encodable P w \<and> tcp_data w"

lemmas conn_wf_defs = conn_wf_def conn_ok_def encodable_def tcp_data_def tcp_addresses_def

definition store_wf :: "'sys platform \<Rightarrow> ('sys, 'm) world_scheme \<Rightarrow> bool" where
  "store_wf P s \<longleftrightarrow> list_all (conn_wf P) (conns s)"

lemma store_wf_nth: "store_wf P s \<Longrightarrow> a < length (conns s) \<Longrightarrow> conn_wf P (conns s ! a)"
  by (simp add: store_wf_def list_all_length)

lemma store_wf_update:
  "store_wf P s \<Longrightarrow> conn_wf P w \<Longrightarrow> store_wf P (s\<lparr>conns := (conns s)[a := w]\<rparr>)"
  using set_update_subset_insert [of "conns s" a w] by (auto simp: store_wf_def list_all_iff)

lemma store_wf_print [simp]: "store_wf P (print txt s) = store_wf P s"
  by (simp add: store_wf_def)

lemma conn_wf_simps [simp]:
  "conn_wf P (mark_closed w) = conn_wf P w" "conn_wf P (w\<lparr>ClosedAt := t\<rparr>) = conn_wf P w"
  by (simp_all add: conn_wf_defs mark_closed_def)

lemma conn_wf_io:
  assumes "conn_wf P w"
  shows "Read r ts w = Ret (r', w') \<Longrightarrow> conn_wf P w'" "Write r ts w = Ret (r', w') \<Longrightarrow> conn_wf P w'"
  using assms by (cases r; auto simp: Read_unlocked Write_unlocked conn_wf_defs)+

text \<open>The dialer returns a TCP connection with its addresses.\<close>

fun dialed_ok :: "'h event \<Rightarrow> bool" where
  "dialed_ok (EDial answer env now) = (case fst answer of None \<Rightarrow> True | Some c \<Rightarrow> tcp_addresses c)"
| "dialed_ok _ = True"

lemma tcp_data_store: "tcp_data w \<Longrightarrow> tcp_data (store P st (probe get env w) w)"
proof -
  assume w: "tcp_data w"
  have "is_TCPConn (inner w)" if "probe get env w = (Some d, None)" for d
    using that by (simp add: probe_def split: if_splits)
  with w show ?thesis by (auto simp: store_def tcp_data_def split: prod.split option.split)
qed

context json_platform
begin

lemma conn_wf_store:
  "conn_wf P w \<Longrightarrow> encodable_data P get \<Longrightarrow> conn_wf P (store P st (probe get env w) w)"
  unfolding conn_wf_def by (simp add: conn_ok_store encodable_store tcp_data_store)

lemma opened_conn_wf:
  assumes "encodable_data P get" "dialed_ok (EDial (conn, err) env now)"
  shows "conn_wf P (opened_conn P get env now conn)"
  unfolding opened_conn_def Let_def
proof (rule conn_wf_store [OF _ assms(1)])
  show "conn_wf P (new_Conn P now 0 (case conn of None \<Rightarrow> nil_conn | Some c \<Rightarrow> c))"
    using assms(2) by (cases conn) (simp_all add: conn_wf_defs new_Conn_def nil_conn_def)
qed

end

locale json_client = client_program P get report dial hook + json_platform P
  for P :: "'sys platform"
    and get :: "nat \<Rightarrow> 'sys option \<times> error option"
    and report :: "nat \<Rightarrow> ('sys, ('sys, 'm) world_scheme) report"
    and dial :: "('sys, ('sys, 'm) world_scheme) dial_fn"
    and hook :: "'h \<Rightarrow> ('sys, 'm) world_scheme \<Rightarrow> (('sys, 'm) world_scheme, unit) result" +
  assumes data: "encodable_data P get"
    and dial_wf: "dial answer env now s = Ret s' \<Longrightarrow> dialed_ok (EDial answer env now :: 'h event) \<Longrightarrow>
      store_wf P s \<Longrightarrow> store_wf P s'"
begin

lemma Close_wf:
  assumes "Close P get env (Some (report a)) now cerr w s = Ret (r, w', s')" "conn_wf P w"
  shows "conn_wf P w'"
proof -
  have "conn_wf P (store P Closed (probe get env (w\<lparr>ClosedAt := now\<rparr>)) (w\<lparr>ClosedAt := now\<rparr>))"
    using assms(2) by (intro conn_wf_store data) simp
  with Close_result [OF assms(1)] assms(2) show ?thesis by simp
qed

lemma handle_wf:
  assumes "handle P get report dial hook ev s = Done s' u" "store_wf P s" "dialed_ok ev"
  shows "store_wf P s'"
proof (cases ev)
  case (EHook h)
  then show ?thesis using assms hook_keeps [of h s s' u] by (simp add: store_wf_def)
next
  case (EDial answer env now)
  with assms show ?thesis using dial_wf [of answer env now s s'] by simp
next
  case (ERead a n err ts)
  with assms obtain r w where c: "a < length (conns s)" "Read (n, err) ts (conns s ! a) = Ret (r, w)"
    "s' = s\<lparr>conns := (conns s)[a := w]\<rparr>" by (auto simp: use_conn_Ret_iff)
  show ?thesis
    unfolding c(3) by (rule store_wf_update [OF assms(2) conn_wf_io(1) [OF store_wf_nth [OF assms(2) c(1)] c(2)]])
next
  case (EWrite a n err ts)
  with assms obtain r w where c: "a < length (conns s)" "Write (n, err) ts (conns s ! a) = Ret (r, w)"
    "s' = s\<lparr>conns := (conns s)[a := w]\<rparr>" by (auto simp: use_conn_Ret_iff)
  show ?thesis
    unfolding c(3) by (rule store_wf_update [OF assms(2) conn_wf_io(2) [OF store_wf_nth [OF assms(2) c(1)] c(2)]])
next
  case (EClose a env now cerr)
  with assms obtain r w t where c: "a < length (conns s)"
    "Close P get env (Some (report a)) now cerr (conns s ! a) s = Ret (r, w, t)"
    "s' = t\<lparr>conns := (conns t)[a := w]\<rparr>" by (auto simp: use_conn_Ret_iff)
  have "store_wf P t" using Close_conns [OF c(2)] assms(2) by (simp add: store_wf_def)
  then show ?thesis
    unfolding c(3) by (rule store_wf_update) (rule Close_wf [OF c(2) store_wf_nth [OF assms(2) c(1)]])
qed

lemma run_client_wf:
  "run_client P get report dial hook evs s = Done s' u \<Longrightarrow> store_wf P s \<Longrightarrow> list_all dialed_ok evs \<Longrightarrow>
     store_wf P s'"
  by (induction evs arbitrary: s) (auto dest: handle_wf)

end

section \<open>Programs whose callbacks return\<close>

text \<open>
  The events only use connections that exist, where every dial creates one, and that are not
  nil: \<open>us\<close> says of every connection so far whether it can be used.
\<close>

definition dialed_conn :: "net_conn option \<Rightarrow> bool" where
  "dialed_conn conn = (case conn of None \<Rightarrow> False | Some c \<Rightarrow> c \<noteq> nil_conn)"

fun addressed :: "bool list \<Rightarrow> 'h event list \<Rightarrow> bool" where
  "addressed us [] = True"
| "addressed us (EHook h # evs) = addressed us evs"
| "addressed us (EDial answer env now # evs) = addressed (us @ [dialed_conn (fst answer)]) evs"
| "addressed us (ERead a n err ts # evs) = (a < length us \<and> us ! a \<and> addressed us evs)"
| "addressed us (EWrite a n err ts # evs) = (a < length us \<and> us ! a \<and> addressed us evs)"
| "addressed us (EClose a env now cerr # evs) = (a < length us \<and> us ! a \<and> addressed us evs)"

lemma addressed_mono: "addressed us evs \<Longrightarrow> list_all2 (\<le>) us us' \<Longrightarrow> addressed us' evs"
  by (induction us evs arbitrary: us' rule: addressed.induct)
    (auto simp: list_all2_appendI dest: list_all2_lengthD list_all2_nthD)

definition usable :: "('sys, 'm) world_scheme \<Rightarrow> bool list" where
  "usable s = map (\<lambda>w. inner w \<noteq> nil_conn) (conns s)"

lemma usable_simps [simp]: "usable (print txt s) = usable s" "length (usable s) = length (conns s)"
  by (simp_all add: usable_def)

lemma usable_nth: "a < length (conns s) \<Longrightarrow> usable s ! a \<longleftrightarrow> inner (conns s ! a) \<noteq> nil_conn"
  by (simp add: usable_def)

lemma usable_update:
  "conns t = conns s \<Longrightarrow> inner (conns s ! a) \<noteq> nil_conn \<Longrightarrow> inner w \<noteq> nil_conn \<Longrightarrow>
     usable (t\<lparr>conns := (conns s)[a := w]\<rparr>) = usable s"
  by (cases "a < length (conns s)") (simp_all add: usable_def map_update list_update_same_conv list_update_beyond)

lemma opened_conn_inner:
  "inner (opened_conn P get env now conn) \<noteq> nil_conn \<longleftrightarrow> dialed_conn conn"
  by (simp add: opened_conn_def Let_def store_def new_Conn_def dialed_conn_def split: prod.split option.split)

lemma inner_not_nil [simp]: "inner (mark_closed w) \<noteq> nil_conn"
  by (cases "inner w") (simp add: mark_closed_def nil_conn_def)

text \<open>No method of a connection is running.\<close>

definition unlocked :: "('sys, 'm) world_scheme \<Rightarrow> bool" where
  "unlocked s \<longleftrightarrow> (\<forall>w \<in> set (conns s). \<not> locked w)"

locale live_client = client_program P get report dial hook
  for P :: "'sys platform"
    and get :: "nat \<Rightarrow> 'sys option \<times> error option"
    and report :: "nat \<Rightarrow> ('sys, ('sys, 'm) world_scheme) report"
    and dial :: "('sys, ('sys, 'm) world_scheme) dial_fn"
    and hook :: "'h \<Rightarrow> ('sys, 'm) world_scheme \<Rightarrow> (('sys, 'm) world_scheme, unit) result" +
  fixes ready :: "('sys, 'm) world_scheme \<Rightarrow> bool"
  assumes report_live: "ready s \<Longrightarrow> \<exists>s'. report a st w s = Ret (w, s') \<and> ready s'"
    and dial_live: "ready s \<Longrightarrow> \<exists>s' w. dial answer env now s = Ret s' \<and> ready s' \<and>
      conns s' = conns s @ [w] \<and> \<not> locked w \<and> (inner w \<noteq> nil_conn \<longleftrightarrow> dialed_conn (fst answer))"
    and hook_live: "ready s \<Longrightarrow> (\<exists>s'. hook h s = Done s' () \<and> ready s') \<or> (\<exists>s' msg. hook h s = Fatal s' msg)"
    and ready_conns: "ready (s\<lparr>conns := ws\<rparr>) = ready s"
begin

lemma use_conn_live:
  assumes "a < length (usable s)" "usable s ! a" "unlocked s"
    and "\<And>w. \<not> locked w \<Longrightarrow> inner w \<noteq> nil_conn \<Longrightarrow>
      \<exists>w' t. f w = Ret (w', t) \<and> \<not> locked w' \<and> inner w' \<noteq> nil_conn \<and> ready t \<and> conns t = conns s"
  shows "\<exists>s'. of_outcome (use_conn a f s) = Done s' () \<and> ready s' \<and> unlocked s' \<and> usable s' = usable s"
proof -
  have a: "a < length (conns s)" "inner (conns s ! a) \<noteq> nil_conn" using assms(1,2) by (simp_all add: usable_nth)
  have "\<not> locked (conns s ! a)" using a(1) assms(3) by (simp add: unlocked_def)
  from assms(4) [OF this a(2)] obtain w' t where
    w: "f (conns s ! a) = Ret (w', t)" "\<not> locked w'" "inner w' \<noteq> nil_conn" "ready t" "conns t = conns s" by blast
  then have "of_outcome (use_conn a f s) = Done (t\<lparr>conns := (conns s)[a := w']\<rparr>) ()"
    using a by (simp add: use_conn_Ret_iff)
  moreover have "unlocked (t\<lparr>conns := (conns s)[a := w']\<rparr>)"
    using w(2) assms(3) set_update_subset_insert [of "conns s" a w'] by (auto simp: unlocked_def)
  ultimately show ?thesis using w(4) usable_update [OF w(5) a(2) w(3)] by (simp add: ready_conns)
qed

lemma Close_live:
  assumes "\<not> locked w" "ready s"
  shows "\<exists>w' t. bind_outcome (Close P get env (Some (report a)) now cerr w s) (\<lambda>(_, w, s). Ret (w, s)) = Ret (w', t) \<and>
    \<not> locked w' \<and> inner w' \<noteq> nil_conn \<and> ready t \<and> conns t = conns s"
proof -
  let ?v = "store P Closed (probe get env w) (w\<lparr>ClosedAt := now\<rparr>)"
  obtain t where t: "report a Closed ?v s = Ret (?v, t)" "ready t"
    using report_live [OF assms(2), of a Closed ?v] by auto
  have c: "conns t = conns s" using report_keeps [OF t(1)] by (rule conjunct2)
  show ?thesis
  proof (cases "ClosedInfo w = None")
    case True
    then have "Close P get env (Some (report a)) now cerr w s = Ret (cerr, mark_closed ?v, t)"
      unfolding Close_unlocked [OF assms(1)] using t(1) by simp
    with t(2) c assms(1) show ?thesis by simp
  next
    case False
    then have "Close P get env (Some (report a)) now cerr w s = Ret (cerr, mark_closed (w\<lparr>ClosedAt := now\<rparr>), s)"
      unfolding Close_unlocked [OF assms(1)] by auto
    with assms show ?thesis by simp
  qed
qed

lemma handle_live:
  assumes "ready s" "unlocked s" "addressed (usable s) (ev # evs)"
  shows "(\<exists>s'. handle P get report dial hook ev s = Done s' () \<and> ready s' \<and> unlocked s' \<and>
      addressed (usable s') evs) \<or>
    (\<exists>s' msg. handle P get report dial hook ev s = Fatal s' msg)"
proof (cases ev)
  case (EHook h)
  from hook_live [OF assms(1), of h] show ?thesis
  proof (elim disjE exE conjE)
    fix s'
    assume h: "hook h s = Done s' ()" "ready s'"
    with hook_keeps [OF h(1)] EHook assms show ?thesis by (simp add: unlocked_def usable_def)
  qed (simp add: EHook)
next
  case (EDial answer env now)
  from dial_live [OF assms(1), of answer env now] show ?thesis
  proof (elim exE conjE)
    fix s' w
    assume "dial answer env now s = Ret s'" "ready s'" "conns s' = conns s @ [w]" "\<not> locked w"
      "inner w \<noteq> nil_conn \<longleftrightarrow> dialed_conn (fst answer)"
    with EDial assms(2,3) show ?thesis by (simp add: unlocked_def usable_def)
  qed
next
  case (ERead a n err ts)
  then have a: "a < length (usable s)" "usable s ! a" "addressed (usable s) evs" using assms(3) by simp_all
  have "\<exists>s'. handle P get report dial hook ev s = Done s' () \<and> ready s' \<and> unlocked s' \<and>
      usable s' = usable s"
    unfolding ERead handle.simps
    by (rule use_conn_live [OF a(1,2) assms(2)]) (simp add: Read_unlocked assms(1))
  with a(3) show ?thesis by (elim exE conjE) simp
next
  case (EWrite a n err ts)
  then have a: "a < length (usable s)" "usable s ! a" "addressed (usable s) evs" using assms(3) by simp_all
  have "\<exists>s'. handle P get report dial hook ev s = Done s' () \<and> ready s' \<and> unlocked s' \<and>
      usable s' = usable s"
    unfolding EWrite handle.simps
    by (rule use_conn_live [OF a(1,2) assms(2)]) (simp add: Write_unlocked assms(1))
  with a(3) show ?thesis by (elim exE conjE) simp
next
  case (EClose a env now cerr)
  then have a: "a < length (usable s)" "usable s ! a" "addressed (usable s) evs" using assms(3) by simp_all
  have "\<exists>s'. handle P get report dial hook ev s = Done s' () \<and> ready s' \<and> unlocked s' \<and>
      usable s' = usable s"
    unfolding EClose handle.simps by (rule use_conn_live [OF a(1,2) assms(2) Close_live [OF _ assms(1)]])
  with a(3) show ?thesis by (elim exE conjE) simp
qed

text \<open>The client is never blocked by the program, and the program never panics under it.\<close>

lemma run_client_live:
  assumes "ready s" "unlocked s" "addressed (usable s) (evs @ rest)"
  shows "(\<exists>s'. run_client P get report dial hook evs s = Done s' () \<and> ready s' \<and> unlocked s' \<and>
      addressed (usable s') rest) \<or>
    (\<exists>s' msg. run_client P get report dial hook evs s = Fatal s' msg)"
  using assms
proof (induction evs arbitrary: s)
  case (Cons ev evs)
  have "addressed (usable s) (ev # evs @ rest)" using Cons.prems(3) by simp
  from handle_live [OF Cons.prems(1,2) this] show ?case
  proof (elim disjE exE conjE)
    fix t
    assume "handle P get report dial hook ev s = Done t ()" "ready t" "unlocked t"
      "addressed (usable t) (evs @ rest)"
    with Cons.IH [of t] show ?case by simp
  qed simp
qed simp

end

end
