(* ===== verification/Go_Time.thy ===== *)
theory Go_Time
  imports Go_Prelude
begin

text \<open>
  \<open>time.Duration.String\<close>, which the programs use for the durations they print: a
  decimal number with a unit of at most seconds, and hours and minutes in front of the seconds
  where there are any. The fraction has no trailing zeros.
\<close>

section \<open>Formatting\<close>

text \<open>The last \<open>k\<close> decimal digits of a number.\<close>

fun low_digits :: "nat \<Rightarrow> nat \<Rightarrow> string" where
  "low_digits 0 n = []"
| "low_digits (Suc k) n = low_digits k (n div 10) @ [digit_char (n mod 10)]"

lemma low_digits_numeral [simp]:
  "low_digits (numeral k) n = low_digits (pred_numeral k) (n div 10) @ [digit_char (n mod 10)]"
  by (simp only: numeral_eq_Suc [of k] low_digits.simps)

text \<open>\<open>fmtFrac\<close>: the fraction \<open>n / 10\<^sup>k\<close> with its point, nothing if it is zero.\<close>

definition fmtFrac :: "nat \<Rightarrow> nat \<Rightarrow> string" where
  "fmtFrac k n = (let ds = TrimRight (low_digits k n) ''0'' in if ds = [] then [] else CHR ''.'' # ds)"

definition decimal :: "nat \<Rightarrow> nat \<Rightarrow> string" where
  "decimal k n = format_nat (n div 10 ^ k) @ fmtFrac k n"

text \<open>The micro sign is written in UTF-8.\<close>

definition format_duration :: "nat \<Rightarrow> string" where
  "format_duration u =
    (if u < 1000000000 then
       if u = 0 then ''0s''
       else if u < 1000 then decimal 0 u @ ''ns''
       else if u < 1000000 then decimal 3 u @ [CHR 0xC2, CHR 0xB5, CHR ''s'']
       else decimal 6 u @ ''ms''
     else
       (let secs = u div 1000000000; mins = secs div 60; hours = mins div 60
        in (if hours > 0 then format_nat hours @ ''h'' else []) @
           (if mins > 0 then format_nat (mins mod 60) @ ''m'' else []) @
           format_nat (secs mod 60) @ fmtFrac 9 u @ ''s''))"

definition Duration_String :: "duration \<Rightarrow> string" where
  "Duration_String d =
    (if sint d < 0 then CHR ''-'' # format_duration (nat (- sint d)) else format_duration (nat (sint d)))"

section \<open>What the text says\<close>

text \<open>The value of a decimal fraction in units of \<open>10\<^sup>-\<^sup>k\<close>.\<close>

definition frac_value :: "nat \<Rightarrow> string \<Rightarrow> nat" where
  "frac_value k ds = digits_value ds * 10 ^ (k - length ds)"

lemma length_low_digits [simp]: "length (low_digits k n) = k"
  by (induction k arbitrary: n) simp_all

lemma digits_value_low_digits: "digits_value (low_digits k n) = n mod 10 ^ k"
proof (induction k arbitrary: n)
  case (Suc k)
  have "n mod 10 ^ Suc k = 10 * (n div 10 mod 10 ^ k) + n mod 10"
    unfolding power_Suc by (rule mod_mult2_eq)
  moreover have "n mod 10 < 10" by simp
  ultimately show ?case
    by (simp only: low_digits.simps digits_value_snoc Suc.IH char_digit_digit_char)
qed (simp add: digits_value_def)

lemma digits_value_zeros: "digits_value (ds @ replicate m CHR ''0'') = digits_value ds * 10 ^ m"
proof (induction m)
  case (Suc m)
  have "ds @ replicate (Suc m) CHR ''0'' = (ds @ replicate m CHR ''0'') @ [CHR ''0'']"
    by (simp only: replicate_Suc replicate_append_same [symmetric] append_assoc)
  moreover have "char_digit CHR ''0'' = 0" by (simp add: char_digit_def)
  ultimately have "digits_value (ds @ replicate (Suc m) CHR ''0'') = 10 * (digits_value ds * 10 ^ m)"
    by (simp only: digits_value_snoc Suc.IH add_0_right)
  then show ?case by (simp only: power_Suc mult.left_commute)
qed simp

text \<open>Dropping trailing zeros does not change the fraction.\<close>

lemma frac_value_low_digits: "frac_value k (TrimRight (low_digits k n) ''0'') = n mod 10 ^ k"
proof -
  obtain z where z: "low_digits k n = TrimRight (low_digits k n) ''0'' @ z" "set z \<subseteq> {CHR ''0''}"
    using TrimRight_prefix [of "low_digits k n" "''0''"] by auto
  from z(2) have "z = replicate (length z) CHR ''0''" by (simp add: replicate_length_same subset_iff)
  moreover have "length z = k - length (TrimRight (low_digits k n) ''0'')"
    using arg_cong [OF z(1), of length] by simp
  ultimately show ?thesis
    using digits_value_zeros [of "TrimRight (low_digits k n) ''0''" "length z"] z(1)
      digits_value_low_digits [of k n] by (simp add: frac_value_def)
qed

text \<open>The value of a decimal number in units of \<open>10\<^sup>-\<^sup>k\<close>.\<close>

definition decimal_value :: "nat \<Rightarrow> string \<Rightarrow> nat" where
  "decimal_value k s =
    digits_value (takeWhile is_digit s) * 10 ^ k + frac_value k (drop (Suc (length (takeWhile is_digit s))) s)"

lemma takeWhile_digits_append:
  "list_all is_digit a \<Longrightarrow> (case b of [] \<Rightarrow> True | c # _ \<Rightarrow> \<not> is_digit c) \<Longrightarrow> takeWhile is_digit (a @ b) = a"
  by (induction a) (auto split: list.splits)

lemma decimal_value_decimal: "decimal_value k (decimal k n) = n"
proof -
  have "\<not> is_digit CHR ''.''" by (simp add: is_digit_def)
  then have t: "takeWhile is_digit (decimal k n) = format_nat (n div 10 ^ k)"
    unfolding decimal_def fmtFrac_def
    by (intro takeWhile_digits_append) (auto simp: format_nat_digits Let_def split: list.split)
  have "drop (Suc (length (format_nat (n div 10 ^ k)))) (decimal k n) = TrimRight (low_digits k n) ''0''"
    by (simp add: decimal_def fmtFrac_def Let_def)
  with t show ?thesis
    by (simp only: decimal_value_def frac_value_low_digits digits_value_format_nat div_mult_mod_eq)
qed

text \<open>Some durations as the package documents them.\<close>

lemma Duration_String_examples:
  "Duration_String 0 = ''0s''"
  "Duration_String 250 = ''250ns''"
  "Duration_String 1500000 = ''1.5ms''"
  "Duration_String (- 1000000000) = ''-1s''"
  "Duration_String 5430000000000 = ''1h30m30s''"
  by (simp_all add: Duration_String_def format_duration_def decimal_def fmtFrac_def TrimRight_def format_base.simps
      digit_char_def char_of_eq_iff take_bit_eq_mod Let_def)

end
