(* ===== verification/Httpstat_Run.thy ===== *)
theory Httpstat_Run
  imports Httpstat_Output Conn_Client_Props Go_Time Tcp_Other
begin

text \<open>
  \<open>cmd/httpstat/main.go\<close>, the visit of a URL as a whole: dialing through the connection
  wrapper, the trace hooks, everything that is printed, and the redirects.

  The HTTP client is the one of \<open>Conn_Client\<close>. The variable \<open>connConn\<close> holds a
  pointer to a wrapped connection, so what happens to the connection afterwards is seen through
  it. The package \<open>color\<close>, the construction of requests, files and the answers of the
  client are parameters, collected in the record \<open>stat_params\<close>.
\<close>

section \<open>State\<close>

text \<open>The variables of the package, and the times of the visit that is running.\<close>

record 'sys stat_world = "'sys world" +
  conniverM :: bool
  connConn :: "nat option"
  tm :: times
  redirectsFollowed :: int

text \<open>
  \<open>New\<close> is the function \<open>color.New(attr).SprintfFunc()\<close> on a format without
  arguments; the others are \<open>color.GreenString\<close> and so on, on the formatted text.
\<close>

record palette =
  New :: "int \<Rightarrow> string \<Rightarrow> string"
  GreenString :: "string \<Rightarrow> string"
  CyanString :: "string \<Rightarrow> string"
  RedString :: "string \<Rightarrow> string"
  WhiteString :: "string \<Rightarrow> string"

definition grayscale :: "palette \<Rightarrow> int \<Rightarrow> string \<Rightarrow> string" where
  "grayscale pal code = New pal (code + 232)"

text \<open>
  What the client does for a request: the events of \<open>Do\<close> and its result, the events of
  copying the body, if it is read, and the error of that, those of closing the body and of closing the idle
  connections, and the time after the body was read.
\<close>

record exchange =
  do_events :: "(hook \<times> int) event list"
  do_result :: "error + response"
  copy_events :: "(hook \<times> int) event list"
  copy_error :: "error option"
  close_events :: "(hook \<times> int) event list"
  read_at :: int
  closing_events :: "(hook \<times> int) event list"

text \<open>
  \<open>par_newRequest\<close> is \<open>newRequest\<close> for the method, headers and body of the command
  line, \<open>par_certs\<close> the result of \<open>readClientCert\<close>. What the client does may depend
  on the number of the visit, the address of the next connection, the configuration of the
  client and the request.
\<close>

record ('sys, 'cert) stat_params =
  par_platform :: "'sys platform"
  par_GetTCPInfo :: "nat \<Rightarrow> 'sys option \<times> error option"
  par_colors :: palette
  par_flags :: cmd_flags
  par_newRequest :: "url \<Rightarrow> request exits"
  par_SplitHostPort :: "string \<Rightarrow> error + string \<times> string"
  par_certs :: "'cert list exits"
  par_ParseMediaType :: "string \<Rightarrow> error + string \<times> (string \<Rightarrow> string option)"
  par_RequestURI :: "request \<Rightarrow> string"
  par_Create :: "string \<Rightarrow> error option"
  par_client :: "int \<Rightarrow> nat \<Rightarrow> 'cert client \<Rightarrow> request \<Rightarrow> exchange"
  par_ErrNoLocation :: error

section \<open>Dialing\<close>

definition getConniver :: "'sys stat_world \<Rightarrow> nat option outcome" where
  "getConniver s = (if conniverM s then Deadlock else Ret (connConn s))"

definition setConniver :: "nat \<Rightarrow> 'sys stat_world \<Rightarrow> 'sys stat_world outcome" where
  "setConniver c s = (if conniverM s then Deadlock else Ret (s\<lparr>connConn := Some c\<rparr>))"

text \<open>The report of the connection at address \<open>a\<close>.\<close>

definition dial_report :: "nat \<Rightarrow> ('sys, 'sys stat_world) report" where
  "dial_report a state conn s =
    (if state = Closed then bind_outcome (setConniver a s) (\<lambda>s. Ret (conn, s)) else Ret (conn, s))"

text \<open>The wrapper is created also where the dialer failed, around a nil connection.\<close>

definition dialContext ::
    "'sys platform \<Rightarrow> (nat \<Rightarrow> 'sys option \<times> error option) \<Rightarrow> ('sys, 'sys stat_world) dial_fn" where
  "dialContext P GetTCPInfo dialed env now s =
    (case dialed of (conn, err) \<Rightarrow> wrap_new P GetTCPInfo dial_report env now conn s)"

text \<open>The hooks of the trace; one of them prints.\<close>

definition connected_text :: "palette \<Rightarrow> hook \<Rightarrow> string" where
  "connected_text pal h =
    (case h of
       ConnectDone addr err \<Rightarrow>
         [newline] @ GreenString pal ''Connected to '' @ CyanString pal addr @ [newline]
     | _ \<Rightarrow> [])"

definition stat_hook :: "palette \<Rightarrow> hook \<times> int \<Rightarrow> 'sys stat_world \<Rightarrow> ('sys stat_world, unit) result" where
  "stat_hook pal h s =
    (case trace_hook (fst h) (snd h) (tm s) of
       Inl msg \<Rightarrow> Fatal s msg
     | Inr t \<Rightarrow> Done (print (connected_text pal (fst h)) (s\<lparr>tm := t\<rparr>)) ())"

definition stat_run ::
    "('sys, 'cert) stat_params \<Rightarrow> (hook \<times> int) event list \<Rightarrow> 'sys stat_world \<Rightarrow> ('sys stat_world, unit) result" where
  "stat_run par =
    run_client (par_platform par) (par_GetTCPInfo par) dial_report
      (dialContext (par_platform par) (par_GetTCPInfo par)) (stat_hook (par_colors par))"

section \<open>Output\<close>

definition via_text :: "palette \<Rightarrow> response \<Rightarrow> string" where
  "via_text pal resp =
    [newline] @ GreenString pal ''Connected via'' @ '' '' @ CyanString pal (connectedVia (TLS_Version resp)) @ [newline]"

definition response_text :: "palette \<Rightarrow> response \<Rightarrow> string \<Rightarrow> string" where
  "response_text pal resp bodyMsg =
    [newline] @ GreenString pal ''HTTP'' @ grayscale pal 14 ''/'' @
    CyanString pal (format_int (ProtoMajor resp) @ ''.'' @ format_int (ProtoMinor resp) @ '' '' @ Status resp) @ [newline] @
    concat (header_lines (grayscale pal 14) (CyanString pal) (resp_Header resp) (Header_names resp)) @
    (if bodyMsg \<noteq> [] then [newline] @ bodyMsg @ [newline] else [])"

text \<open>The table never has a formatting error (\<open>timing_text_complete\<close>).\<close>

definition table_text :: "palette \<Rightarrow> string \<Rightarrow> int \<Rightarrow> times \<Rightarrow> string" where
  "table_text pal scheme t7 t =
    (case timing_text (grayscale pal 16) (CyanString pal) scheme t7 t of Some txt \<Rightarrow> txt | None \<Rightarrow> [])"

abbreviation (input) tab :: char where "tab \<equiv> CHR 0x09"

definition diagnostics_text :: "palette \<Rightarrow> duration \<Rightarrow> i64 \<Rightarrow> i64 \<Rightarrow> string list \<Rightarrow> string \<Rightarrow> string" where
  "diagnostics_text pal rtt tx rx warns json =
    grayscale pal 14 ''RTT'' @ '':'' @ [tab, tab] @ CyanString pal (Duration_String rtt) @ [newline] @
    grayscale pal 14 ''Sent'' @ '':'' @ [tab, tab] @ CyanString pal (format_int (sint tx) @ '' bytes'') @ [newline] @
    grayscale pal 14 ''Received'' @ '':'' @ [tab] @ CyanString pal (format_int (sint rx) @ '' bytes'') @ [newline] @
    (if warns \<noteq> []
     then grayscale pal 14 ''Warnings'' @ '':'' @ [tab] @ RedString pal (Join warns '', '') @ [newline] else []) @
    grayscale pal 14 (''Diagnostics:'' @ [newline] @ ''============'' @ [newline]) @ [newline] @
    WhiteString pal (json @ [newline])"

text \<open>
  What is printed of the last closed connection, if there is closing data. The error of
  \<open>json.MarshalIndent\<close> is dropped, and its result is then empty.
\<close>

definition diagnostics :: "'sys platform \<Rightarrow> palette \<Rightarrow> 'sys stat_world \<Rightarrow> 'sys stat_world outcome" where
  "diagnostics P pal s =
    bind_outcome (getConniver s) (\<lambda>c.
      case c of
        None \<Rightarrow> Ret s
      | Some a \<Rightarrow> at_conn a (\<lambda>c.
          case ClosedInfo c of
            None \<Rightarrow> Ret (c, s)
          | Some info \<Rightarrow>
              bind_outcome (Warnings P c) (\<lambda>(warns, c).
              bind_outcome (Conn_ToMap P c) (\<lambda>(m, c).
                Ret (c, print (diagnostics_text pal (info_RTT info) (TxBytes c) (RxBytes c) warns
                  (case MarshalIndent (AMap m) of None \<Rightarrow> [] | Some jb \<Rightarrow> jb)) s)))) s)"

section \<open>Visiting a URL\<close>

text \<open>From the end of the body on.\<close>

definition visit_finish ::
    "('sys, 'cert) stat_params \<Rightarrow> url \<Rightarrow> exchange \<Rightarrow> response \<Rightarrow> string \<Rightarrow> 'sys stat_world \<Rightarrow>
     ('sys stat_world, response) result" where
  "visit_finish par u x resp bodyMsg s =
    and_then (stat_run par (close_events x) s) (\<lambda>_ s.
    (let s = s\<lparr>tm := skip_dns (tm s)\<rparr>;
         s = print (response_text (par_colors par) resp bodyMsg) s
     in and_then (stat_run par (closing_events x) s) (\<lambda>_ s.
       (let s = print ([newline] @ table_text (par_colors par) (Scheme u) (read_at x) (tm s)) s
        in and_then (of_outcome (diagnostics (par_platform par) (par_colors par) s)) (\<lambda>_ s. Done s resp)))))"

text \<open>
  From the response on. The file of the body is created before the body is copied: an error that
  does not come from copying ends the program first.
\<close>

definition response_body ::
    "('sys, 'cert) stat_params \<Rightarrow> error option \<Rightarrow> request \<Rightarrow> response \<Rightarrow> (string \<times> string option) exits" where
  "response_body par copyErr req resp =
    readResponseBody (par_ParseMediaType par) (CyanString (par_colors par)) (par_Create par)
      copyErr (par_flags par) (par_RequestURI par req) req resp"

definition visit_respond ::
    "('sys, 'cert) stat_params \<Rightarrow> url \<Rightarrow> exchange \<Rightarrow> request \<Rightarrow> response \<Rightarrow> 'sys stat_world \<Rightarrow>
     ('sys stat_world, response) result" where
  "visit_respond par u x req resp s =
    (let s = print (via_text (par_colors par) resp) s in
     case response_body par None req resp of
       Inl msg \<Rightarrow> Fatal s msg
     | Inr _ \<Rightarrow>
         and_then (stat_run par (copy_events x) s) (\<lambda>_ s.
           case response_body par (copy_error x) req resp of
             Inl msg \<Rightarrow> Fatal s msg
           | Inr (bodyMsg, file) \<Rightarrow> visit_finish par u x resp bodyMsg s))"

text \<open>Everything before redirects are considered.\<close>

definition visit_once ::
    "('sys, 'cert) stat_params \<Rightarrow> url \<Rightarrow> 'sys stat_world \<Rightarrow> ('sys stat_world, response) result" where
  "visit_once par u s =
    (case par_newRequest par u of
       Inl msg \<Rightarrow> Fatal s msg
     | Inr req \<Rightarrow>
         (case TLSClientConfig (par_SplitHostPort par) (par_flags par) (par_certs par) u req of
            Inl msg \<Rightarrow> Fatal s msg
          | Inr config \<Rightarrow>
              (let x = par_client par (redirectsFollowed s) (length (conns s)) (new_client (par_flags par) config) req
               in and_then (stat_run par (do_events x) (s\<lparr>tm := no_times\<rparr>)) (\<lambda>_ s.
                 case do_result x of
                   Inl err \<Rightarrow> Fatal s (''failed to read response: '' @ Error err)
                 | Inr resp \<Rightarrow> visit_respond par u x req resp s))))"

definition maxRedirects :: int where
  "maxRedirects = 10"

section \<open>What a visit leaves alone\<close>

lemma dial_report_Ret_iff:
  "dial_report a st w s = Ret (w', s') \<longleftrightarrow>
     w' = w \<and> (if st = Closed then \<not> conniverM s \<and> s' = s\<lparr>connConn := Some a\<rparr> else s' = s)"
  by (auto simp: dial_report_def setConniver_def)

lemma dialContext_Ret_iff:
  "dialContext P get answer env now s = Ret s' \<longleftrightarrow>
     s' = s\<lparr>conns := conns s @ [opened_conn P get env now (fst answer)]\<rparr>"
  by (cases answer) (auto simp: dialContext_def wrap_new_eq dial_report_Ret_iff)

lemma stat_hook_Done_iff:
  "stat_hook pal h s = Done s' u \<longleftrightarrow>
     (\<exists>t. trace_hook (fst h) (snd h) (tm s) = Inr t \<and> s' = print (connected_text pal (fst h)) (s\<lparr>tm := t\<rparr>))"
  by (auto simp: stat_hook_def split: sum.split)

lemma print_sel [simp]:
  "connConn (print txt s) = connConn s" "conniverM (print txt s) = conniverM s" "tm (print txt s) = tm s"
  "redirectsFollowed (print txt s) = redirectsFollowed s"
  by (simp_all add: print_def)

lemma stat_run_redirects:
  "stat_run par evs s = Done s' u \<Longrightarrow> redirectsFollowed s' = redirectsFollowed s"
  unfolding stat_run_def
  by (rule run_client_frame [where F = redirectsFollowed])
    (auto simp: dial_report_Ret_iff dialContext_Ret_iff stat_hook_Done_iff split: if_splits)

lemma stat_run_mutex: "stat_run par evs s = Done s' u \<Longrightarrow> conniverM s' = conniverM s"
  unfolding stat_run_def
  by (rule run_client_frame [where F = conniverM])
    (auto simp: dial_report_Ret_iff dialContext_Ret_iff stat_hook_Done_iff split: if_splits)

lemma diagnostics_Ret:
  assumes "diagnostics P pal s = Ret s'"
  shows "redirectsFollowed s' = redirectsFollowed s" "conniverM s' = conniverM s" "connConn s' = connConn s"
  using assms
  by (auto simp: diagnostics_def getConniver_def at_conn_Ret_iff split: if_splits option.splits)

text \<open>
  A dial that failed still returns a wrapper, which is not nil but holds a nil connection.
\<close>

lemma dialContext_failed:
  "\<exists>w. dialContext P get (None, Some err) env now s = Ret (s\<lparr>conns := conns s @ [w]\<rparr>) \<and> inner w = nil_conn"
  using opened_conn_inner [of P get env now None]
  by (intro exI [of _ "opened_conn P get env now None"]) (simp add: dialContext_Ret_iff dialed_conn_def)

text \<open>Dialing and closing a connection.\<close>

lemma stat_run_dial:
  "stat_run par (EDial answer env now # evs) s =
     stat_run par evs (s\<lparr>conns := conns s @ [opened_conn (par_platform par) (par_GetTCPInfo par) env now (fst answer)]\<rparr>)"
proof -
  have "dialContext (par_platform par) (par_GetTCPInfo par) answer env now s =
      Ret (s\<lparr>conns := conns s @ [opened_conn (par_platform par) (par_GetTCPInfo par) env now (fst answer)]\<rparr>)"
    by (simp add: dialContext_Ret_iff)
  then show ?thesis by (simp add: stat_run_def)
qed

lemma stat_run_Close:
  assumes "a < length (conns s)" "inner (conns s ! a) \<noteq> nil_conn" "\<not> locked (conns s ! a)"
    "ClosedInfo (conns s ! a) = None" "\<not> conniverM s" "probe (par_GetTCPInfo par) env (conns s ! a) = (Some d, None)"
  shows "\<exists>w. stat_run par [EClose a env now cerr] s = Done (s\<lparr>connConn := Some a, conns := (conns s)[a := w]\<rparr>) () \<and>
    ClosedInfo w = Some (ToInfo (par_platform par) d)"
proof -
  let ?v = "(conns s ! a)\<lparr>ClosedAt := now, ClosedInfo := Some (ToInfo (par_platform par) d)\<rparr>"
  have "dial_report a Closed ?v s = Ret (?v, s\<lparr>connConn := Some a\<rparr>)"
    using assms(5) by (simp add: dial_report_Ret_iff)
  with assms(3,4,6) have "Close (par_platform par) (par_GetTCPInfo par) env (Some (dial_report a)) now cerr (conns s ! a) s =
      Ret (cerr, mark_closed ?v, s\<lparr>connConn := Some a\<rparr>)"
    by (simp add: Close_unlocked store_def)
  with assms(1,2) show ?thesis
    by (intro exI [of _ "mark_closed ?v"]) (simp add: stat_run_def use_conn_def at_conn_def mark_closed_def)
qed

text \<open>The first address that cannot be connected to ends the program, whatever would follow.\<close>

lemma connect_error_fatal:
  "stat_run par (EHook (ConnectDone addr (Some err), now) # evs) s =
     Fatal s (''unable to connect to host '' @ addr @ '': '' @ Error err)"
  by (simp add: stat_run_def stat_hook_def)

text \<open>The steps of a visit that returns.\<close>

lemma visit_finish_Done:
  assumes "visit_finish par u x resp bodyMsg s = Done s' resp'"
  obtains s1 s2 where "stat_run par (close_events x) s = Done s1 ()"
    "stat_run par (closing_events x)
       (print (response_text (par_colors par) resp bodyMsg) (s1\<lparr>tm := skip_dns (tm s1)\<rparr>)) = Done s2 ()"
    "diagnostics (par_platform par) (par_colors par)
       (print ([newline] @ table_text (par_colors par) (Scheme u) (read_at x) (tm s2)) s2) = Ret s'"
    "resp' = resp"
  using assms by (auto simp: visit_finish_def Let_def)

lemma visit_respond_Done:
  assumes "visit_respond par u x req resp s = Done s' resp'"
  obtains s1 bodyMsg where "stat_run par (copy_events x) (print (via_text (par_colors par) resp) s) = Done s1 ()"
    "visit_finish par u x resp bodyMsg s1 = Done s' resp" "resp' = resp"
proof -
  obtain b where b: "response_body par None req resp = Inr b"
    using assms by (cases "response_body par None req resp") (simp_all add: visit_respond_def)
  obtain s1 where s1: "stat_run par (copy_events x) (print (via_text (par_colors par) resp) s) = Done s1 ()"
    using assms b by (auto simp: visit_respond_def Let_def)
  obtain bodyMsg where fin: "visit_finish par u x resp bodyMsg s1 = Done s' resp'"
    using assms b s1 by (cases "response_body par (copy_error x) req resp") (auto simp: visit_respond_def Let_def)
  then have "resp' = resp" by (rule visit_finish_Done)
  with that s1 fin show ?thesis by blast
qed

lemma visit_once_Done:
  assumes "visit_once par u s = Done s' resp"
  obtains req config x s1 where "par_newRequest par u = Inr req"
    "TLSClientConfig (par_SplitHostPort par) (par_flags par) (par_certs par) u req = Inr config"
    "x = par_client par (redirectsFollowed s) (length (conns s)) (new_client (par_flags par) config) req"
    "stat_run par (do_events x) (s\<lparr>tm := no_times\<rparr>) = Done s1 ()"
    "visit_respond par u x req resp s1 = Done s' resp"
proof -
  obtain req where req: "par_newRequest par u = Inr req"
    using assms by (cases "par_newRequest par u") (simp_all add: visit_once_def)
  obtain config where config:
    "TLSClientConfig (par_SplitHostPort par) (par_flags par) (par_certs par) u req = Inr config"
    using assms req by (cases "TLSClientConfig (par_SplitHostPort par) (par_flags par) (par_certs par) u req")
      (simp_all add: visit_once_def)
  let ?x = "par_client par (redirectsFollowed s) (length (conns s)) (new_client (par_flags par) config) req"
  obtain s1 where s1: "stat_run par (do_events ?x) (s\<lparr>tm := no_times\<rparr>) = Done s1 ()"
    using assms req config by (auto simp: visit_once_def Let_def)
  obtain r where r: "visit_respond par u ?x req r s1 = Done s' resp"
    using assms req config s1 by (cases "do_result ?x") (simp_all add: visit_once_def Let_def)
  then have "resp = r" by (rule visit_respond_Done)
  with that [OF req config refl s1] r show ?thesis by simp
qed

lemma visit_once_redirects:
  assumes "visit_once par u s = Done s' resp"
  shows "redirectsFollowed s' = redirectsFollowed s"
proof -
  obtain req x s1 where v: "stat_run par (do_events x) (s\<lparr>tm := no_times\<rparr>) = Done s1 ()"
    "visit_respond par u x req resp s1 = Done s' resp"
    using assms by (rule visit_once_Done)
  obtain s2 bodyMsg where w: "stat_run par (copy_events x) (print (via_text (par_colors par) resp) s1) = Done s2 ()"
    "visit_finish par u x resp bodyMsg s2 = Done s' resp"
    using v(2) by (rule visit_respond_Done)
  from w(2) show ?thesis
    by (rule visit_finish_Done) (use v(1) w(1) in \<open>auto dest!: stat_run_redirects diagnostics_Ret(1)\<close>)
qed

section \<open>Redirects\<close>

text \<open>
  \<open>visit\<close> returns what becomes of the program, and with it the URLs it requested, each
  with the state before the request.
\<close>

function visit ::
    "('sys, 'cert) stat_params \<Rightarrow> url \<Rightarrow> 'sys stat_world \<Rightarrow>
     (url \<times> 'sys stat_world) list \<times> ('sys stat_world, unit) result" where
  "visit par u s =
    (case visit_once par u s of
       Done t resp \<Rightarrow>
         if followRedirects (par_flags par) \<and> isRedirect resp then
           (case Location resp of
              Inl err \<Rightarrow>
                if err = par_ErrNoLocation par then ([(u, s)], Done t ())
                else ([(u, s)], Fatal t (''unable to follow redirect: '' @ Error err))
            | Inr loc \<Rightarrow>
                (let t = t\<lparr>redirectsFollowed := redirectsFollowed t + 1\<rparr> in
                 if redirectsFollowed t > maxRedirects then
                   ([(u, s)], Fatal t (''maximum number of redirects ('' @ format_int maxRedirects @ '') followed''))
                 else (case visit par loc t of (us, r) \<Rightarrow> ((u, s) # us, r))))
         else ([(u, s)], Done t ())
     | Fatal t msg \<Rightarrow> ([(u, s)], Fatal t msg)
     | Crash \<Rightarrow> ([(u, s)], Crash)
     | Hang \<Rightarrow> ([(u, s)], Hang))"
  by pat_completeness auto
termination
  by (relation "measure (\<lambda>(par, u, s). nat (maxRedirects - redirectsFollowed s))")
    (auto dest: visit_once_redirects)

declare visit.simps [simp del]

section \<open>The program\<close>

text \<open>
  The whole program: it exits with a code and a text, or visits the URL. The files, the
  construction of a request and the canonical form of header names are arguments.
\<close>

definition with_flags ::
    "(string \<Rightarrow> error option) \<Rightarrow> (string \<Rightarrow> url \<Rightarrow> body \<Rightarrow> error + request) \<Rightarrow> (string \<Rightarrow> string) \<Rightarrow> cmd_flags \<Rightarrow>
     ('sys, 'cert) stat_params \<Rightarrow> ('sys, 'cert) stat_params" where
  "with_flags Open NewRequest canonical f par =
    par\<lparr>par_flags := f,
        par_newRequest := \<lambda>u. newRequest Open NewRequest canonical (httpHeaders f) (httpMethod f) u (postBody f)\<rparr>"

definition httpstat ::
    "string \<Rightarrow> string \<Rightarrow> (string \<Rightarrow> error + url) \<Rightarrow> (string \<Rightarrow> error option) \<Rightarrow>
     (string \<Rightarrow> url \<Rightarrow> body \<Rightarrow> error + request) \<Rightarrow> (string \<Rightarrow> string) \<Rightarrow> (cmd_flags \<Rightarrow> ('sys, 'cert) stat_params) \<Rightarrow>
     string \<Rightarrow> string list \<Rightarrow> 'sys stat_world \<Rightarrow> int \<times> string + ('sys stat_world, unit) result" where
  "httpstat version runtimeVersion Parse Open NewRequest canonical par argv0 argv s =
    (case main version runtimeVersion Parse argv0 argv of
       Inl msg \<Rightarrow> Inr (Fatal s msg)
     | Inr (Exit code txt) \<Rightarrow> Inl (code, txt)
     | Inr (Visit f u) \<Rightarrow> Inr (snd (visit (with_flags Open NewRequest canonical f (par f)) u s)))"

section \<open>The limit on redirects\<close>

text \<open>One more request follows a response exactly if it redirects and names a location.\<close>

definition follows ::
    "('sys, 'cert) stat_params \<Rightarrow> url \<times> 'sys stat_world \<Rightarrow> url \<times> 'sys stat_world \<Rightarrow> bool" where
  "follows par p q \<longleftrightarrow>
     (\<exists>t resp. visit_once par (fst p) (snd p) = Done t resp \<and> followRedirects (par_flags par) \<and> isRedirect resp \<and>
        Location resp = Inr (fst q) \<and> snd q = t\<lparr>redirectsFollowed := redirectsFollowed t + 1\<rparr>)"

definition stops :: "('sys, 'cert) stat_params \<Rightarrow> url \<times> 'sys stat_world \<Rightarrow> bool" where
  "stops par p \<longleftrightarrow>
     (\<exists>t resp. visit_once par (fst p) (snd p) = Done t resp \<and>
        (followRedirects (par_flags par) \<and> isRedirect resp \<longrightarrow> Location resp = Inl (par_ErrNoLocation par)))"

definition too_many :: string where
  "too_many = ''maximum number of redirects ('' @ format_int maxRedirects @ '') followed''"

lemma visit_follow:
  assumes "follows par (u, s) (v, t)" "redirectsFollowed s < maxRedirects"
  shows "visit par u s = (case visit par v t of (us, r) \<Rightarrow> ((u, s) # us, r))"
proof -
  obtain t' resp where t: "visit_once par u s = Done t' resp" "followRedirects (par_flags par)" "isRedirect resp"
    "Location resp = Inr v" "t = t'\<lparr>redirectsFollowed := redirectsFollowed t' + 1\<rparr>"
    using assms(1) by (auto simp: follows_def)
  with visit_once_redirects [OF t(1)] assms(2) show ?thesis by (subst visit.simps) simp
qed

lemma visit_last:
  assumes "\<not> (redirectsFollowed s < maxRedirects \<and> (\<exists>q. follows par (u, s) q))"
  shows "\<exists>r. visit par u s = ([(u, s)], r) \<and> ((\<exists>t. r = Done t ()) \<longleftrightarrow> stops par (u, s)) \<and>
    ((\<exists>q. follows par (u, s) q) \<longrightarrow> (\<exists>t. r = Fatal t too_many))"
proof (cases "visit_once par u s")
  case (Done t resp)
  with visit_once_redirects [OF Done] assms show ?thesis
    by (subst visit.simps) (auto simp: follows_def stops_def too_many_def split: sum.split)
qed (subst visit.simps, auto simp: follows_def stops_def)+

text \<open>The requests of a visit, with what remains of the limit.\<close>

lemma visit_chain:
  assumes "visit par u s = (ps, r)" "redirectsFollowed s \<le> maxRedirects"
  shows "\<exists>qs. ps = (u, s) # qs \<and> int (length qs) \<le> maxRedirects - redirectsFollowed s \<and>
    successively (follows par) ps \<and> ((\<exists>t. r = Done t ()) \<longleftrightarrow> stops par (last ps)) \<and>
    ((\<exists>q. follows par (last ps) q) \<longrightarrow>
      int (length qs) = maxRedirects - redirectsFollowed s \<and> (\<exists>t. r = Fatal t too_many))"
  using assms
proof (induction "nat (maxRedirects - redirectsFollowed s)" arbitrary: u s ps r)
  case 0
  then show ?case using visit_last [of s par u] by auto
next
  case (Suc k)
  show ?case
  proof (cases "\<exists>q. follows par (u, s) q")
    case True
    then obtain v t where v: "follows par (u, s) (v, t)" by auto
    have n: "redirectsFollowed t = redirectsFollowed s + 1"
      using v by (auto simp: follows_def dest: visit_once_redirects)
    obtain ps' r' where rec: "visit par v t = (ps', r')" by (cases "visit par v t")
    have "k = nat (maxRedirects - redirectsFollowed t)" "redirectsFollowed t \<le> maxRedirects"
      using Suc.hyps(2) n by auto
    from Suc.hyps(1) [OF this(1) rec this(2)] obtain qs where qs: "ps' = (v, t) # qs"
      "int (length qs) \<le> maxRedirects - redirectsFollowed t" "successively (follows par) ps'"
      "(\<exists>t. r' = Done t ()) \<longleftrightarrow> stops par (last ps')"
      "(\<exists>q. follows par (last ps') q) \<longrightarrow>
        int (length qs) = maxRedirects - redirectsFollowed t \<and> (\<exists>t. r' = Fatal t too_many)"
      by blast
    have "ps = (u, s) # ps'" "r = r'"
      using visit_follow [OF v] Suc.prems rec \<open>redirectsFollowed t \<le> maxRedirects\<close> n by auto
    with qs v n show ?thesis by auto
  next
    case False
    then show ?thesis using visit_last [of s par u] Suc.prems by auto
  qed
qed

text \<open>
  C26. Visiting a URL returns after at most eleven requests. Each request after the first goes
  to the location of the redirect before it, and only when redirects are to be followed; the
  program ends normally exactly if the last response needs no following, and an eleventh
  redirect ends it with an error.
\<close>

theorem visit_redirects:
  assumes "visit par u s = (ps, r)" "redirectsFollowed s = 0"
  shows "ps \<noteq> [] \<and> hd ps = (u, s) \<and> length ps \<le> 11 \<and> successively (follows par) ps \<and>
    ((\<exists>t. r = Done t ()) \<longleftrightarrow> stops par (last ps)) \<and>
    ((\<exists>q. follows par (last ps) q) \<longrightarrow>
      length ps = 11 \<and> (\<exists>t. r = Fatal t ''maximum number of redirects (10) followed''))"
proof -
  have "too_many = ''maximum number of redirects (10) followed''"
    by code_simp
  with visit_chain [OF assms(1)] assms(2) show ?thesis by (auto simp: maxRedirects_def)
qed

text \<open>A program without colours, and a client that gets a response without dialing.\<close>

definition plain_palette :: palette where
  "plain_palette = \<lparr>New = \<lambda>_ txt. txt, GreenString = id, CyanString = id, RedString = id, WhiteString = id\<rparr>"

definition no_exchange :: exchange where
  "no_exchange =
    \<lparr>do_events = [], do_result = Inr (no_headers 200), copy_events = [], copy_error = None,
     close_events = [], read_at = 0, closing_events = []\<rparr>"

definition plain_params ::
    "'sys platform \<Rightarrow> (nat \<Rightarrow> 'sys option \<times> error option) \<Rightarrow> (nat \<Rightarrow> exchange) \<Rightarrow> ('sys, string) stat_params" where
  "plain_params P GetTCPInfo x =
    \<lparr>par_platform = P, par_GetTCPInfo = GetTCPInfo, par_colors = plain_palette, par_flags = default_flags,
     par_newRequest = \<lambda>u. Inr \<lparr>req_Method = ''GET'', req_Host = Host u, req_Header = \<lambda>_. []\<rparr>,
     par_SplitHostPort = \<lambda>_. Inl (PlainError ''missing port''), par_certs = Inr [],
     par_ParseMediaType = \<lambda>_. Inl (PlainError ''mime''), par_RequestURI = \<lambda>_. ''/'', par_Create = \<lambda>_. None,
     par_client = \<lambda>n k cl req. x k, par_ErrNoLocation = PlainError ''no location''\<rparr>"

definition new_world :: "'sys stat_world" where
  "new_world = \<lparr>conns = [], stdout = [], conniverM = False, connConn = None, tm = no_times, redirectsFollowed = 0\<rparr>"

theorem visit_redirects_witness:
  "\<exists>t. visit (plain_params other_platform (other_GetTCPInfo ''plan9'') (\<lambda>_. no_exchange)) \<lparr>Scheme = ''http'', Host = ''a.org'', url_rest = ''/''\<rparr> new_world =
      ([(\<lparr>Scheme = ''http'', Host = ''a.org'', url_rest = ''/''\<rparr>, new_world)], Done t ()) \<and>
    stops (plain_params other_platform (other_GetTCPInfo ''plan9'') (\<lambda>_. no_exchange)) (\<lparr>Scheme = ''http'', Host = ''a.org'', url_rest = ''/''\<rparr>, new_world)"
proof -
  let ?par = "plain_params other_platform (other_GetTCPInfo ''plan9'') (\<lambda>_. no_exchange)"
  let ?u = "\<lparr>Scheme = ''http'', Host = ''a.org'', url_rest = ''/''\<rparr>"
  have "\<exists>t. visit_once ?par ?u new_world = Done t (no_headers 200)"
    by (simp add: visit_once_def plain_params_def no_exchange_def TLSClientConfig_def stat_run_def
        visit_respond_def response_body_def readResponseBody_def default_flags_def no_headers_def isRedirect_def visit_finish_def
        diagnostics_def getConniver_def new_world_def print_def)
  then obtain t where "visit_once ?par ?u new_world = Done t (no_headers 200)" ..
  then have v: "visit ?par ?u new_world = ([(?u, new_world)], Done t ())"
    by (subst visit.simps) (simp add: plain_params_def default_flags_def)
  have "redirectsFollowed new_world = 0" by (simp add: new_world_def)
  from visit_redirects [OF v this] v show ?thesis by auto
qed

end
