(* ===== verification/Httpstat_Props.thy ===== *)
theory Httpstat_Props
  imports Httpstat_Run
begin

text \<open>
  What \<open>cmd/httpstat\<close> guarantees whatever its client does: a visit neither blocks nor
  panics, and the diagnostics at its end are those of the connection the visit closed, with
  the bytes the client sent and received over it.
\<close>

section \<open>The client contract\<close>

interpretation stat: live_client P GetTCPInfo dial_report "dialContext P GetTCPInfo" "stat_hook pal"
    "\<lambda>s. \<not> conniverM s"
  for P :: "'sys platform" and GetTCPInfo and pal
proof
  fix a st w and s :: "'sys stat_world"
  assume "\<not> conniverM s"
  then show "\<exists>s'. dial_report a st w s = Ret (w, s') \<and> \<not> conniverM s'"
    by (cases "st = Closed") (simp_all add: dial_report_Ret_iff)
next
  fix h and s :: "'sys stat_world"
  assume "\<not> conniverM s"
  then show "(\<exists>s'. stat_hook pal h s = Done s' () \<and> \<not> conniverM s') \<or> (\<exists>s' msg. stat_hook pal h s = Fatal s' msg)"
    by (cases "trace_hook (fst h) (snd h) (tm s)") (simp_all add: stat_hook_def)
next
  fix answer :: "net_conn option \<times> error option" and env now and s :: "'sys stat_world"
  have "\<not> locked (opened_conn P GetTCPInfo env now (fst answer))"
    using opened_conn_unused [of P GetTCPInfo env now "fst answer"] by (simp add: unused_def)
  moreover assume "\<not> conniverM s"
  ultimately show "\<exists>s' w. dialContext P GetTCPInfo answer env now s = Ret s' \<and> \<not> conniverM s' \<and>
      conns s' = conns s @ [w] \<and> \<not> locked w \<and> (inner w \<noteq> nil_conn \<longleftrightarrow> dialed_conn (fst answer))"
    by (simp add: dialContext_Ret_iff opened_conn_inner)
qed (auto simp: dial_report_Ret_iff dialContext_Ret_iff stat_hook_Done_iff opened_conn_unused split: if_splits)

section \<open>The invariant of the program\<close>

definition pointer_ok :: "'sys stat_world \<Rightarrow> bool" where
  "pointer_ok s \<longleftrightarrow> (\<forall>a. connConn s = Some a \<longrightarrow> a < length (conns s))"

definition stat_ok :: "'sys platform \<Rightarrow> 'sys stat_world \<Rightarrow> bool" where
  "stat_ok P s \<longleftrightarrow> store_wf P s \<and> \<not> conniverM s \<and> pointer_ok s"

lemma store_wf_unlocked: "store_wf P s \<Longrightarrow> unlocked s"
  by (auto simp: store_wf_def unlocked_def list_all_iff conn_wf_def conn_ok_def)

lemma stat_ok_simps [simp]:
  "stat_ok P (print txt s) = stat_ok P s" "stat_ok P (s\<lparr>tm := t\<rparr>) = stat_ok P s"
  by (simp_all add: stat_ok_def store_wf_def pointer_ok_def)

lemma usable_tm [simp]: "usable (s\<lparr>tm := t\<rparr>) = usable s"
  by (simp add: usable_def)

text \<open>The stored pointer stays valid.\<close>

lemma handle_pointer:
  assumes "handle P get dial_report (dialContext P get) (stat_hook pal) ev s = Done s' u"
    and "pointer_ok s"
  shows "pointer_ok s'"
proof (cases ev)
  case (EClose a env now cerr)
  with assms(1) obtain r w t where c: "a < length (conns s)"
    "Close P get env (Some (dial_report a)) now cerr (conns s ! a) s = Ret (r, w, t)"
    "s' = t\<lparr>conns := (conns t)[a := w]\<rparr>" by (auto simp: use_conn_Ret_iff)
  have "t = s \<or> t = s\<lparr>connConn := Some a\<rparr>"
    using c(2) by (auto simp: Close_unlocked [OF io_unlocked(3) [OF c(2)]] dial_report_Ret_iff split: if_splits)
  with c(1,3) assms(2) show ?thesis by (auto simp: pointer_ok_def)
qed (use assms in \<open>auto simp: pointer_ok_def use_conn_Ret_iff dialContext_Ret_iff stat_hook_Done_iff less_Suc_eq\<close>)

lemma stat_run_pointer:
  assumes "stat_run par evs s = Done s' u" "pointer_ok s"
  shows "pointer_ok s'"
  using assms
proof (induction evs arbitrary: s)
  case (Cons ev evs)
  then show ?case by (auto simp: stat_run_def dest: handle_pointer)
qed (simp add: stat_run_def)

context json_platform
begin

lemma stat_json_client:
  assumes "encodable_data P get"
  shows "json_client P get dial_report (dialContext P get) (stat_hook pal)"
proof
  fix answer env now s s'
  assume d: "dialContext P get answer env now s = Ret s'"
    and ok: "dialed_ok (EDial answer env now :: (hook \<times> int) event)" and wf: "store_wf P s"
  have "conn_wf P (opened_conn P get env now (fst answer))"
    by (rule opened_conn_wf [OF assms, where err = "snd answer"]) (use ok in simp)
  with d wf show "store_wf P s'" by (simp add: dialContext_Ret_iff store_wf_def)
qed (rule assms)

lemma stat_run_ok:
  assumes "stat_run par evs s = Done s' u" "par_platform par = P" "encodable_data P (par_GetTCPInfo par)"
    "stat_ok P s" "list_all dialed_ok evs"
  shows "stat_ok P s'"
proof -
  have "store_wf P s'"
    using json_client.run_client_wf [OF stat_json_client [OF assms(3)]] assms(1,2,4,5)
    by (auto simp: stat_run_def stat_ok_def)
  with stat_run_mutex [OF assms(1)] stat_run_pointer [OF assms(1)] assms(4) show ?thesis
    by (simp add: stat_ok_def)
qed

text \<open>The diagnostics of the connection the pointer leads to.\<close>

lemma diagnostics_ok:
  assumes "stat_ok P s"
  shows "diagnostics P pal s = Ret s \<and> (\<forall>a. connConn s = Some a \<longrightarrow> ClosedInfo (conns s ! a) = None) \<or>
    (\<exists>a info ws json l r. connConn s = Some a \<and> ClosedInfo (conns s ! a) = Some info \<and>
      warnings P (conns s ! a) = Some ws \<and> reads_as json (Conn_map P (conns s ! a) l r ws) \<and>
      diagnostics P pal s =
        Ret (print (diagnostics_text pal (info_RTT info) (TxBytes (conns s ! a)) (RxBytes (conns s ! a)) ws json) s))"
proof (cases "\<exists>a info. connConn s = Some a \<and> ClosedInfo (conns s ! a) = Some info")
  case True
  then obtain a info where a: "connConn s = Some a" "ClosedInfo (conns s ! a) = Some info" by blast
  let ?w = "conns s ! a"
  have len: "a < length (conns s)" using assms a(1) by (simp add: stat_ok_def pointer_ok_def)
  have m: "\<not> conniverM s" using assms by (simp add: stat_ok_def)
  have wf: "conn_wf P ?w" using assms len by (simp add: stat_ok_def store_wf_nth)
  then have lock: "\<not> locked ?w" by (simp add: conn_wf_def conn_ok_def)
  obtain ws where ws: "warnings P ?w = Some ws" using wf warnings_ok by (auto simp: conn_wf_def)
  obtain l r where lr: "LocalAddr (inner ?w) = Some l" "RemoteAddr (inner ?w) = Some r"
    using wf a(2) by (auto simp: conn_wf_defs)
  have "map_ok (Conn_map P ?w l r ws)" using wf by (simp add: conn_wf_def Conn_map_ok)
  from MarshalIndent_map_reads [OF this] obtain json where
    json: "MarshalIndent (AMap (Conn_map P ?w l r ws)) = Some json" "reads_as json (Conn_map P ?w l r ws)" by blast
  have "diagnostics P pal s =
      Ret (print (diagnostics_text pal (info_RTT info) (TxBytes ?w) (RxBytes ?w) ws json) s)"
    using a len m lock ws lr json(1)
    by (simp add: diagnostics_def getConniver_def at_conn_def Warnings_unlocked Conn_ToMap_unlocked print_def)
  with a ws json(2) show ?thesis by blast
next
  case False
  have m: "\<not> conniverM s" using assms by (simp add: stat_ok_def)
  have "diagnostics P pal s = Ret s"
  proof (cases "connConn s")
    case (Some a)
    then have "a < length (conns s)" using assms by (simp add: stat_ok_def pointer_ok_def)
    with Some False m show ?thesis by (simp add: diagnostics_def getConniver_def at_conn_def)
  qed (use m in \<open>simp add: diagnostics_def getConniver_def\<close>)
  with False show ?thesis by auto
qed

lemma stat_run_live:
  assumes "par_platform par = P" "encodable_data P (par_GetTCPInfo par)" "stat_ok P s"
    and "addressed (usable s) (evs @ rest)" "list_all dialed_ok evs"
  shows "(\<exists>s'. stat_run par evs s = Done s' () \<and> stat_ok P s' \<and> addressed (usable s') rest) \<or>
    (\<exists>s' msg. stat_run par evs s = Fatal s' msg)"
proof -
  have "\<not> conniverM s" "unlocked s" using assms(3) by (auto simp: stat_ok_def dest: store_wf_unlocked)
  from stat.run_client_live [OF this assms(4), of P "par_GetTCPInfo par" "par_colors par"]
  show ?thesis
  proof (elim disjE exE conjE)
    fix t
    assume "run_client P (par_GetTCPInfo par) dial_report (dialContext P (par_GetTCPInfo par))
        (stat_hook (par_colors par)) evs s = Done t ()" and t: "addressed (usable t) rest"
    then have run: "stat_run par evs s = Done t ()" using assms(1) by (simp add: stat_run_def)
    with t stat_run_ok [OF run assms(1-3,5)] show ?thesis by blast
  next
    fix t msg
    assume "run_client P (par_GetTCPInfo par) dial_report (dialContext P (par_GetTCPInfo par))
        (stat_hook (par_colors par)) evs s = Fatal t msg"
    then show ?thesis using assms(1) by (simp add: stat_run_def)
  qed
qed

end

section \<open>A visit neither blocks nor panics\<close>

definition exchange_events :: "exchange \<Rightarrow> (hook \<times> int) event list" where
  "exchange_events x = do_events x @ copy_events x @ close_events x @ closing_events x"

text \<open>
  A client, new in every visit, that only uses connections its own dials returned, of a dialer
  that returns TCP connections with their addresses.
\<close>

definition good_client :: "('sys, 'cert) stat_params \<Rightarrow> bool" where
  "good_client par \<longleftrightarrow>
     (\<forall>n k cl req. let evs = exchange_events (par_client par n k cl req)
        in addressed (replicate k False) evs \<and> list_all dialed_ok evs)"

context json_platform
begin

lemma visit_finish_live:
  assumes "par_platform par = P" "encodable_data P (par_GetTCPInfo par)" "stat_ok P s"
    and "addressed (usable s) (close_events x @ closing_events x)"
    and "list_all dialed_ok (close_events x @ closing_events x)"
  shows "(\<exists>s'. visit_finish par u x resp bodyMsg s = Done s' resp \<and> stat_ok P s') \<or>
    (\<exists>s' msg. visit_finish par u x resp bodyMsg s = Fatal s' msg)"
proof -
  have ok: "list_all dialed_ok (close_events x)" "list_all dialed_ok (closing_events x)" using assms(5) by simp_all
  from stat_run_live [OF assms(1-4) ok(1)] show ?thesis
  proof (elim disjE exE conjE)
    fix s1
    assume s1: "stat_run par (close_events x) s = Done s1 ()" "stat_ok P s1"
      "addressed (usable s1) (closing_events x)"
    let ?t = "print (response_text (par_colors par) resp bodyMsg) (s1\<lparr>tm := skip_dns (tm s1)\<rparr>)"
    have "stat_ok P ?t" "addressed (usable ?t) (closing_events x @ [])" using s1(2,3) by simp_all
    from stat_run_live [OF assms(1,2) this ok(2)] show ?thesis
    proof (elim disjE exE conjE)
      fix s2
      assume s2: "stat_run par (closing_events x) ?t = Done s2 ()" "stat_ok P s2"
      let ?v = "print ([newline] @ table_text (par_colors par) (Scheme u) (read_at x) (tm s2)) s2"
      have "stat_ok P ?v" using s2(2) by simp
      from diagnostics_ok [OF this, of "par_colors par"] obtain v where
        "diagnostics P (par_colors par) ?v = Ret v" "stat_ok P v" using s2(2) by auto
      with s1(1) s2(1) assms(1) show ?thesis by (simp add: visit_finish_def Let_def)
    qed (use s1(1) in \<open>simp add: visit_finish_def Let_def\<close>)
  qed (simp add: visit_finish_def)
qed

lemma visit_respond_live:
  assumes "par_platform par = P" "encodable_data P (par_GetTCPInfo par)" "stat_ok P s"
    and "addressed (usable s) (copy_events x @ close_events x @ closing_events x)"
    and "list_all dialed_ok (copy_events x @ close_events x @ closing_events x)"
  shows "(\<exists>s'. visit_respond par u x req resp s = Done s' resp \<and> stat_ok P s') \<or>
    (\<exists>s' msg. visit_respond par u x req resp s = Fatal s' msg)"
proof -
  have ok: "list_all dialed_ok (copy_events x)" "list_all dialed_ok (close_events x @ closing_events x)"
    using assms(5) by simp_all
  let ?t = "print (via_text (par_colors par) resp) s"
  have "stat_ok P ?t" "addressed (usable ?t) (copy_events x @ close_events x @ closing_events x)"
    using assms(3,4) by simp_all
  from stat_run_live [OF assms(1,2) this ok(1)] show ?thesis
  proof (elim disjE exE conjE)
    fix s2
    assume s2: "stat_run par (copy_events x) ?t = Done s2 ()" "stat_ok P s2"
      "addressed (usable s2) (close_events x @ closing_events x)"
    note fin = visit_finish_live [OF assms(1,2) s2(2,3) ok(2)]
    show ?thesis
    proof (cases "response_body par (copy_error x) req resp")
      case (Inr r)
      with s2(1) fin [of u resp "fst r"] show ?thesis by (auto simp: visit_respond_def case_prod_beta Let_def split: sum.split)
    qed (use s2(1) in \<open>auto simp: visit_respond_def Let_def split: sum.split\<close>)
  qed (auto simp: visit_respond_def Let_def split: sum.split)
qed

lemma visit_once_live:
  assumes "par_platform par = P" "encodable_data P (par_GetTCPInfo par)" "stat_ok P s" "good_client par"
  shows "(\<exists>t resp. visit_once par u s = Done t resp \<and> stat_ok P t) \<or> (\<exists>t msg. visit_once par u s = Fatal t msg)"
proof (cases "\<exists>req config. par_newRequest par u = Inr req \<and>
    TLSClientConfig (par_SplitHostPort par) (par_flags par) (par_certs par) u req = Inr config")
  case False
  then show ?thesis by (auto simp: visit_once_def split: sum.split)
next
  case True
  then obtain req config where rc: "par_newRequest par u = Inr req"
    "TLSClientConfig (par_SplitHostPort par) (par_flags par) (par_certs par) u req = Inr config" by blast
  define x where
    "x = par_client par (redirectsFollowed s) (length (conns s)) (new_client (par_flags par) config) req"
  have once: "visit_once par u s = and_then (stat_run par (do_events x) (s\<lparr>tm := no_times\<rparr>)) (\<lambda>_ s.
      case do_result x of Inl err \<Rightarrow> Fatal s (''failed to read response: '' @ Error err)
      | Inr resp \<Rightarrow> visit_respond par u x req resp s)"
    using rc by (simp add: visit_once_def Let_def flip: x_def)
  have "addressed (replicate (length (conns s)) False) (exchange_events x)" "list_all dialed_ok (exchange_events x)"
    using assms(4) by (simp_all add: good_client_def Let_def x_def)
  moreover from addressed_mono [OF this(1), of "usable s"] have "addressed (usable s) (exchange_events x)"
    by (simp add: list_all2_conv_all_nth)
  ultimately have x: "addressed (usable (s\<lparr>tm := no_times\<rparr>))
      (do_events x @ copy_events x @ close_events x @ closing_events x)"
    "list_all dialed_ok (do_events x)" "list_all dialed_ok (copy_events x @ close_events x @ closing_events x)"
    by (simp_all add: exchange_events_def)
  have "stat_ok P (s\<lparr>tm := no_times\<rparr>)" using assms(3) by simp
  from stat_run_live [OF assms(1,2) this x(1,2)] show ?thesis
  proof (elim disjE exE conjE)
    fix s1
    assume s1: "stat_run par (do_events x) (s\<lparr>tm := no_times\<rparr>) = Done s1 ()" "stat_ok P s1"
      "addressed (usable s1) (copy_events x @ close_events x @ closing_events x)"
    show ?thesis
    proof (cases "do_result x")
      case (Inr resp)
      with once s1(1) visit_respond_live [OF assms(1,2) s1(2,3) x(3), of u req resp] show ?thesis by auto
    qed (simp add: once s1(1))
  qed (simp add: once)
qed

text \<open>A visit whose steps all return.\<close>

lemma visit_once_completes:
  assumes "par_platform par = P" "par_newRequest par u = Inr req"
    and "TLSClientConfig (par_SplitHostPort par) (par_flags par) (par_certs par) u req = Inr config"
    and "x = par_client par (redirectsFollowed s) (length (conns s)) (new_client (par_flags par) config) req"
    and "stat_run par (do_events x) (s\<lparr>tm := no_times\<rparr>) = Done s1 ()" "do_result x = Inr resp"
    and "stat_run par (copy_events x) (print (via_text (par_colors par) resp) s1) = Done s2 ()"
    and "response_body par None req resp = Inr b" "response_body par (copy_error x) req resp = Inr (bodyMsg, saved)"
    and "stat_run par (close_events x) s2 = Done s3 ()"
    and "stat_run par (closing_events x)
      (print (response_text (par_colors par) resp bodyMsg) (s3\<lparr>tm := skip_dns (tm s3)\<rparr>)) = Done s4 ()"
    and "stat_ok P s4"
  shows "\<exists>t. visit_once par u s = Done t resp \<and> conns t = conns s4 \<and> connConn t = connConn s4"
proof -
  let ?v = "print ([newline] @ table_text (par_colors par) (Scheme u) (read_at x) (tm s4)) s4"
  have "stat_ok P ?v" using assms(12) by simp
  from diagnostics_ok [OF this, of "par_colors par"] obtain t where
    t: "diagnostics P (par_colors par) ?v = Ret t" "conns t = conns s4" "connConn t = connConn s4" by auto
  have "visit_finish par u x resp bodyMsg s2 = Done t resp"
    using assms(1,10,11) t(1) by (simp add: visit_finish_def Let_def)
  then have "visit_respond par u x req resp s1 = Done t resp"
    using assms(7-9) by (simp add: visit_respond_def)
  with assms(2-6) t(2,3) show ?thesis by (simp add: visit_once_def Let_def)
qed

lemma visit_live:
  assumes "par_platform par = P" "encodable_data P (par_GetTCPInfo par)" "stat_ok P s" "good_client par"
  shows "(\<exists>t. snd (visit par u s) = Done t () \<and> stat_ok P t) \<or> (\<exists>t msg. snd (visit par u s) = Fatal t msg)"
  using assms
proof (induction par u s rule: visit.induct)
  case (1 par u s)
  from visit_once_live [OF 1(2-5), of u] show ?case
  proof (elim disjE exE conjE)
    fix t resp
    assume t: "visit_once par u s = Done t resp" "stat_ok P t"
    let ?t = "t\<lparr>redirectsFollowed := redirectsFollowed t + 1\<rparr>"
    have "stat_ok P ?t" using t(2) by (simp add: stat_ok_def store_wf_def pointer_ok_def)
    then have "(\<exists>t. snd (visit par loc ?t) = Done t () \<and> stat_ok P t) \<or> (\<exists>t' msg. snd (visit par loc ?t) = Fatal t' msg)"
      if "followRedirects (par_flags par) \<and> isRedirect resp" "Location resp = Inr loc"
        "\<not> maxRedirects < redirectsFollowed ?t" for loc
      using 1(1) [OF t(1) that(1,2) refl that(3)] 1(2,3,5) by blast
    note rec = this
    show ?thesis
    proof (cases "followRedirects (par_flags par) \<and> isRedirect resp \<and> redirectsFollowed ?t \<le> maxRedirects")
      case True
      with t rec show ?thesis
        by (subst (1 2) visit.simps) (cases "Location resp", auto simp: case_prod_beta)
    next
      case False
      with t show ?thesis by (subst (1 2) visit.simps) (auto split: sum.split)
    qed
  qed (subst (1 2) visit.simps, simp)
qed

lemma httpstat_live:
  assumes "\<And>f. par_platform (par f) = P" "\<And>f. encodable_data P (par_GetTCPInfo (par f))"
    and "\<And>f. good_client (par f)" "stat_ok P s"
  shows "case httpstat version rt Parse Open NewRequest canonical par argv0 argv s of
      Inl (code, msg) \<Rightarrow> code \<in> {0, 2, -1}
    | Inr r \<Rightarrow> (\<exists>t. r = Done t () \<and> stat_ok P t) \<or> (\<exists>t msg. r = Fatal t msg)"
proof (cases "\<exists>f u. main version rt Parse argv0 argv = Inr (Visit f u)")
  case True
  then obtain f u where m: "main version rt Parse argv0 argv = Inr (Visit f u)" by blast
  let ?par = "with_flags Open NewRequest canonical f (par f)"
  have "par_platform ?par = P" "encodable_data P (par_GetTCPInfo ?par)" "good_client ?par"
    using assms(1-3) by (simp_all add: with_flags_def good_client_def)
  from visit_live [OF this(1,2) assms(4) this(3), of u] m show ?thesis by (simp add: httpstat_def)
next
  case False
  then show ?thesis
    by (auto simp: httpstat_def dest: main_exit split: sum.split main_action.split)
qed

end

section \<open>The diagnostics count what the client sent and received\<close>

lemma stat_run_counters:
  assumes "stat_run par evs s = Done s' u"
  shows "counters a s' =
    (fst (counters a s) + word_of_int (sent_by a evs), snd (counters a s) + word_of_int (received_by a evs))"
  using assms unfolding stat_run_def by (rule stat.run_client_counters)

lemma counters_tm [simp]: "counters a (s\<lparr>tm := t\<rparr>) = counters a s"
  by (simp add: counters_def)

text \<open>The connections after a visit are those before its diagnostics.\<close>

lemma visit_once_counters:
  assumes "visit_once par u s = Done t resp" "par_newRequest par u = Inr req"
    and "TLSClientConfig (par_SplitHostPort par) (par_flags par) (par_certs par) u req = Inr config"
    and x: "x = par_client par (redirectsFollowed s) (length (conns s)) (new_client (par_flags par) config) req"
  obtains v where "diagnostics (par_platform par) (par_colors par) v = Ret t"
    "counters a v = (fst (counters a s) + word_of_int (sent_by a (exchange_events x)),
      snd (counters a s) + word_of_int (received_by a (exchange_events x)))"
proof -
  obtain s1 where v: "stat_run par (do_events x) (s\<lparr>tm := no_times\<rparr>) = Done s1 ()"
    "visit_respond par u x req resp s1 = Done t resp"
    using assms(1) by (rule visit_once_Done) (use assms(2,3) x in simp)
  obtain s2 bodyMsg where w: "stat_run par (copy_events x) (print (via_text (par_colors par) resp) s1) = Done s2 ()"
    "visit_finish par u x resp bodyMsg s2 = Done t resp"
    using v(2) by (rule visit_respond_Done)
  obtain s3 s4 where f: "stat_run par (close_events x) s2 = Done s3 ()"
    "stat_run par (closing_events x)
       (print (response_text (par_colors par) resp bodyMsg) (s3\<lparr>tm := skip_dns (tm s3)\<rparr>)) = Done s4 ()"
    "diagnostics (par_platform par) (par_colors par)
       (print ([newline] @ table_text (par_colors par) (Scheme u) (read_at x) (tm s4)) s4) = Ret t"
    using w(2) by (rule visit_finish_Done)
  show ?thesis
    by (rule that [OF f(3)])
      (simp add: stat_run_counters [OF f(2)] stat_run_counters [OF f(1)] stat_run_counters [OF w(1)]
        stat_run_counters [OF v(1)] exchange_events_def add.assoc)
qed

lemma diagnostics_prints:
  assumes "diagnostics P pal v = Ret t" "connConn t = Some a" "ClosedInfo (conns t ! a) = Some info"
  shows "conns t = conns v \<and> (\<exists>ws m. Conn_ToMap P (conns t ! a) = Ret (m, conns t ! a) \<and>
    stdout t = stdout v @ diagnostics_text pal (info_RTT info) (TxBytes (conns t ! a)) (RxBytes (conns t ! a)) ws
      (case MarshalIndent (AMap m) of None \<Rightarrow> [] | Some jb \<Rightarrow> jb))"
proof -
  have a: "connConn v = Some a" using assms(1,2) by (simp add: diagnostics_Ret)
  have m: "\<not> conniverM v" using assms(1) by (auto simp: diagnostics_def getConniver_def split: if_splits)
  let ?w = "conns v ! a"
  have len: "a < length (conns v)"
    using assms(1) a m by (auto simp: diagnostics_def getConniver_def at_conn_def split: if_splits)
  show ?thesis
  proof (cases "ClosedInfo ?w")
    case None
    with assms(1) a m len have "t = v" by (simp add: diagnostics_def getConniver_def at_conn_def)
    with None assms(3) show ?thesis by simp
  next
    case (Some i)
    with assms(1) a m len obtain ws w1 m' w2 where run: "Warnings P ?w = Ret (ws, w1)" "Conn_ToMap P w1 = Ret (m', w2)"
      "t = print (diagnostics_text pal (info_RTT i) (TxBytes w2) (RxBytes w2) ws
        (case MarshalIndent (AMap m') of None \<Rightarrow> [] | Some jb \<Rightarrow> jb)) (v\<lparr>conns := (conns v)[a := w2]\<rparr>)"
      by (auto simp: diagnostics_def getConniver_def at_conn_def print_def)
    have "\<not> locked ?w" using run(1) by (auto simp: Warnings_def Lock_def)
    then have "w1 = ?w" using run(1) by (auto simp: Warnings_unlocked split: option.splits)
    moreover from this have "w2 = ?w"
      using run(2) \<open>\<not> locked ?w\<close> by (auto simp: Conn_ToMap_unlocked split: option.splits)
    ultimately show ?thesis using run(2,3) Some assms(3) by (auto simp: print_def)
  qed
qed

lemma Conn_ToMap_bytes:
  assumes "Conn_ToMap P w = Ret (m, w')"
  shows "m ''txBytes'' = Some (AInt64 (TxBytes w))" "m ''rxBytes'' = Some (AInt64 (RxBytes w))"
    "encodable P w \<Longrightarrow> map_ok m"
proof -
  have "\<not> locked w" using assms by (auto simp: Conn_ToMap_def Lock_def)
  then obtain l r ws where m: "m = Conn_map P w l r ws"
    using assms by (auto simp: Conn_ToMap_unlocked split: option.splits)
  show "m ''txBytes'' = Some (AInt64 (TxBytes w))" "m ''rxBytes'' = Some (AInt64 (RxBytes w))"
    by (simp_all add: m Conn_map_def Conn_optional_def Conn_literal_def)
  show "map_ok m" if "encodable P w" using that by (simp add: m Conn_map_ok)
qed

context json_platform
begin

text \<open>
  The diagnostics at the end of a visit count what the client sent and received over the
  connection since it existed, and the JSON text of the map says the same.
\<close>

lemma visit_once_prints:
  assumes "par_platform par = P" "encodable_data P (par_GetTCPInfo par)" "stat_ok P s" "good_client par"
    and "visit_once par u s = Done t resp" "par_newRequest par u = Inr req"
    and "TLSClientConfig (par_SplitHostPort par) (par_flags par) (par_certs par) u req = Inr config"
    and "x = par_client par (redirectsFollowed s) (length (conns s)) (new_client (par_flags par) config) req"
    and "connConn t = Some a" "length (conns s) \<le> a" "ClosedInfo (conns t ! a) = Some info"
  shows "\<exists>out ws json ms. stdout t = out @ diagnostics_text (par_colors par) (info_RTT info)
      (word_of_int (sent_by a (exchange_events x))) (word_of_int (received_by a (exchange_events x))) ws json \<and>
    parse_json json = Some (JObject ms) \<and>
    map_of ms ''txBytes'' = Some (JNum (sint (word_of_int (sent_by a (exchange_events x)) :: i64))) \<and>
    map_of ms ''rxBytes'' = Some (JNum (sint (word_of_int (received_by a (exchange_events x)) :: i64)))"
proof -
  obtain v where v: "diagnostics P (par_colors par) v = Ret t"
    "counters a v = (fst (counters a s) + word_of_int (sent_by a (exchange_events x)),
      snd (counters a s) + word_of_int (received_by a (exchange_events x)))"
    using assms(5-8) by (rule visit_once_counters [where a = a]) (use assms(1) in blast)
  from diagnostics_prints [OF v(1) assms(9,11)] obtain ws m where d: "conns t = conns v"
    "Conn_ToMap P (conns t ! a) = Ret (m, conns t ! a)"
    "stdout t = stdout v @ diagnostics_text (par_colors par) (info_RTT info) (TxBytes (conns t ! a))
      (RxBytes (conns t ! a)) ws (case MarshalIndent (AMap m) of None \<Rightarrow> [] | Some jb \<Rightarrow> jb)" by blast
  have "stat_ok P t" using visit_once_live [OF assms(1-4), of u] assms(5) by auto
  with assms(9) have a: "a < length (conns t)" "encodable P (conns t ! a)"
    by (auto simp: stat_ok_def pointer_ok_def conn_wf_def dest: store_wf_nth)
  have n: "TxBytes (conns t ! a) = word_of_int (sent_by a (exchange_events x))"
    "RxBytes (conns t ! a) = word_of_int (received_by a (exchange_events x))"
    using v(2) a(1) assms(10) d(1) by (simp_all add: counters_def)
  obtain json where j: "MarshalIndent (AMap m) = Some json" "reads_as json m"
    using MarshalIndent_map_reads [OF Conn_ToMap_bytes(3) [OF d(2) a(2)]] by blast
  obtain ms where ms: "parse_json json = Some (JObject ms)" "\<And>k. map_of ms k = map_option denoted (m k)"
    using j(2) unfolding reads_as_def by blast
  show ?thesis
    by (rule exI [of _ "stdout v"], rule exI [of _ ws], rule exI [of _ json], rule exI [of _ ms])
      (use d(3) j(1) n ms Conn_ToMap_bytes(1,2) [OF d(2)] in simp)
qed

end

end
