(* ===== verification/Cmd_Get.thy ===== *)
theory Cmd_Get
  imports Conn_Client_Props Go_Time
begin

text \<open>
  \<open>cmd/get/main.go\<close>: a client that dials through the connection wrapper and prints the
  statistics of a connection when it is closed; and
  \<open>pkg/tcpinfo/examples/tcpdial/main.go\<close>, which asks for the TCP data of a connection
  directly.

  The HTTP client is the one of \<open>Conn_Client\<close>, without a trace; what it does for the
  given timeout and URL is a parameter (\<open>get_client\<close>), and so is the JSON encoding of
  an error.
\<close>

section \<open>The report\<close>

definition get_line ::
    "string \<Rightarrow> string \<Rightarrow> duration \<Rightarrow> i64 \<Rightarrow> i64 \<Rightarrow> duration \<times> duration \<Rightarrow> duration \<times> duration \<Rightarrow> string list \<Rightarrow> string \<Rightarrow> string" where
  "get_line local remote took tx rx opened closed warns raw =
    ''Connection '' @ local @ '' -> '' @ remote @ '' took '' @ Duration_String took @
    '', sent:'' @ format_int (sint tx) @ ''/recv:'' @ format_int (sint rx) @
    '' bytes, starting RTT '' @ Duration_String (fst opened) @ ''('' @ Duration_String (snd opened) @
    '') and ending RTT '' @ Duration_String (fst closed) @ ''('' @ Duration_String (snd closed) @ '')'' @ [newline] @
    ''Warnings:'' @ Join warns '', '' @ [newline] @ raw @ [newline, newline]"

text \<open>
  A nil address or a nil record of TCP data is dereferenced. The error of
  \<open>json.Marshal\<close> is dropped, and its result is then empty.
\<close>

definition get_report ::
    "'sys platform \<Rightarrow> (error \<Rightarrow> json option) \<Rightarrow> ('sys, ('sys, 'm) world_scheme) report" where
  "get_report P errTree state c s =
    (if state \<noteq> Closed then Ret (c, s)
     else case (LocalAddr (inner c), RemoteAddr (inner c), OpenedInfo c, ClosedInfo c) of
       (Some local, Some remote, Some opened, Some closed) \<Rightarrow>
         (let raw = (case Conn_Marshal errTree P c of None \<Rightarrow> [] | Some txt \<Rightarrow> txt)
          in bind_outcome (Warnings P c) (\<lambda>(warns, c).
            Ret (c, print (get_line local remote (ClosedAt c - OpenedAt c) (TxBytes c) (RxBytes c)
              (info_RTT opened, info_RTTVar opened) (info_RTT closed, info_RTTVar closed) warns raw) s)))
     | _ \<Rightarrow> Panic)"

definition get_DialContext ::
    "'sys platform \<Rightarrow> (nat \<Rightarrow> 'sys option \<times> error option) \<Rightarrow> (error \<Rightarrow> json option) \<Rightarrow>
     ('sys, ('sys, 'm) world_scheme) dial_fn" where
  "get_DialContext P GetTCPInfo errTree dialed env now s =
    (case dialed of (conn, err) \<Rightarrow>
       if err \<noteq> None then Ret s
       else wrap_new P GetTCPInfo (\<lambda>_. get_report P errTree) env now conn s)"

section \<open>The program\<close>

text \<open>A client without a trace calls no hooks.\<close>

definition no_hook :: "unit \<Rightarrow> 's \<Rightarrow> ('s, unit) result" where
  "no_hook h s = Done s ()"

definition get_run ::
    "'sys platform \<Rightarrow> (nat \<Rightarrow> 'sys option \<times> error option) \<Rightarrow> (error \<Rightarrow> json option) \<Rightarrow> unit event list \<Rightarrow>
     ('sys, 'm) world_scheme \<Rightarrow> (('sys, 'm) world_scheme, unit) result" where
  "get_run P GetTCPInfo errTree =
    run_client P GetTCPInfo (\<lambda>_. get_report P errTree) (get_DialContext P GetTCPInfo errTree) no_hook"

text \<open>
  What the client does for a request: the events of \<open>Get\<close> and its error, of closing the
  body and of closing the idle connections.
\<close>

record get_exchange =
  get_events :: "unit event list"
  get_error :: "error option"
  body_events :: "unit event list"
  idle_events :: "unit event list"

definition get_timeout :: duration where
  "get_timeout = 15 * 1000000000"

definition get_main ::
    "'sys platform \<Rightarrow> (nat \<Rightarrow> 'sys option \<times> error option) \<Rightarrow> (error \<Rightarrow> json option) \<Rightarrow>
     (duration \<Rightarrow> string \<Rightarrow> get_exchange) \<Rightarrow> ('sys, 'm) world_scheme \<Rightarrow> (('sys, 'm) world_scheme, unit) result" where
  "get_main P GetTCPInfo errTree get_client s =
    (let x = get_client get_timeout ''https://www.golang.org/'' in
     and_then (get_run P GetTCPInfo errTree (get_events x) s) (\<lambda>_ s.
       case get_error x of
         Some err \<Rightarrow> Fatal s (''get: '' @ Error err)
       | None \<Rightarrow>
           and_then (get_run P GetTCPInfo errTree (body_events x) s) (\<lambda>_.
             get_run P GetTCPInfo errTree (idle_events x))))"

section \<open>The client contract\<close>

lemma get_report_keeps: "get_report P errTree st w s = Ret (w', s') \<Longrightarrow> w' = w \<and> conns s' = conns s"
  by (auto simp: get_report_def Warnings_def Lock_def Unlock_def Let_def split: if_splits option.splits)

interpretation get_client: client_program P GetTCPInfo "\<lambda>_. get_report P errTree"
    "get_DialContext P GetTCPInfo errTree" no_hook
  for P :: "'sys platform" and GetTCPInfo and errTree
proof
  show "w' = w \<and> conns s' = conns s" if "get_report P errTree st w s = Ret (w', s')" for st w w' s s'
    using that by (rule get_report_keeps)
next
  fix answer env now s s'
  assume d: "get_DialContext P GetTCPInfo errTree answer env now s = Ret s'"
  show "\<exists>ws. conns s' = conns s @ ws \<and> list_all unused ws"
  proof (cases "snd answer = None")
    case True
    with d have "wrap_new P GetTCPInfo (\<lambda>_. get_report P errTree) env now (fst answer) s = Ret s'"
      by (simp add: get_DialContext_def case_prod_beta)
    from wrap_new_adds [OF this get_report_keeps] show ?thesis by (simp add: opened_conn_unused)
  next
    case False
    with d show ?thesis by (simp add: get_DialContext_def case_prod_beta)
  qed
qed (simp add: no_hook_def)

context json_platform
begin

lemma get_json_client:
  assumes "encodable_data P get"
  shows "json_client P get (\<lambda>_. get_report P errTree) (get_DialContext P get errTree) no_hook"
proof
  fix answer env now s s'
  assume d: "get_DialContext P get errTree answer env now s = Ret s'"
    and ok: "dialed_ok (EDial answer env now :: unit event)" and wf: "store_wf P s"
  show "store_wf P s'"
  proof (cases "snd answer = None")
    case True
    with d have "wrap_new P get (\<lambda>_. get_report P errTree) env now (fst answer) s = Ret s'"
      by (simp add: get_DialContext_def case_prod_beta)
    from wrap_new_adds [OF this get_report_keeps]
    have "conns s' = conns s @ [opened_conn P get env now (fst answer)]" by simp
    moreover have "conn_wf P (opened_conn P get env now (fst answer))"
      by (rule opened_conn_wf [OF assms, where err = "snd answer"]) (use ok in simp)
    ultimately show ?thesis using wf by (simp add: store_wf_def)
  qed (use d wf in \<open>simp add: get_DialContext_def case_prod_beta\<close>)
qed (rule assms)

end

text \<open>What closing a connection for the first time prints, and where it panics.\<close>

lemma get_Close:
  assumes "\<not> locked w" "ClosedInfo w = None"
    and "\<And>d. probe get env w = (Some d, None) \<Longrightarrow>
      \<exists>ws. warnings P (w\<lparr>ClosedAt := now, ClosedInfo := Some (ToInfo P d)\<rparr>) = Some ws"
  shows "case (LocalAddr (inner w), RemoteAddr (inner w), OpenedInfo w, fst (probe get env w)) of
      (Some l, Some m, Some opened, Some d) \<Rightarrow>
        (\<exists>w' ws raw. Close P get env (Some (get_report P errTree)) now cerr w s =
          Ret (cerr, w', print (get_line l m (now - OpenedAt w) (TxBytes w) (RxBytes w)
            (info_RTT opened, info_RTTVar opened) (info_RTT (ToInfo P d), info_RTTVar (ToInfo P d)) ws raw) s))
    | _ \<Rightarrow> Close P get env (Some (get_report P errTree)) now cerr w s = Panic"
proof (cases "fst (probe get env w)")
  case (Some d)
  then have d: "probe get env w = (Some d, None)" by (auto simp: probe_def split: if_splits option.splits prod.splits)
  let ?v = "w\<lparr>ClosedAt := now, ClosedInfo := Some (ToInfo P d)\<rparr>"
  obtain ws where ws: "warnings P ?v = Some ws" using assms(3) [OF d] by blast
  have "Warnings P ?v = Ret (ws, ?v)" using assms(1) ws by (subst Warnings_unlocked) simp_all
  with assms(1,2) d show ?thesis
    by (cases "LocalAddr (inner w)"; cases "RemoteAddr (inner w)"; cases "OpenedInfo w")
      (auto simp: Close_unlocked store_def get_report_def Let_def)
next
  case None
  let ?v = "store P Closed (probe get env w) (w\<lparr>ClosedAt := now\<rparr>)"
  have "ClosedInfo ?v = None"
    using None assms(2) by (auto simp: store_def split: prod.split option.split)
  then have "get_report P errTree Closed ?v s = Panic"
    by (auto simp: get_report_def split: option.split)
  with None assms(1,2) show ?thesis by (simp add: Close_unlocked split: option.split)
qed

lemma get_run_Close:
  "a < length (conns s) \<Longrightarrow> get_run P get errTree [EClose a env now cerr] s =
     (if inner (conns s ! a) = nil_conn then Crash
      else case Close P get env (Some (get_report P errTree)) now cerr (conns s ! a) s of
        Ret (r, w, t) \<Rightarrow> Done (t\<lparr>conns := (conns t)[a := w]\<rparr>) () | Deadlock \<Rightarrow> Hang | Panic \<Rightarrow> Crash)"
  by (cases "Close P get env (Some (get_report P errTree)) now cerr (conns s ! a) s")
    (auto simp: get_run_def use_conn_def at_conn_def)

lemma get_run_dial:
  "get_run P get errTree (EDial (Some c, None) env now # evs) s =
     get_run P get errTree evs (s\<lparr>conns := conns s @ [opened_conn P get env now (Some c)]\<rparr>)"
  by (simp add: get_run_def get_DialContext_def wrap_new_eq get_report_def)

section \<open>The example tcpdial\<close>

text \<open>
  The program panics, returns without output (\<open>None\<close>), or prints the record, which may be
  nil. The error of \<open>GetTCPInfo\<close> is assigned to a variable that is shadowed where the
  error is checked.
\<close>

definition tcpdial_main ::
    "(nat \<Rightarrow> 'sys option \<times> error option) \<Rightarrow> error + net_conn \<Rightarrow> net_env \<Rightarrow> 'sys option option outcome" where
  "tcpdial_main GetTCPInfo dialed env =
    (case dialed of
       Inl err \<Rightarrow> Panic
     | Inr conn \<Rightarrow>
         if \<not> is_TCPConn conn then Panic
         else if SyscallConn env \<noteq> None then Ret None
         else (let sysInfo = (case snd (Control env) of None \<Rightarrow> None | Some fd \<Rightarrow> fst (GetTCPInfo fd))
               in if fst (Control env) \<noteq> None then Ret None else Ret (Some sysInfo)))"

lemma tcpdial_ignores_error:
  assumes "is_TCPConn conn" "SyscallConn env = None" "Control env = (None, Some fd)" "get fd = (s, Some err)"
  shows "tcpdial_main get (Inr conn) env = Ret (Some s)"
  using assms by (simp add: tcpdial_main_def)

end
