(* ===== verification/Spec2Isabelle.thy ===== *)
theory Spec2Isabelle
  imports Conn_Concurrent Tcp_Linux_Json Tcp_Darwin Tcp_Windows Os_Release Os_Windows
    Httpstat_Props Cmd_Get
begin

text \<open>
  \<^bold>\<open>Conniver: TCP statistics of Go connections\<close>

  \<^bold>\<open>The program.\<close> \<open>wrap.go\<close> wraps a \<open>net.Conn\<close>: it counts bytes, records
  times and errors, gathers the operating system's TCP data when the connection is wrapped and
  when it is closed, and calls a report function. The data comes from \<open>pkg/tcpinfo\<close>, one
  implementation per platform; the Linux one adapts to the running kernel with
  \<open>pkg/kernel\<close>. \<open>pkg/os\<close> and \<open>pkg/osversion\<close> name the operating system.
  \<open>cmd/httpstat\<close>, \<open>cmd/get\<close> and \<open>pkg/tcpinfo/examples/tcpdial\<close> are programs on top.

  \<^bold>\<open>Conventions.\<close> Fixed-width integers are words, Go's \<open>int\<close> is \<open>int\<close>, strings are
  lists of bytes, structs are records, nil pointers are \<open>None\<close>, and a slice is an optional
  list. Errors are values of \<open>error\<close>; results that can fail are sums. \<open>outcome\<close>
  separates returning from blocking on a mutex and from panicking; \<open>exits\<close> separates
  returning from \<open>log.Fatal\<close>; \<open>result\<close> does both for the state of a whole program.
  System calls, the registry, files, the clock and the wrapped connection are parameters. A
  loop that its input need not end is a partial function.

  \<^bold>\<open>Theories.\<close>
  \<^item> \<open>Go_Prelude\<close>: integers, formatting and parsing of numbers, strings, errors, outcomes,
    slices, Go maps. \<open>Go_Json\<close>: the writer of \<open>encoding/json\<close> and a reader of JSON,
    with the theorem that the reader gives back what was written. \<open>Go_Time\<close>:
    \<open>Duration.String\<close>.
  \<^item> \<open>Kernel_Version\<close>: \<open>pkg/kernel\<close>. \<open>ParseRelease\<close> accepts exactly the
    documented strings and inverts printing; versions compare lexicographically.
  \<^item> \<open>Tcp_Info\<close>: the types all platforms share and the locale \<open>tcp_platform\<close>, what the
    wrapper relies on of a platform. \<open>Tcp_Json\<close>: their JSON encoding and the locale
    \<open>json_platform\<close>, whose data can be encoded. \<open>Tcp_Linux_Values\<close>,
    \<open>Tcp_Darwin\<close>, \<open>Tcp_Windows\<close> and \<open>Tcp_Other\<close> interpret both.
  \<^item> \<open>Tcp_Linux_Init\<close>, \<open>Tcp_Linux_Raw\<close>, \<open>Tcp_Linux\<close>: \<open>init_linux.go\<close>, the
    kernel's struct in memory, and \<open>tcpinfo_linux.go\<close>. \<open>Tcp_Linux_Props\<close>,
    \<open>Tcp_Linux_Values\<close>, \<open>Tcp_Linux_Get\<close>, \<open>Tcp_Linux_Json\<close>: the adaptation picks
    the right size and flags, the struct layout has no gap, reading only the kernel's bytes loses
    nothing except on 4.9 and 6.2 to 6.6, fields are valid exactly from the versions that guard
    them, what \<open>GetTCPInfo\<close> returns on every branch, and that its JSON reads back.
  \<^item> \<open>Tcp_Darwin\<close>, \<open>Tcp_Windows\<close>, \<open>Tcp_Other\<close>: the other platforms.
  \<^item> \<open>Conn\<close>: \<open>wrap.go\<close>, one definition per method. \<open>Conn_Props\<close>: the refinement
    of the counters to the history of the calls, and when reports run. \<open>Conn_Session\<close>: the
    states any sequence of calls reaches, as a step relation, with their invariant.
    \<open>Conn_Concurrent\<close>: any number of goroutines, interleaved between locking, unlocking,
    the unlocked check, the query and the report; mutual exclusion, no lost update, no deadlock.
    \<open>Conn_Json\<close>: the JSON encoding of a connection.
  \<^item> \<open>Conn_Client\<close>, \<open>Conn_Client_Props\<close>: an HTTP client over wrapped connections, which
    are shared by pointer. What it does is a sequence of events. The locale
    \<open>client_program\<close> gives the byte counters of every connection, \<open>json_client\<close> the
    type invariant, \<open>live_client\<close> that nothing blocks or panics.
  \<^item> \<open>Os_Release\<close>, \<open>Os_Version\<close>, \<open>Os_Windows\<close>: \<open>pkg/os\<close> and
    \<open>pkg/osversion\<close>.
  \<^item> \<open>Httpstat_Headers\<close>, \<open>Httpstat_Flags\<close>, \<open>Httpstat_Request\<close>,
    \<open>Httpstat_Visit\<close>, \<open>Httpstat_Output\<close>, \<open>Httpstat_Run\<close>: \<open>cmd/httpstat\<close>, the
    order of the headers, the command line, the request, the parts of a visit, the table of
    timings, and the whole visit with its output and redirects. \<open>Httpstat_Props\<close>
    interprets \<open>live_client\<close>: a visit neither blocks nor panics, and what it prints at its end.
    \<open>Cmd_Get\<close>: \<open>cmd/get\<close> and the example \<open>tcpdial\<close>.
  \<^item> This theory: the wrapper and the programs over the Linux platform, which interpret
    \<open>json_client\<close>.

  \<^bold>\<open>Bounds.\<close> The redirect loop is total by the distance to \<open>maxRedirects\<close>, the parser
  of the command line by the number of arguments. The loop over PEM blocks returns when decoding
  consumes input, which is a hypothesis of its theorem. The JSON reader has the length of its text
  as fuel, which its theorem shows to be enough. Lines longer than the scanner's 64 KiB end the
  scan as in the library. Sorting is the insertion sort the library runs on up to twelve
  elements; its theorem shows that every correct sort gives the same list.

  \<^bold>\<open>Not modelled.\<close> The HTTP transport decides when the dialer, the trace hooks and the
  methods of a connection run and when a request fails; it is not in the repository, so that the
  programs take its events and answers as given, one after the other. The colour functions, the
  URL, MIME and PEM parsers and the TLS key pairs are parameters, and so is the JSON encoding of
  an error. The Go memory model is not modelled: steps of goroutines interleave, and the unlocked
  reads of \<open>gatherAndReport\<close> see the current value. Tests are not part of the model.
\<close>

section \<open>The wrapper on Linux\<close>

text \<open>A recent kernel, a connection and a record for the concrete instances below.\<close>

abbreviation (input) linux_6_8 :: package_vars where
  "linux_6_8 \<equiv> init (Inr (kver 6 8 0))"

abbreviation (input) tcp_conn :: net_conn where
  "tcp_conn \<equiv> \<lparr>is_TCPConn = True, LocalAddr = Some ''10.0.0.1:4000'', RemoteAddr = Some ''10.0.0.2:80'', nc_closed = False\<rparr>"

abbreviation (input) established :: SysInfo where
  "established \<equiv> Unpack linux_6_8 (decode_RawTCPInfo LittleEndian [1])"

abbreviation (input) bbr_sys :: linux_sys where
  "bbr_sys \<equiv> \<lparr>sys_byte_order = LittleEndian, sys_tcp_info = (\<lambda>fd n. Inr [1]),
     sys_congestion = (\<lambda>fd. Inr ''bbr''), sys_vegas = (\<lambda>fd. Inl (Errno ''bad'' False 22)),
     sys_bbr = (\<lambda>fd. Inr \<lparr>Bw_lo = 1, Bw_hi = 0, Min_rtt = 7, Pacing_gain = 2, Cwnd_gain = 2\<rparr>),
     sys_dctcp = (\<lambda>fd. Inl (Errno ''bad'' False 22))\<rparr>"

lemma linux_6_8_supported: "linux_Supported linux_6_8"
  by (simp add: linux_Supported_def init_flags adapted_key_def version_key_def kver_def)

lemma new_Conn_linux_6_8:
  "supportsTCPInfo (new_Conn (linux_platform linux_6_8) now ctx ncon)"
  "InfoErr (new_Conn P now ctx ncon) = None" "ClosedInfo (new_Conn P now ctx ncon) = None"
  "inner (new_Conn P now ctx ncon) = ncon" "OpenedAt (new_Conn P now ctx ncon) = now"
  "TxBytes (new_Conn P now ctx ncon) = 0" "RxBytes (new_Conn P now ctx ncon) = 0" "OpenedInfo (new_Conn P now ctx ncon) = None"
  using linux_6_8_supported by (simp_all add: new_Conn_def linux_platform_def)

definition query_error :: "linux_sys \<Rightarrow> nat \<Rightarrow> error option" where
  "query_error sys fds = (case sys_congestion sys fds of Inl e \<Rightarrow> Some e | Inr alg \<Rightarrow> cc_error sys fds alg)"

lemma GetTCPInfo_failed:
  "linux_Supported g \<Longrightarrow> GetRawTCPInfo (sys_byte_order sys) g (sys_tcp_info sys) fds = Inl err \<Longrightarrow>
     GetTCPInfo g sys fds = (None, Some err)"
  by (simp add: GetTCPInfo_def linux_Supported_def)

lemma GetTCPInfo_unpacked:
  assumes "linux_Supported g" "GetRawTCPInfo (sys_byte_order sys) g (sys_tcp_info sys) fds = Inr raw"
  shows "\<exists>s. GetTCPInfo g sys fds = (Some s, query_error sys fds) \<and> cc_reset s = Unpack g raw"
  using assms
  by (simp add: GetTCPInfo_def linux_Supported_def query_error_def cc_error_def GetTCPCongestionAlgorithm_def
      PlusCC_Unpack_facts Let_def split: sum.split)

lemma WrapConn_Some:
  "WrapConn P get env now ncon (Some report) e =
     (let w = new_Conn P now 0 ncon in report Opened (store P Opened (probe get env w) w) e)"
  by (simp add: WrapConn_def WrapConnWithContext_def gatherAndReport_Some to_report_def new_Conn_def Let_def)

lemma probe_linux:
  "linux_Supported g \<Longrightarrow> is_TCPConn ncon \<Longrightarrow>
     probe get \<lparr>SyscallConn = None, Control = (None, Some fd)\<rparr> (new_Conn (linux_platform g) now 0 ncon) =
     (case get fd of (_, Some err) \<Rightarrow> (None, Some err) | (s, None) \<Rightarrow> (s, None))"
  by (simp add: probe_def new_Conn_def linux_platform_def)

text \<open>
  C13. Wrapping a TCP connection on a supported Linux kernel calls the report with the mutex
  free and the result of \<open>GetTCPInfo\<close> stored. If every query succeeds this is the opening
  data, which unpacks the kernel's struct; if any of them fails, even one for congestion
  control data after the struct was read, it is the error alone.
\<close>

theorem linux_open_info:
  assumes "linux_Supported g" "is_TCPConn ncon"
  shows "\<exists>v. WrapConn (linux_platform g) (GetTCPInfo g sys) \<lparr>SyscallConn = None, Control = (None, Some fd)\<rparr>
        now ncon (Some report) e = report Opened v e \<and> \<not> locked v \<and> OpenedAt v = now \<and>
    (case GetRawTCPInfo (sys_byte_order sys) g (sys_tcp_info sys) fd of
       Inl err \<Rightarrow> InfoErr v = Some err \<and> OpenedInfo v = None
     | Inr raw \<Rightarrow>
         (case query_error sys fd of
            Some err \<Rightarrow> InfoErr v = Some err \<and> OpenedInfo v = None
          | None \<Rightarrow> InfoErr v = None \<and>
              (\<exists>s. OpenedInfo v = Some (SysInfo_ToInfo s) \<and> cc_reset s = Unpack g raw)))"
proof (cases "GetRawTCPInfo (sys_byte_order sys) g (sys_tcp_info sys) fd")
  case (Inl err)
  with assms show ?thesis
    by (simp add: WrapConn_Some probe_linux GetTCPInfo_failed store_def)
      (rule exI, rule conjI, rule refl, simp add: new_Conn_def)
next
  case (Inr raw)
  obtain s where s: "GetTCPInfo g sys fd = (Some s, query_error sys fd)" "cc_reset s = Unpack g raw"
    using GetTCPInfo_unpacked [OF assms(1) Inr] by blast
  have "ToInfo (linux_platform g) = SysInfo_ToInfo" by (simp add: linux_platform_def)
  with assms s Inr show ?thesis
    by (cases "query_error sys fd"; simp add: WrapConn_Some probe_linux store_def)
      (rule exI, rule conjI, rule refl, auto simp add: new_Conn_def)+
qed

theorem linux_open_info_witness:
  "\<exists>v. WrapConn (linux_platform linux_6_8) (GetTCPInfo linux_6_8 bbr_sys) \<lparr>SyscallConn = None, Control = (None, Some 3)\<rparr>
        1 tcp_conn (Some (\<lambda>st w n. Ret (w, n + 1))) (0 :: nat) = Ret (v, 1) \<and>
    InfoErr v = None \<and> OpenedInfo v \<noteq> None"
proof -
  have "query_error bbr_sys 3 = None" by (simp add: query_error_def cc_error_def)
  with linux_open_info [OF linux_6_8_supported, of tcp_conn bbr_sys 3 1 "\<lambda>st w n. Ret (w, n + 1)" "0 :: nat"]
  show ?thesis by (auto simp: GetRawTCPInfo_def)
qed



section \<open>The programs on Linux\<close>

lemma linux_encodable: "encodable_data (linux_platform g) (GetTCPInfo g sys)"
  by (auto simp: encodable_data_def linux_platform_def dest: GetTCPInfo_map_ok)

interpretation linux_stat: json_client "linux_platform g" "GetTCPInfo g sys" dial_report
    "dialContext (linux_platform g) (GetTCPInfo g sys)" "stat_hook pal"
  for g sys pal
  by (rule json_platform.stat_json_client [OF linux.json_platform_axioms linux_encodable])

interpretation linux_get: json_client "linux_platform g" "GetTCPInfo g sys" "\<lambda>_. get_report (linux_platform g) errTree"
    "get_DialContext (linux_platform g) (GetTCPInfo g sys) errTree" no_hook
  for g sys errTree
  by (rule json_platform.get_json_client [OF linux.json_platform_axioms linux_encodable])

text \<open>A dial, what is sent and received, and the close of the connection.\<close>

abbreviation (input) fd_3 :: net_env where
  "fd_3 \<equiv> \<lparr>SyscallConn = None, Control = (None, Some 3)\<rparr>"

lemma bbr_data: "\<exists>s. GetTCPInfo linux_6_8 bbr_sys 3 = (Some s, None)"
proof -
  have "query_error bbr_sys 3 = None" by (simp add: query_error_def cc_error_def)
  moreover have "\<exists>raw. GetRawTCPInfo (sys_byte_order bbr_sys) linux_6_8 (sys_tcp_info bbr_sys) 3 = Inr raw"
    by (simp add: GetRawTCPInfo_def)
  ultimately show ?thesis using GetTCPInfo_unpacked [OF linux_6_8_supported] by metis
qed

text \<open>
  C8. The type invariant of the connections, that no mutex is held between calls, that the
  warnings of the gathered data can be read, that the data can be encoded and belongs to a TCP
  connection with addresses, is kept by whatever the client of \<open>httpstat\<close> or of
  \<open>get\<close> does on Linux.
\<close>

theorem linux_store_wf:
  assumes "list_all dialed_ok evs" "list_all dialed_ok evs'"
  shows "(par_platform par = linux_platform g \<and> par_GetTCPInfo par = GetTCPInfo g sys \<and>
      store_wf (linux_platform g) s \<and> stat_run par evs s = Done s' () \<longrightarrow> store_wf (linux_platform g) s') \<and>
    (store_wf (linux_platform g) v \<and>
      get_run (linux_platform g) (GetTCPInfo g sys) errTree evs' v = Done v' () \<longrightarrow> store_wf (linux_platform g) v')"
  using assms linux_stat.run_client_wf linux_get.run_client_wf by (auto simp: stat_run_def get_run_def)

text \<open>The connection of a dial, and the runs of \<open>get\<close> for the concrete instances.\<close>

abbreviation (input) dialed_conn_6_8 :: "SysInfo Conn" where
  "dialed_conn_6_8 \<equiv> opened_conn (linux_platform linux_6_8) (GetTCPInfo linux_6_8 bbr_sys) fd_3 1 (Some tcp_conn)"

lemma dialed_conn_6_8_sel:
  "\<not> locked dialed_conn_6_8" "inner dialed_conn_6_8 = tcp_conn" "ClosedInfo dialed_conn_6_8 = None"
  "\<exists>i. OpenedInfo dialed_conn_6_8 = Some i" "supportsTCPInfo dialed_conn_6_8" "InfoErr dialed_conn_6_8 = None"
proof -
  obtain d where d: "GetTCPInfo linux_6_8 bbr_sys 3 = (Some d, None)" using bbr_data ..
  have "probe (GetTCPInfo linux_6_8 bbr_sys) fd_3 (new_Conn (linux_platform linux_6_8) 1 0 tcp_conn) = (Some d, None)"
    using d linux_6_8_supported by (simp add: probe_linux)
  then have "dialed_conn_6_8 = store (linux_platform linux_6_8) Opened (Some d, None)
      (new_Conn (linux_platform linux_6_8) 1 0 tcp_conn)"
    by (simp add: opened_conn_def Let_def)
  then show "\<not> locked dialed_conn_6_8" "inner dialed_conn_6_8 = tcp_conn" "ClosedInfo dialed_conn_6_8 = None"
    "\<exists>i. OpenedInfo dialed_conn_6_8 = Some i" "supportsTCPInfo dialed_conn_6_8" "InfoErr dialed_conn_6_8 = None"
    using linux_6_8_supported by (simp_all add: store_def new_Conn_def linux_platform_def)
qed

lemma write_read:
  assumes "\<not> locked w" "inner w \<noteq> nil_conn" "conns s = [w]"
  shows "\<exists>w'. run_client P get report dial hook [EWrite 0 n err ts, ERead 0 m err' ts'] s = Done (s\<lparr>conns := [w']\<rparr>) () \<and>
    \<not> locked w' \<and> inner w' = inner w \<and> OpenedInfo w' = OpenedInfo w \<and> ClosedInfo w' = ClosedInfo w \<and>
    supportsTCPInfo w' = supportsTCPInfo w \<and> InfoErr w' = InfoErr w"
proof -
  obtain w1 where w1: "Write (n, err) ts w = Ret ((n, err), w1)" "\<not> locked w1" "inner w1 = inner w"
    "OpenedInfo w1 = OpenedInfo w" "ClosedInfo w1 = ClosedInfo w" "supportsTCPInfo w1 = supportsTCPInfo w" "InfoErr w1 = InfoErr w"
    using assms(1) by (simp add: Write_unlocked)
  obtain w2 where w2: "Read (m, err') ts' w1 = Ret ((m, err'), w2)" "\<not> locked w2" "inner w2 = inner w1"
    "OpenedInfo w2 = OpenedInfo w1" "ClosedInfo w2 = ClosedInfo w1" "supportsTCPInfo w2 = supportsTCPInfo w1" "InfoErr w2 = InfoErr w1"
    using w1(2) by (simp add: Read_unlocked)
  have "run_client P get report dial hook [EWrite 0 n err ts, ERead 0 m err' ts'] s = Done (s\<lparr>conns := [w2]\<rparr>) ()"
    using assms(2,3) w1(1,3) w2(1) by (simp add: use_conn_def at_conn_def)
  with w1(3-) w2(2-) show ?thesis by (intro exI [of _ w2]) simp
qed

theorem linux_store_wf_witness:
  "store_wf (linux_platform linux_6_8) \<lparr>conns = [dialed_conn_6_8], stdout = []\<rparr>"
proof -
  let ?evs = "[EDial (Some tcp_conn, None) fd_3 1]"
  have run: "get_run (linux_platform linux_6_8) (GetTCPInfo linux_6_8 bbr_sys) (\<lambda>_. None) ?evs \<lparr>conns = [], stdout = []\<rparr> =
      Done \<lparr>conns = [dialed_conn_6_8], stdout = []\<rparr> ()"
    by (simp add: get_run_dial) (simp add: get_run_def)
  have wf: "store_wf (linux_platform linux_6_8) \<lparr>conns = [], stdout = []\<rparr>" by (simp add: store_wf_def)
  have ok: "list_all dialed_ok ?evs" by (simp add: tcp_addresses_def)
  show ?thesis
    by (rule linux_store_wf [where evs = "[]", THEN conjunct2, THEN mp, OF _ ok conjI [OF wf run]]) simp
qed

text \<open>
  C14. After any run of the client of \<open>get\<close>, closing a connection that was not closed
  before prints its line, with the bytes the client sent and received over it and the round trip
  times of the opening and closing data, if both could be gathered; otherwise the program panics.
\<close>

theorem linux_get_prints:
  assumes "get_run (linux_platform g) (GetTCPInfo g sys) errTree evs \<lparr>conns = [], stdout = out\<rparr> = Done s ()"
    and "list_all dialed_ok evs" "a < length (conns s)" "ClosedInfo (conns s ! a) = None"
  shows "case (OpenedInfo (conns s ! a), fst (probe (GetTCPInfo g sys) env (conns s ! a))) of
      (Some opened, Some d) \<Rightarrow>
        (\<exists>l m ws raw s'.
          get_run (linux_platform g) (GetTCPInfo g sys) errTree [EClose a env now cerr] s = Done s' () \<and>
          LocalAddr (inner (conns s ! a)) = Some l \<and> RemoteAddr (inner (conns s ! a)) = Some m \<and>
          stdout s' = stdout s @ get_line l m (now - OpenedAt (conns s ! a))
            (word_of_int (sent_by a evs)) (word_of_int (received_by a evs))
            (info_RTT opened, info_RTTVar opened) (lx_RTT d, lx_RTTVar d) ws raw)
    | _ \<Rightarrow> get_run (linux_platform g) (GetTCPInfo g sys) errTree [EClose a env now cerr] s = Crash"
proof -
  let ?P = "linux_platform g" and ?get = "GetTCPInfo g sys" and ?w = "conns s ! a"
  have "store_wf ?P \<lparr>conns = [], stdout = out\<rparr>" by (simp add: store_wf_def)
  from store_wf_nth [OF linux_get.run_client_wf [OF assms(1) [unfolded get_run_def] this assms(2)] assms(3)]
  have wf: "conn_wf ?P ?w" .
  have counts: "TxBytes ?w = word_of_int (sent_by a evs)" "RxBytes ?w = word_of_int (received_by a evs)"
    using get_client.run_client_counters [OF assms(1) [unfolded get_run_def], of a] assms(3) by (simp_all add: counters_def)
  have "conn_wf ?P (store ?P Closed (probe ?get env ?w) (?w\<lparr>ClosedAt := now\<rparr>))"
    using wf json_platform.conn_wf_store [OF linux.json_platform_axioms, where w = "?w\<lparr>ClosedAt := now\<rparr>"]
      linux_encodable by simp
  then have ws: "\<exists>ws. warnings ?P (?w\<lparr>ClosedAt := now, ClosedInfo := Some (ToInfo ?P d)\<rparr>) = Some ws"
    if "probe ?get env ?w = (Some d, None)" for d
    using that by (auto simp: conn_wf_def store_def intro!: warnings_ok)
  have "\<not> locked ?w" using wf by (simp add: conn_wf_def conn_ok_def)
  note close = get_Close [where P = ?P and get = ?get and env = env and errTree = errTree and now = now and cerr = cerr and s = s,
      OF this assms(4) ws]
  have rtt: "info_RTT (ToInfo ?P d) = lx_RTT d" "info_RTTVar (ToInfo ?P d) = lx_RTTVar d" for d
    by (simp_all add: linux_platform_def SysInfo_ToInfo_def)
  show ?thesis
  proof (cases "OpenedInfo ?w = None \<or> fst (probe ?get env ?w) = None")
    case True
    then have "Close ?P ?get env (Some (get_report ?P errTree)) now cerr ?w s = Panic"
      using close by (auto split: option.splits)
    with True assms(3) show ?thesis by (auto simp: get_run_Close split: option.split)
  next
    case False
    then obtain opened d where od: "OpenedInfo ?w = Some opened" "fst (probe ?get env ?w) = Some d" by auto
    then obtain l m where lm: "LocalAddr (inner ?w) = Some l" "RemoteAddr (inner ?w) = Some m"
      using wf by (auto simp: conn_wf_defs)
    then have "inner ?w \<noteq> nil_conn" by (auto simp: nil_conn_def)
    moreover from close od lm counts rtt obtain w' ws raw where
      "Close ?P ?get env (Some (get_report ?P errTree)) now cerr ?w s = Ret (cerr, w', print (get_line l m (now - OpenedAt ?w)
        (word_of_int (sent_by a evs)) (word_of_int (received_by a evs))
        (info_RTT opened, info_RTTVar opened) (lx_RTT d, lx_RTTVar d) ws raw) s)" by auto
    ultimately show ?thesis
      using od lm assms(3) by (simp add: get_run_Close print_def) (intro exI, rule refl)
  qed
qed

theorem linux_get_prints_witness:
  "\<exists>s s' took ws raw rtt rtt'.
    get_run (linux_platform linux_6_8) (GetTCPInfo linux_6_8 bbr_sys) (\<lambda>_. None)
      [EDial (Some tcp_conn, None) fd_3 1, EWrite 0 9 None 2, ERead 0 20 None 3] \<lparr>conns = [], stdout = []\<rparr> = Done s () \<and>
    get_run (linux_platform linux_6_8) (GetTCPInfo linux_6_8 bbr_sys) (\<lambda>_. None) [EClose 0 fd_3 4 None] s = Done s' () \<and>
    stdout s' = stdout s @ get_line ''10.0.0.1:4000'' ''10.0.0.2:80'' took 9 20 rtt rtt' ws raw"
proof -
  let ?P = "linux_platform linux_6_8" and ?get = "GetTCPInfo linux_6_8 bbr_sys"
  let ?evs = "[EDial (Some tcp_conn, None) fd_3 1, EWrite 0 9 None 2, ERead 0 20 None 3]"
  let ?run = "get_run ?P ?get (\<lambda>_. None) ?evs \<lparr>conns = [], stdout = []\<rparr>"
  obtain d where d: "?get 3 = (Some d, None)" using bbr_data ..
  have "inner dialed_conn_6_8 \<noteq> nil_conn" using dialed_conn_6_8_sel(2) by (simp add: nil_conn_def)
  from write_read [OF dialed_conn_6_8_sel(1) this, of "\<lparr>conns = [dialed_conn_6_8], stdout = []\<rparr>" ?P ?get
      "\<lambda>_. get_report ?P (\<lambda>_. None)" "get_DialContext ?P ?get (\<lambda>_. None)" no_hook 9 None 2 20 None 3]
  obtain w where w: "get_run ?P ?get (\<lambda>_. None) [EWrite 0 9 None 2, ERead 0 20 None 3] \<lparr>conns = [dialed_conn_6_8], stdout = []\<rparr> =
      Done \<lparr>conns = [w], stdout = []\<rparr> ()" "inner w = tcp_conn" "ClosedInfo w = None"
    "OpenedInfo w = OpenedInfo dialed_conn_6_8" "supportsTCPInfo w" "InfoErr w = None"
    unfolding get_run_def dialed_conn_6_8_sel(2,3,6) eqTrueI [OF dialed_conn_6_8_sel(5)]
    by (auto simp del: run_client.simps handle.simps)
  obtain i where "OpenedInfo dialed_conn_6_8 = Some i" using dialed_conn_6_8_sel(4) by blast
  with w(4) have i: "OpenedInfo w = Some i" by (simp only:)
  have run: "?run = Done \<lparr>conns = [w], stdout = []\<rparr> ()" using w(1) by (simp add: get_run_dial)
  have p: "probe ?get fd_3 w = (Some d, None)" using w d by (simp add: probe_def)
  have "list_all dialed_ok ?evs" by (simp add: tcp_addresses_def)
  from linux_get_prints [OF run this, of 0 fd_3 4 None] p i w(2,3)
  obtain ws raw s' where "get_run ?P ?get (\<lambda>_. None) [EClose 0 fd_3 4 None] \<lparr>conns = [w], stdout = []\<rparr> = Done s' ()"
    "stdout s' = stdout \<lparr>conns = [w], stdout = []\<rparr> @ get_line ''10.0.0.1:4000'' ''10.0.0.2:80'' (4 - OpenedAt w) 9 20
      (info_RTT i, info_RTTVar i) (lx_RTT d, lx_RTTVar d) ws raw" by auto
  with run show ?thesis by (intro exI conjI)
qed

lemma new_world_ok: "stat_ok P new_world"
  by (simp add: stat_ok_def new_world_def store_wf_def pointer_ok_def)

text \<open>
  C7. For every command line, \<open>httpstat\<close> on Linux exits with one of its codes, finishes
  its visits or ends with an error message: it never panics and never blocks on a mutex,
  whatever its client does with the connections it was given, and whatever the kernel answers.
\<close>

theorem linux_httpstat_live:
  assumes "\<And>f. par_platform (par f) = linux_platform g" "\<And>f. par_GetTCPInfo (par f) = GetTCPInfo g sys"
    and "\<And>f. good_client (par f)"
  shows "case httpstat version rt Parse Open NewRequest canonical par argv0 argv new_world of
      Inl (code, msg) \<Rightarrow> code \<in> {0, 2, -1}
    | Inr r \<Rightarrow> r \<noteq> Crash \<and> r \<noteq> Hang"
proof -
  have data: "encodable_data (linux_platform g) (par_GetTCPInfo (par f))" for f
    using linux_encodable by (simp add: assms(2))
  show ?thesis
    using json_platform.httpstat_live [where par = par and version = version and rt = rt and Parse = Parse and Open = Open
        and NewRequest = NewRequest and canonical = canonical and ?argv0.0 = argv0 and argv = argv,
        OF linux.json_platform_axioms assms(1) data assms(3) new_world_ok]
    by (cases "httpstat version rt Parse Open NewRequest canonical par argv0 argv new_world") auto
qed

text \<open>A client that dials, writes 9 bytes, reads 20 and closes the connection.\<close>

definition one_exchange :: "nat \<Rightarrow> exchange" where
  "one_exchange k =
    \<lparr>do_events = [EDial (Some tcp_conn, None) fd_3 1, EWrite k 9 None 2, ERead k 20 None 3],
     do_result = Inr (no_headers 200), copy_events = [], copy_error = None,
     close_events = [], read_at = 4, closing_events = [EClose k fd_3 5 None]\<rparr>"

lemma good_client_no_exchange: "good_client (plain_params P get (\<lambda>_. no_exchange))"
  by (simp add: good_client_def plain_params_def no_exchange_def exchange_events_def)

theorem linux_httpstat_live_witness:
  "case httpstat ''devel'' ''go1.25'' (\<lambda>s. Inr \<lparr>Scheme = ''http'', Host = ''a.org'', url_rest = ''/''\<rparr>) (\<lambda>_. None)
      (\<lambda>m u b. Inr \<lparr>req_Method = m, req_Host = Host u, req_Header = \<lambda>_. []\<rparr>) (\<lambda>k. k)
      (\<lambda>f. plain_params (linux_platform linux_6_8) (GetTCPInfo linux_6_8 bbr_sys) (\<lambda>_. no_exchange))
      ''httpstat'' [''-L'', ''http://a.org/''] new_world of
     Inl (code, msg) \<Rightarrow> code \<in> {0, 2, -1} | Inr r \<Rightarrow> r \<noteq> Crash \<and> r \<noteq> Hang"
  by (rule linux_httpstat_live [where g = linux_6_8 and sys = bbr_sys])
    (simp_all add: plain_params_def good_client_no_exchange [unfolded plain_params_def])

text \<open>
  C6. When a visit of \<open>httpstat\<close> on Linux leaves a closed connection of its own with
  closing data, its output ends with the diagnostics of this connection: the round trip time at
  the close, the bytes the client sent and received over it during the visit, and a JSON text that
  can be read back and states the same numbers.
\<close>

theorem linux_visit_prints:
  assumes "par_platform par = linux_platform g" "par_GetTCPInfo par = GetTCPInfo g sys" "stat_ok (linux_platform g) s"
    and "good_client par" "visit_once par u s = Done t resp" "par_newRequest par u = Inr req"
    and "TLSClientConfig (par_SplitHostPort par) (par_flags par) (par_certs par) u req = Inr config"
    and "x = par_client par (redirectsFollowed s) (length (conns s)) (new_client (par_flags par) config) req"
    and "connConn t = Some a" "length (conns s) \<le> a" "ClosedInfo (conns t ! a) = Some info"
  shows "\<exists>out ws json ms. stdout t = out @ diagnostics_text (par_colors par) (info_RTT info)
      (word_of_int (sent_by a (exchange_events x))) (word_of_int (received_by a (exchange_events x))) ws json \<and>
    parse_json json = Some (JObject ms) \<and>
    map_of ms ''txBytes'' = Some (JNum (sint (word_of_int (sent_by a (exchange_events x)) :: i64))) \<and>
    map_of ms ''rxBytes'' = Some (JNum (sint (word_of_int (received_by a (exchange_events x)) :: i64)))"
proof -
  have "encodable_data (linux_platform g) (par_GetTCPInfo par)" using linux_encodable by (simp add: assms(2))
  from json_platform.visit_once_prints [OF linux.json_platform_axioms assms(1) this assms(3-)] show ?thesis .
qed

text \<open>The visit with this client, in parts.\<close>

abbreviation (input) par_6_8 :: "(SysInfo, string) stat_params" where
  "par_6_8 \<equiv> plain_params (linux_platform linux_6_8) (GetTCPInfo linux_6_8 bbr_sys) one_exchange"

abbreviation (input) a_org :: url where
  "a_org \<equiv> \<lparr>Scheme = ''http'', Host = ''a.org'', url_rest = ''/''\<rparr>"

abbreviation (input) get_a_org :: request where
  "get_a_org \<equiv> \<lparr>req_Method = ''GET'', req_Host = ''a.org'', req_Header = \<lambda>_. []\<rparr>"

lemma par_6_8_sel:
  "par_platform par_6_8 = linux_platform linux_6_8" "par_GetTCPInfo par_6_8 = GetTCPInfo linux_6_8 bbr_sys"
  "par_newRequest par_6_8 a_org = Inr get_a_org"
  "TLSClientConfig (par_SplitHostPort par_6_8) (par_flags par_6_8) (par_certs par_6_8) a_org get_a_org = Inr None"
  "par_client par_6_8 n k cl get_a_org = one_exchange k" "par_colors par_6_8 = plain_palette"
  "response_body par_6_8 None get_a_org (no_headers 200) = Inr (''Body discarded'', None)"
  by (simp_all add: plain_params_def TLSClientConfig_def response_body_def readResponseBody_def isRedirect_def no_headers_def
      default_flags_def plain_palette_def)

lemma good_client_6_8: "good_client par_6_8"
  by (simp add: good_client_def plain_params_def one_exchange_def exchange_events_def nth_append
      dialed_conn_def nil_conn_def tcp_addresses_def)

lemma do_6_8:
  "\<exists>w. stat_run par_6_8 (do_events (one_exchange 0)) (new_world\<lparr>tm := no_times\<rparr>) =
      Done (new_world\<lparr>tm := no_times, conns := [w]\<rparr>) () \<and>
    \<not> locked w \<and> inner w = tcp_conn \<and> ClosedInfo w = None \<and> supportsTCPInfo w \<and> InfoErr w = None"
proof -
  let ?P = "linux_platform linux_6_8" and ?get = "GetTCPInfo linux_6_8 bbr_sys"
  define par where "par = par_6_8"
  note par = par_6_8_sel [folded par_def]
  define w0 where "w0 = dialed_conn_6_8"
  note w0 = dialed_conn_6_8_sel [folded w0_def]
  let ?s = "new_world\<lparr>tm := no_times, conns := [w0]\<rparr>"
  have "inner w0 \<noteq> nil_conn" using w0(2) by (simp add: nil_conn_def)
  from write_read [OF w0(1) this, of ?s ?P ?get dial_report "dialContext ?P ?get" "stat_hook (par_colors par)" 9 None 2 20 None 3]
  obtain w where w: "stat_run par [EWrite 0 9 None 2, ERead 0 20 None 3] ?s = Done (?s\<lparr>conns := [w]\<rparr>) ()"
    "\<not> locked w" "inner w = tcp_conn" "ClosedInfo w = None" "supportsTCPInfo w" "InfoErr w = None"
    using w0(2,3,5,6) by (auto simp: stat_run_def par(1,2) simp del: run_client.simps handle.simps)
  have "stat_run par (do_events (one_exchange 0)) (new_world\<lparr>tm := no_times\<rparr>) = Done (?s\<lparr>conns := [w]\<rparr>) ()"
    using w(1) by (simp add: one_exchange_def stat_run_dial par(1,2) new_world_def flip: w0_def)
  with w(2-) show ?thesis unfolding par_def by (intro exI [of _ w]) simp
qed

lemma visit_6_8:
  "\<exists>t w d. visit_once par_6_8 a_org new_world = Done t (no_headers 200) \<and> conns t = [w] \<and> connConn t = Some 0 \<and>
    ClosedInfo w = Some d"
proof -
  let ?P = "linux_platform linux_6_8" and ?get = "GetTCPInfo linux_6_8 bbr_sys"
  define par where "par = par_6_8"
  note par = par_6_8_sel [folded par_def]
  obtain d where d: "?get 3 = (Some d, None)" using bbr_data ..
  let ?s = "\<lambda>w. new_world\<lparr>tm := no_times, conns := [w]\<rparr>"
  obtain w where run: "stat_run par (do_events (one_exchange 0)) (new_world\<lparr>tm := no_times\<rparr>) = Done (?s w) ()"
    and w: "\<not> locked w" "inner w = tcp_conn" "ClosedInfo w = None" "supportsTCPInfo w" "InfoErr w = None"
    using do_6_8 [folded par_def] by blast
  let ?s2 = "print (via_text (par_colors par) (no_headers 200)) (?s w)"
  let ?s3 = "print (response_text (par_colors par) (no_headers 200) ''Body discarded'') (?s2\<lparr>tm := skip_dns (tm ?s2)\<rparr>)"
  have "probe (par_GetTCPInfo par) fd_3 w = (Some d, None)" using w(2,4,5) d by (simp add: probe_def par(2))
  with stat_run_Close [of 0 ?s3 par fd_3 d 5 None] w(1-3) obtain w' where
    close: "stat_run par [EClose 0 fd_3 5 None] ?s3 = Done (?s3\<lparr>connConn := Some 0, conns := [w']\<rparr>) ()"
      "ClosedInfo w' = Some (ToInfo ?P d)"
    by (auto simp: new_world_def nil_conn_def par(1))
  let ?s4 = "?s3\<lparr>connConn := Some 0, conns := [w']\<rparr>"
  have data: "encodable_data ?P (par_GetTCPInfo par)" using linux_encodable by (simp add: par(2))
  note keeps = json_platform.stat_run_ok [OF linux.json_platform_axioms _ par(1) data]
  have "stat_ok ?P (?s w)"
    using new_world_ok by (intro keeps [OF run]) (simp_all add: one_exchange_def tcp_addresses_def)
  then have "stat_ok ?P ?s4" by (intro keeps [OF close(1)]) simp_all
  from json_platform.visit_once_completes [OF linux.json_platform_axioms par(1,3,4) refl, of new_world "?s w"
      "no_headers 200" ?s2 "(''Body discarded'', None)" "''Body discarded''" None ?s2 ?s4, unfolded par(5)] this run close(1)
  obtain t where "visit_once par a_org new_world = Done t (no_headers 200)" "conns t = [w']" "connConn t = Some 0"
    by (auto simp: one_exchange_def par(7) new_world_def stat_run_def)
  with close(2) show ?thesis unfolding par_def by blast
qed

theorem linux_visit_prints_witness:
  "\<exists>t rtt out ws json. visit_once par_6_8 a_org new_world = Done t (no_headers 200) \<and>
    stdout t = out @ diagnostics_text plain_palette rtt 9 20 ws json"
proof -
  obtain t w d where t: "visit_once par_6_8 a_org new_world = Done t (no_headers 200)" "conns t = [w]" "connConn t = Some 0"
    "ClosedInfo w = Some d" using visit_6_8 by blast
  have n: "length (conns new_world) = 0" by (simp add: new_world_def)
  have c: "ClosedInfo (conns t ! 0) = Some d" using t(2,4) by simp
  obtain out ws json where "stdout t = out @ diagnostics_text plain_palette (info_RTT d)
      (word_of_int (sent_by 0 (exchange_events (one_exchange 0)))) (word_of_int (received_by 0 (exchange_events (one_exchange 0)))) ws json"
    using linux_visit_prints [OF par_6_8_sel(1,2) new_world_ok good_client_6_8 t(1) par_6_8_sel(3,4) refl t(3) _ c]
    unfolding par_6_8_sel(5,6) n by blast
  with t(1) show ?thesis
    by (intro exI [of _ t] exI [of _ "info_RTT d"] exI [of _ out] exI [of _ ws] exI [of _ json])
      (simp add: exchange_events_def one_exchange_def)
qed

section \<open>A race between two closes\<close>

text \<open>
  C38. The check that a connection has been reported as closed runs outside the mutex: two
  goroutines that close a TCP connection at the same time can both report it, each with the
  closing data stored.
\<close>

theorem concurrent_Close_reports_twice:
  assumes "unused w" "supportsTCPInfo w" "InfoErr w = None" "is_TCPConn (inner w)"
  shows "\<exists>s. (cstep P)\<^sup>*\<^sup>* (start w) s \<and>
    map (\<lambda>(i, c). (i, ClosedInfo c)) (reports s) = [(0, Some (ToInfo P si)), (1, Some (ToInfo P si))]"
proof -
  let ?q = "\<lambda>i. MQuery i (\<lambda>fd. (Some si, None)) \<lparr>SyscallConn = None, Control = (None, Some 3)\<rparr>"
  let ?ms = "[MClose 0 5, MClose 1 6, MAcquire 0, MRelease 0, MAcquire 1, MRelease 1, MCheck 0, MCheck 1,
       ?q 0, ?q 1, MAcquire 0, MRelease 0, MReport 0, MAcquire 1, MRelease 1, MReport 1]"
  have "\<exists>s. exec_all P ?ms (start w) = Some s \<and>
      map (\<lambda>(i, c). (i, ClosedInfo c)) (reports s) = [(0, Some (ToInfo P si)), (1, Some (ToInfo P si))]"
    using assms by (simp add: start_def unused_def probe_def store_def)
  then obtain s where s: "exec_all P ?ms (start w) = Some s"
    and r: "map (\<lambda>(i, c). (i, ClosedInfo c)) (reports s) = [(0, Some (ToInfo P si)), (1, Some (ToInfo P si))]"
    by (elim exE conjE)
  from exec_all_sound [OF s] r show ?thesis by (intro exI conjI)
qed

theorem concurrent_Close_reports_twice_witness:
  "\<exists>s. (cstep (linux_platform linux_6_8))\<^sup>*\<^sup>* (start (new_Conn (linux_platform linux_6_8) 1 0 tcp_conn)) s \<and>
    map fst (reports s) = [0, 1]"
proof -
  let ?w = "new_Conn (linux_platform linux_6_8) 1 0 tcp_conn"
  have "is_TCPConn (inner ?w)" by (simp add: new_Conn_linux_6_8)
  from concurrent_Close_reports_twice [where P = "linux_platform linux_6_8" and si = established,
      OF unused_new_Conn new_Conn_linux_6_8(1,2) this]
  obtain s where s: "(cstep (linux_platform linux_6_8))\<^sup>*\<^sup>* (start ?w) s"
    "map (\<lambda>(i, c). (i, ClosedInfo c)) (reports s) =
       [(0, Some (ToInfo (linux_platform linux_6_8) established)), (1, Some (ToInfo (linux_platform linux_6_8) established))]"
    by (elim exE conjE)
  have "map fst (reports s) = map fst (map (\<lambda>(i, c). (i, ClosedInfo c)) (reports s))"
    by (simp add: comp_def case_prod_unfold)
  also have "\<dots> = [0, 1]" unfolding s(2) by simp
  finally have "map fst (reports s) = [0, 1]" .
  with s(1) show ?thesis by (intro exI conjI)
qed

end
